(* ===== verification/Prelude.thy ===== *)
theory Prelude
  imports Main "HOL-Library.AList" "HOL-Library.State_Monad" "HOL-Library.Multiset"
begin

text \<open>
  What every component of the model shares: Go errors as values, the state monad the
  handlers are written in, loops with an early return, and the predicates used to state
  what a handler leaves unchanged.

  A Go \<open>error\<close> is a value of \<open>go_error\<close>; the constructor carries what the code can
  observe of it (\<open>apierrors.IsNotFound\<close>, \<open>apierrors.IsConflict\<close>) and its text.
  \<open>GoPanic\<close> is not an error value of the program: it is the outcome of a run that
  dereferences a nil pointer or indexes out of range, which unwinds the whole handler.
\<close>

named_theorems run_rules
  \<open>execution of the monadic operations from a given state\<close>
named_theorems keeps_rules
  \<open>introduction rules for \<open>keeps\<close>\<close>
named_theorems preserves_rules
  \<open>introduction rules for \<open>preserves\<close>\<close>
named_theorems yields_rules
  \<open>introduction rules for \<open>yields\<close>\<close>

section \<open>Errors\<close>

datatype go_error = NotFound string | Conflict string | GoError string | GoPanic string

fun err_text :: "go_error \<Rightarrow> string" where
  "err_text (NotFound m) = m"
| "err_text (Conflict m) = m"
| "err_text (GoError m) = m"
| "err_text (GoPanic m) = m"

fun is_not_found :: "go_error \<Rightarrow> bool" where
  "is_not_found (NotFound _) = True"
| "is_not_found _ = False"

fun is_conflict :: "go_error \<Rightarrow> bool" where
  "is_conflict (Conflict _) = True"
| "is_conflict _ = False"

fun is_panic :: "go_error \<Rightarrow> bool" where
  "is_panic (GoPanic _) = True"
| "is_panic _ = False"

text \<open>
  \<open>errors.Wrapf\<close> and \<open>fmt.Errorf\<close> with \<open>%w\<close>: the text is prefixed, the cause stays
  visible to \<open>IsNotFound\<close> and \<open>IsConflict\<close>.
\<close>

fun wrapf :: "go_error \<Rightarrow> string \<Rightarrow> go_error" where
  "wrapf (NotFound m) p = NotFound (p @ '': '' @ m)"
| "wrapf (Conflict m) p = Conflict (p @ '': '' @ m)"
| "wrapf (GoError m) p = GoError (p @ '': '' @ m)"
| "wrapf (GoPanic m) p = GoPanic m"

lemma is_not_found_wrapf [simp]: "is_not_found (wrapf e p) = is_not_found e"
  by (cases e) auto

lemma is_conflict_wrapf [simp]: "is_conflict (wrapf e p) = is_conflict e"
  by (cases e) auto

lemma is_panic_wrapf [simp]: "is_panic (wrapf e p) = is_panic e"
  by (cases e) auto

section \<open>The state monad of the handlers\<close>

abbreviation ret :: "'a \<Rightarrow> ('s, 'a) state" where
  "ret \<equiv> State_Monad.return"

definition gets :: "('s \<Rightarrow> 'a) \<Rightarrow> ('s, 'a) state" where
  "gets f = State (\<lambda>s. (f s, s))"

definition modify :: "('s \<Rightarrow> 's) \<Rightarrow> ('s, unit) state" where
  "modify f = State (\<lambda>s. ((), f s))"

lemma run_gets [simp, run_rules]: "run_state (gets f) s = (f s, s)"
  by (simp add: gets_def)

lemma run_modify [simp, run_rules]: "run_state (modify f) s = ((), f s)"
  by (simp add: modify_def)

lemma snd_run_bind:
  "snd (run_state (State_Monad.bind m f) s) =
   snd (run_state (f (fst (run_state m s))) (snd (run_state m s)))"
  by (simp split: prod.splits)

text \<open>A loop whose body may return an error, which ends the loop.\<close>

fun for_each :: "('a \<Rightarrow> ('s, 'e option) state) \<Rightarrow> 'a list \<Rightarrow> ('s, 'e option) state" where
  "for_each f [] = ret None"
| "for_each f (x # xs) =
     do { r \<leftarrow> f x;
          case r of Some e \<Rightarrow> ret (Some e) | None \<Rightarrow> for_each f xs }"

section \<open>What a computation leaves unchanged\<close>

text \<open>
  \<open>keeps I m\<close>: running \<open>m\<close> from any state leaves the view \<open>I\<close> of the state as it
  was.
\<close>

definition keeps :: "('s \<Rightarrow> 'v) \<Rightarrow> ('s, 'a) state \<Rightarrow> bool" where
  "keeps I m \<longleftrightarrow> (\<forall>s. I (snd (run_state m s)) = I s)"

lemma keepsI: "(\<And>s a s'. run_state m s = (a, s') \<Longrightarrow> I s' = I s) \<Longrightarrow> keeps I m"
  unfolding keeps_def by (metis prod.collapse)

lemma keepsD: "keeps I m \<Longrightarrow> run_state m s = (a, s') \<Longrightarrow> I s' = I s"
  unfolding keeps_def by (metis snd_conv)

lemma keeps_run: "keeps I m \<Longrightarrow> I (snd (run_state m s)) = I s"
  by (simp add: keeps_def)

lemma keeps_ret [keeps_rules]: "keeps I (ret x)"
  by (simp add: keeps_def)

lemma keeps_gets [keeps_rules]: "keeps I (gets f)"
  by (simp add: keeps_def)

lemma keeps_get [keeps_rules]: "keeps I State_Monad.get"
  by (simp add: keeps_def)

lemma keeps_modify [keeps_rules]: "(\<And>s. I (f s) = I s) \<Longrightarrow> keeps I (modify f)"
  by (simp add: keeps_def)

lemma keeps_bind [keeps_rules]:
  "keeps I m \<Longrightarrow> (\<And>x. keeps I (f x)) \<Longrightarrow> keeps I (State_Monad.bind m f)"
  by (auto simp: keeps_def split: prod.splits) (metis snd_conv)

lemma keeps_if [keeps_rules]:
  "(b \<Longrightarrow> keeps I m) \<Longrightarrow> (\<not> b \<Longrightarrow> keeps I n) \<Longrightarrow> keeps I (if b then m else n)"
  by simp

lemma keeps_case_option [keeps_rules]:
  "(x = None \<Longrightarrow> keeps I m) \<Longrightarrow> (\<And>y. x = Some y \<Longrightarrow> keeps I (n y)) \<Longrightarrow>
   keeps I (case x of None \<Rightarrow> m | Some y \<Rightarrow> n y)"
  by (cases x) auto

lemma keeps_case_sum [keeps_rules]:
  "(\<And>y. x = Inl y \<Longrightarrow> keeps I (m y)) \<Longrightarrow> (\<And>y. x = Inr y \<Longrightarrow> keeps I (n y)) \<Longrightarrow>
   keeps I (case x of Inl y \<Rightarrow> m y | Inr y \<Rightarrow> n y)"
  by (cases x) auto

lemma keeps_case_prod [keeps_rules]:
  "(\<And>a b. x = (a, b) \<Longrightarrow> keeps I (m a b)) \<Longrightarrow> keeps I (case x of (a, b) \<Rightarrow> m a b)"
  by (cases x) auto

lemma keeps_Let [keeps_rules]: "keeps I (f x) \<Longrightarrow> keeps I (let y = x in f y)"
  by simp

lemma keeps_for_each [keeps_rules]:
  "(\<And>x. x \<in> set xs \<Longrightarrow> keeps I (f x)) \<Longrightarrow> keeps I (for_each f xs)"
  by (induction xs) (auto intro!: keeps_rules split: option.splits)

lemma keeps_pair: "keeps I m \<Longrightarrow> keeps J m \<Longrightarrow> keeps (\<lambda>s. (I s, J s)) m"
  by (simp add: keeps_def)

lemma keeps_view: "keeps I m \<Longrightarrow> keeps (\<lambda>s. f (I s)) m"
  by (simp add: keeps_def)

section \<open>What a computation preserves\<close>

text \<open>An invariant of the state; a view that is kept preserves every predicate on it.\<close>

definition preserves :: "('s \<Rightarrow> bool) \<Rightarrow> ('s, 'a) state \<Rightarrow> bool" where
  "preserves P m \<longleftrightarrow> (\<forall>s. P s \<longrightarrow> P (snd (run_state m s)))"

lemma preservesI: "(\<And>s a s'. run_state m s = (a, s') \<Longrightarrow> P s \<Longrightarrow> P s') \<Longrightarrow> preserves P m"
  unfolding preserves_def by (metis prod.collapse)

lemma preservesD: "preserves P m \<Longrightarrow> run_state m s = (a, s') \<Longrightarrow> P s \<Longrightarrow> P s'"
  unfolding preserves_def by (metis snd_conv)

lemma preserves_keeps: "keeps I m \<Longrightarrow> (\<And>s s'. I s' = I s \<Longrightarrow> P s \<Longrightarrow> P s') \<Longrightarrow> preserves P m"
  unfolding keeps_def preserves_def by blast

lemma preserves_ret [preserves_rules]: "preserves P (ret x)"
  by (simp add: preserves_def)

lemma preserves_gets [preserves_rules]: "preserves P (gets f)"
  by (simp add: preserves_def)

lemma preserves_get [preserves_rules]: "preserves P State_Monad.get"
  by (simp add: preserves_def)

lemma preserves_modify [preserves_rules]: "(\<And>s. P s \<Longrightarrow> P (f s)) \<Longrightarrow> preserves P (modify f)"
  by (simp add: preserves_def)

lemma preserves_bind [preserves_rules]:
  "preserves P m \<Longrightarrow> (\<And>x. preserves P (f x)) \<Longrightarrow> preserves P (State_Monad.bind m f)"
  by (auto simp: preserves_def split: prod.splits)

lemma preserves_if [preserves_rules]:
  "(b \<Longrightarrow> preserves P m) \<Longrightarrow> (\<not> b \<Longrightarrow> preserves P n) \<Longrightarrow> preserves P (if b then m else n)"
  by simp

lemma preserves_case_option [preserves_rules]:
  "(x = None \<Longrightarrow> preserves P m) \<Longrightarrow> (\<And>y. x = Some y \<Longrightarrow> preserves P (n y)) \<Longrightarrow>
   preserves P (case x of None \<Rightarrow> m | Some y \<Rightarrow> n y)"
  by (cases x) auto

lemma preserves_case_sum [preserves_rules]:
  "(\<And>y. x = Inl y \<Longrightarrow> preserves P (m y)) \<Longrightarrow> (\<And>y. x = Inr y \<Longrightarrow> preserves P (n y)) \<Longrightarrow>
   preserves P (case x of Inl y \<Rightarrow> m y | Inr y \<Rightarrow> n y)"
  by (cases x) auto

lemma preserves_case_prod [preserves_rules]:
  "(\<And>a b. x = (a, b) \<Longrightarrow> preserves P (m a b)) \<Longrightarrow> preserves P (case x of (a, b) \<Rightarrow> m a b)"
  by (cases x) auto

lemma preserves_Let [preserves_rules]: "preserves P (f x) \<Longrightarrow> preserves P (let y = x in f y)"
  by simp

lemma preserves_for_each [preserves_rules]:
  "(\<And>x. x \<in> set xs \<Longrightarrow> preserves P (f x)) \<Longrightarrow> preserves P (for_each f xs)"
  by (induction xs) (auto intro!: preserves_rules split: option.splits)

section \<open>What a computation yields\<close>

text \<open>
  A Hoare triple: run from a state with \<open>P\<close>, the computation ends with a result and a state
  related by \<open>Q\<close>. The rules follow the program text; a call with a contract of its own is
  passed with \<open>yields_call\<close>, one that only preserves the precondition with \<open>yields_skip\<close>.
\<close>

definition yields :: "('s \<Rightarrow> bool) \<Rightarrow> ('s, 'a) state \<Rightarrow> ('a \<Rightarrow> 's \<Rightarrow> bool) \<Rightarrow> bool" where
  "yields P m Q \<longleftrightarrow> (\<forall>s. P s \<longrightarrow> (case run_state m s of (a, s') \<Rightarrow> Q a s'))"

lemma yieldsI: "(\<And>s a s'. run_state m s = (a, s') \<Longrightarrow> P s \<Longrightarrow> Q a s') \<Longrightarrow> yields P m Q"
  by (auto simp: yields_def split: prod.splits)

lemma yieldsD: "yields P m Q \<Longrightarrow> run_state m s = (a, s') \<Longrightarrow> P s \<Longrightarrow> Q a s'"
  by (fastforce simp: yields_def)

lemma yields_conseq:
  "yields P' m Q' \<Longrightarrow> (\<And>s. P s \<Longrightarrow> P' s) \<Longrightarrow> (\<And>a s. Q' a s \<Longrightarrow> Q a s) \<Longrightarrow> yields P m Q"
  by (fastforce simp: yields_def)

lemma yields_bind:
  "yields P m R \<Longrightarrow> (\<And>x. yields (R x) (f x) Q) \<Longrightarrow> yields P (State_Monad.bind m f) Q"
  by (fastforce simp: yields_def split: prod.splits)

lemma yields_call:
  assumes "yields P' m R" and "\<And>s. P s \<Longrightarrow> P' s" and "\<And>x. yields (R x) (f x) Q"
  shows "yields P (State_Monad.bind m f) Q"
  by (rule yields_bind [OF yields_conseq [OF assms(1,2)] assms(3)])

lemma yields_pure:
  assumes "yields P' m (\<lambda>a s. P' s \<and> R a)" and "\<And>s. P s \<Longrightarrow> P' s"
    and "\<And>x. R x \<Longrightarrow> yields P' (f x) Q"
  shows "yields P (State_Monad.bind m f) Q"
proof (rule yields_call [OF assms(1,2)])
  show "yields (\<lambda>s. P' s \<and> R x) (f x) Q" for x
    using assms(3) [of x] by (auto simp: yields_def)
qed

lemma yields_skip:
  assumes "preserves P m" and "\<And>x. yields P (f x) Q"
  shows "yields P (State_Monad.bind m f) Q"
  using assms by (fastforce simp: yields_def preserves_def split: prod.splits)

lemma yields_keep:
  assumes "keeps I m" and "\<And>s s'. I s' = I s \<Longrightarrow> P s \<Longrightarrow> P s'" and "\<And>x. yields P (f x) Q"
  shows "yields P (State_Monad.bind m f) Q"
  by (rule yields_skip [OF preserves_keeps [OF assms(1,2)] assms(3)])

lemma yields_view: "keeps I m \<Longrightarrow> yields (\<lambda>s. P (I s)) m (\<lambda>a s. P (I s))"
  by (simp add: yields_def keeps_def split: prod.splits) (metis snd_conv)

lemma yields_both:
  "yields P m Q \<Longrightarrow> yields P' m R \<Longrightarrow> yields (\<lambda>s. P s \<and> P' s) m (\<lambda>a s. Q a s \<and> R a s)"
  by (fastforce simp: yields_def)

lemma yields_conj: "yields P m Q \<Longrightarrow> yields P m R \<Longrightarrow> yields P m (\<lambda>a s. Q a s \<and> R a s)"
  by (fastforce simp: yields_def)

lemma yields_preserves: "preserves P m \<Longrightarrow> yields P m (\<lambda>a. P)"
  by (auto simp: yields_def preserves_def split: prod.splits)

lemma yields_result:
  assumes "keeps I m" and "yields (\<lambda>s. True) m (\<lambda>a s. R a)"
    and "\<And>s s'. I s' = I s \<Longrightarrow> P s \<Longrightarrow> P s'" and "\<And>x. R x \<Longrightarrow> yields P (f x) Q"
  shows "yields P (State_Monad.bind m f) Q"
proof (rule yields_bind)
  show "yields P m (\<lambda>a s. R a \<and> P s)"
    using assms(1-3) unfolding yields_def keeps_def by (metis (mono_tags, lifting) case_prod_unfold)
  show "yields (\<lambda>s. R x \<and> P s) (f x) Q" for x
    using assms(4) [of x] by (auto simp: yields_def)
qed

lemma yields_ret [yields_rules]: "(\<And>s. P s \<Longrightarrow> Q x s) \<Longrightarrow> yields P (ret x) Q"
  by (simp add: yields_def)

lemma yields_gets [yields_rules]:
  "(\<And>x. yields (\<lambda>s. P s \<and> x = h s) (f x) Q) \<Longrightarrow> yields P (State_Monad.bind (gets h) f) Q"
  by (simp add: yields_def)

lemma yields_modify [yields_rules]:
  "yields (\<lambda>s. \<exists>t. P t \<and> s = h t) m Q \<Longrightarrow> yields P (State_Monad.bind (modify h) (\<lambda>_. m)) Q"
  by (auto simp: yields_def)

lemma yields_if [yields_rules]:
  "(b \<Longrightarrow> yields P m Q) \<Longrightarrow> (\<not> b \<Longrightarrow> yields P n Q) \<Longrightarrow> yields P (if b then m else n) Q"
  by simp

lemma yields_case_option [yields_rules]:
  "(x = None \<Longrightarrow> yields P m Q) \<Longrightarrow> (\<And>y. x = Some y \<Longrightarrow> yields P (n y) Q) \<Longrightarrow>
   yields P (case x of None \<Rightarrow> m | Some y \<Rightarrow> n y) Q"
  by (cases x) auto

lemma yields_case_sum [yields_rules]:
  "(\<And>y. x = Inl y \<Longrightarrow> yields P (m y) Q) \<Longrightarrow> (\<And>y. x = Inr y \<Longrightarrow> yields P (n y) Q) \<Longrightarrow>
   yields P (case x of Inl y \<Rightarrow> m y | Inr y \<Rightarrow> n y) Q"
  by (cases x) auto

lemma yields_case_prod [yields_rules]:
  "(\<And>a b. x = (a, b) \<Longrightarrow> yields P (m a b) Q) \<Longrightarrow> yields P (case x of (a, b) \<Rightarrow> m a b) Q"
  by (cases x) auto

text \<open>An invariant of a loop, and what holds of the errors that end it.\<close>

lemma yields_for_each:
  assumes "\<And>x. x \<in> set xs \<Longrightarrow> yields P (f x) (\<lambda>r s. case r of None \<Rightarrow> P s | Some e \<Rightarrow> Q e s)"
  shows "yields P (for_each f xs) (\<lambda>r s. case r of None \<Rightarrow> P s | Some e \<Rightarrow> Q e s)"
  using assms
proof (induction xs)
  case (Cons x xs)
  have "yields P (for_each f xs) (\<lambda>r s. case r of None \<Rightarrow> P s | Some e \<Rightarrow> Q e s)"
    by (rule Cons.IH) (simp add: Cons.prems)
  then show ?case
    unfolding for_each.simps
    by (intro yields_bind [OF Cons.prems] yields_rules) (auto intro: yields_conseq)
qed (auto intro!: yields_rules)


text \<open>
  Lemmas on the node controller: when the search for the virtual machine returns and what it
  finds, the cache of nodes and its report to the status manager, the tags, and, in the locale
  \<open>nsx_server\<close>, what a reconciliation does to the ports that NSX stores.
\<close>

end
