(* ===== verification/Go_Strings.thy ===== *)
theory Go_Strings
  imports Prelude "HOL-Library.Sublist" "HOL-Library.Char_ord"
begin

text \<open>
  The functions of Go's \<open>strings\<close>, \<open>strconv\<close> and \<open>fmt\<close> that the operator calls, on
  byte strings (\<open>string\<close> is a list of characters, a character one byte). Case mapping,
  white space and quoting are those of ASCII; bytes above 127 are left as they are. Each
  function is executable, and its characteristic facts (splitting is inverse to joining,
  parsing is inverse to printing) are proved here once.
\<close>

section \<open>Package strings\<close>

definition TrimPrefix :: "string \<Rightarrow> string \<Rightarrow> string" where
  "TrimPrefix s p = (if prefix p s then drop (length p) s else s)"

definition HasSuffix :: "string \<Rightarrow> string \<Rightarrow> bool" where
  "HasSuffix s p = suffix p s"

text \<open>\<open>strings.Index\<close>: the first position of \<open>pat\<close>, \<open>None\<close> for Go's -1.\<close>

fun Index :: "string \<Rightarrow> string \<Rightarrow> nat option" where
  "Index [] pat = (if pat = [] then Some 0 else None)"
| "Index (c # cs) pat =
     (if prefix pat (c # cs) then Some 0 else map_option Suc (Index cs pat))"

definition Contains :: "string \<Rightarrow> string \<Rightarrow> bool" where
  "Contains s pat = (Index s pat \<noteq> None)"

text \<open>\<open>strings.LastIndex\<close> for a one-byte pattern.\<close>

fun LastIndexByte :: "string \<Rightarrow> char \<Rightarrow> nat option" where
  "LastIndexByte [] c = None"
| "LastIndexByte (d # ds) c =
     (case LastIndexByte ds c of
        Some i \<Rightarrow> Some (Suc i)
      | None \<Rightarrow> if c = d then Some 0 else None)"

text \<open>\<open>strings.IndexAny\<close>: the first byte that is one of \<open>cs\<close>.\<close>

fun IndexAny :: "string \<Rightarrow> char list \<Rightarrow> nat option" where
  "IndexAny [] cs = None"
| "IndexAny (d # ds) cs =
     (if d \<in> set cs then Some 0 else map_option Suc (IndexAny ds cs))"

fun Join :: "string list \<Rightarrow> string \<Rightarrow> string" where
  "Join [] sep = []"
| "Join [x] sep = x"
| "Join (x # y # ys) sep = x @ sep @ Join (y # ys) sep"

lemma Index_bound: "Index s pat = Some i \<Longrightarrow> i + length pat \<le> length s"
  by (induction s pat arbitrary: i rule: Index.induct)
     (auto split: if_splits dest: prefix_length_le)

lemma Index_at: "Index s pat = Some i \<Longrightarrow> s = take i s @ pat @ drop (i + length pat) s"
proof (induction s pat arbitrary: i rule: Index.induct)
  case (1 pat)
  then show ?case by (auto split: if_splits)
next
  case (2 c cs pat)
  show ?case
  proof (cases "prefix pat (c # cs)")
    case True
    with 2 show ?thesis by (auto elim!: prefixE)
  next
    case False
    with "2.prems" obtain j where "Index cs pat = Some j" "i = Suc j" by auto
    with "2.IH" [OF False] show ?thesis by simp
  qed
qed

text \<open>\<open>strings.Split\<close>; an empty separator splits into single bytes.\<close>

function Split :: "string \<Rightarrow> string \<Rightarrow> string list" where
  "Split s sep =
     (if sep = [] then map (\<lambda>c. [c]) s
      else case Index s sep of
             None \<Rightarrow> [s]
           | Some i \<Rightarrow> take i s # Split (drop (i + length sep) s) sep)"
  by pat_completeness auto
termination
proof (relation "measure (\<lambda>(s, sep). length s)")
  fix s sep :: string and i
  assume "sep \<noteq> []" "Index s sep = Some i"
  then show "((drop (i + length sep) s, sep), s, sep) \<in> measure (\<lambda>(s, sep). length s)"
    using Index_bound [of s sep i] by (cases sep) auto
qed simp

declare Split.simps [simp del]

lemma Split_nonempty: "sep \<noteq> [] \<Longrightarrow> Split s sep \<noteq> []"
  by (subst Split.simps) (auto split: option.splits)

lemma Join_Cons: "ys \<noteq> [] \<Longrightarrow> Join (x # ys) sep = x @ sep @ Join ys sep"
  by (cases ys) auto

theorem Join_Split: "sep \<noteq> [] \<Longrightarrow> Join (Split s sep) sep = s"
proof (induction s sep rule: Split.induct)
  case (1 s sep)
  show ?case
  proof (cases "Index s sep")
    case None
    with "1.prems" show ?thesis by (simp add: Split.simps [of s sep])
  next
    case (Some i)
    with 1 have IH: "Join (Split (drop (i + length sep) s) sep) sep = drop (i + length sep) s"
      by blast
    from Some "1.prems" have "Split s sep = take i s # Split (drop (i + length sep) s) sep"
      by (simp add: Split.simps [of s sep])
    with IH "1.prems" Index_at [OF Some] show ?thesis
      by (simp add: Join_Cons Split_nonempty)
  qed
qed

definition is_space :: "char \<Rightarrow> bool" where
  "is_space c \<longleftrightarrow> of_char c \<in> {9, 10, 11, 12, 13, 32 :: nat}"

definition TrimSpace :: "string \<Rightarrow> string" where
  "TrimSpace s = rev (dropWhile is_space (rev (dropWhile is_space s)))"

definition to_lower_char :: "char \<Rightarrow> char" where
  "to_lower_char c =
     (let n = (of_char c :: nat) in if 65 \<le> n \<and> n \<le> 90 then char_of (n + 32) else c)"

definition ToLower :: "string \<Rightarrow> string" where
  "ToLower s = map to_lower_char s"

section \<open>Package strconv\<close>

definition digit_char :: "nat \<Rightarrow> char" where
  "digit_char d = char_of (48 + d)"

definition digit_val :: "char \<Rightarrow> nat option" where
  "digit_val c = (let n = of_char c in if 48 \<le> n \<and> n \<le> 57 then Some (n - 48) else None)"

lemma digit_val_char [simp]: "d < 10 \<Longrightarrow> digit_val (digit_char d) = Some d"
  by (simp add: digit_val_def digit_char_def Let_def of_char_of)

fun show_nat :: "nat \<Rightarrow> string" where
  "show_nat n = (if n < 10 then [digit_char n] else show_nat (n div 10) @ [digit_char (n mod 10)])"

declare show_nat.simps [simp del]

definition Itoa :: "int \<Rightarrow> string" where
  "Itoa i = (if i < 0 then CHR ''-'' # show_nat (nat (- i)) else show_nat (nat i))"

text \<open>The escapes of \<open>strconv.Quote\<close>, which \<open>%q\<close> uses.\<close>

definition hex_char :: "nat \<Rightarrow> char" where
  "hex_char d = (if d < 10 then char_of (48 + d) else char_of (87 + d))"

definition quote_char :: "char \<Rightarrow> string" where
  "quote_char c =
     (let n = (of_char c :: nat); bs = CHR 0x5C in
      if n = 34 \<or> n = 92 then [bs, c]
      else if n = 7 then [bs, CHR ''a'']
      else if n = 8 then [bs, CHR ''b'']
      else if n = 9 then [bs, CHR ''t'']
      else if n = 10 then [bs, CHR ''n'']
      else if n = 11 then [bs, CHR ''v'']
      else if n = 12 then [bs, CHR ''f'']
      else if n = 13 then [bs, CHR ''r'']
      else if n < 32 \<or> n = 127 then [bs, CHR ''x'', hex_char (n div 16), hex_char (n mod 16)]
      else [c])"

definition Quote :: "string \<Rightarrow> string" where
  "Quote s = CHR 0x22 # concat (map quote_char s) @ [CHR 0x22]"

text \<open>\<open>%q\<close> on a slice of errors: the quoted texts between brackets, separated by spaces.\<close>

definition quote_errors :: "go_error list \<Rightarrow> string" where
  "quote_errors es = ''['' @ Join (map (\<lambda>e. Quote (err_text e)) es) '' '' @ '']''"

datatype num_error = Syntax | Range

fun num_error_text :: "num_error \<Rightarrow> string" where
  "num_error_text Syntax = ''invalid syntax''"
| "num_error_text Range = ''value out of range''"

definition num_error :: "string \<Rightarrow> string \<Rightarrow> num_error \<Rightarrow> go_error" where
  "num_error fn s e = GoError (''strconv.'' @ fn @ '': parsing '' @ Quote s @ '': '' @ num_error_text e)"

text \<open>
  The digit loop of \<open>strconv.ParseUint\<close> in base 10: it stops at the first byte that is not
  a digit or as soon as the value exceeds \<open>mx\<close>.
\<close>

fun uint_loop :: "int \<Rightarrow> string \<Rightarrow> int \<Rightarrow> num_error + int" where
  "uint_loop mx [] n = Inr n"
| "uint_loop mx (c # cs) n =
     (case digit_val c of
        None \<Rightarrow> Inl Syntax
      | Some d \<Rightarrow>
          if n * 10 + int d > mx then Inl Range else uint_loop mx cs (n * 10 + int d))"

definition ParseUint10 :: "nat \<Rightarrow> string \<Rightarrow> go_error + int" where
  "ParseUint10 bits s =
     (if s = [] then Inl (num_error ''ParseUint'' s Syntax)
      else case uint_loop (2 ^ bits - 1) s 0 of
             Inl e \<Rightarrow> Inl (num_error ''ParseUint'' s e)
           | Inr n \<Rightarrow> Inr n)"

text \<open>
  \<open>strconv.Atoi\<close> on 64-bit integers returns a value beside its error: 0 for a syntax
  error, the nearest representable integer for a range error.
\<close>

definition Atoi :: "string \<Rightarrow> int \<times> go_error option" where
  "Atoi s =
     (let neg = (s \<noteq> [] \<and> hd s = CHR ''-'');
          t = (if s \<noteq> [] \<and> (hd s = CHR ''-'' \<or> hd s = CHR ''+'') then tl s else s)
      in if t = [] then (0, Some (num_error ''Atoi'' s Syntax))
         else case uint_loop (2 ^ 64 - 1) t 0 of
                Inl Syntax \<Rightarrow> (0, Some (num_error ''Atoi'' s Syntax))
              | Inl Range \<Rightarrow>
                  (if neg then - (2 ^ 63) else 2 ^ 63 - 1, Some (num_error ''Atoi'' s Range))
              | Inr n \<Rightarrow>
                  if \<not> neg \<and> n \<ge> 2 ^ 63 then (2 ^ 63 - 1, Some (num_error ''Atoi'' s Range))
                  else if neg \<and> n > 2 ^ 63 then (- (2 ^ 63), Some (num_error ''Atoi'' s Range))
                  else (if neg then - n else n, None))"

text \<open>Parsing is inverse to printing, for every value in range.\<close>

lemma uint_loop_append:
  "uint_loop mx (xs @ ys) n =
     (case uint_loop mx xs n of Inl e \<Rightarrow> Inl e | Inr m \<Rightarrow> uint_loop mx ys m)"
  by (induction xs arbitrary: n) (auto split: option.splits)

lemma uint_loop_show: "int n \<le> mx \<Longrightarrow> uint_loop mx (show_nat n) 0 = Inr (int n)"
proof (induction n rule: show_nat.induct)
  case (1 n)
  show ?case
  proof (cases "n < 10")
    case True
    with "1.prems" show ?thesis by (simp add: show_nat.simps [of n])
  next
    case False
    with 1 have "uint_loop mx (show_nat (n div 10)) 0 = Inr (int (n div 10))" by simp
    moreover have "int (n div 10) * 10 + int (n mod 10) = int n" by presburger
    ultimately show ?thesis
      using False "1.prems" by (simp add: show_nat.simps [of n] uint_loop_append)
  qed
qed

lemma digit_char_cases: "d < 10 \<Longrightarrow> digit_char d \<noteq> CHR ''-'' \<and> digit_char d \<noteq> CHR ''+''"
proof -
  assume "d < 10"
  then have "digit_val (digit_char d) = Some d" by simp
  moreover have "digit_val CHR ''-'' = None" "digit_val CHR ''+'' = None"
    by (simp_all add: digit_val_def)
  ultimately show ?thesis by fastforce
qed

lemma show_nat_hd:
  "show_nat n \<noteq> [] \<and> hd (show_nat n) \<noteq> CHR ''-'' \<and> hd (show_nat n) \<noteq> CHR ''+''"
proof (induction n rule: show_nat.induct)
  case (1 n)
  show ?case
  proof (cases "n < 10")
    case True
    then show ?thesis by (simp add: show_nat.simps [of n] digit_char_cases)
  next
    case False
    with "1.IH" show ?thesis by (simp add: show_nat.simps [of n])
  qed
qed

lemma ParseUint10_show: "int n < 2 ^ bits \<Longrightarrow> ParseUint10 bits (show_nat n) = Inr (int n)"
  using show_nat_hd [of n] by (simp add: ParseUint10_def uint_loop_show)

lemma Atoi_Itoa: "- (2 ^ 63) \<le> i \<Longrightarrow> i < 2 ^ 63 \<Longrightarrow> Atoi (Itoa i) = (i, None)"
  using show_nat_hd [of "nat i"] show_nat_hd [of "nat (- i)"]
  by (auto simp: Atoi_def Itoa_def uint_loop_show Let_def)

lemma Itoa_nat: "Itoa (int n) = show_nat n"
  by (simp add: Itoa_def)

definition ParseBool :: "string \<Rightarrow> go_error + bool" where
  "ParseBool s =
     (if s \<in> {''1'', ''t'', ''T'', ''true'', ''TRUE'', ''True''} then Inr True
      else if s \<in> {''0'', ''f'', ''F'', ''false'', ''FALSE'', ''False''} then Inr False
      else Inl (num_error ''ParseBool'' s Syntax))"

end
