(* ===== verification/Names.thy ===== *)
theory Names
  imports Go_Strings
begin

text \<open>
  The constants of \<open>pkg/types/names.go\<close> and the option tables of \<open>pkg/types/defaults.go\<close>.
  Durations are \<open>int\<close> nanoseconds, as \<open>time.Duration\<close>. A Go map literal that the code
  iterates over (\<open>MPOptions\<close>, \<open>WCPOptions\<close>) or indexes (\<open>AgentRestartOptionKeys\<close>,
  \<open>BootstrapRestartOptionKeys\<close>) is an association list with distinct keys.
\<close>

named_theorems names \<open>unfolds the constants of \<open>pkg/types\<close>\<close>

section \<open>names.go\<close>

definition OperatorNamespace :: string where "OperatorNamespace = ''nsx-system-operator''"
definition ConfigMapName :: string where "ConfigMapName = ''nsx-ncp-operator-config''"
definition OperatorRoleName :: string where "OperatorRoleName = ''nsx-ncp-operator''"
definition NcpInstallCRDName :: string where "NcpInstallCRDName = ''ncp-install''"
definition NetworkCRDName :: string where "NetworkCRDName = ''cluster''"
definition NsxNamespace :: string where "NsxNamespace = ''nsx-system''"
definition NcpConfigMapName :: string where "NcpConfigMapName = ''nsx-ncp-config''"
definition NodeAgentConfigMapName :: string where "NodeAgentConfigMapName = ''nsx-node-agent-config''"
definition ConfigMapDataKey :: string where "ConfigMapDataKey = ''ncp.ini''"
definition NcpConfigMapRenderKey :: string where "NcpConfigMapRenderKey = ''NSXNCPConfig''"
definition NodeAgentConfigMapRenderKey :: string where "NodeAgentConfigMapRenderKey = ''NSXNodeAgentConfig''"
definition NcpImageKey :: string where "NcpImageKey = ''NcpImage''"
definition NcpReplicasKey :: string where "NcpReplicasKey = ''NcpReplicas''"
definition NcpNodeSelectorRenderKey :: string where "NcpNodeSelectorRenderKey = ''NcpNodeSelector''"
definition NcpTolerationsRenderKey :: string where "NcpTolerationsRenderKey = ''NcpTolerations''"
definition NsxNodeTolerationsRenderKey :: string where "NsxNodeTolerationsRenderKey = ''NsxNodeAgentTolerations''"
definition NsxNodeAgentDsName :: string where "NsxNodeAgentDsName = ''nsx-node-agent''"
definition NsxNcpBootstrapDsName :: string where "NsxNcpBootstrapDsName = ''nsx-ncp-bootstrap''"
definition NsxNcpDeploymentName :: string where "NsxNcpDeploymentName = ''nsx-ncp''"
definition NetworkType :: string where "NetworkType = ''ncp''"
definition LbCertRenderKey :: string where "LbCertRenderKey = ''LbCert''"
definition LbKeyRenderKey :: string where "LbKeyRenderKey = ''LbKey''"
definition LbSecret :: string where "LbSecret = ''lb-secret''"
definition NcpImageEnv :: string where "NcpImageEnv = ''NCP_IMAGE''"
definition NsxCertRenderKey :: string where "NsxCertRenderKey = ''NsxCert''"
definition NsxKeyRenderKey :: string where "NsxKeyRenderKey = ''NsxKey''"
definition NsxCARenderKey :: string where "NsxCARenderKey = ''NsxCA''"
definition NsxSecret :: string where "NsxSecret = ''nsx-secret''"
definition NsxCertTempPath :: string where "NsxCertTempPath = ''/tmp/nsx.cert''"
definition NsxKeyTempPath :: string where "NsxKeyTempPath = ''/tmp/nsx.key''"
definition NsxCATempPath :: string where "NsxCATempPath = ''/tmp/nsx.ca''"
definition NsxNodeAgentContainerName :: string where "NsxNodeAgentContainerName = ''nsx-node-agent''"
definition OsReleaseFile :: string where "OsReleaseFile = ''/host/etc/os-release''"
definition NsxOvsKmodRenderKey :: string where "NsxOvsKmodRenderKey = ''UseNsxOvsKmod''"
definition IngressCanaryNamespace :: string where "IngressCanaryNamespace = ''openshift-ingress-canary''"
definition IngressCanaryNetworkPolicy :: string where "IngressCanaryNetworkPolicy = ''ingress-canary''"
definition CanaryWorkaroundNetworkPolicy :: string where "CanaryWorkaroundNetworkPolicy = ''canary-nsx-access''"
definition CanaryWorkaroundManagedByLabel :: string where "CanaryWorkaroundManagedByLabel = ''nsx.vmware.com/managed-by''"
definition CanaryWorkaroundManagedByValue :: string where "CanaryWorkaroundManagedByValue = ''nsx-ncp-operator''"

definition second :: int where "second = 1000000000"
definition minute :: int where "minute = 60 * second"
definition TimeBeforeRecoverNetwork :: int where "TimeBeforeRecoverNetwork = 180 * second"
definition DefaultResyncPeriod :: int where "DefaultResyncPeriod = 2 * minute"

section \<open>defaults.go\<close>

definition DefaultMTU :: int where "DefaultMTU = 1500"

definition NcpSections :: "string list" where
  "NcpSections = [''DEFAULT'', ''ha'', ''k8s'', ''coe'', ''nsx_v3'', ''vc'']"

definition OperatorSections :: "string list" where
  "OperatorSections =
     [''DEFAULT'', ''ha'', ''k8s'', ''coe'', ''nsx_v3'', ''vc'', ''nsx_node_agent'', ''nsx_kube_proxy'']"

definition AgentSections :: "string list" where
  "AgentSections = [''DEFAULT'', ''k8s'', ''coe'', ''nsx_node_agent'', ''nsx_kube_proxy'']"

definition AgentRestartSections :: "string list" where
  "AgentRestartSections = [''DEFAULT'', ''nsx_node_agent'', ''nsx_kube_proxy'']"

definition BootstrapRestartOptionKeys :: "(string \<times> string list) list" where
  "BootstrapRestartOptionKeys =
     [(''DEFAULT'',
        [''log_dir'', ''log_file'', ''log_rotation_file_max_mb'', ''log_rotation_backup_count'']),
      (''nsx_node_agent'',
        [''enable_ipv6'', ''use_nsx_ovs_kernel_module'', ''ovs_uplink_port'', ''mtu''])]"

definition AgentRestartOptionKeys :: "(string \<times> string list) list" where
  "AgentRestartOptionKeys =
     [(''k8s'',
        [''apiserver_host_ip'', ''apiserver_host_port'', ''client_token_file'', ''ca_file'',
         ''enable_hostport_snat'']),
      (''coe'', [''connect_retry_timeout''])]"

definition TASSection :: string where "TASSection = ''cf''"

definition MPOptions :: "(string \<times> string list) list" where
  "MPOptions = [(''nsx_v3'', [''top_firewall_section_marker'', ''bottom_firewall_section_marker''])]"

definition WCPOptions :: "(string \<times> string list) list" where
  "WCPOptions =
     [(''nsx_v3'',
        [''dlb_l4_persistence'', ''single_tier_sr_topology'', ''enforcement_point'',
         ''search_node_tag_on'', ''vif_app_id_type'', ''configure_t0_redistribution'', ''multi_t0'']),
      (''k8s'',
        [''enable_vnet_crd'', ''enable_lb_monitor_crd'', ''enable_nsxnetworkconfig_crd'',
         ''enable_routeset_crd'', ''enable_ip_pool_crd'', ''enable_vm_crd'',
         ''lb_statistic_monitor_interval'', ''enable_lb_vs_statistics_monitor'',
         ''network_info_resync_period'', ''ip_usage_alarm_threshold'']),
      (''coe'', [''node_type'']),
      (''vc'', [''vc_endpoint'', ''sso_domain'', ''https_port''])]"

lemmas names_defs [names] =
  OperatorNamespace_def ConfigMapName_def OperatorRoleName_def NcpInstallCRDName_def 
  NetworkCRDName_def NsxNamespace_def NcpConfigMapName_def NodeAgentConfigMapName_def 
  ConfigMapDataKey_def NcpConfigMapRenderKey_def NodeAgentConfigMapRenderKey_def 
  NcpImageKey_def NcpReplicasKey_def NcpNodeSelectorRenderKey_def NcpTolerationsRenderKey_def 
  NsxNodeTolerationsRenderKey_def NsxNodeAgentDsName_def NsxNcpBootstrapDsName_def 
  NsxNcpDeploymentName_def NetworkType_def LbCertRenderKey_def LbKeyRenderKey_def LbSecret_def 
  NcpImageEnv_def NsxCertRenderKey_def NsxKeyRenderKey_def NsxCARenderKey_def NsxSecret_def 
  NsxCertTempPath_def NsxKeyTempPath_def NsxCATempPath_def NsxNodeAgentContainerName_def 
  OsReleaseFile_def NsxOvsKmodRenderKey_def IngressCanaryNamespace_def 
  IngressCanaryNetworkPolicy_def CanaryWorkaroundNetworkPolicy_def 
  CanaryWorkaroundManagedByLabel_def CanaryWorkaroundManagedByValue_def second_def minute_def 
  TimeBeforeRecoverNetwork_def DefaultResyncPeriod_def DefaultMTU_def NcpSections_def 
  OperatorSections_def AgentSections_def AgentRestartSections_def 
  BootstrapRestartOptionKeys_def AgentRestartOptionKeys_def TASSection_def MPOptions_def 
  WCPOptions_def 

section \<open>utils.go\<close>

text \<open>The kind of object a monitored resource name stands for (\<open>identifyAndGetInstance\<close>).\<close>

datatype res_kind = DaemonSetKind | DeploymentKind

definition identifyAndGetInstance :: "string \<Rightarrow> go_error + res_kind" where
  "identifyAndGetInstance resName =
     (if resName = NsxNcpBootstrapDsName \<or> resName = NsxNodeAgentDsName then Inr DaemonSetKind
      else if resName = NsxNcpDeploymentName then Inr DeploymentKind
      else Inl (GoError (''failed to identify instance for: '' @ resName)))"

text \<open>
  \<open>CastToBindingType\<close>: the converter of the vSphere SDK is the argument \<open>convert\<close> (a value
  or a list of errors), the type assertion to \<open>T\<close> the partial argument \<open>assert_type\<close>,
  and \<open>mismatch\<close> the text of its failure.
\<close>

definition CastToBindingType ::
  "('d \<Rightarrow> 'o \<times> go_error list) \<Rightarrow> ('o \<Rightarrow> 't option) \<Rightarrow> ('o \<Rightarrow> string) \<Rightarrow> 'd \<Rightarrow> go_error + 't" where
  "CastToBindingType convert assert_type mismatch dataValue =
     (case convert dataValue of (obj, errs) \<Rightarrow>
        if errs \<noteq> [] then Inl (hd errs)
        else case assert_type obj of
               None \<Rightarrow> Inl (GoError (''cast to bind type failed: '' @ mismatch obj))
             | Some result \<Rightarrow> Inr result)"

definition ExtractSegmentIdFromPath :: "string \<Rightarrow> go_error + string" where
  "ExtractSegmentIdFromPath segmentPath =
     (let segments = Split segmentPath ''/infra/segments/''
      in if length segments > 1 then Inr (last segments)
         else Inl (GoError (''unable to find the Segment ID from provided path: '' @ segmentPath)))"

end
