(* ===== verification/Conditions.thy ===== *)
theory Conditions
  imports Names
begin

text \<open>
  Status conditions: \<open>pkg/util/k8s/v1helpers.go\<close>, \<open>CombineConditions\<close>,
  \<open>FindNodeStatusCondition\<close> and \<open>SetNodeCondition\<close> of \<open>pkg/controller/statusmanager\<close>.

  A slice of conditions is a list. \<open>FindStatusCondition\<close> returns a pointer to the first
  element of the wanted type; a write through that pointer is \<open>update_first\<close>. Times are
  nanoseconds; a clock reading is an argument (\<open>ts i\<close> is the reading for the \<open>i\<close>-th new
  condition of a call).
\<close>

type_synonym time = int

record condition =
  ctype :: string
  cstatus :: string
  creason :: string
  cmessage :: string
  cltt :: time

record node_condition =
  nc_type :: string
  nc_status :: string
  nc_reason :: string
  nc_message :: string
  nc_heartbeat :: time
  nc_ltt :: time

abbreviation ConditionTrue :: string where "ConditionTrue \<equiv> ''True''"
abbreviation ConditionFalse :: string where "ConditionFalse \<equiv> ''False''"
abbreviation OperatorAvailable :: string where "OperatorAvailable \<equiv> ''Available''"
abbreviation OperatorProgressing :: string where "OperatorProgressing \<equiv> ''Progressing''"
abbreviation OperatorDegraded :: string where "OperatorDegraded \<equiv> ''Degraded''"
abbreviation OperatorUpgradeable :: string where "OperatorUpgradeable \<equiv> ''Upgradeable''"

section \<open>Writing through a pointer to the first match\<close>

fun update_first :: "('a \<Rightarrow> bool) \<Rightarrow> ('a \<Rightarrow> 'a) \<Rightarrow> 'a list \<Rightarrow> 'a list" where
  "update_first p f [] = []"
| "update_first p f (x # xs) = (if p x then f x # xs else x # update_first p f xs)"

lemma map_update_first:
  "(\<And>x. p x \<Longrightarrow> g (f x) = g x) \<Longrightarrow> map g (update_first p f xs) = map g xs"
  by (induction xs) auto

lemma find_update_first:
  "(\<And>x. p x \<Longrightarrow> p (f x)) \<Longrightarrow> find p (update_first p f xs) = map_option f (find p xs)"
  by (induction xs) auto

lemma find_update_first_other:
  "(\<And>x. p x \<Longrightarrow> \<not> q x \<and> \<not> q (f x)) \<Longrightarrow> find q (update_first p f xs) = find q xs"
  by (induction xs) auto

lemma update_first_same: "(\<And>x. p x \<Longrightarrow> find p xs = Some x \<Longrightarrow> f x = x) \<Longrightarrow> update_first p f xs = xs"
  by (induction xs) auto

lemma find_append_None [simp]: "find p xs = None \<Longrightarrow> find p (xs @ ys) = find p ys"
  by (induction xs) auto

lemma find_append_Some [simp]: "find p xs = Some x \<Longrightarrow> find p (xs @ ys) = Some x"
  by (induction xs) (auto split: if_splits)

lemma find_SomeD: "find p xs = Some x \<Longrightarrow> p x \<and> x \<in> set xs"
  by (induction xs) (auto split: if_splits)

section \<open>v1helpers.go\<close>

definition FindStatusCondition :: "condition list \<Rightarrow> string \<Rightarrow> condition option" where
  "FindStatusCondition conditions t = find (\<lambda>c. ctype c = t) conditions"

definition refresh_condition :: "condition \<Rightarrow> time \<Rightarrow> condition \<Rightarrow> condition" where
  "refresh_condition new now c =
     (let c' = (if cstatus c \<noteq> cstatus new then c\<lparr>cstatus := cstatus new, cltt := now\<rparr> else c)
      in c'\<lparr>creason := creason new, cmessage := cmessage new\<rparr>)"

definition SetStatusCondition :: "condition list \<Rightarrow> condition \<Rightarrow> time \<Rightarrow> condition list" where
  "SetStatusCondition conditions new now =
     (case FindStatusCondition conditions (ctype new) of
        None \<Rightarrow> conditions @ [new\<lparr>cltt := now\<rparr>]
      | Some _ \<Rightarrow> update_first (\<lambda>c. ctype c = ctype new) (refresh_condition new now) conditions)"

definition IsStatusConditionPresentAndEqual :: "condition list \<Rightarrow> string \<Rightarrow> string \<Rightarrow> bool" where
  "IsStatusConditionPresentAndEqual conditions t st =
     (case find (\<lambda>c. ctype c = t) conditions of None \<Rightarrow> False | Some c \<Rightarrow> cstatus c = st)"

definition IsStatusConditionFalse :: "condition list \<Rightarrow> string \<Rightarrow> bool" where
  "IsStatusConditionFalse conditions t =
     IsStatusConditionPresentAndEqual conditions t ConditionFalse"

section \<open>CombineConditions (pod\_status.go)\<close>

text \<open>What a condition asserts, apart from its transition time.\<close>

definition same_assertion :: "condition \<Rightarrow> condition \<Rightarrow> bool" where
  "same_assertion c d \<longleftrightarrow>
     cstatus c = cstatus d \<and> creason c = creason d \<and> cmessage c = cmessage d"

fun combine_loop ::
  "(condition \<Rightarrow> string) \<Rightarrow> condition list \<Rightarrow> condition list \<Rightarrow> (nat \<Rightarrow> time) \<Rightarrow> bool \<Rightarrow> string
   \<Rightarrow> condition list \<times> bool \<times> string" where
  "combine_loop fmtv conditions [] ts changed messages = (conditions, changed, messages)"
| "combine_loop fmtv conditions (n # ns) ts changed messages =
     (case FindStatusCondition conditions (ctype n) of
        None \<Rightarrow>
          combine_loop fmtv (SetStatusCondition conditions n (ts 0)) ns (\<lambda>i. ts (Suc i)) True
            (messages @ fmtv n @ ''. '')
      | Some existing \<Rightarrow>
          if cstatus existing \<noteq> cstatus n \<or> creason existing \<noteq> creason n
             \<or> cmessage existing \<noteq> cmessage n
          then combine_loop fmtv (SetStatusCondition conditions n (ts 0)) ns (\<lambda>i. ts (Suc i)) True
                 (messages @ fmtv n @ ''. '')
          else combine_loop fmtv conditions ns (\<lambda>i. ts (Suc i)) changed messages)"

definition CombineConditions ::
  "(condition \<Rightarrow> string) \<Rightarrow> condition list \<Rightarrow> condition list \<Rightarrow> (nat \<Rightarrow> time)
   \<Rightarrow> condition list \<times> bool \<times> string" where
  "CombineConditions fmtv conditions newConditions ts =
     combine_loop fmtv conditions newConditions ts False []"

section \<open>Node conditions (pod\_status.go)\<close>

definition FindNodeStatusCondition :: "node_condition list \<Rightarrow> string \<Rightarrow> node_condition option" where
  "FindNodeStatusCondition conditions t = find (\<lambda>c. nc_type c = t) conditions"

definition SetNodeCondition ::
  "node_condition list \<Rightarrow> node_condition \<Rightarrow> time \<Rightarrow> node_condition list \<times> bool" where
  "SetNodeCondition conditions new now =
     (case FindNodeStatusCondition conditions (nc_type new) of
        None \<Rightarrow> (conditions @ [new\<lparr>nc_ltt := now\<rparr>], True)
      | Some existing \<Rightarrow>
          if nc_status existing \<noteq> nc_status new \<or> nc_reason existing \<noteq> nc_reason new
             \<or> nc_message existing \<noteq> nc_message new
          then (update_first (\<lambda>c. nc_type c = nc_type new)
                  (\<lambda>c. c\<lparr>nc_status := nc_status new, nc_reason := nc_reason new,
                         nc_message := nc_message new, nc_ltt := now\<rparr>) conditions, True)
          else (conditions, False))"

section \<open>Lemmas: one write\<close>

lemma refresh_condition_simps [simp]:
  "ctype (refresh_condition n now c) = ctype c"
  "cstatus (refresh_condition n now c) = cstatus n"
  "creason (refresh_condition n now c) = creason n"
  "cmessage (refresh_condition n now c) = cmessage n"
  "cltt (refresh_condition n now c) = (if cstatus c = cstatus n then cltt c else now)"
  by (auto simp: refresh_condition_def)

lemma Find_Set_same:
  "FindStatusCondition (SetStatusCondition cs n now) (ctype n) =
     Some (case FindStatusCondition cs (ctype n) of
             None \<Rightarrow> n\<lparr>cltt := now\<rparr> | Some c \<Rightarrow> refresh_condition n now c)"
  by (auto simp: SetStatusCondition_def FindStatusCondition_def find_update_first
      split: option.splits)

lemma Find_Set_other:
  "t \<noteq> ctype n \<Longrightarrow>
   FindStatusCondition (SetStatusCondition cs n now) t = FindStatusCondition cs t"
  by (cases "FindStatusCondition cs t")
     (auto simp: SetStatusCondition_def FindStatusCondition_def find_update_first_other
      split: option.splits)

lemma types_Set:
  "map ctype (SetStatusCondition cs n now) =
     (if FindStatusCondition cs (ctype n) = None then map ctype cs @ [ctype n] else map ctype cs)"
  by (auto simp: SetStatusCondition_def map_update_first split: option.splits)

lemma Find_None_iff: "FindStatusCondition cs t = None \<longleftrightarrow> t \<notin> ctype ` set cs"
  by (auto simp: FindStatusCondition_def find_None_iff)

lemma Find_Some_ctype: "FindStatusCondition cs t = Some c \<Longrightarrow> ctype c = t \<and> c \<in> set cs"
  by (auto simp: FindStatusCondition_def dest: find_SomeD)

lemma distinct_types_Set:
  "distinct (map ctype cs) \<Longrightarrow> distinct (map ctype (SetStatusCondition cs n now))"
  by (auto simp: types_Set Find_None_iff)

section \<open>Lemmas: combining\<close>

lemma combine_loop_types:
  "distinct (map ctype cs) \<Longrightarrow>
   distinct (map ctype (fst (combine_loop fmtv cs ns ts ch m)))"
  by (induction fmtv cs ns ts ch m rule: combine_loop.induct)
     (auto split: option.splits simp: distinct_types_Set)

lemma combine_loop_other:
  "t \<notin> ctype ` set ns \<Longrightarrow>
   FindStatusCondition (fst (combine_loop fmtv cs ns ts ch m)) t = FindStatusCondition cs t"
  by (induction fmtv cs ns ts ch m rule: combine_loop.induct)
     (auto split: option.splits simp: Find_Set_other)

lemma combine_loop_changed_mono:
  "ch \<Longrightarrow> fst (snd (combine_loop fmtv cs ns ts ch m))"
  by (induction fmtv cs ns ts ch m rule: combine_loop.induct) (auto split: option.splits)

lemma combine_loop_unchanged:
  "\<not> fst (snd (combine_loop fmtv cs ns ts ch m)) \<Longrightarrow> fst (combine_loop fmtv cs ns ts ch m) = cs"
  by (induction fmtv cs ns ts ch m rule: combine_loop.induct)
     (auto split: option.splits if_splits simp: combine_loop_changed_mono)

text \<open>The asserted condition after the loop, for new conditions of distinct types.\<close>

lemma combine_loop_asserts:
  assumes "distinct (map ctype ns)" "n \<in> set ns"
  shows "\<exists>c. FindStatusCondition (fst (combine_loop fmtv cs ns ts ch m)) (ctype n) = Some c
             \<and> same_assertion c n
             \<and> (\<forall>d. FindStatusCondition cs (ctype n) = Some d \<and> cstatus d = cstatus n
                    \<longrightarrow> cltt c = cltt d)"
  using assms
proof (induction fmtv cs ns ts ch m rule: combine_loop.induct)
  case (2 fmtv cs n' ns ts ch m)
  show ?case
  proof (cases "n = n'")
    case True
    with "2.prems" have out: "ctype n' \<notin> ctype ` set ns" by auto
    show ?thesis
      using True out
      by (auto simp: combine_loop_other Find_Set_same same_assertion_def split: option.splits)
  next
    case False
    with "2.prems" have "n \<in> set ns" by simp
    moreover from this "2.prems" have "ctype n \<noteq> ctype n'" by (metis distinct.simps(2) image_eqI image_set list.simps(9))
    ultimately show ?thesis
      using 2 by (auto simp: Find_Set_other split: option.splits)
  qed
qed simp

lemma combine_loop_changed_iff:
  "distinct (map ctype ns) \<Longrightarrow>
   fst (snd (combine_loop fmtv cs ns ts ch m)) \<longleftrightarrow>
     ch \<or> (\<exists>n \<in> set ns. \<not> (\<exists>c. FindStatusCondition cs (ctype n) = Some c \<and> same_assertion c n))"
proof (induction fmtv cs ns ts ch m rule: combine_loop.induct)
  case (2 fmtv cs n ns ts ch m)
  show ?case
  proof (cases "\<exists>c. FindStatusCondition cs (ctype n) = Some c \<and> same_assertion c n")
    case True
    then obtain c where c: "FindStatusCondition cs (ctype n) = Some c" and same: "same_assertion c n"
      by blast
    then have eq: "combine_loop fmtv cs (n # ns) ts ch m =
        combine_loop fmtv cs ns (\<lambda>i. ts (Suc i)) ch m"
      by (simp add: same_assertion_def)
    from c same 2 have "fst (snd (combine_loop fmtv cs ns (\<lambda>i. ts (Suc i)) ch m)) \<longleftrightarrow>
        ch \<or> (\<exists>n \<in> set ns. \<not> (\<exists>c. FindStatusCondition cs (ctype n) = Some c \<and> same_assertion c n))"
      by (simp add: same_assertion_def)
    with c same show ?thesis unfolding eq by auto
  next
    case False
    then show ?thesis
      by (auto simp: same_assertion_def combine_loop_changed_mono split: option.splits)
  qed
qed simp

lemmas combine_facts =
  combine_loop_types combine_loop_other combine_loop_unchanged combine_loop_asserts
  combine_loop_changed_iff

lemma Combine_other:
  "t \<notin> ctype ` set ns \<Longrightarrow>
   FindStatusCondition (fst (CombineConditions fmtv cs ns ts)) t = FindStatusCondition cs t"
  by (simp add: CombineConditions_def combine_loop_other)

lemma Combine_types:
  "distinct (map ctype cs) \<Longrightarrow> distinct (map ctype (fst (CombineConditions fmtv cs ns ts)))"
  by (simp add: CombineConditions_def combine_loop_types)

lemma Combine_unchanged:
  "\<not> fst (snd (CombineConditions fmtv cs ns ts)) \<Longrightarrow> fst (CombineConditions fmtv cs ns ts) = cs"
  unfolding CombineConditions_def by (rule combine_loop_unchanged)

lemma Combine_asserts:
  "distinct (map ctype ns) \<Longrightarrow> n \<in> set ns \<Longrightarrow>
   \<exists>c. FindStatusCondition (fst (CombineConditions fmtv cs ns ts)) (ctype n) = Some c
       \<and> same_assertion c n"
  unfolding CombineConditions_def using combine_loop_asserts [of ns n] by blast

lemma Combine_changed_iff:
  "distinct (map ctype ns) \<Longrightarrow>
   fst (snd (CombineConditions fmtv cs ns ts)) \<longleftrightarrow>
     (\<exists>n \<in> set ns. \<not> (\<exists>c. FindStatusCondition cs (ctype n) = Some c \<and> same_assertion c n))"
  by (simp add: CombineConditions_def combine_loop_changed_iff)

text \<open>\<open>asserts cs ns\<close>: every condition of \<open>ns\<close> is reported by \<open>cs\<close>, up to its time.\<close>

definition asserts :: "condition list \<Rightarrow> condition list \<Rightarrow> bool" where
  "asserts cs ns \<longleftrightarrow>
     (\<forall>n \<in> set ns. \<exists>c. FindStatusCondition cs (ctype n) = Some c \<and> same_assertion c n)"

lemma same_assertion_refl [simp]: "same_assertion c c"
  by (simp add: same_assertion_def)

lemma same_assertion_refresh [simp]: "same_assertion (refresh_condition n now c) n"
  by (simp add: same_assertion_def)

lemma same_assertion_ltt [simp]: "same_assertion (n\<lparr>cltt := now\<rparr>) n"
  by (simp add: same_assertion_def)

lemma asserts_Combine:
  "distinct (map ctype ns) \<Longrightarrow> asserts (fst (CombineConditions fmtv cs ns ts)) ns"
  unfolding asserts_def using Combine_asserts by blast

lemma Combine_asserted:
  "distinct (map ctype ns) \<Longrightarrow> asserts cs ns \<Longrightarrow> fst (CombineConditions fmtv cs ns ts) = cs"
  unfolding asserts_def
  using Combine_changed_iff [of ns fmtv cs ts] Combine_unchanged [of fmtv cs ns ts] by blast

lemma asserts_Set_other:
  "ctype n \<notin> ctype ` set ns \<Longrightarrow> asserts (SetStatusCondition cs n now) ns \<longleftrightarrow> asserts cs ns"
  unfolding asserts_def
  by (intro ball_cong refl, subst Find_Set_other) (auto simp: image_iff)

lemma asserts_Set: "asserts (SetStatusCondition cs n now) [n]"
  by (cases "FindStatusCondition cs (ctype n)") (simp_all add: asserts_def Find_Set_same)

lemma refresh_same: "same_assertion c n \<Longrightarrow> refresh_condition n now c = c"
  by (simp add: refresh_condition_def same_assertion_def)

lemma Set_asserted:
  assumes "asserts cs [n]"
  shows "SetStatusCondition cs n now = cs"
proof -
  from assms obtain c where c: "find (\<lambda>d. ctype d = ctype n) cs = Some c" "same_assertion c n"
    by (auto simp: asserts_def FindStatusCondition_def)
  then have "update_first (\<lambda>d. ctype d = ctype n) (refresh_condition n now) cs = cs"
    by (intro update_first_same) (simp add: refresh_same)
  with c show ?thesis
    by (simp add: SetStatusCondition_def FindStatusCondition_def)
qed

lemma Combine_result:
  assumes "CombineConditions fmtv cs ns ts = (cs', ch, m)"
  shows "\<not> ch \<Longrightarrow> cs' = cs" and "distinct (map ctype ns) \<Longrightarrow> asserts cs' ns"
  using Combine_unchanged [of fmtv cs ns ts] asserts_Combine [of ns fmtv cs ts] assms by auto

lemma Combine_False:
  "CombineConditions fmtv cs ns ts = (cs', False, m) \<Longrightarrow> distinct (map ctype ns) \<Longrightarrow> asserts cs ns"
  using Combine_result [of fmtv cs ns ts cs' False m] by simp

end
