(* ===== verification/Objects.thy ===== *)
theory Objects
  imports Conditions
begin

text \<open>
  The Kubernetes, OpenShift and operator objects, as far as the operator reads or writes
  them, and the state of the operator process itself. A struct is a record. A pointer that
  the code tests against nil is an option, as is a Go map whose nil value the code
  distinguishes. An \<open>int32\<close> or \<open>int64\<close> that is only compared, copied and printed is an
  \<open>int\<close>. Fields of a status that the code never reads but compares as part of the whole
  (\<open>reflect.DeepEqual\<close>) are kept together in a field \<open>..._other\<close>.
\<close>

section \<open>Names, times and results\<close>

record nsname =
  ns_namespace :: string
  ns_name :: string

definition nsname_str :: "nsname \<Rightarrow> string" where
  "nsname_str n = ns_namespace n @ ''/'' @ ns_name n"

abbreviation nsn :: "string \<Rightarrow> string \<Rightarrow> nsname" where
  "nsn ns n \<equiv> \<lparr>ns_namespace = ns, ns_name = n\<rparr>"

text \<open>
  \<open>time.Duration\<close> is a signed 64-bit count of nanoseconds. \<open>Time.Sub\<close> saturates;
  ordinary subtraction of durations wraps.
\<close>

definition max_duration :: int where "max_duration = 2 ^ 63 - 1"
definition min_duration :: int where "min_duration = - (2 ^ 63)"

definition time_Sub :: "time \<Rightarrow> time \<Rightarrow> int" where
  "time_Sub t u = max min_duration (min max_duration (t - u))"

definition wrap64 :: "int \<Rightarrow> int" where
  "wrap64 x = (x + 2 ^ 63) mod 2 ^ 64 - 2 ^ 63"

text \<open>The zero \<open>time.Time\<close>: 1 January of year 1.\<close>

definition zero_time :: time where "zero_time = - 62135596800 * second"

lemma wrap64_id: "min_duration \<le> x \<Longrightarrow> x \<le> max_duration \<Longrightarrow> wrap64 x = x"
  by (simp add: wrap64_def min_duration_def max_duration_def)

lemma time_Sub_bounds: "min_duration \<le> time_Sub t u" "time_Sub t u \<le> max_duration"
  by (auto simp: time_Sub_def min_duration_def max_duration_def)

record reconcile_result =
  Requeue :: bool
  RequeueAfter :: int

definition emptyResult :: reconcile_result where
  "emptyResult = \<lparr>Requeue = False, RequeueAfter = 0\<rparr>"

definition requeue :: reconcile_result where
  "requeue = \<lparr>Requeue = True, RequeueAfter = 0\<rparr>"

definition requeueAfter :: "int \<Rightarrow> reconcile_result" where
  "requeueAfter d = \<lparr>Requeue = False, RequeueAfter = d\<rparr>"

text \<open>What a handler returns: a result and an error (\<open>None\<close> for nil).\<close>

type_synonym outcome = "reconcile_result \<times> go_error option"

record request =
  req_namespace :: string
  req_name :: string

section \<open>Workload objects\<close>

text \<open>State of a container: when it started running, or why it is not running.\<close>

record container_reason =
  cr_reason :: string
  cr_message :: string

record container_status =
  cs_name :: string
  cs_running :: "time option"
  cs_waiting :: "container_reason option"
  cs_terminated :: "container_reason option"

record pod =
  p_name :: string
  p_namespace :: string
  p_nodeName :: string
  p_phase :: string
  p_startTime :: "time option"
  p_containerStatuses :: "container_status list"

record node =
  n_name :: string
  n_addresses :: "(string \<times> string) list"  \<comment> \<open>type and address\<close>
  n_conditions :: "node_condition list"
  n_providerID :: string

record ds_status =
  dss_updatedNumberScheduled :: int
  dss_desiredNumberScheduled :: int
  dss_numberUnavailable :: int
  dss_numberAvailable :: int
  dss_observedGeneration :: int
  dss_other :: string

record toleration =
  tol_key :: string
  tol_operator :: string
  tol_value :: string
  tol_effect :: string
  tol_seconds :: "int option"

record daemonset =
  ds_generation :: int
  ds_status :: ds_status
  ds_tolerations :: "toleration list option"  \<comment> \<open>a nil slice is None\<close>

record dep_status =
  deps_unavailableReplicas :: int
  deps_availableReplicas :: int
  deps_observedGeneration :: int
  deps_other :: string

record deployment =
  dep_generation :: int
  dep_status :: dep_status
  dep_replicas :: "int option"
  dep_images :: "string list"  \<comment> \<open>of the containers of the pod template\<close>
  dep_nodeSelector :: "(string \<times> string) list option"  \<comment> \<open>a Go map, by increasing keys; nil is None\<close>
  dep_tolerations :: "toleration list option"

section \<open>Operator objects\<close>

record clusteroperator =
  co_name :: string
  co_annotations :: "string \<rightharpoonup> string"
  co_conditions :: "condition list"
  co_versions :: "(string \<times> string) list"

definition new_clusteroperator :: "string \<Rightarrow> clusteroperator" where
  "new_clusteroperator n =
     \<lparr>co_name = n, co_annotations = Map.empty, co_conditions = [], co_versions = []\<rparr>"

record ncpinstall =
  ni_namespace :: string
  ni_ncpReplicas :: int
  ni_addNodeTag :: bool
  ni_nodeSelector :: "(string \<times> string) list option"  \<comment> \<open>a Go map, by increasing keys; nil is None\<close>
  ni_ncpTolerations :: "toleration list option"
  ni_agentTolerations :: "toleration list option"
  ni_conditions :: "condition list"

record configmap =
  cm_data :: "(string \<rightharpoonup> string) option"

record secret =
  sec_data :: "(string \<rightharpoonup> string) option"  \<comment> \<open>values are byte strings\<close>

record cluster_network =
  cn_CIDR :: string
  cn_HostPrefix :: int

record network =
  net_serviceNetwork :: "string list"
  net_clusterNetwork :: "cluster_network list"
  net_networkType :: string
  net_status_serviceNetwork :: "string list"
  net_status_clusterNetwork :: "cluster_network list"
  net_status_networkType :: string
  net_status_clusterNetworkMTU :: int

datatype json =
    JNull
  | JBool bool
  | JNum int
  | JStr string
  | JList "json list"
  | JObj "(string \<times> json) list"

record unstructured =
  u_kind :: string
  u_name :: string
  u_namespace :: string
  u_body :: json

section \<open>State of the operator process\<close>

datatype status_level = ClusterConfig | OperatorConfig | PodDeployment | RolloutHung | ClusterNode

text \<open>Levels are integers in the code; the smaller the more urgent.\<close>

fun level_index :: "status_level \<Rightarrow> nat" where
  "level_index ClusterConfig = 0"
| "level_index OperatorConfig = 1"
| "level_index PodDeployment = 2"
| "level_index RolloutHung = 3"
| "level_index ClusterNode = 4"

lemma level_index_inj: "level_index l = level_index l' \<Longrightarrow> l = l'"
  by (cases l; cases l') simp_all

instantiation status_level :: linorder
begin

definition less_eq_status_level :: "status_level \<Rightarrow> status_level \<Rightarrow> bool" where
  "less_eq_status_level l l' \<longleftrightarrow> level_index l \<le> level_index l'"

definition less_status_level :: "status_level \<Rightarrow> status_level \<Rightarrow> bool" where
  "less_status_level l l' \<longleftrightarrow> level_index l < level_index l'"

instance
  by standard (auto simp: less_eq_status_level_def less_status_level_def intro: level_index_inj)

end

text \<open>Which implementation of a controller's \<open>Adaptor\<close> interface is installed.\<close>

datatype adaptor = AdaptorK8s | AdaptorOc

definition adaptor_for :: "string \<Rightarrow> adaptor" where
  "adaptor_for name = (if name = ''openshift4'' then AdaptorOc else AdaptorK8s)"

text \<open>The indices of the array \<open>failing\<close>, in their order.\<close>

definition status_levels :: "status_level list" where
  "status_levels = [ClusterConfig, OperatorConfig, PodDeployment, RolloutHung, ClusterNode]"

record status_manager =
  sm_name :: string
  sm_failing :: "status_level \<Rightarrow> condition option"
  sm_daemonSets :: "nsname list"
  sm_deployments :: "nsname list"
  sm_OperatorNamespace :: string
  sm_AdaptorName :: string
  sm_Adaptor :: adaptor

record node_status =
  nst_addresses :: "string list"
  nst_success :: bool
  nst_reason :: string

record shared_info =
  si_AdaptorName :: string
  si_AddNodeTag :: bool
  si_PodSecurityPolicySupport :: bool
  si_LastNodeAgentStartTime :: "(string \<rightharpoonup> time) option"
  si_NetworkConfig :: "network option"
  si_OperatorConfigMap :: "configmap option"
  si_OperatorNsxSecret :: "secret option"
  si_NsxNodeAgentDsSpec :: "unstructured option"
  si_NsxNcpBootstrapDsSpec :: "unstructured option"
  si_NsxNcpDeploymentSpec :: "unstructured option"

text \<open>
  The whole process: the outside world (API servers, clock, files; of any type \<open>'w\<close>), the
  status manager and shared info that all controllers share, and the package variables
  \<open>firstBoot\<close> (pod), \<open>cachedNodeSet\<close> (node; entries in insertion order) and
  \<open>appliedConfigMap\<close> (configmap).
\<close>

record 'w operator =
  world :: 'w
  status :: status_manager
  sharedInfo :: shared_info
  firstBoot :: bool
  cachedNodeSet :: "(string \<times> node_status) list"
  appliedConfigMap :: "configmap option"

text \<open>A call to the outside world.\<close>

definition api :: "('w \<Rightarrow> 'r \<times> 'w) \<Rightarrow> ('w operator, 'r) state" where
  "api f = State (\<lambda>s. case f (world s) of (r, w) \<Rightarrow> (r, s\<lparr>world := w\<rparr>))"

lemma run_api [simp, run_rules]:
  "run_state (api f) s = (case f (world s) of (r, w) \<Rightarrow> (r, s\<lparr>world := w\<rparr>))"
  by (simp add: api_def)

lemma yields_api:
  "(\<And>s w. P s \<Longrightarrow> P (s\<lparr>world := w\<rparr>)) \<Longrightarrow> (\<And>x. yields P (f x) Q) \<Longrightarrow>
   yields P (State_Monad.bind (api c) f) Q"
  by (fastforce simp: yields_def split: prod.splits)

lemma keeps_api [keeps_rules]:
  "(\<And>s w. I (s\<lparr>world := w\<rparr>) = I s) \<Longrightarrow> keeps I (api f)"
  by (auto simp: keeps_def split: prod.splits)

lemma preserves_api [preserves_rules]:
  "(\<And>s w. P s \<Longrightarrow> P (s\<lparr>world := w\<rparr>)) \<Longrightarrow> preserves P (api f)"
  by (auto simp: preserves_def split: prod.splits)

text \<open>Everything but the outside world.\<close>

definition local_state :: "'w operator \<Rightarrow>
    status_manager \<times> shared_info \<times> bool \<times> (string \<times> node_status) list \<times> configmap option" where
  "local_state s =
     (status s, sharedInfo s, firstBoot s, cachedNodeSet s, appliedConfigMap s)"

lemma local_state_world [simp]: "local_state (s\<lparr>world := w\<rparr>) = local_state s"
  by (simp add: local_state_def)

text \<open>Lifting a computation on the world alone (the body of a retried closure).\<close>

definition on_world :: "('w operator, 'r) state \<Rightarrow> 'w operator \<Rightarrow> 'w \<Rightarrow> 'r \<times> 'w" where
  "on_world m s w = (case run_state m (s\<lparr>world := w\<rparr>) of (r, s') \<Rightarrow> (r, world s'))"

end
