(* ===== verification/Status_Api.thy ===== *)
theory Status_Api
  imports Objects
begin

text \<open>
  The calls the status manager makes outside this repository: the controller-runtime
  client, \<open>retry.RetryOnConflict\<close> of client-go, the clock, the iteration order of Go maps,
  the JSON encoding of the last-seen state, and the formatting of values in messages. They
  are the parameters of the model, collected in one record over an arbitrary world
  \<open>'w\<close>; every call may change the world, so other clients of the API server may act
  between any two calls.
\<close>

record daemonset_state =
  dst_name :: nsname
  dst_LastSeenStatus :: ds_status
  dst_LastChangeTime :: time

record deployment_state =
  dpt_name :: nsname
  dpt_LastSeenStatus :: dep_status
  dpt_LastChangeTime :: time

record pod_state =
  ps_DaemonsetStates :: "daemonset_state list"
  ps_DeploymentStates :: "deployment_state list"

record 'w status_api =
  get_ncpinstall :: "nsname \<Rightarrow> 'w \<Rightarrow> (go_error + ncpinstall) \<times> 'w"
  update_ncpinstall_status :: "ncpinstall \<Rightarrow> 'w \<Rightarrow> go_error option \<times> 'w"
  get_clusteroperator :: "string \<Rightarrow> 'w \<Rightarrow> (go_error + clusteroperator) \<times> 'w"
  create_clusteroperator :: "clusteroperator \<Rightarrow> 'w \<Rightarrow> go_error option \<times> 'w"
  update_clusteroperator_status :: "clusteroperator \<Rightarrow> 'w \<Rightarrow> go_error option \<times> 'w"
  patch_clusteroperator :: "clusteroperator \<Rightarrow> clusteroperator \<Rightarrow> 'w \<Rightarrow> go_error option \<times> 'w"
  list_pods :: "string \<times> string \<Rightarrow> 'w \<Rightarrow> (go_error + pod list) \<times> 'w"
  get_pod :: "nsname \<Rightarrow> 'w \<Rightarrow> (go_error + pod) \<times> 'w"
  list_nodes :: "'w \<Rightarrow> (go_error + node list) \<times> 'w"
  get_node :: "string \<Rightarrow> 'w \<Rightarrow> (go_error + node) \<times> 'w"
  update_node_status :: "node \<Rightarrow> 'w \<Rightarrow> go_error option \<times> 'w"
  get_daemonset :: "nsname \<Rightarrow> 'w \<Rightarrow> (go_error + daemonset) \<times> 'w"
  get_deployment :: "nsname \<Rightarrow> 'w \<Rightarrow> (go_error + deployment) \<times> 'w"
  retry_on_conflict :: "('w \<Rightarrow> go_error option \<times> 'w) \<Rightarrow> 'w \<Rightarrow> go_error option \<times> 'w"
  clock_now :: "'w \<Rightarrow> (nat \<Rightarrow> time) \<times> 'w"
  range_keys :: "string list \<Rightarrow> 'w \<Rightarrow> string list \<times> 'w"
  range_names :: "nsname list \<Rightarrow> 'w \<Rightarrow> nsname list \<times> 'w"
  marshal_pod_state :: "pod_state \<Rightarrow> go_error + string"
  unmarshal_pod_state :: "string \<Rightarrow> go_error + pod_state"
  fmt_condition :: "condition \<Rightarrow> string"
  fmt_duration :: "int \<Rightarrow> string"
  fmt_time :: "time \<Rightarrow> string"

text \<open>
  The reference meaning of \<open>retry.RetryOnConflict\<close>: the closure runs at least once and at
  most \<open>Suc n\<close> times, again only after a conflict.
\<close>

fun attempts :: "nat \<Rightarrow> ('w \<Rightarrow> go_error option \<times> 'w) \<Rightarrow> 'w \<Rightarrow> go_error option \<times> 'w" where
  "attempts 0 f w = f w"
| "attempts (Suc n) f w =
     (case f w of (r, w') \<Rightarrow>
        (case r of
           Some e \<Rightarrow> if is_conflict e then attempts n f w' else (r, w')
         | None \<Rightarrow> (r, w')))"

lemma attempts_induct:
  assumes step: "\<And>w r w'. P w \<Longrightarrow> f w = (r, w') \<Longrightarrow> Q r w' \<and> (r \<noteq> None \<longrightarrow> P w')"
    and "P w" and "attempts n f w = (r, w')"
  shows "Q r w'"
  using assms(2,3)
proof (induction n arbitrary: w)
  case 0
  then show ?case using step by auto
next
  case (Suc n)
  obtain r1 w1 where f: "f w = (r1, w1)" by force
  with step [OF Suc.prems(1) f] Suc show ?case
    by (auto split: option.splits if_splits)
qed

lemma attempts_view:
  assumes "\<And>w. V (snd (f w)) = V w"
  shows "V (snd (attempts n f w)) = V w"
proof -
  obtain r w' where run: "attempts n f w = (r, w')" by force
  have "V w' = V w"
    by (rule attempts_induct [where P = "\<lambda>x. V x = V w" and Q = "\<lambda>r x. V x = V w", OF _ _ run])
       (use assms in \<open>metis snd_conv\<close>, simp)
  with run show ?thesis by simp
qed

end
