(* ===== verification/Status_Manager.thy ===== *)
theory Status_Manager
  imports Status_Api
begin

text \<open>
  The status manager: \<open>pkg/controller/statusmanager/status_manager.go\<close> and
  \<open>node_status.go\<close>. A method is a computation on the operator's state; the mutex makes
  each exported method one atomic step, so \<open>Lock\<close> and \<open>Unlock\<close> leave no trace here.
  Logging is left out.
\<close>

definition operator_version :: string where
  "operator_version = ''0.0.3''"

definition make_condition :: "string \<Rightarrow> string \<Rightarrow> string \<Rightarrow> string \<Rightarrow> condition" where
  "make_condition t st r m =
     \<lparr>ctype = t, cstatus = st, creason = r, cmessage = m, cltt = zero_time\<rparr>"

lemma make_condition_simps [simp]:
  "ctype (make_condition t st r m) = t"
  "cstatus (make_condition t st r m) = st"
  "creason (make_condition t st r m) = r"
  "cmessage (make_condition t st r m) = m"
  by (simp_all add: make_condition_def)

definition New_StatusManager :: "string \<Rightarrow> string \<Rightarrow> shared_info \<Rightarrow> status_manager" where
  "New_StatusManager name operatorNamespace si =
     \<lparr>sm_name = name, sm_failing = (\<lambda>_. None), sm_daemonSets = [], sm_deployments = [],
      sm_OperatorNamespace = operatorNamespace, sm_AdaptorName = si_AdaptorName si,
      sm_Adaptor = adaptor_for (si_AdaptorName si)\<rparr>"

section \<open>Writing the conditions to the cluster\<close>

definition setNcpInstallCrdStatus ::
  "'w status_api \<Rightarrow> string \<Rightarrow> condition list \<Rightarrow> ('w operator, go_error option) state" where
  "setNcpInstallCrdStatus E operatorNamespace conditions = do {
     r \<leftarrow> api (get_ncpinstall E (nsn operatorNamespace NcpInstallCRDName));
     case r of
       Inl e \<Rightarrow> ret (Some e)
     | Inr crd \<Rightarrow> do {
         ts \<leftarrow> api (clock_now E);
         case CombineConditions (fmt_condition E) (ni_conditions crd) conditions ts of
           (conds, changed, messages) \<Rightarrow>
             if \<not> changed then ret None
             else api (update_ncpinstall_status E (crd\<lparr>ni_conditions := conds\<rparr>))
       }
   }"

text \<open>The block both adaptors share: Available=False while the first rollout progresses.\<close>

definition startup_condition :: "condition list \<Rightarrow> time \<Rightarrow> condition list" where
  "startup_condition conds now =
     (let progressingCondition = FindStatusCondition conds OperatorProgressing;
          availableCondition = FindStatusCondition conds OperatorAvailable
      in if availableCondition = None
            \<and> (case progressingCondition of
                 None \<Rightarrow> False | Some p \<Rightarrow> cstatus p = ConditionTrue)
         then SetStatusCondition conds
                (make_condition OperatorAvailable ConditionFalse ''Startup''
                   ''The network is starting up'') now
         else conds)"

definition versions_for :: "bool \<Rightarrow> (string \<times> string) list \<Rightarrow> (string \<times> string) list" where
  "versions_for reachedAvailableLevel old =
     (if reachedAvailableLevel then [(''operator'', operator_version)] else old)"

text \<open>
  The closure of \<open>StatusK8s.set\<close>. Its \<open>reflect.DeepEqual\<close> compares an
  \<open>NcpInstallStatus\<close> with a \<open>ClusterOperatorStatus\<close>; values of distinct types are never
  deeply equal, so that early return is never taken. The \<open>ClusterOperator\<close> is a fresh
  local value; only its conditions reach the cluster.
\<close>

definition set_closure_K8s ::
  "'w status_api \<Rightarrow> bool \<Rightarrow> condition list \<Rightarrow> ('w operator, go_error option) state" where
  "set_closure_K8s E reachedAvailableLevel conditions = do {
     r \<leftarrow> api (get_ncpinstall E (nsn Names.OperatorNamespace NcpInstallCRDName));
     case r of
       Inl e \<Rightarrow> ret (Some e)
     | Inr ncpInstall \<Rightarrow> do {
         sm \<leftarrow> gets status;
         let co = new_clusteroperator (sm_name sm);
         let co = co\<lparr>co_versions := versions_for reachedAvailableLevel (co_versions co)\<rparr>;
         ts \<leftarrow> api (clock_now E);
         let conds = fst (CombineConditions (fmt_condition E) (co_conditions co) conditions ts);
         ts \<leftarrow> api (clock_now E);
         let conds = startup_condition conds (ts 0);
         setNcpInstallCrdStatus E (sm_OperatorNamespace sm) conds
       }
   }"

text \<open>
  The part of \<open>StatusOc.set\<close> after the read: compute the new status, and write it if it
  differs from the one read.
\<close>

definition set_Oc_write ::
  "'w status_api \<Rightarrow> bool \<Rightarrow> condition list \<Rightarrow> status_manager \<Rightarrow> bool \<Rightarrow> clusteroperator
   \<Rightarrow> ('w operator, go_error option) state" where
  "set_Oc_write E reachedAvailableLevel conditions sm isNotFound co = do {
     ts \<leftarrow> api (clock_now E);
     let conds = fst (CombineConditions (fmt_condition E) (co_conditions co) conditions ts);
     ts \<leftarrow> api (clock_now E);
     let conds = startup_condition conds (ts 0);
     ts \<leftarrow> api (clock_now E);
     let conds = SetStatusCondition conds
                   (make_condition OperatorUpgradeable ConditionTrue [] []) (ts 0);
     let co' = co\<lparr>co_versions := versions_for reachedAvailableLevel (co_versions co),
                 co_conditions := conds\<rparr>;
     if co_conditions co' = co_conditions co \<and> co_versions co' = co_versions co then ret None
     else if isNotFound then api (create_clusteroperator E co')
     else do {
       e \<leftarrow> api (update_clusteroperator_status E co');
       case e of
         Some e \<Rightarrow> ret (Some e)
       | None \<Rightarrow> setNcpInstallCrdStatus E (sm_OperatorNamespace sm) conds
     }
   }"

text \<open>
  The closure of \<open>StatusOc.set\<close>. A \<open>ClusterOperator\<close> that does not exist is created from
  the fresh one; otherwise its status is updated and then copied to the NcpInstall CRD.
\<close>

definition set_closure_Oc ::
  "'w status_api \<Rightarrow> bool \<Rightarrow> condition list \<Rightarrow> ('w operator, go_error option) state" where
  "set_closure_Oc E reachedAvailableLevel conditions = do {
     sm \<leftarrow> gets status;
     r \<leftarrow> api (get_clusteroperator E (sm_name sm));
     case r of
       Inl e \<Rightarrow> if \<not> is_not_found e then ret (Some e)
                else set_Oc_write E reachedAvailableLevel conditions sm True
                       (new_clusteroperator (sm_name sm))
     | Inr co \<Rightarrow> set_Oc_write E reachedAvailableLevel conditions sm False co
   }"

text \<open>\<open>set\<close> of either adaptor: the closure under \<open>RetryOnConflict\<close>; its error is only logged.\<close>

definition set_retried ::
  "'w status_api \<Rightarrow> (bool \<Rightarrow> condition list \<Rightarrow> ('w operator, go_error option) state)
   \<Rightarrow> bool \<Rightarrow> condition list \<Rightarrow> ('w operator, go_error option) state" where
  "set_retried E closure reachedAvailableLevel conditions = do {
     s \<leftarrow> State_Monad.get;
     api (retry_on_conflict E (on_world (closure reachedAvailableLevel conditions) s))
   }"

definition set_K8s :: "'w status_api \<Rightarrow> bool \<Rightarrow> condition list \<Rightarrow> ('w operator, unit) state" where
  "set_K8s E reachedAvailableLevel conditions = do {
     err \<leftarrow> set_retried E (set_closure_K8s E) reachedAvailableLevel conditions;
     ret ()
   }"

definition set_Oc :: "'w status_api \<Rightarrow> bool \<Rightarrow> condition list \<Rightarrow> ('w operator, unit) state" where
  "set_Oc E reachedAvailableLevel conditions = do {
     err \<leftarrow> set_retried E (set_closure_Oc E) reachedAvailableLevel conditions;
     ret ()
   }"

definition set_status :: "'w status_api \<Rightarrow> bool \<Rightarrow> condition list \<Rightarrow> ('w operator, unit) state" where
  "set_status E reachedAvailableLevel conditions = do {
     a \<leftarrow> gets (\<lambda>s. sm_Adaptor (status s));
     case a of AdaptorK8s \<Rightarrow> set_K8s E reachedAvailableLevel conditions
             | AdaptorOc \<Rightarrow> set_Oc E reachedAvailableLevel conditions
   }"

definition setConditions ::
  "'w status_api \<Rightarrow> string list \<Rightarrow> bool \<Rightarrow> ('w operator, unit) state" where
  "setConditions E progressing reachedAvailableLevel =
     (let conditions =
        (if length progressing > 0
         then [make_condition OperatorProgressing ConditionTrue ''Deploying''
                 (Join progressing [CHR 0x0A])]
         else [make_condition OperatorProgressing ConditionFalse [] []])
        @ (if reachedAvailableLevel
           then [make_condition OperatorAvailable ConditionTrue [] []] else [])
      in set_status E reachedAvailableLevel conditions)"

section \<open>Degraded levels\<close>

abbreviation degraded_false :: condition where
  "degraded_false \<equiv> make_condition OperatorDegraded ConditionFalse [] []"

fun sync_loop :: "'w status_api \<Rightarrow> status_level list \<Rightarrow> ('w operator, unit) state" where
  "sync_loop E [] = set_status E False [degraded_false]"
| "sync_loop E (l # ls) = do {
     c \<leftarrow> gets (\<lambda>s. sm_failing (status s) l);
     case c of Some c \<Rightarrow> set_status E False [c] | None \<Rightarrow> sync_loop E ls
   }"

definition syncDegraded :: "'w status_api \<Rightarrow> ('w operator, unit) state" where
  "syncDegraded E = sync_loop E status_levels"

definition set_failing :: "status_level \<Rightarrow> condition option \<Rightarrow> status_manager \<Rightarrow> status_manager" where
  "set_failing l c sm = sm\<lparr>sm_failing := (sm_failing sm)(l := c)\<rparr>"

definition setDegraded ::
  "'w status_api \<Rightarrow> status_level \<Rightarrow> string \<Rightarrow> string \<Rightarrow> ('w operator, unit) state" where
  "setDegraded E statusLevel reason message = do {
     modify (\<lambda>s. s\<lparr>status := set_failing statusLevel
       (Some (make_condition OperatorDegraded ConditionTrue reason message)) (status s)\<rparr>);
     syncDegraded E
   }"

definition setNotDegraded :: "'w status_api \<Rightarrow> status_level \<Rightarrow> ('w operator, unit) state" where
  "setNotDegraded E statusLevel = do {
     c \<leftarrow> gets (\<lambda>s. sm_failing (status s) statusLevel);
     (if c \<noteq> None then modify (\<lambda>s. s\<lparr>status := set_failing statusLevel None (status s)\<rparr>)
      else ret ());
     syncDegraded E
   }"

text \<open>The exported methods hold the mutex around the unexported ones.\<close>

definition SetDegraded ::
  "'w status_api \<Rightarrow> status_level \<Rightarrow> string \<Rightarrow> string \<Rightarrow> ('w operator, unit) state" where
  "SetDegraded E statusLevel reason message = setDegraded E statusLevel reason message"

definition SetNotDegraded :: "'w status_api \<Rightarrow> status_level \<Rightarrow> ('w operator, unit) state" where
  "SetNotDegraded E statusLevel = setNotDegraded E statusLevel"

definition SetDaemonSets :: "nsname list \<Rightarrow> ('w operator, unit) state" where
  "SetDaemonSets daemonSets =
     modify (\<lambda>s. s\<lparr>status := (status s)\<lparr>sm_daemonSets := daemonSets\<rparr>\<rparr>)"

definition SetDeployments :: "nsname list \<Rightarrow> ('w operator, unit) state" where
  "SetDeployments deployments =
     modify (\<lambda>s. s\<lparr>status := (status s)\<lparr>sm_deployments := deployments\<rparr>\<rparr>)"

section \<open>Status of the nodes (node\_status.go)\<close>

text \<open>
  The loop of \<open>SetFromNodes\<close> over the keys in the order the runtime yields them: the
  reasons of the nodes that failed, and whether none did.
\<close>

fun nodes_loop :: "(string \<times> node_status) list \<Rightarrow> string list \<Rightarrow> string list \<Rightarrow> bool
    \<Rightarrow> string list \<times> bool" where
  "nodes_loop cache [] messages allDone = (messages, allDone)"
| "nodes_loop cache (k # ks) messages allDone =
     (case map_of cache k of
        None \<Rightarrow> nodes_loop cache ks messages allDone
      | Some st \<Rightarrow>
          if \<not> nst_success st then nodes_loop cache ks (messages @ [nst_reason st]) False
          else nodes_loop cache ks messages allDone)"

definition SetFromNodes ::
  "'w status_api \<Rightarrow> (string \<times> node_status) list \<Rightarrow> ('w operator, unit) state" where
  "SetFromNodes E cache = do {
     keys \<leftarrow> api (range_keys E (map fst cache));
     case nodes_loop cache keys [] True of
       (messages, allProcessesDone) \<Rightarrow>
         if allProcessesDone then setNotDegraded E ClusterNode
         else setDegraded E ClusterNode ''ProcessClusterNodeError'' (Join messages [CHR 0x0A])
   }"

end
