(* ===== verification/Pod_Status.thy ===== *)
theory Pod_Status
  imports Status_Manager
begin

text \<open>
  \<open>pkg/controller/statusmanager/pod_status.go\<close>: the NetworkUnavailable condition of a node
  derived from its nsx-node-agent pod, the full check at start-up, and the operator's overall
  Progressing, Available and Degraded status derived from its DaemonSets and Deployments. A Go
  map from names to states is an association list with distinct keys.
\<close>

definition ProgressTimeout :: int where "ProgressTimeout = 10 * minute"

definition lastSeenAnnotation :: string where
  "lastSeenAnnotation = ''nsx-ncp.operator.vmware.com/last-seen-state''"

section \<open>Network status of a node\<close>

definition network_unavailable :: "bool \<Rightarrow> string \<Rightarrow> string \<Rightarrow> time \<Rightarrow> node_condition" where
  "network_unavailable ready reason message now =
     \<lparr>nc_type = ''NetworkUnavailable'',
      nc_status = (if ready then ConditionFalse else ConditionTrue),
      nc_reason = reason @ (if ready then ''Ready'' else ''NotReady''),
      nc_message = (if ready then ''NSX node agent is running'' else message),
      nc_heartbeat = now, nc_ltt = now\<rparr>"

text \<open>
  \<open>combineNode\<close>: the node with the condition set, and whether that changed it. A failed
  read gives the zero node, unchanged.
\<close>

definition zero_node :: node where
  "zero_node = \<lparr>n_name = [], n_addresses = [], n_conditions = [], n_providerID = []\<rparr>"

definition combineNode ::
  "'w status_api \<Rightarrow> string \<Rightarrow> bool \<Rightarrow> string \<Rightarrow> string \<Rightarrow> ('w operator, node \<times> bool) state" where
  "combineNode E nodeName ready reason message = do {
     r \<leftarrow> api (get_node E nodeName);
     case r of
       Inl e \<Rightarrow> ret (zero_node, False)
     | Inr nd \<Rightarrow> do {
         ts \<leftarrow> api (clock_now E);
         let condition = network_unavailable ready reason message (ts 0);
         case SetNodeCondition (n_conditions nd) condition (ts 1) of
           (conds, changed) \<Rightarrow> ret (nd\<lparr>n_conditions := conds\<rparr>, changed)
       }
   }"

definition updateNodeStatus ::
  "'w status_api \<Rightarrow> string \<Rightarrow> bool \<Rightarrow> string \<Rightarrow> string \<Rightarrow> ('w operator, go_error option) state" where
  "updateNodeStatus E nodeName ready reason message = do {
     nc \<leftarrow> combineNode E nodeName ready reason message;
     case nc of (nd, changed) \<Rightarrow>
       if \<not> changed then ret None else api (update_node_status E nd)
   }"

definition assertNodeStatus :: "'w status_api \<Rightarrow> string \<Rightarrow> bool \<Rightarrow> ('w operator, outcome) state" where
  "assertNodeStatus E nodeName desireReady = do {
     r \<leftarrow> api (get_node E nodeName);
     case r of
       Inl e \<Rightarrow> ret (emptyResult, Some e)
     | Inr nd \<Rightarrow>
         (case FindNodeStatusCondition (n_conditions nd) ''NetworkUnavailable'' of
            None \<Rightarrow> ret (requeueAfter DefaultResyncPeriod, None)
          | Some c \<Rightarrow>
              if desireReady \<and> nc_status c \<noteq> ConditionFalse
              then ret (requeueAfter DefaultResyncPeriod, None)
              else if \<not> desireReady \<and> nc_status c = ConditionFalse
              then ret (requeueAfter DefaultResyncPeriod, None)
              else ret (emptyResult, None))
   }"

text \<open>Update the node, then check that the write is visible.\<close>

definition update_and_assert ::
  "'w status_api \<Rightarrow> string \<Rightarrow> bool \<Rightarrow> string \<Rightarrow> string \<Rightarrow> ('w operator, outcome) state" where
  "update_and_assert E nodeName ready reason message = do {
     err \<leftarrow> updateNodeStatus E nodeName ready reason message;
     case err of Some e \<Rightarrow> ret (emptyResult, Some e) | None \<Rightarrow> assertNodeStatus E nodeName ready
   }"

definition setNodeNetworkUnavailable ::
  "'w status_api \<Rightarrow> string \<Rightarrow> bool \<Rightarrow> time option \<Rightarrow> string \<Rightarrow> string
   \<Rightarrow> ('w operator, outcome) state" where
  "setNodeNetworkUnavailable E nodeName ready startedAt reason message =
     (if \<not> ready then update_and_assert E nodeName ready reason message
      else do {
        ts \<leftarrow> api (clock_now E);
        case startedAt of
          None \<Rightarrow> ret (emptyResult, Some (GoPanic ''nil startedAt''))
        | Some t \<Rightarrow>
            let startedTime = time_Sub (ts 0) t in
            if startedTime \<ge> TimeBeforeRecoverNetwork
            then update_and_assert E nodeName ready reason message
            else do {
              err \<leftarrow> updateNodeStatus E nodeName False reason message;
              case err of
                Some e \<Rightarrow> ret (emptyResult, Some e)
              | None \<Rightarrow>
                  ret (requeueAfter (wrap64 (TimeBeforeRecoverNetwork - startedTime)), None)
            }
      })"

section \<open>From the state of a pod to the state of its node\<close>

record container_scan =
  sc_ready :: bool
  sc_messages :: string
  sc_tmpMsgs :: string
  sc_lastStartedAt :: "time option"

text \<open>Why a container is not running: its message, else its reason, else Unknown.\<close>

definition container_text :: "container_reason \<Rightarrow> string" where
  "container_text cr =
     (if cr_message cr = [] then (if cr_reason cr = [] then ''Unknown'' else cr_reason cr)
      else cr_message cr)"

definition not_running_message :: "string \<Rightarrow> string \<Rightarrow> string \<Rightarrow> string" where
  "not_running_message podName containerName txt =
     podName @ ''/'' @ containerName @ '' not running: '' @ txt @ ''. ''"

definition scan_container ::
  "(int \<Rightarrow> string) \<Rightarrow> string \<Rightarrow> time \<Rightarrow> container_scan \<Rightarrow> container_status \<Rightarrow> container_scan" where
  "scan_container fmt_dur podName now sc cs =
     (case cs_running cs of
        None \<Rightarrow>
          (case cs_waiting cs of
             Some wt \<Rightarrow> sc\<lparr>sc_ready := False, sc_messages := sc_messages sc @
                          not_running_message podName (cs_name cs) (container_text wt)\<rparr>
           | None \<Rightarrow>
               (case cs_terminated cs of
                  Some tm \<Rightarrow> sc\<lparr>sc_ready := False, sc_messages := sc_messages sc @
                               not_running_message podName (cs_name cs) (container_text tm)\<rparr>
                | None \<Rightarrow> sc\<lparr>sc_ready := False\<rparr>))
      | Some startedAt \<Rightarrow>
          let last = (case sc_lastStartedAt sc of
                        None \<Rightarrow> startedAt
                      | Some l \<Rightarrow> if time_Sub startedAt l > 0 then startedAt else l);
              runningTime = time_Sub now startedAt
          in if runningTime < TimeBeforeRecoverNetwork
             then sc\<lparr>sc_lastStartedAt := Some last, sc_tmpMsgs := sc_tmpMsgs sc @
                    podName @ ''/'' @ cs_name cs @ '' started for less than '' @
                    fmt_dur runningTime @ ''. ''\<rparr>
             else sc\<lparr>sc_lastStartedAt := Some last\<rparr>)"

definition scan_init :: "pod \<Rightarrow> container_scan" where
  "scan_init p =
     (if length (p_containerStatuses p) = 0
      then \<lparr>sc_ready = False,
            sc_messages = ''nsx-node-agent not running: '' @ p_phase p @ ''.'',
            sc_tmpMsgs = [], sc_lastStartedAt = None\<rparr>
      else \<lparr>sc_ready = True, sc_messages = [], sc_tmpMsgs = [], sc_lastStartedAt = None\<rparr>)"

definition scan_pod :: "(int \<Rightarrow> string) \<Rightarrow> time \<Rightarrow> pod \<Rightarrow> container_scan" where
  "scan_pod fmt_dur now p =
     foldl (scan_container fmt_dur (p_name p) now) (scan_init p) (p_containerStatuses p)"

text \<open>
  The guard against events of an earlier pod of the node: the start times seen so far, and
  whether the pod's own start time is older than the one recorded. A pod without a start
  time is let through.
\<close>

definition note_start_time ::
  "(string \<rightharpoonup> time) \<Rightarrow> string \<Rightarrow> time option \<Rightarrow> bool \<times> (string \<rightharpoonup> time)" where
  "note_start_time starts nodeName startTime =
     (case startTime of
        None \<Rightarrow> (False, starts)
      | Some podStartedAt \<Rightarrow>
          let nodeLastStartedAt = (case starts nodeName of None \<Rightarrow> zero_time | Some t \<Rightarrow> t)
          in if podStartedAt < nodeLastStartedAt then (True, starts)
             else (False, starts(nodeName \<mapsto> podStartedAt)))"

definition node_condition_of_pod ::
  "'w status_api \<Rightarrow> time \<Rightarrow> pod \<Rightarrow> ('w operator, outcome) state" where
  "node_condition_of_pod E now p =
     (if p_nodeName p = [] then ret (emptyResult, None)
      else do {
        si \<leftarrow> gets sharedInfo;
        let starts = (case si_LastNodeAgentStartTime si of None \<Rightarrow> Map.empty | Some m \<Rightarrow> m);
        case note_start_time starts (p_nodeName p) (p_startTime p) of
          (outdated, starts') \<Rightarrow> do {
            modify (\<lambda>s. s\<lparr>sharedInfo :=
              (sharedInfo s)\<lparr>si_LastNodeAgentStartTime := Some starts'\<rparr>\<rparr>);
            if outdated then ret (emptyResult, None)
            else let sc = scan_pod (fmt_duration E) now p in
              setNodeNetworkUnavailable E (p_nodeName p) (sc_ready sc) (sc_lastStartedAt sc)
                ''NSXNodeAgent'' (sc_messages sc @ sc_tmpMsgs sc)
          }
      })"

definition setNodeConditionFromPod ::
  "'w status_api \<Rightarrow> nsname \<Rightarrow> pod option \<Rightarrow> ('w operator, outcome) state" where
  "setNodeConditionFromPod E podName pd = do {
     ts \<leftarrow> api (clock_now E);
     case pd of
       Some p \<Rightarrow> node_condition_of_pod E (ts 0) p
     | None \<Rightarrow> do {
         r \<leftarrow> api (get_pod E podName);
         case r of
           Inl e \<Rightarrow> if is_not_found e then ret (emptyResult, None) else ret (emptyResult, Some e)
         | Inr p \<Rightarrow> node_condition_of_pod E (ts 0) p
       }
   }"

definition SetNodeConditionFromPod ::
  "'w status_api \<Rightarrow> nsname \<Rightarrow> pod option \<Rightarrow> ('w operator, outcome) state" where
  "SetNodeConditionFromPod E podName pd = setNodeConditionFromPod E podName pd"

text \<open>The check of every agent pod at the first reconciliation after a start.\<close>

definition CheckExistingAgentPods :: "'w status_api \<Rightarrow> ('w operator, outcome) state" where
  "CheckExistingAgentPods E = do {
     first \<leftarrow> gets firstBoot;
     if \<not> first then ret (emptyResult, None)
     else do {
       r \<leftarrow> api (list_pods E (''component'', NsxNodeAgentContainerName));
       case r of
         Inl e \<Rightarrow> ret (emptyResult, Some e)
       | Inr pods \<Rightarrow>
           if length pods = 0 then do {
             rn \<leftarrow> api (list_nodes E);
             case rn of
               Inl e \<Rightarrow> ret (emptyResult, Some e)
             | Inr nodes \<Rightarrow> do {
                 err \<leftarrow> for_each (\<lambda>nd. do {
                    out \<leftarrow> setNodeNetworkUnavailable E (n_name nd) False None ''NSXNodeAgent''
                             ''Waiting for nsx-node-agent to be created'';
                    ret (snd out) }) nodes;
                 case err of
                   Some e \<Rightarrow> ret (emptyResult, Some e)
                 | None \<Rightarrow> do { modify (\<lambda>s. s\<lparr>firstBoot := False\<rparr>); ret (emptyResult, None) }
               }
           }
           else do {
             err \<leftarrow> for_each (\<lambda>p. do {
                out \<leftarrow> setNodeConditionFromPod E (nsn [] []) (Some p); ret (snd out) }) pods;
             case err of
               Some e \<Rightarrow> ret (emptyResult, Some e)
             | None \<Rightarrow> do { modify (\<lambda>s. s\<lparr>firstBoot := False\<rparr>); ret (emptyResult, None) }
           }
     }
   }"

end
