(* ===== verification/Rollout_Status.thy ===== *)
theory Rollout_Status
  imports Pod_Status
begin

text \<open>
  \<open>SetFromPodsForOverall\<close>, \<open>getLastPodState\<close> and \<open>setLastPodState\<close> of
  \<open>pkg/controller/statusmanager/pod_status.go\<close>. The maps of last-seen states are association
  lists (\<open>AList.update\<close>, \<open>AList.delete\<close>); the JSON text of a snapshot is produced and read by
  the parameters \<open>marshal_pod_state\<close> and \<open>unmarshal_pod_state\<close>.
\<close>

type_synonym ds_states = "(nsname \<times> daemonset_state) list"
type_synonym dep_states = "(nsname \<times> deployment_state) list"

section \<open>Is a rollout in progress?\<close>

definition ds_progress :: "nsname \<Rightarrow> daemonset \<Rightarrow> string option" where
  "ds_progress dsName ds =
     (let st = ds_status ds; q = Quote (nsname_str dsName) in
      if dss_updatedNumberScheduled st < dss_desiredNumberScheduled st then
        Some (''DaemonSet '' @ q @ '' update is rolling out ('' @
              Itoa (dss_updatedNumberScheduled st) @ '' out of '' @
              Itoa (dss_desiredNumberScheduled st) @ '' updated)'')
      else if dss_numberUnavailable st > 0 then
        Some (''DaemonSet '' @ q @ '' is not available (awaiting '' @
              Itoa (dss_numberUnavailable st) @ '' nodes)'')
      else if dss_numberAvailable st = 0 then
        Some (''DaemonSet '' @ q @ '' is not yet scheduled on any nodes'')
      else if ds_generation ds > dss_observedGeneration st then
        Some (''DaemonSet '' @ q @ '' update is being processed (generation '' @
              Itoa (ds_generation ds) @ '', observed generation '' @
              Itoa (dss_observedGeneration st) @ '')'')
      else None)"

definition dep_progress :: "nsname \<Rightarrow> deployment \<Rightarrow> string option" where
  "dep_progress depName dep =
     (let st = dep_status dep; q = Quote (nsname_str depName) in
      if deps_unavailableReplicas st > 0 then
        Some (''Deployment '' @ q @ '' is not available (awaiting '' @
              Itoa (deps_unavailableReplicas st) @ '' replicas to be ready)'')
      else if deps_availableReplicas st = 0 then
        Some (''Deployment '' @ q @ '' is not yet scheduled on any nodes'')
      else if deps_observedGeneration st < dep_generation dep then
        Some (''Deployment '' @ q @ '' update is being processed (generation '' @
              Itoa (dep_generation dep) @ '', observed generation '' @
              Itoa (deps_observedGeneration st) @ '')'')
      else None)"

section \<open>The last-seen states\<close>

definition zero_ds_state :: "daemonset_state" where
  "zero_ds_state =
     \<lparr>dst_name = nsn [] [],
      dst_LastSeenStatus = \<lparr>dss_updatedNumberScheduled = 0, dss_desiredNumberScheduled = 0,
        dss_numberUnavailable = 0, dss_numberAvailable = 0, dss_observedGeneration = 0,
        dss_other = []\<rparr>,
      dst_LastChangeTime = zero_time\<rparr>"

definition zero_dep_state :: "deployment_state" where
  "zero_dep_state =
     \<lparr>dpt_name = nsn [] [],
      dpt_LastSeenStatus = \<lparr>deps_unavailableReplicas = 0, deps_availableReplicas = 0,
        deps_observedGeneration = 0, deps_other = []\<rparr>,
      dpt_LastChangeTime = zero_time\<rparr>"

text \<open>
  The update of the state of a progressing DaemonSet: \<open>now\<close> is the reading of the clock that
  dates a change, \<open>later\<close> the one the hung check compares with. The result is the new map and
  the time of the last change when the rollout is hung.
\<close>

definition track_ds ::
  "nsname \<Rightarrow> ds_status \<Rightarrow> time \<Rightarrow> time \<Rightarrow> ds_states \<Rightarrow> ds_states \<times> time option" where
  "track_ds dsName st now later states =
     (let found = map_of states dsName;
          dsState = (case found of None \<Rightarrow> zero_ds_state | Some d \<Rightarrow> d);
          stale = (found = None \<or> dst_LastSeenStatus dsState \<noteq> st);
          dsState' = (if stale then dsState\<lparr>dst_LastChangeTime := now, dst_LastSeenStatus := st\<rparr>
                      else dsState);
          states' = (if stale then AList.update dsName dsState' states else states);
          hung = (found \<noteq> None \<and> time_Sub later (dst_LastChangeTime dsState') > ProgressTimeout)
      in (states', if hung then Some (dst_LastChangeTime dsState') else None))"

definition track_dep ::
  "nsname \<Rightarrow> dep_status \<Rightarrow> time \<Rightarrow> time \<Rightarrow> dep_states \<Rightarrow> dep_states \<times> time option" where
  "track_dep depName st now later states =
     (let found = map_of states depName;
          depState = (case found of None \<Rightarrow> zero_dep_state | Some d \<Rightarrow> d);
          stale = (found = None \<or> dpt_LastSeenStatus depState \<noteq> st);
          depState' = (if stale then depState\<lparr>dpt_LastChangeTime := now, dpt_LastSeenStatus := st\<rparr>
                       else depState);
          states' = (if stale then AList.update depName depState' states else states);
          hung = (found \<noteq> None \<and> time_Sub later (dpt_LastChangeTime depState') > ProgressTimeout)
      in (states', if hung then Some (dpt_LastChangeTime depState') else None))"

definition hung_message :: "'w status_api \<Rightarrow> string \<Rightarrow> nsname \<Rightarrow> time \<Rightarrow> string" where
  "hung_message E kind name t =
     kind @ '' '' @ Quote (nsname_str name) @ '' rollout is not making progress - last change '' @
     fmt_time E t"

section \<open>The two loops\<close>

record rollout =
  ro_progressing :: "string list"
  ro_hung :: "string list"
  ro_reached :: bool

definition ds_step ::
  "'w status_api \<Rightarrow> nsname \<Rightarrow> rollout \<times> ds_states \<Rightarrow> ('w operator, rollout \<times> ds_states) state" where
  "ds_step E dsName acc = (case acc of (ro, states) \<Rightarrow> do {
     r \<leftarrow> api (get_daemonset E dsName);
     case r of
       Inl e \<Rightarrow> ret (ro\<lparr>ro_progressing := ro_progressing ro @
                        [''Waiting for DaemonSet '' @ Quote (nsname_str dsName) @ '' to be created''],
                      ro_reached := False\<rparr>, states)
     | Inr ds \<Rightarrow>
         (case ds_progress dsName ds of
            None \<Rightarrow> ret (ro, AList.delete dsName states)
          | Some m \<Rightarrow> do {
              ts \<leftarrow> api (clock_now E);
              case track_ds dsName (ds_status ds) (ts 0) (ts 1) states of
                (states', hung) \<Rightarrow>
                  ret (\<lparr>ro_progressing = ro_progressing ro @ [m],
                        ro_hung = ro_hung ro @ (case hung of None \<Rightarrow> []
                                    | Some t \<Rightarrow> [hung_message E ''DaemonSet'' dsName t]),
                        ro_reached = False\<rparr>, states')
            })
   })"

definition dep_step ::
  "'w status_api \<Rightarrow> nsname \<Rightarrow> rollout \<times> dep_states \<Rightarrow> ('w operator, rollout \<times> dep_states) state" where
  "dep_step E depName acc = (case acc of (ro, states) \<Rightarrow> do {
     r \<leftarrow> api (get_deployment E depName);
     case r of
       Inl e \<Rightarrow> ret (ro\<lparr>ro_progressing := ro_progressing ro @
                        [''Waiting for Deployment '' @ Quote (nsname_str depName) @ '' to be created''],
                      ro_reached := False\<rparr>, states)
     | Inr dep \<Rightarrow>
         (case dep_progress depName dep of
            None \<Rightarrow> ret (ro, AList.delete depName states)
          | Some m \<Rightarrow> do {
              ts \<leftarrow> api (clock_now E);
              case track_dep depName (dep_status dep) (ts 0) (ts 1) states of
                (states', hung) \<Rightarrow>
                  ret (\<lparr>ro_progressing = ro_progressing ro @ [m],
                        ro_hung = ro_hung ro @ (case hung of None \<Rightarrow> []
                                    | Some t \<Rightarrow> [hung_message E ''Deployment'' depName t]),
                        ro_reached = False\<rparr>, states')
            })
   })"

fun fold_state :: "('a \<Rightarrow> 'b \<Rightarrow> ('s, 'b) state) \<Rightarrow> 'a list \<Rightarrow> 'b \<Rightarrow> ('s, 'b) state" where
  "fold_state f [] acc = ret acc"
| "fold_state f (x # xs) acc = do { acc' \<leftarrow> f x acc; fold_state f xs acc' }"

section \<open>Reading and writing the snapshot\<close>

definition getLastPodState_Oc :: "'w status_api \<Rightarrow> ('w operator, ds_states \<times> dep_states) state" where
  "getLastPodState_Oc E = do {
     sm \<leftarrow> gets status;
     r \<leftarrow> api (get_clusteroperator E (sm_name sm));
     case r of
       Inl e \<Rightarrow> ret ([], [])
     | Inr co \<Rightarrow>
         let lsbytes = (case co_annotations co lastSeenAnnotation of None \<Rightarrow> [] | Some b \<Rightarrow> b) in
         if lsbytes = [] then ret ([], [])
         else case unmarshal_pod_state E lsbytes of
                Inl e \<Rightarrow> ret ([], [])
              | Inr out \<Rightarrow>
                  ret (foldl (\<lambda>m ds. AList.update (dst_name ds) ds m) [] (ps_DaemonsetStates out),
                       foldl (\<lambda>m ds. AList.update (dpt_name ds) ds m) [] (ps_DeploymentStates out))
   }"

definition getLastPodState_K8s :: "'w status_api \<Rightarrow> ('w operator, ds_states \<times> dep_states) state" where
  "getLastPodState_K8s E = ret ([], [])"

definition snapshot_of :: "nsname list \<Rightarrow> ds_states \<Rightarrow> nsname list \<Rightarrow> dep_states \<Rightarrow> pod_state" where
  "snapshot_of dsNames dss depNames deps =
     \<lparr>ps_DaemonsetStates =
        List.map_filter (\<lambda>n. map_option (\<lambda>d. d\<lparr>dst_name := n\<rparr>) (map_of dss n)) dsNames,
      ps_DeploymentStates =
        List.map_filter (\<lambda>n. map_option (\<lambda>d. d\<lparr>dpt_name := n\<rparr>) (map_of deps n)) depNames\<rparr>"

definition patch_last_seen ::
  "'w status_api \<Rightarrow> string \<Rightarrow> string \<Rightarrow> 'w \<Rightarrow> go_error option \<times> 'w" where
  "patch_last_seen E name lsbytes w =
     (case get_clusteroperator E name w of (r, w') \<Rightarrow>
        (case r of
           Inl e \<Rightarrow>
             if is_not_found e then
               patch_clusteroperator E
                 ((new_clusteroperator name)\<lparr>co_annotations := [lastSeenAnnotation \<mapsto> lsbytes]\<rparr>)
                 (new_clusteroperator name) w'
             else (Some e, w')
         | Inr old \<Rightarrow>
             patch_clusteroperator E
               (old\<lparr>co_annotations := (co_annotations old)(lastSeenAnnotation \<mapsto> lsbytes)\<rparr>)
               old w'))"

definition setLastPodState_Oc ::
  "'w status_api \<Rightarrow> ds_states \<Rightarrow> dep_states \<Rightarrow> ('w operator, go_error option) state" where
  "setLastPodState_Oc E dss deps = do {
     dsNames \<leftarrow> api (range_names E (map fst dss));
     depNames \<leftarrow> api (range_names E (map fst deps));
     case marshal_pod_state E (snapshot_of dsNames dss depNames deps) of
       Inl e \<Rightarrow> ret (Some e)
     | Inr lsbytes \<Rightarrow> do {
         sm \<leftarrow> gets status;
         api (retry_on_conflict E (patch_last_seen E (sm_name sm) lsbytes))
       }
   }"

definition setLastPodState_K8s ::
  "'w status_api \<Rightarrow> ds_states \<Rightarrow> dep_states \<Rightarrow> ('w operator, go_error option) state" where
  "setLastPodState_K8s E dss deps = ret None"

definition getLastPodState :: "'w status_api \<Rightarrow> ('w operator, ds_states \<times> dep_states) state" where
  "getLastPodState E = do {
     a \<leftarrow> gets (\<lambda>s. sm_Adaptor (status s));
     case a of AdaptorK8s \<Rightarrow> getLastPodState_K8s E | AdaptorOc \<Rightarrow> getLastPodState_Oc E
   }"

definition setLastPodState ::
  "'w status_api \<Rightarrow> ds_states \<Rightarrow> dep_states \<Rightarrow> ('w operator, go_error option) state" where
  "setLastPodState E dss deps = do {
     a \<leftarrow> gets (\<lambda>s. sm_Adaptor (status s));
     case a of AdaptorK8s \<Rightarrow> setLastPodState_K8s E dss deps
             | AdaptorOc \<Rightarrow> setLastPodState_Oc E dss deps
   }"

section \<open>The overall status\<close>

text \<open>What the two loops find out.\<close>

definition survey_rollouts ::
  "'w status_api \<Rightarrow> ('w operator, rollout \<times> ds_states \<times> dep_states) state" where
  "survey_rollouts E = do {
     sm \<leftarrow> gets status;
     let reached = (length (sm_daemonSets sm) + length (sm_deployments sm) > 0);
     last \<leftarrow> getLastPodState E;
     case last of (dsStates, depStates) \<Rightarrow> do {
       acc \<leftarrow> fold_state (ds_step E) (sm_daemonSets sm)
               (\<lparr>ro_progressing = [], ro_hung = [], ro_reached = reached\<rparr>, dsStates);
       case acc of (ro, dsStates') \<Rightarrow> do {
         acc \<leftarrow> fold_state (dep_step E) (sm_deployments sm) (ro, depStates);
         case acc of (ro', depStates') \<Rightarrow> ret (ro', dsStates', depStates')
       }
     }
   }"

definition SetFromPodsForOverall :: "'w status_api \<Rightarrow> ('w operator, unit) state" where
  "SetFromPodsForOverall E = do {
     res \<leftarrow> survey_rollouts E;
     case res of (ro, dsStates, depStates) \<Rightarrow> do {
       setNotDegraded E PodDeployment;
       err \<leftarrow> setLastPodState E dsStates depStates;
       setConditions E (ro_progressing ro) (ro_reached ro);
       if length (ro_hung ro) > 0
       then setDegraded E RolloutHung ''RolloutHung'' (Join (ro_hung ro) [CHR 0x0A])
       else setNotDegraded E RolloutHung
     }
   }"

end
