(* ===== verification/Status_Store.thy ===== *)
theory Status_Store
  imports Rollout_Status
begin

text \<open>
  What the status manager leaves behind. First the frame: writing the cluster status changes
  the outside world only, never the operator's own state. Then the interface \<open>status_store\<close>
  of the API server, as the status manager relies on it: two views of the world (the stored
  ClusterOperators and NcpInstalls), and for each call what it returns and stores when it
  succeeds. A call may always fail. The effect of the status manager is proved against that
  interface.
\<close>

section \<open>The frame: only the world changes\<close>

named_theorems frame \<open>calls that keep the operator's own state\<close>

lemma keeps_setNcpInstallCrdStatus [frame]:
  "keeps local_state (setNcpInstallCrdStatus E ns conds)"
  unfolding setNcpInstallCrdStatus_def by (auto intro!: keeps_rules)

lemma keeps_set_retried [frame]: "keeps local_state (set_retried E c r conds)"
  unfolding set_retried_def by (auto intro!: keeps_rules)

lemma keeps_set_K8s [frame]: "keeps local_state (set_K8s E r conds)"
  unfolding set_K8s_def by (auto intro!: keeps_rules frame)

lemma keeps_set_Oc [frame]: "keeps local_state (set_Oc E r conds)"
  unfolding set_Oc_def by (auto intro!: keeps_rules frame)

lemma keeps_set_status [frame]: "keeps local_state (set_status E r conds)"
  unfolding set_status_def by (auto intro!: keeps_rules frame split: adaptor.splits)

lemma keeps_setConditions [frame]: "keeps local_state (setConditions E p r)"
  unfolding setConditions_def Let_def by (rule frame)

lemma keeps_sync_loop [frame]: "keeps local_state (sync_loop E ls)"
  by (induction ls) (auto intro!: keeps_rules frame)

lemma keeps_syncDegraded [frame]: "keeps local_state (syncDegraded E)"
  unfolding syncDegraded_def by (rule frame)

lemma keeps_getLastPodState [frame]: "keeps local_state (getLastPodState E)"
  unfolding getLastPodState_def getLastPodState_K8s_def getLastPodState_Oc_def Let_def
  by (auto intro!: keeps_rules split: adaptor.splits)

lemma keeps_setLastPodState [frame]: "keeps local_state (setLastPodState E d p)"
  unfolding setLastPodState_def setLastPodState_K8s_def setLastPodState_Oc_def
  by (auto intro!: keeps_rules split: adaptor.splits)

lemma status_of_local: "local_state s' = local_state s \<Longrightarrow> status s' = status s"
  by (simp add: local_state_def)

section \<open>Degraded: the report is the most urgent level\<close>

text \<open>
  The report the levels call for: the condition of the first level that fails, in the order
  of the constants, or Degraded=False.
\<close>

definition degraded_report :: "(status_level \<Rightarrow> condition option) \<Rightarrow> condition" where
  "degraded_report f =
     (case List.map_filter f status_levels of [] \<Rightarrow> degraded_false | c # _ \<Rightarrow> c)"

lemma run_sync_loop:
  "run_state (sync_loop E ls) s =
   run_state (set_status E False
     [case List.map_filter (sm_failing (status s)) ls of [] \<Rightarrow> degraded_false | c # _ \<Rightarrow> c]) s"
  by (induction ls) (auto simp: List.map_filter_simps split: option.splits)

lemma run_syncDegraded:
  "run_state (syncDegraded E) s =
   run_state (set_status E False [degraded_report (sm_failing (status s))]) s"
  by (simp add: syncDegraded_def run_sync_loop degraded_report_def)

lemma run_setDegraded:
  "run_state (setDegraded E l r m) s =
   (let s' = s\<lparr>status := set_failing l (Some (make_condition OperatorDegraded ConditionTrue r m))
                          (status s)\<rparr>
    in run_state (set_status E False [degraded_report (sm_failing (status s'))]) s')"
  by (simp add: setDegraded_def run_syncDegraded Let_def)

lemma set_failing_None [simp]: "sm_failing sm l = None \<Longrightarrow> set_failing l None sm = sm"
  by (simp add: set_failing_def fun_upd_idem)

lemma run_setNotDegraded:
  "run_state (setNotDegraded E l) s =
   (let s' = s\<lparr>status := set_failing l None (status s)\<rparr>
    in run_state (set_status E False [degraded_report (sm_failing (status s'))]) s')"
  by (cases "sm_failing (status s) l") (simp_all add: setNotDegraded_def run_syncDegraded Let_def)

lemma local_setDegraded:
  "local_state (snd (run_state (setDegraded E l r m) s)) =
   local_state (s\<lparr>status := set_failing l
      (Some (make_condition OperatorDegraded ConditionTrue r m)) (status s)\<rparr>)"
  by (simp add: run_setDegraded Let_def keeps_run [OF keeps_set_status])

lemma local_setNotDegraded:
  "local_state (snd (run_state (setNotDegraded E l) s)) =
   local_state (s\<lparr>status := set_failing l None (status s)\<rparr>)"
  by (simp add: run_setNotDegraded Let_def keeps_run [OF keeps_set_status])

lemma status_setDegraded [simp]:
  "status (snd (run_state (setDegraded E l r m) s)) =
   set_failing l (Some (make_condition OperatorDegraded ConditionTrue r m)) (status s)"
  using status_of_local [OF local_setDegraded] by simp

lemma status_setNotDegraded [simp]:
  "status (snd (run_state (setNotDegraded E l) s)) = set_failing l None (status s)"
  using status_of_local [OF local_setNotDegraded] by simp

lemma failing_set_failing [simp]:
  "sm_failing (set_failing l c sm) = (sm_failing sm)(l := c)"
  "sm_name (set_failing l c sm) = sm_name sm"
  "sm_Adaptor (set_failing l c sm) = sm_Adaptor sm"
  "sm_OperatorNamespace (set_failing l c sm) = sm_OperatorNamespace sm"
  "sm_daemonSets (set_failing l c sm) = sm_daemonSets sm"
  "sm_deployments (set_failing l c sm) = sm_deployments sm"
  by (simp_all add: set_failing_def)

section \<open>The conditions computed by \<open>StatusOc.set\<close>\<close>

definition Oc_conditions ::
  "(condition \<Rightarrow> string) \<Rightarrow> condition list \<Rightarrow> condition list \<Rightarrow> (nat \<Rightarrow> time) \<Rightarrow> time \<Rightarrow> time
   \<Rightarrow> condition list" where
  "Oc_conditions fmtv old new ts t2 t3 =
     SetStatusCondition (startup_condition (fst (CombineConditions fmtv old new ts)) t2)
       (make_condition OperatorUpgradeable ConditionTrue [] []) t3"

lemma Find_startup:
  "FindStatusCondition cs t = Some c \<Longrightarrow> FindStatusCondition (startup_condition cs now) t = Some c"
  by (cases "t = OperatorAvailable") (auto simp: startup_condition_def Let_def Find_Set_other)

lemma Find_startup_other:
  "t \<noteq> OperatorAvailable \<Longrightarrow>
   FindStatusCondition (startup_condition cs now) t = FindStatusCondition cs t"
  by (auto simp: startup_condition_def Let_def Find_Set_other)

lemma asserts_startup: "asserts cs ns \<Longrightarrow> asserts (startup_condition cs now) ns"
  unfolding asserts_def using Find_startup by blast

lemma asserts_trans:
  assumes "asserts cs ds" "asserts ds ns"
  shows "asserts cs ns"
  unfolding asserts_def
proof
  fix n assume "n \<in> set ns"
  with assms(2) obtain d where d: "FindStatusCondition ds (ctype n) = Some d" "same_assertion d n"
    by (auto simp: asserts_def)
  with assms(1) obtain c where "FindStatusCondition cs (ctype d) = Some c" "same_assertion c d"
    using Find_Some_ctype unfolding asserts_def by blast
  with d Find_Some_ctype [OF d(1)]
  show "\<exists>c. FindStatusCondition cs (ctype n) = Some c \<and> same_assertion c n"
    by (auto simp: same_assertion_def)
qed

text \<open>Once the startup block has run, it has nothing left to do.\<close>

lemma startup_settled:
  "\<not> (FindStatusCondition (startup_condition cs now) OperatorAvailable = None \<and>
      (\<exists>p. FindStatusCondition (startup_condition cs now) OperatorProgressing = Some p
           \<and> cstatus p = ConditionTrue))"
  by (auto simp: startup_condition_def Let_def Find_Set_same Find_Set_other
      Find_Set_same [of _ "make_condition OperatorAvailable ConditionFalse ''Startup''
                   ''The network is starting up''", simplified]
      split: option.splits if_splits)

lemma startup_idle:
  "\<not> (FindStatusCondition cs OperatorAvailable = None \<and>
      (\<exists>p. FindStatusCondition cs OperatorProgressing = Some p \<and> cstatus p = ConditionTrue)) \<Longrightarrow>
   startup_condition cs now = cs"
  by (auto simp: startup_condition_def Let_def split: option.splits)

lemma distinct_startup:
  "distinct (map ctype cs) \<Longrightarrow> distinct (map ctype (startup_condition cs now))"
  by (simp add: startup_condition_def Let_def distinct_types_Set)

lemma distinct_Oc_conditions:
  "distinct (map ctype old) \<Longrightarrow> distinct (map ctype (Oc_conditions fmtv old new ts t2 t3))"
  by (simp add: Oc_conditions_def distinct_types_Set distinct_startup Combine_types)

lemma asserts_Oc_conditions:
  assumes "distinct (map ctype new)" "OperatorUpgradeable \<notin> ctype ` set new"
  shows "asserts (Oc_conditions fmtv old new ts t2 t3) new"
  unfolding Oc_conditions_def using assms
  by (subst asserts_Set_other) (auto intro: asserts_startup asserts_Combine)

lemma upgradeable_Oc_conditions:
  "asserts (Oc_conditions fmtv old new ts t2 t3)
     [make_condition OperatorUpgradeable ConditionTrue [] []]"
  unfolding Oc_conditions_def by (rule asserts_Set)

text \<open>Computing the status a second time, with later clock readings, changes nothing.\<close>

lemma Oc_conditions_fixpoint:
  assumes "distinct (map ctype new)" "OperatorUpgradeable \<notin> ctype ` set new"
  shows "Oc_conditions fmtv (Oc_conditions fmtv old new ts t2 t3) new us u2 u3 =
         Oc_conditions fmtv old new ts t2 t3" (is "Oc_conditions _ ?cs _ _ _ _ = _")
proof -
  let ?up = "make_condition OperatorUpgradeable ConditionTrue [] []"
  let ?st = "startup_condition (fst (CombineConditions fmtv old new ts)) t2"
  have cs: "?cs = SetStatusCondition ?st ?up t3" by (simp add: Oc_conditions_def)
  have other: "t \<noteq> OperatorUpgradeable \<Longrightarrow>
      FindStatusCondition ?cs t = FindStatusCondition ?st t" for t
    unfolding cs by (rule Find_Set_other) simp
  have "fst (CombineConditions fmtv ?cs new us) = ?cs"
    using assms by (intro Combine_asserted asserts_Oc_conditions) auto
  moreover have "startup_condition ?cs u2 = ?cs"
    using startup_settled [of "fst (CombineConditions fmtv old new ts)" t2]
    by (intro startup_idle) (simp add: other)
  moreover have "SetStatusCondition ?cs ?up u3 = ?cs"
    by (rule Set_asserted) (rule upgradeable_Oc_conditions)
  ultimately show ?thesis by (simp add: Oc_conditions_def [of fmtv ?cs])
qed

lemma versions_for_idem [simp]: "versions_for r (versions_for r v) = versions_for r v"
  by (simp add: versions_for_def)

text \<open>
  \<open>reports co new level\<close>: the ClusterOperator asserts the wanted conditions and
  Upgradeable=True, and its version once the available level is reached.
\<close>

definition reports :: "clusteroperator \<Rightarrow> condition list \<Rightarrow> bool \<Rightarrow> bool" where
  "reports co new level \<longleftrightarrow>
     asserts (co_conditions co) new
     \<and> asserts (co_conditions co) [make_condition OperatorUpgradeable ConditionTrue [] []]
     \<and> (level \<longrightarrow> co_versions co = [(''operator'', operator_version)])"

text \<open>The two ways \<open>set_Oc_write\<close> ends for a ClusterOperator that exists.\<close>

lemma set_Oc_write_cases:
  assumes "run_state (set_Oc_write E level conds sm False co) s = (r, s')"
  obtains (ran) t1 w1 t2 w2 t3 w3 cs co' where
    "clock_now E (world s) = (t1, w1)" "clock_now E w1 = (t2, w2)" "clock_now E w2 = (t3, w3)"
    "cs = Oc_conditions (fmt_condition E) (co_conditions co) conds t1 (t2 0) (t3 0)"
    "co' = co\<lparr>co_versions := versions_for level (co_versions co), co_conditions := cs\<rparr>"
    "(co' = co \<and> r = None \<and> s' = s\<lparr>world := w3\<rparr>)
     \<or> (\<exists>e w4. update_clusteroperator_status E co' w3 = (Some e, w4) \<and> r = Some e
          \<and> s' = s\<lparr>world := w4\<rparr>)
     \<or> (\<exists>w4. update_clusteroperator_status E co' w3 = (None, w4)
          \<and> run_state (setNcpInstallCrdStatus E (sm_OperatorNamespace sm) cs)
                (s\<lparr>world := w4\<rparr>) = (r, s'))"
proof -
  obtain t1 w1 where c1: "clock_now E (world s) = (t1, w1)" by force
  obtain t2 w2 where c2: "clock_now E w1 = (t2, w2)" by force
  obtain t3 w3 where c3: "clock_now E w2 = (t3, w3)" by force
  let ?cs = "Oc_conditions (fmt_condition E) (co_conditions co) conds t1 (t2 0) (t3 0)"
  let ?co = "co\<lparr>co_versions := versions_for level (co_versions co), co_conditions := ?cs\<rparr>"
  have "(r, s') = (if ?cs = co_conditions co \<and> versions_for level (co_versions co) = co_versions co
       then (None, s\<lparr>world := w3\<rparr>)
       else case update_clusteroperator_status E ?co w3 of
              (Some e, w5) \<Rightarrow> (Some e, s\<lparr>world := w5\<rparr>)
            | (None, w5) \<Rightarrow> run_state (setNcpInstallCrdStatus E (sm_OperatorNamespace sm) ?cs)
                (s\<lparr>world := w5\<rparr>))"
    using assms by (auto simp: set_Oc_write_def Let_def c1 c2 c3 Oc_conditions_def
        split: prod.splits option.splits if_splits)
  then show ?thesis
    by (intro ran [OF c1 c2 c3 refl refl])
       (auto split: if_splits prod.splits option.splits intro!: clusteroperator.equality)
qed

section \<open>The API server as an interface\<close>

abbreviation ncp_key :: "string \<Rightarrow> nsname" where
  "ncp_key ns \<equiv> nsn ns NcpInstallCRDName"

locale status_store =
  fixes E :: "'w status_api"
    and co_of :: "'w \<Rightarrow> string \<Rightarrow> clusteroperator option"
    and ni_of :: "'w \<Rightarrow> nsname \<Rightarrow> ncpinstall option"
  assumes get_co: "get_clusteroperator E n w = (rc, w') \<Longrightarrow>
      co_of w' = co_of w \<and> ni_of w' = ni_of w \<and>
      (case rc of Inr c \<Rightarrow> co_of w n = Some c \<and> co_name c = n
               | Inl e \<Rightarrow> is_not_found e \<longrightarrow> co_of w n = None)"
    and update_co: "update_clusteroperator_status E c w = (r, w') \<Longrightarrow>
      ni_of w' = ni_of w \<and>
      co_of w' = (if r = None
        then (co_of w)(co_name c := map_option (\<lambda>old. old\<lparr>co_conditions := co_conditions c,
               co_versions := co_versions c\<rparr>) (co_of w (co_name c)))
        else co_of w)"
    and create_co: "create_clusteroperator E c w = (r, w') \<Longrightarrow>
      ni_of w' = ni_of w \<and>
      co_of w' = (if r = None
        then (co_of w)(co_name c \<mapsto> c\<lparr>co_conditions := [], co_versions := []\<rparr>)
        else co_of w)"
    and get_ni: "get_ncpinstall E k w = (rn, w') \<Longrightarrow>
      co_of w' = co_of w \<and> ni_of w' = ni_of w \<and>
      (case rn of Inr c \<Rightarrow> ni_of w k = Some c \<and> ni_namespace c = ns_namespace k | Inl e \<Rightarrow> True)"
    and update_ni: "update_ncpinstall_status E d w = (r, w') \<Longrightarrow>
      co_of w' = co_of w \<and>
      ni_of w' = (if r = None
        then (ni_of w)(ncp_key (ni_namespace d) :=
               map_option (\<lambda>old. old\<lparr>ni_conditions := ni_conditions d\<rparr>)
                 (ni_of w (ncp_key (ni_namespace d))))
        else ni_of w)"
    and clock: "clock_now E w = (ts, w') \<Longrightarrow> co_of w' = co_of w \<and> ni_of w' = ni_of w"
    and retry: "\<exists>n. retry_on_conflict E f w = attempts n f w"
begin

lemma setNcpInstall_effect:
  assumes "run_state (setNcpInstallCrdStatus E ns conds) s = (r, s')"
  shows "co_of (world s') = co_of (world s)"
    and "r \<noteq> None \<Longrightarrow> ni_of (world s') = ni_of (world s)"
    and "r = None \<Longrightarrow> distinct (map ctype conds) \<Longrightarrow>
         \<exists>crd. ni_of (world s') (ncp_key ns) = Some crd \<and> asserts (ni_conditions crd) conds"
  using assms
  by (auto simp: setNcpInstallCrdStatus_def
      dest!: get_ni update_ni clock dest: Combine_result Combine_False
      split: prod.splits sum.splits if_splits)

text \<open>
  One attempt of \<open>StatusOc.set\<close> that returns no error leaves the wanted conditions in the
  ClusterOperator, unless the ClusterOperator had to be created: \<open>Create\<close> drops the status.
\<close>

lemma set_closure_Oc_persists:
  assumes run: "run_state (set_closure_Oc E level conds) s = (None, s')"
    and exists: "co_of (world s) (sm_name (status s)) \<noteq> None"
    and new: "distinct (map ctype conds)" "OperatorUpgradeable \<notin> ctype ` set conds"
  shows "\<exists>co. co_of (world s') (sm_name (status s)) = Some co \<and> reports co conds level"
proof -
  obtain r w1 where g: "get_clusteroperator E (sm_name (status s)) (world s) = (r, w1)"
    by force
  note G = get_co [OF g]
  obtain co where r: "r = Inr co" and co: "co_of (world s) (sm_name (status s)) = Some co"
      and nm: "co_name co = sm_name (status s)"
    using G run exists by (cases r) (auto simp: set_closure_Oc_def g split: if_splits)
  have "run_state (set_Oc_write E level conds (status s) False co) (s\<lparr>world := w1\<rparr>) = (None, s')"
    using run by (simp add: set_closure_Oc_def g r)
  then show ?thesis
  proof (cases rule: set_Oc_write_cases)
    case (ran t1 w2 t2 w3 t3 w4 cs co')
    have w4: "co_of w4 = co_of (world s)"
      using G clock [OF ran(1)] clock [OF ran(2)] clock [OF ran(3)] by simp
    have rep: "reports co' conds level"
      using asserts_Oc_conditions [OF new] upgradeable_Oc_conditions
      by (auto simp: reports_def versions_for_def ran(4,5))
    have "co_of (world s') (sm_name (status s)) = Some co'"
      using ran(5,6) w4 co nm by (auto dest!: update_co setNcpInstall_effect(1))
    with rep show ?thesis by blast
  qed
qed

lemma set_closure_Oc_keeps_co:
  assumes "run_state (set_closure_Oc E level conds) s = (r, s')" "co_of (world s) n \<noteq> None"
  shows "co_of (world s') n \<noteq> None"
  using assms
  by (auto simp: set_closure_Oc_def set_Oc_write_def Let_def fun_upd_apply
      dest!: get_co update_co create_co clock setNcpInstall_effect(1)
      split: prod.splits sum.splits option.splits if_splits)

text \<open>The retried closure: what one successful attempt leaves is what \<open>set\<close> leaves.\<close>

lemma retried_invariant:
  assumes "run_state (set_retried E c level conds) s = (r, s')"
    and "P (world s)"
    and "\<And>w r t. P w \<Longrightarrow> run_state (c level conds) (s\<lparr>world := w\<rparr>) = (r, t) \<Longrightarrow>
           Q r (world t) \<and> (r \<noteq> None \<longrightarrow> P (world t))"
  shows "Q r (world s')"
proof -
  let ?f = "on_world (c level conds) s"
  obtain n where n: "retry_on_conflict E ?f (world s) = attempts n ?f (world s)"
    using retry by blast
  obtain w' where "attempts n ?f (world s) = (r, w')" "world s' = w'"
    using assms(1) n by (auto simp: set_retried_def split: prod.splits)
  then show ?thesis
    using attempts_induct [of P ?f Q "world s" n r w'] assms(2,3)
    by (fastforce simp: on_world_def split: prod.splits)
qed

theorem set_Oc_persists:
  assumes "run_state (set_retried E (set_closure_Oc E) level conds) s = (None, s')"
    and "co_of (world s) (sm_name (status s)) \<noteq> None"
    and "distinct (map ctype conds)" "OperatorUpgradeable \<notin> ctype ` set conds"
  shows "\<exists>co. co_of (world s') (sm_name (status s)) = Some co \<and> reports co conds level"
proof -
  let ?n = "sm_name (status s)"
  let ?Q = "\<lambda>(r :: go_error option) w. r = None \<longrightarrow>
              (\<exists>co. co_of w ?n = Some co \<and> reports co conds level)"
  have "?Q None (world s')"
  proof (rule retried_invariant [where P = "\<lambda>w. co_of w ?n \<noteq> None" and Q = ?Q, OF assms(1,2)])
    fix w r t
    assume P: "co_of w ?n \<noteq> None"
      and run: "run_state (set_closure_Oc E level conds) (s\<lparr>world := w\<rparr>) = (r, t)"
    show "?Q r (world t) \<and> (r \<noteq> None \<longrightarrow> co_of (world t) ?n \<noteq> None)"
      using set_closure_Oc_keeps_co [OF run] P assms(3,4)
        set_closure_Oc_persists [of level conds "s\<lparr>world := w\<rparr>" t] run by auto
  qed
  then show ?thesis by simp
qed

text \<open>
  A ClusterOperator that does not exist is created, and the server drops the status that the
  new object carries; the NcpInstall is left alone.
\<close>

lemma Oc_conditions_not_empty: "Oc_conditions fmtv old new ts t2 t3 \<noteq> []"
  using upgradeable_Oc_conditions [of fmtv old new ts t2 t3]
  by (auto simp: asserts_def FindStatusCondition_def)

lemma set_closure_Oc_creates:
  assumes run: "run_state (set_closure_Oc E level conds) s = (r, s')"
    and absent: "co_of (world s) (sm_name (status s)) = None"
  shows "ni_of (world s') = ni_of (world s) \<and> co_of (world s') =
    (if r = None then (co_of (world s))(sm_name (status s) \<mapsto> new_clusteroperator (sm_name (status s)))
     else co_of (world s))"
proof -
  obtain x w1 where g: "get_clusteroperator E (sm_name (status s)) (world s) = (x, w1)" by force
  obtain t1 w2 where c1: "clock_now E w1 = (t1, w2)" by force
  obtain t2 w3 where c2: "clock_now E w2 = (t2, w3)" by force
  obtain t3 w4 where c3: "clock_now E w3 = (t3, w4)" by force
  note laws = get_co [OF g] clock [OF c1] clock [OF c2] clock [OF c3]
  have conds: "SetStatusCondition (startup_condition (fst (CombineConditions (fmt_condition E) [] conds t1)) (t2 0))
      (make_condition OperatorUpgradeable ConditionTrue [] []) (t3 0) \<noteq> []"
    using Oc_conditions_not_empty unfolding Oc_conditions_def .
  from run g c1 c2 c3 conds laws absent show ?thesis
    by (auto simp: set_closure_Oc_def set_Oc_write_def Let_def new_clusteroperator_def
        dest!: create_co split: sum.splits if_splits prod.splits)
qed

theorem set_Oc_created:
  assumes "run_state (set_retried E (set_closure_Oc E) level conds) s = (None, s')"
    and "co_of (world s) (sm_name (status s)) = None"
  shows "co_of (world s') (sm_name (status s)) = Some (new_clusteroperator (sm_name (status s)))
    \<and> ni_of (world s') = ni_of (world s)"
proof -
  let ?n = "sm_name (status s)"
  let ?P = "\<lambda>w. co_of w ?n = None \<and> ni_of w = ni_of (world s)"
  let ?Q = "\<lambda>(r :: go_error option) w. r = None \<longrightarrow>
    co_of w ?n = Some (new_clusteroperator ?n) \<and> ni_of w = ni_of (world s)"
  have "?Q None (world s')"
  proof (rule retried_invariant [where P = ?P and Q = ?Q, OF assms(1)])
    fix w r t
    assume P: "?P w" and run: "run_state (set_closure_Oc E level conds) (s\<lparr>world := w\<rparr>) = (r, t)"
    show "?Q r (world t) \<and> (r \<noteq> None \<longrightarrow> ?P (world t))"
      using set_closure_Oc_creates [OF run] P by auto
  qed (use assms(2) in simp)
  then show ?thesis by simp
qed

text \<open>On Kubernetes only the NcpInstall carries the conditions.\<close>

lemma set_closure_K8s_co:
  assumes "run_state (set_closure_K8s E level conds) s = (r, s')"
  shows "co_of (world s') = co_of (world s)"
  using assms
  by (auto simp: set_closure_K8s_def Let_def
      dest!: get_ni clock setNcpInstall_effect(1) split: prod.splits sum.splits)

lemma set_closure_K8s_persists:
  assumes "run_state (set_closure_K8s E level conds) s = (None, s')"
    and "distinct (map ctype conds)"
  shows "\<exists>crd. ni_of (world s') (ncp_key (sm_OperatorNamespace (status s))) = Some crd
           \<and> asserts (ni_conditions crd) conds"
proof -
  obtain ts t2 w where run:
    "run_state (setNcpInstallCrdStatus E (sm_OperatorNamespace (status s))
       (startup_condition (fst (CombineConditions (fmt_condition E) [] conds ts)) t2))
       (s\<lparr>world := w\<rparr>) = (None, s')"
    using assms(1) by (auto simp: set_closure_K8s_def new_clusteroperator_def Let_def split: prod.splits sum.splits)
  let ?cs = "startup_condition (fst (CombineConditions (fmt_condition E) [] conds ts)) t2"
  have "distinct (map ctype ?cs)" by (simp add: distinct_startup Combine_types)
  with setNcpInstall_effect(3) [OF run] obtain crd where
      "ni_of (world s') (ncp_key (sm_OperatorNamespace (status s))) = Some crd"
      "asserts (ni_conditions crd) ?cs" by blast
  moreover have "asserts ?cs conds" using assms(2) by (simp add: asserts_startup asserts_Combine)
  ultimately show ?thesis by (blast intro: asserts_trans)
qed

theorem set_K8s_persists:
  assumes "run_state (set_retried E (set_closure_K8s E) level conds) s = (None, s')"
    and "distinct (map ctype conds)"
  shows "\<exists>crd. ni_of (world s') (ncp_key (sm_OperatorNamespace (status s))) = Some crd
           \<and> asserts (ni_conditions crd) conds"
proof -
  let ?Q = "\<lambda>(r :: go_error option) w. r = None \<longrightarrow>
      (\<exists>crd. ni_of w (ncp_key (sm_OperatorNamespace (status s))) = Some crd
           \<and> asserts (ni_conditions crd) conds)"
  have "?Q None (world s')"
  proof (rule retried_invariant [where P = "\<lambda>_. True" and Q = ?Q, OF assms(1)])
    fix w r t
    assume "run_state (set_closure_K8s E level conds) (s\<lparr>world := w\<rparr>) = (r, t)"
    then show "?Q r (world t) \<and> (r \<noteq> None \<longrightarrow> True)"
      using set_closure_K8s_persists [of level conds "s\<lparr>world := w\<rparr>" t] assms(2) by auto
  qed simp
  then show ?thesis by simp
qed

end

section \<open>An API server that answers\<close>

locale healthy_store = status_store E co_of ni_of
  for E :: "'w status_api" and co_of and ni_of +
  fixes healthy :: "'w \<Rightarrow> bool"
  assumes ok_get_co: "get_clusteroperator E n w = (rc, w') \<Longrightarrow> healthy w \<Longrightarrow>
      healthy w' \<and> (co_of w n \<noteq> None \<longrightarrow> (\<exists>c. rc = Inr c))"
    and ok_update_co: "update_clusteroperator_status E c w = (r, w') \<Longrightarrow> healthy w \<Longrightarrow>
      healthy w' \<and> (co_of w (co_name c) \<noteq> None \<longrightarrow> r = None)"
    and ok_get_ni: "get_ncpinstall E k w = (rn, w') \<Longrightarrow> healthy w \<Longrightarrow>
      healthy w' \<and> (ni_of w k \<noteq> None \<longrightarrow> (\<exists>d. rn = Inr d))"
    and ok_update_ni: "update_ncpinstall_status E d w = (r, w') \<Longrightarrow> healthy w \<Longrightarrow>
      healthy w' \<and> (ni_of w (ncp_key (ni_namespace d)) \<noteq> None \<longrightarrow> r = None)"
    and ok_clock: "clock_now E w = (ts, w') \<Longrightarrow> healthy w \<Longrightarrow> healthy w'"
begin

text \<open>Each call's two laws in one, with one premise: the call itself.\<close>

lemma good_get_co: "get_clusteroperator E n w = (rc, w') \<Longrightarrow>
    co_of w' = co_of w \<and> ni_of w' = ni_of w \<and> (healthy w \<longrightarrow> healthy w') \<and>
    (healthy w \<longrightarrow> (\<forall>c. co_of w n = Some c \<longrightarrow> rc = Inr c \<and> co_name c = n))"
  using get_co [of n w rc w'] ok_get_co [of n w rc w'] by auto

lemma good_update_co: "update_clusteroperator_status E c w = (r, w') \<Longrightarrow>
    ni_of w' = ni_of w \<and> (healthy w \<longrightarrow> healthy w') \<and>
    (\<forall>n. co_of w n \<noteq> None \<longrightarrow> co_of w' n \<noteq> None) \<and>
    (healthy w \<longrightarrow> co_of w (co_name c) \<noteq> None \<longrightarrow> r = None)"
  using update_co [of c w r w'] ok_update_co [of c w r w'] by (auto simp: fun_upd_apply)

lemma good_get_ni: "get_ncpinstall E k w = (rn, w') \<Longrightarrow>
    co_of w' = co_of w \<and> ni_of w' = ni_of w \<and> (healthy w \<longrightarrow> healthy w') \<and>
    (healthy w \<longrightarrow> (\<forall>d. ni_of w k = Some d \<longrightarrow> rn = Inr d \<and> ni_namespace d = ns_namespace k))"
  using get_ni [of k w rn w'] ok_get_ni [of k w rn w'] by auto

lemma good_update_ni: "update_ncpinstall_status E d w = (r, w') \<Longrightarrow>
    co_of w' = co_of w \<and> (healthy w \<longrightarrow> healthy w') \<and>
    (\<forall>n. ni_of w n \<noteq> None \<longrightarrow> ni_of w' n \<noteq> None) \<and>
    (healthy w \<longrightarrow> ni_of w (ncp_key (ni_namespace d)) \<noteq> None \<longrightarrow> r = None)"
  using update_ni [of d w r w'] ok_update_ni [of d w r w'] by (auto simp: fun_upd_apply)

lemma good_clock: "clock_now E w = (ts, w') \<Longrightarrow>
    co_of w' = co_of w \<and> ni_of w' = ni_of w \<and> (healthy w \<longrightarrow> healthy w')"
  using clock [of w ts w'] ok_clock [of w ts w'] by auto

lemmas good = good_get_co good_update_co good_get_ni good_update_ni good_clock

lemma setNcpInstall_ok:
  assumes "run_state (setNcpInstallCrdStatus E ns conds) s = (r, s')" "healthy (world s)"
    and "ni_of (world s) (ncp_key ns) \<noteq> None"
  shows "r = None \<and> healthy (world s')
    \<and> (\<forall>k. ni_of (world s) k \<noteq> None \<longrightarrow> ni_of (world s') k \<noteq> None)"
  using assms
  by (auto simp: setNcpInstallCrdStatus_def dest!: good split: prod.splits sum.splits if_splits)

lemma set_closure_Oc_ok:
  assumes run: "run_state (set_closure_Oc E level conds) s = (r, s')" and h: "healthy (world s)"
    and co: "co_of (world s) (sm_name (status s)) \<noteq> None"
    and ni: "ni_of (world s) (ncp_key (sm_OperatorNamespace (status s))) \<noteq> None"
  shows "r = None \<and> healthy (world s')
    \<and> (\<forall>k. ni_of (world s) k \<noteq> None \<longrightarrow> ni_of (world s') k \<noteq> None)"
proof -
  obtain c w1 where g: "get_clusteroperator E (sm_name (status s)) (world s) = (Inr c, w1)"
      and nm: "co_name c = sm_name (status s)"
    using good_get_co [of "sm_name (status s)" "world s"] h co by (metis not_None_eq surj_pair)
  have "run_state (set_Oc_write E level conds (status s) False c) (s\<lparr>world := w1\<rparr>) = (r, s')"
    using run by (simp add: set_closure_Oc_def g)
  then show ?thesis
  proof (cases rule: set_Oc_write_cases)
    case (ran t1 w2 t2 w3 t3 w4 cs co')
    have "healthy w4 \<and> co_of w4 = co_of (world s) \<and> ni_of w4 = ni_of (world s)"
      using h good_get_co [OF g] good_clock [OF ran(1)] good_clock [OF ran(2)] good_clock [OF ran(3)]
      by simp
    with ran(5,6) co ni nm show ?thesis
      by (auto dest!: good_update_co setNcpInstall_ok)
  qed
qed

lemma set_closure_K8s_ok:
  assumes "run_state (set_closure_K8s E level conds) s = (r, s')" "healthy (world s)"
    and "ni_of (world s) (ncp_key Names.OperatorNamespace) \<noteq> None"
    and "ni_of (world s) (ncp_key (sm_OperatorNamespace (status s))) \<noteq> None"
  shows "r = None \<and> healthy (world s')
    \<and> (\<forall>k. ni_of (world s) k \<noteq> None \<longrightarrow> ni_of (world s') k \<noteq> None)"
  using assms
  by (auto simp: set_closure_K8s_def Let_def
      dest!: good setNcpInstall_ok split: prod.splits sum.splits option.splits if_splits)

text \<open>A first attempt without error is the only one.\<close>

lemma retried_ok:
  assumes "run_state (c level conds) s = (None, t)"
  shows "run_state (set_retried E c level conds) s = (None, s\<lparr>world := world t\<rparr>)"
proof -
  obtain n where "retry_on_conflict E (on_world (c level conds) s) (world s) =
      attempts n (on_world (c level conds) s) (world s)" using retry by blast
  with assms show ?thesis
    by (cases n) (auto simp: set_retried_def on_world_def split: prod.splits option.splits)
qed

text \<open>What the adaptors need of the cluster to publish a status, and what they publish.\<close>

definition publishable :: "'w operator \<Rightarrow> bool" where
  "publishable s \<longleftrightarrow> healthy (world s)
     \<and> co_of (world s) (sm_name (status s)) \<noteq> None
     \<and> ni_of (world s) (ncp_key Names.OperatorNamespace) \<noteq> None
     \<and> ni_of (world s) (ncp_key (sm_OperatorNamespace (status s))) \<noteq> None"

definition published :: "'w operator \<Rightarrow> condition list \<Rightarrow> bool" where
  "published s conds \<longleftrightarrow> (case sm_Adaptor (status s) of
     AdaptorOc \<Rightarrow> (\<exists>co. co_of (world s) (sm_name (status s)) = Some co
                     \<and> asserts (co_conditions co) conds)
   | AdaptorK8s \<Rightarrow> (\<exists>crd. ni_of (world s) (ncp_key (sm_OperatorNamespace (status s))) = Some crd
                     \<and> asserts (ni_conditions crd) conds))"

definition plain_conditions :: "condition list \<Rightarrow> bool" where
  "plain_conditions conds \<longleftrightarrow>
     distinct (map ctype conds) \<and> OperatorUpgradeable \<notin> ctype ` set conds"

lemma set_status_publishes:
  assumes pub: "publishable s" and conds: "plain_conditions conds"
    and run: "run_state (set_status E level conds) s = (u, s')"
  shows "publishable s' \<and> published s' conds"
proof (cases "sm_Adaptor (status s)")
  case AdaptorOc
  obtain r t where c: "run_state (set_closure_Oc E level conds) s = (r, t)" by force
  note P = pub [unfolded publishable_def] and C = conds [unfolded plain_conditions_def]
  have ok: "r = None \<and> healthy (world t)
      \<and> (\<forall>k. ni_of (world s) k \<noteq> None \<longrightarrow> ni_of (world t) k \<noteq> None)"
    using set_closure_Oc_ok [OF c] P by blast
  then have s': "s' = s\<lparr>world := world t\<rparr>"
    using run AdaptorOc c retried_ok [of "set_closure_Oc E" level conds s t]
    by (simp add: set_status_def set_Oc_def)
  have "\<exists>co. co_of (world t) (sm_name (status s)) = Some co \<and> reports co conds level"
    using set_closure_Oc_persists [of level conds s t] c ok P C by blast
  then show ?thesis
    using s' ok P AdaptorOc by (auto simp: publishable_def published_def reports_def)
next
  case AdaptorK8s
  obtain r t where c: "run_state (set_closure_K8s E level conds) s = (r, t)" by force
  note P = pub [unfolded publishable_def] and C = conds [unfolded plain_conditions_def]
  have ok: "r = None \<and> healthy (world t)
      \<and> (\<forall>k. ni_of (world s) k \<noteq> None \<longrightarrow> ni_of (world t) k \<noteq> None)"
    using set_closure_K8s_ok [OF c] P by blast
  then have s': "s' = s\<lparr>world := world t\<rparr>"
    using run AdaptorK8s c retried_ok [of "set_closure_K8s E" level conds s t]
    by (simp add: set_status_def set_K8s_def)
  show ?thesis
    using set_closure_K8s_persists [of level conds s t] set_closure_K8s_co [OF c]
      s' ok c P C AdaptorK8s
    by (auto simp: publishable_def published_def)
qed

end

end
