(* ===== verification/Status_Levels.thy ===== *)
theory Status_Levels
  imports Status_Store
begin

text \<open>
  Sequences of operations on the status manager. The abstract specification of the
  Degraded status is a map from levels to conditions, changed by \<open>SetDegraded\<close> and
  \<open>SetNotDegraded\<close>; the refinement says that after any sequence of them the manager holds
  that map and the cluster reports its most urgent entry.
\<close>

section \<open>The abstract specification\<close>

datatype level_event = Fail status_level string string | Clear status_level

fun spec_event :: "level_event \<Rightarrow> (status_level \<Rightarrow> condition option) \<Rightarrow> status_level
    \<Rightarrow> condition option" where
  "spec_event (Fail l r m) f = f(l := Some (make_condition OperatorDegraded ConditionTrue r m))"
| "spec_event (Clear l) f = f(l := None)"

fun run_event :: "'w status_api \<Rightarrow> level_event \<Rightarrow> ('w operator, unit) state" where
  "run_event E (Fail l r m) = SetDegraded E l r m"
| "run_event E (Clear l) = SetNotDegraded E l"

fun run_events :: "'w status_api \<Rightarrow> level_event list \<Rightarrow> ('w operator, unit) state" where
  "run_events E [] = ret ()"
| "run_events E (e # es) = do { run_event E e; run_events E es }"

text \<open>Every recorded condition is a Degraded=True condition.\<close>

definition degraded_only :: "(status_level \<Rightarrow> condition option) \<Rightarrow> bool" where
  "degraded_only f \<longleftrightarrow> (\<forall>l c. f l = Some c \<longrightarrow> ctype c = OperatorDegraded \<and> cstatus c = ConditionTrue)"

lemma degraded_only_event [simp]: "degraded_only f \<Longrightarrow> degraded_only (spec_event e f)"
  by (cases e) (auto simp: degraded_only_def)

lemma degraded_only_fold: "degraded_only f \<Longrightarrow> degraded_only (fold spec_event es f)"
  by (induction es arbitrary: f) auto

lemma degraded_only_initial [simp]: "degraded_only (\<lambda>_. None)"
  by (simp add: degraded_only_def)

lemma map_filter_Cons_elem: "List.map_filter f xs = c # cs \<Longrightarrow> \<exists>x \<in> set xs. f x = Some c"
  by (induction xs) (auto simp: List.map_filter_simps split: option.splits)

lemma ctype_degraded_report:
  "degraded_only f \<Longrightarrow> ctype (degraded_report f) = OperatorDegraded"
  by (auto simp: degraded_report_def degraded_only_def split: list.splits
      dest!: map_filter_Cons_elem)

lemma map_filter_Nil_iff: "List.map_filter f xs = [] \<longleftrightarrow> (\<forall>x \<in> set xs. f x = None)"
  by (induction xs) (auto simp: List.map_filter_simps split: option.splits)

lemma status_levels_UNIV: "set status_levels = UNIV"
  by (auto simp: status_levels_def) (metis status_level.exhaust)

text \<open>Degraded=True is reported exactly when some level fails.\<close>

lemma degraded_report_True_iff:
  assumes "degraded_only f"
  shows "cstatus (degraded_report f) = ConditionTrue \<longleftrightarrow> (\<exists>l. f l \<noteq> None)"
proof (cases "List.map_filter f status_levels")
  case Nil
  then have "\<forall>l. f l = None" by (simp add: map_filter_Nil_iff status_levels_UNIV)
  with Nil show ?thesis by (simp add: degraded_report_def)
next
  case (Cons c cs)
  with map_filter_Cons_elem [OF Cons] assms show ?thesis
    by (auto simp: degraded_report_def degraded_only_def)
qed

text \<open>
  The report in terms of urgency alone: the entry of the most urgent failing level, or
  Degraded=False when no level fails.
\<close>

definition most_urgent :: "(status_level \<Rightarrow> condition option) \<Rightarrow> condition \<Rightarrow> bool" where
  "most_urgent f c \<longleftrightarrow>
     (if \<forall>l. f l = None then c = degraded_false
      else \<exists>l. f l = Some c \<and> (\<forall>l' < l. f l' = None))"

lemma sorted_status_levels: "sorted status_levels"
  by (simp add: status_levels_def less_eq_status_level_def)

lemma least_map_filter:
  assumes "List.map_filter f xs = c # cs" and "sorted xs"
  shows "\<exists>x \<in> set xs. f x = Some c \<and> (\<forall>y \<in> set xs. y < x \<longrightarrow> f y = None)"
  using assms
proof (induction xs)
  case (Cons x xs)
  show ?case
  proof (cases "f x")
    case None
    with Cons show ?thesis by (auto simp: List.map_filter_simps)
  next
    case (Some d)
    with Cons.prems show ?thesis by (auto simp: List.map_filter_simps)
  qed
qed (simp add: List.map_filter_simps)

lemma degraded_report_most_urgent: "most_urgent f (degraded_report f)"
proof (cases "List.map_filter f status_levels")
  case Nil
  then have "\<forall>l. f l = None" by (simp add: map_filter_Nil_iff status_levels_UNIV)
  with Nil show ?thesis by (simp add: most_urgent_def degraded_report_def)
next
  case (Cons c cs)
  from least_map_filter [OF Cons sorted_status_levels] obtain l where
    "f l = Some c" "\<forall>l' < l. f l' = None" by (auto simp: status_levels_UNIV)
  with Cons show ?thesis by (auto simp: most_urgent_def degraded_report_def)
qed

lemma most_urgent_unique: "most_urgent f c \<Longrightarrow> most_urgent f d \<Longrightarrow> c = d"
  by (auto simp: most_urgent_def split: if_splits) (metis linorder_less_linear option.distinct(1) option.inject)

section \<open>The refinement\<close>

lemma status_run_event [simp]:
  "sm_failing (status (snd (run_state (run_event E e) s))) = spec_event e (sm_failing (status s))"
  by (cases e) (simp_all add: SetDegraded_def SetNotDegraded_def)

lemma status_after_event:
  "status (snd (run_state (run_event E e) s)) =
     (status s)\<lparr>sm_failing := spec_event e (sm_failing (status s))\<rparr>"
  by (cases e) (simp_all add: SetDegraded_def SetNotDegraded_def set_failing_def)

lemma status_after_events:
  "status (snd (run_state (run_events E es) s)) =
     (status s)\<lparr>sm_failing := fold spec_event es (sm_failing (status s))\<rparr>"
proof (induction es arbitrary: s)
  case (Cons e es)
  have "snd (run_state (run_events E (e # es)) s) =
      snd (run_state (run_events E es) (snd (run_state (run_event E e) s)))"
    by (simp split: prod.splits)
  with Cons status_after_event [of E e s] show ?case by simp
qed simp

lemma run_event_set_status:
  "run_state (run_event E e) s =
   (let s' = s\<lparr>status := (status s)\<lparr>sm_failing := spec_event e (sm_failing (status s))\<rparr>\<rparr>
    in run_state (set_status E False [degraded_report (sm_failing (status s'))]) s')"
  by (cases e)
     (simp_all add: SetDegraded_def SetNotDegraded_def run_setDegraded run_setNotDegraded
      set_failing_def)

context healthy_store
begin

lemma plain_degraded: "degraded_only f \<Longrightarrow> plain_conditions [degraded_report f]"
  by (simp add: plain_conditions_def ctype_degraded_report)

lemma run_event_reports:
  assumes "publishable s" "degraded_only (sm_failing (status s))"
    and "run_state (run_event E e) s = (u, s')"
  shows "publishable s' \<and> sm_failing (status s') = spec_event e (sm_failing (status s))
    \<and> published s' [degraded_report (spec_event e (sm_failing (status s)))]"
proof -
  let ?s = "s\<lparr>status := (status s)\<lparr>sm_failing := spec_event e (sm_failing (status s))\<rparr>\<rparr>"
  have "publishable ?s" using assms(1) by (simp add: publishable_def)
  moreover have "run_state (set_status E False [degraded_report (sm_failing (status ?s))]) ?s = (u, s')"
    using assms(3) by (simp add: run_event_set_status Let_def)
  ultimately have "publishable s' \<and> published s' [degraded_report (sm_failing (status ?s))]"
    using assms(2) by (intro set_status_publishes) (auto intro: plain_degraded)
  with status_run_event [of E e s] assms(3) show ?thesis by simp
qed

theorem run_events_reports:
  assumes "publishable s" "degraded_only (sm_failing (status s))" "es \<noteq> []"
    and "run_state (run_events E es) s = (u, s')"
  shows "publishable s' \<and> sm_failing (status s') = fold spec_event es (sm_failing (status s))
    \<and> published s' [degraded_report (fold spec_event es (sm_failing (status s)))]"
  using assms
proof (induction es arbitrary: s)
  case (Cons e es)
  define s1 where "s1 = snd (run_state (run_event E e) s)"
  then have one: "run_state (run_event E e) s = ((), s1)" by (simp add: prod_eq_iff)
  note R = run_event_reports [OF Cons.prems(1,2) one]
  have rest: "run_state (run_events E es) s1 = (u, s')" using Cons.prems(4) one by simp
  show ?case
  proof (cases "es = []")
    case True
    with rest R show ?thesis by simp
  next
    case False
    with Cons.IH [of s1] R Cons.prems(2) rest show ?thesis by simp
  qed
qed simp

end

end
