(* ===== verification/Mem_Api.thy ===== *)
theory Mem_Api
  imports Status_Levels
begin

text \<open>
  A cluster in memory: stores of objects, a clock that moves by one second at each reading,
  and a list of faults, each of which makes one call fail. It provides the status manager's
  API (\<open>mem_api\<close>) and the interfaces \<open>status_store\<close> and \<open>healthy_store\<close>. The Kubernetes API
  server is not part of this repository; this provider shows that the interfaces can be met
  and lets concrete runs be evaluated. Formatting and the JSON codec remain arguments.
\<close>

record mem_world =
  m_cos :: "string \<rightharpoonup> clusteroperator"
  m_nis :: "nsname \<rightharpoonup> ncpinstall"
  m_pods :: "((string \<times> string) \<times> pod) list"
  m_nodes :: "node list"
  m_dss :: "nsname \<rightharpoonup> daemonset"
  m_deps :: "nsname \<rightharpoonup> deployment"
  m_clock :: time
  m_faults :: "go_error option list"

section \<open>Faults\<close>

text \<open>The fault of the next call, if any; a read never reports an existing object as absent.\<close>

definition next_fault :: "'a mem_world_scheme \<Rightarrow> go_error option \<times> 'a mem_world_scheme" where
  "next_fault w = (case m_faults w of [] \<Rightarrow> (None, w) | f # fs \<Rightarrow> (f, w\<lparr>m_faults := fs\<rparr>))"

fun transient :: "go_error \<Rightarrow> go_error" where
  "transient (NotFound m) = GoError m"
| "transient e = e"

lemma transient_not_found [simp]: "\<not> is_not_found (transient e)"
  by (cases e) auto

definition reading ::
  "('a mem_world_scheme \<Rightarrow> go_error + 'r) \<Rightarrow> 'a mem_world_scheme
   \<Rightarrow> (go_error + 'r) \<times> 'a mem_world_scheme" where
  "reading f w = (case next_fault w of (Some e, w') \<Rightarrow> (Inl (transient e), w')
                                     | (None, w') \<Rightarrow> (f w', w'))"

definition writing ::
  "('a mem_world_scheme \<Rightarrow> go_error option \<times> 'a mem_world_scheme) \<Rightarrow> 'a mem_world_scheme
   \<Rightarrow> go_error option \<times> 'a mem_world_scheme" where
  "writing f w = (case next_fault w of (Some e, w') \<Rightarrow> (Some e, w') | (None, w') \<Rightarrow> f w')"

text \<open>A view that the faults leave alone is kept by reads, and by writes that keep it.\<close>

definition faultless :: "('a mem_world_scheme \<Rightarrow> 'v) \<Rightarrow> bool" where
  "faultless V \<longleftrightarrow> (\<forall>w. V (snd (next_fault w)) = V w)"

lemma faultlessD: "faultless V \<Longrightarrow> next_fault w = (f, w') \<Longrightarrow> V w' = V w"
  unfolding faultless_def by (metis snd_conv)

lemma reading_view: "faultless V \<Longrightarrow> V (snd (reading f w)) = V w"
  by (auto simp: reading_def dest: faultlessD split: prod.splits option.splits)

lemma writing_view:
  "faultless V \<Longrightarrow> (\<And>w. V (snd (f w)) = V w) \<Longrightarrow> V (snd (writing f w)) = V w"
  by (auto simp: writing_def dest: faultlessD split: prod.splits option.splits)

definition found :: "string \<Rightarrow> 'r option \<Rightarrow> go_error + 'r" where
  "found what x = (case x of None \<Rightarrow> Inl (NotFound (what @ '' not found'')) | Some y \<Rightarrow> Inr y)"

section \<open>The calls\<close>

definition mem_co :: "'a mem_world_scheme \<Rightarrow> string \<Rightarrow> clusteroperator option" where
  "mem_co w n = map_option (\<lambda>c. c\<lparr>co_name := n\<rparr>) (m_cos w n)"

definition mem_ni :: "'a mem_world_scheme \<Rightarrow> nsname \<Rightarrow> ncpinstall option" where
  "mem_ni w k = map_option (\<lambda>c. c\<lparr>ni_namespace := ns_namespace k\<rparr>) (m_nis w k)"

definition mem_update_co ::
  "clusteroperator \<Rightarrow> 'a mem_world_scheme \<Rightarrow> go_error option \<times> 'a mem_world_scheme" where
  "mem_update_co c w =
     (case m_cos w (co_name c) of
        None \<Rightarrow> (Some (NotFound ''clusteroperator not found''), w)
      | Some old \<Rightarrow> (None, w\<lparr>m_cos := (m_cos w)(co_name c \<mapsto>
            old\<lparr>co_conditions := co_conditions c, co_versions := co_versions c\<rparr>)\<rparr>))"

definition mem_create_co ::
  "clusteroperator \<Rightarrow> 'a mem_world_scheme \<Rightarrow> go_error option \<times> 'a mem_world_scheme" where
  "mem_create_co c w =
     (if m_cos w (co_name c) \<noteq> None then (Some (GoError ''clusteroperator already exists''), w)
      else (None, w\<lparr>m_cos := (m_cos w)(co_name c \<mapsto>
             c\<lparr>co_conditions := [], co_versions := []\<rparr>)\<rparr>))"

definition mem_patch_co ::
  "clusteroperator \<Rightarrow> clusteroperator \<Rightarrow> 'a mem_world_scheme \<Rightarrow> go_error option \<times> 'a mem_world_scheme"
where
  "mem_patch_co new old w =
     (case m_cos w (co_name new) of
        None \<Rightarrow> (Some (NotFound ''clusteroperator not found''), w)
      | Some c \<Rightarrow> (None, w\<lparr>m_cos := (m_cos w)(co_name new \<mapsto>
            c\<lparr>co_annotations := co_annotations new\<rparr>)\<rparr>))"

definition mem_update_ni ::
  "ncpinstall \<Rightarrow> 'a mem_world_scheme \<Rightarrow> go_error option \<times> 'a mem_world_scheme" where
  "mem_update_ni c w =
     (let k = ncp_key (ni_namespace c) in
      case m_nis w k of
        None \<Rightarrow> (Some (NotFound ''ncpinstall not found''), w)
      | Some old \<Rightarrow>
          (None, w\<lparr>m_nis := (m_nis w)(k \<mapsto> old\<lparr>ni_conditions := ni_conditions c\<rparr>)\<rparr>))"

definition mem_update_node ::
  "node \<Rightarrow> 'a mem_world_scheme \<Rightarrow> go_error option \<times> 'a mem_world_scheme" where
  "mem_update_node nd w =
     (if find (\<lambda>n. n_name n = n_name nd) (m_nodes w) = None
      then (Some (NotFound ''node not found''), w)
      else (None, w\<lparr>m_nodes := update_first (\<lambda>n. n_name n = n_name nd)
             (\<lambda>n. n\<lparr>n_conditions := n_conditions nd\<rparr>) (m_nodes w)\<rparr>))"

definition mem_clock :: "'a mem_world_scheme \<Rightarrow> (nat \<Rightarrow> time) \<times> 'a mem_world_scheme" where
  "mem_clock w = ((\<lambda>i. m_clock w + int i), w\<lparr>m_clock := m_clock w + second\<rparr>)"

definition mem_api ::
  "(pod_state \<Rightarrow> go_error + string) \<Rightarrow> (string \<Rightarrow> go_error + pod_state)
   \<Rightarrow> 'a mem_world_scheme status_api" where
  "mem_api mar unmar =
     \<lparr>get_ncpinstall = (\<lambda>k. reading (\<lambda>w. found ''ncpinstall'' (mem_ni w k))),
      update_ncpinstall_status = (\<lambda>c. writing (mem_update_ni c)),
      get_clusteroperator = (\<lambda>n. reading (\<lambda>w. found ''clusteroperator'' (mem_co w n))),
      create_clusteroperator = (\<lambda>c. writing (mem_create_co c)),
      update_clusteroperator_status = (\<lambda>c. writing (mem_update_co c)),
      patch_clusteroperator = (\<lambda>new old. writing (mem_patch_co new old)),
      list_pods = (\<lambda>l. reading (\<lambda>w. Inr (map snd (filter (\<lambda>p. fst p = l) (m_pods w))))),
      get_pod = (\<lambda>k. reading (\<lambda>w. found ''pod'' (find (\<lambda>p. p_namespace p = ns_namespace k
                   \<and> p_name p = ns_name k) (map snd (m_pods w))))),
      list_nodes = reading (\<lambda>w. Inr (m_nodes w)),
      get_node = (\<lambda>n. reading (\<lambda>w. found ''node'' (find (\<lambda>nd. n_name nd = n) (m_nodes w)))),
      update_node_status = (\<lambda>nd. writing (mem_update_node nd)),
      get_daemonset = (\<lambda>k. reading (\<lambda>w. found ''daemonset'' (m_dss w k))),
      get_deployment = (\<lambda>k. reading (\<lambda>w. found ''deployment'' (m_deps w k))),
      retry_on_conflict = attempts 3,
      clock_now = mem_clock,
      range_keys = (\<lambda>ks w. (ks, w)),
      range_names = (\<lambda>ks w. (ks, w)),
      marshal_pod_state = mar,
      unmarshal_pod_state = unmar,
      fmt_condition = (\<lambda>c. ctype c @ ''='' @ cstatus c),
      fmt_duration = (\<lambda>d. Itoa (d div second) @ ''s''),
      fmt_time = (\<lambda>t. Itoa (t div second))\<rparr>"

section \<open>It meets the interfaces\<close>

lemma next_fault_stores:
  "next_fault w = (f, w') \<Longrightarrow> mem_co w' = mem_co w \<and> mem_ni w' = mem_ni w
     \<and> m_cos w' = m_cos w \<and> m_nis w' = m_nis w \<and> (m_faults w = [] \<longrightarrow> m_faults w' = [] \<and> f = None)"
  by (auto simp: next_fault_def mem_co_def mem_ni_def fun_eq_iff split: list.splits)

lemma reading_stores:
  "reading f w = (r, w') \<Longrightarrow> mem_co w' = mem_co w \<and> mem_ni w' = mem_ni w
     \<and> m_cos w' = m_cos w \<and> m_nis w' = m_nis w
     \<and> (r = f w' \<or> (\<exists>e. r = Inl (transient e)))
     \<and> (m_faults w = [] \<longrightarrow> m_faults w' = [] \<and> r = f w')"
  by (auto simp: reading_def dest: next_fault_stores split: prod.splits option.splits)

lemma writing_stores:
  assumes "writing f w = (r, w')"
  obtains (ran) w1 where "mem_co w1 = mem_co w" "mem_ni w1 = mem_ni w" "f w1 = (r, w')"
      "m_faults w = [] \<longrightarrow> m_faults w1 = []"
    | (fault) "r \<noteq> None" "mem_co w' = mem_co w" "mem_ni w' = mem_ni w" "m_faults w \<noteq> []"
  using assms
  by (fastforce simp: writing_def dest: next_fault_stores split: prod.splits option.splits)

lemma mem_update_co_law:
  assumes "mem_update_co c w = (r, w')"
  shows "mem_ni w' = mem_ni w \<and> m_faults w' = m_faults w \<and>
    mem_co w' = (if r = None
       then (mem_co w)(co_name c := map_option (\<lambda>old. old\<lparr>co_conditions := co_conditions c,
               co_versions := co_versions c\<rparr>) (mem_co w (co_name c)))
       else mem_co w) \<and>
    (mem_co w (co_name c) \<noteq> None \<longrightarrow> r = None)"
  using assms
  by (auto simp: mem_update_co_def mem_co_def mem_ni_def fun_eq_iff split: option.splits)

lemma mem_create_co_law:
  assumes "mem_create_co c w = (r, w')"
  shows "mem_ni w' = mem_ni w \<and>
    mem_co w' = (if r = None then (mem_co w)(co_name c \<mapsto> c\<lparr>co_conditions := [], co_versions := []\<rparr>)
                  else mem_co w)"
  using assms
  by (auto simp: mem_create_co_def mem_co_def mem_ni_def fun_eq_iff split: if_splits)

lemma mem_update_ni_law:
  assumes "mem_update_ni d w = (r, w')"
  shows "mem_co w' = mem_co w \<and> m_faults w' = m_faults w \<and>
    mem_ni w' = (if r = None
       then (mem_ni w)(ncp_key (ni_namespace d) :=
              map_option (\<lambda>old. old\<lparr>ni_conditions := ni_conditions d\<rparr>)
                (mem_ni w (ncp_key (ni_namespace d))))
       else mem_ni w) \<and>
    (mem_ni w (ncp_key (ni_namespace d)) \<noteq> None \<longrightarrow> r = None)"
  using assms
  by (auto simp: mem_update_ni_def mem_co_def mem_ni_def fun_eq_iff Let_def split: option.splits)

lemma mem_clock_law:
  "mem_clock w = (ts, w') \<Longrightarrow> mem_co w' = mem_co w \<and> mem_ni w' = mem_ni w \<and> m_faults w' = m_faults w"
  by (auto simp: mem_clock_def mem_co_def mem_ni_def)

lemma found_cases: "found what x = r \<Longrightarrow>
   (case r of Inr y \<Rightarrow> x = Some y | Inl e \<Rightarrow> x = None)"
  by (auto simp: found_def split: option.splits)

lemma mem_api_sel [simp]:
  "get_ncpinstall (mem_api mar unmar) k = reading (\<lambda>w. found ''ncpinstall'' (mem_ni w k))"
  "update_ncpinstall_status (mem_api mar unmar) d = writing (mem_update_ni d)"
  "get_clusteroperator (mem_api mar unmar) n = reading (\<lambda>w. found ''clusteroperator'' (mem_co w n))"
  "create_clusteroperator (mem_api mar unmar) c = writing (mem_create_co c)"
  "update_clusteroperator_status (mem_api mar unmar) c = writing (mem_update_co c)"
  "clock_now (mem_api mar unmar) = mem_clock"
  "retry_on_conflict (mem_api mar unmar) = attempts 3"
  by (simp_all add: mem_api_def)

lemma mem_get_co_law:
  assumes "get_clusteroperator (mem_api mar unmar) n w = (r, w')"
  shows "mem_co w' = mem_co w \<and> mem_ni w' = mem_ni w \<and>
      (case r of Inr c \<Rightarrow> mem_co w n = Some c \<and> co_name c = n
               | Inl e \<Rightarrow> is_not_found e \<longrightarrow> mem_co w n = None)"
    "m_faults w = [] \<Longrightarrow> m_faults w' = [] \<and> (mem_co w n \<noteq> None \<longrightarrow> (\<exists>c. r = Inr c))"
  using reading_stores [OF assms [simplified]]
  by (auto simp: found_def mem_co_def split: option.splits)

lemma mem_get_ni_law:
  assumes "get_ncpinstall (mem_api mar unmar) k w = (r, w')"
  shows "mem_co w' = mem_co w \<and> mem_ni w' = mem_ni w \<and>
      (case r of Inr c \<Rightarrow> mem_ni w k = Some c \<and> ni_namespace c = ns_namespace k | Inl e \<Rightarrow> True)"
    "m_faults w = [] \<Longrightarrow> m_faults w' = [] \<and> (mem_ni w k \<noteq> None \<longrightarrow> (\<exists>c. r = Inr c))"
  using reading_stores [OF assms [simplified]]
  by (auto simp: found_def mem_ni_def split: option.splits)

interpretation mem: healthy_store "mem_api mar unmar" mem_co mem_ni "\<lambda>w. m_faults w = []"
  for mar unmar
proof
  show "get_clusteroperator (mem_api mar unmar) n w = (r, w') \<Longrightarrow>
      mem_co w' = mem_co w \<and> mem_ni w' = mem_ni w \<and>
      (case r of Inr c \<Rightarrow> mem_co w n = Some c \<and> co_name c = n
               | Inl e \<Rightarrow> is_not_found e \<longrightarrow> mem_co w n = None)" for n w r w'
    by (rule mem_get_co_law(1))
  show "get_clusteroperator (mem_api mar unmar) n w = (r, w') \<Longrightarrow> m_faults w = [] \<Longrightarrow>
      m_faults w' = [] \<and> (mem_co w n \<noteq> None \<longrightarrow> (\<exists>c. r = Inr c))" for n w r w'
    by (rule mem_get_co_law(2))
  show "get_ncpinstall (mem_api mar unmar) k w = (r, w') \<Longrightarrow>
      mem_co w' = mem_co w \<and> mem_ni w' = mem_ni w \<and>
      (case r of Inr c \<Rightarrow> mem_ni w k = Some c \<and> ni_namespace c = ns_namespace k | Inl e \<Rightarrow> True)"
    for k w r w' by (rule mem_get_ni_law(1))
  show "get_ncpinstall (mem_api mar unmar) k w = (r, w') \<Longrightarrow> m_faults w = [] \<Longrightarrow>
      m_faults w' = [] \<and> (mem_ni w k \<noteq> None \<longrightarrow> (\<exists>d. r = Inr d))" for k w r w'
    by (rule mem_get_ni_law(2))
qed (auto elim!: writing_stores dest!: mem_update_co_law mem_create_co_law mem_update_ni_law
       mem_clock_law)

end
