(* ===== verification/Node_Store.thy ===== *)
theory Node_Store
  imports Mem_Api
begin

text \<open>
  Correctness of the node conditions. The scan of a pod is characterised (ready exactly when
  there are containers and all of them run; the recorded start is the latest one), the guard
  against outdated pod events keeps the recorded start times monotone, and against the
  interface \<open>node_store\<close> (reading and updating nodes) a run without error leaves the node
  with the NetworkUnavailable condition that the pod calls for.
\<close>

section \<open>The scan of a pod\<close>

lemma scan_container_ready:
  "sc_ready (scan_container fd pn now sc cs) \<longleftrightarrow> sc_ready sc \<and> cs_running cs \<noteq> None"
  by (auto simp: scan_container_def Let_def split: option.splits)

lemma scan_ready:
  "sc_ready (foldl (scan_container fd pn now) sc css) \<longleftrightarrow>
     sc_ready sc \<and> (\<forall>cs \<in> set css. cs_running cs \<noteq> None)"
  by (induction css arbitrary: sc) (auto simp: scan_container_ready)

text \<open>The start times of the running containers, and their maximum.\<close>

definition starts_of :: "container_status list \<Rightarrow> time list" where
  "starts_of css = List.map_filter cs_running css"

fun latest :: "time option \<Rightarrow> time list \<Rightarrow> time option" where
  "latest l [] = l"
| "latest None (t # ts) = latest (Some t) ts"
| "latest (Some l) (t # ts) = latest (Some (max l t)) ts"

lemma time_Sub_pos: "time_Sub t u > 0 \<longleftrightarrow> t > u"
  by (auto simp: time_Sub_def max_duration_def min_duration_def)

lemma grace_over:
  "TimeBeforeRecoverNetwork \<le> time_Sub t u \<longleftrightarrow> u + TimeBeforeRecoverNetwork \<le> t"
  by (auto simp: time_Sub_def max_duration_def min_duration_def TimeBeforeRecoverNetwork_def second_def)

lemma scan_latest:
  "sc_lastStartedAt (foldl (scan_container fd pn now) sc css) =
     latest (sc_lastStartedAt sc) (starts_of css)"
proof (induction css arbitrary: sc)
  case (Cons cs css)
  show ?case
  proof (cases "cs_running cs")
    case None
    then have "sc_lastStartedAt (scan_container fd pn now sc cs) = sc_lastStartedAt sc"
      by (auto simp: scan_container_def split: option.splits)
    with None Cons show ?thesis by (simp add: starts_of_def List.map_filter_simps)
  next
    case (Some t)
    then have "sc_lastStartedAt (scan_container fd pn now sc cs) =
        Some (case sc_lastStartedAt sc of None \<Rightarrow> t | Some l \<Rightarrow> max l t)"
      by (auto simp: scan_container_def Let_def time_Sub_pos max_def split: option.splits)
    with Some Cons show ?thesis
      by (auto simp: starts_of_def List.map_filter_simps split: option.splits)
  qed
qed (simp add: starts_of_def List.map_filter_simps)

lemma latest_Some: "latest (Some l) ts = Some (fold max ts l)"
  by (induction ts arbitrary: l) (auto simp: max.commute)

lemma fold_max_ge: "(l :: int) \<le> fold max ts l \<and> (\<forall>t \<in> set ts. t \<le> fold max ts l)"
  by (induction ts arbitrary: l) (force simp: max_def)+

lemma latest_ge: "latest None ts = Some m \<Longrightarrow> \<forall>t \<in> set ts. t \<le> m"
  by (cases ts) (use fold_max_ge in \<open>auto simp: latest_Some\<close>)

lemma latest_None: "latest None ts = None \<longleftrightarrow> ts = []"
  by (cases ts) (auto simp: latest_Some)

definition all_running :: "pod \<Rightarrow> bool" where
  "all_running p \<longleftrightarrow>
     p_containerStatuses p \<noteq> [] \<and> (\<forall>cs \<in> set (p_containerStatuses p). cs_running cs \<noteq> None)"

lemma scan_pod_ready: "sc_ready (scan_pod fd now p) \<longleftrightarrow> all_running p"
  by (auto simp: scan_pod_def scan_ready scan_init_def all_running_def)

lemma scan_pod_latest:
  "sc_lastStartedAt (scan_pod fd now p) = latest None (starts_of (p_containerStatuses p))"
  by (simp add: scan_pod_def scan_latest scan_init_def)

lemma starts_of_mem:
  "cs \<in> set css \<Longrightarrow> cs_running cs = Some t \<Longrightarrow> t \<in> set (starts_of css)"
  by (auto simp: starts_of_def map_filter_def image_iff intro!: bexI [of _ cs])

text \<open>A ready pod has a latest start, so the nil dereference cannot happen.\<close>

lemma ready_has_start:
  assumes "all_running p"
  obtains m where "latest None (starts_of (p_containerStatuses p)) = Some m"
    "\<And>cs t. cs \<in> set (p_containerStatuses p) \<Longrightarrow> cs_running cs = Some t \<Longrightarrow> t \<le> m"
proof -
  from assms obtain cs t where "cs \<in> set (p_containerStatuses p)" "cs_running cs = Some t"
    unfolding all_running_def by (metis last_in_set not_None_eq)
  then have "starts_of (p_containerStatuses p) \<noteq> []" by (auto dest: starts_of_mem)
  then obtain m where m: "latest None (starts_of (p_containerStatuses p)) = Some m"
    using latest_None by blast
  then show ?thesis by (rule that) (use latest_ge [OF m] starts_of_mem in blast)
qed

section \<open>Outdated events\<close>

lemma note_start_time_mono:
  assumes "note_start_time starts n st = (out, starts')"
    and "starts m = Some t" "t \<ge> zero_time"
  shows "\<exists>t'. starts' m = Some t' \<and> t \<le> t'"
  using assms by (auto simp: note_start_time_def Let_def split: option.splits if_splits)

lemma note_start_time_outdated:
  assumes "note_start_time starts n (Some u) = (out, starts')" "starts n = Some t"
  shows "out \<longleftrightarrow> u < t" and "out \<Longrightarrow> starts' = starts" and "\<not> out \<Longrightarrow> starts' = starts(n \<mapsto> u)"
  using assms by (auto simp: note_start_time_def Let_def split: if_splits)

lemma node_condition_of_pod_cases:
  assumes "run_state (node_condition_of_pod E now p) s = (out, s')"
  obtains (skipped) "world s' = world s" "out = (emptyResult, None)"
    | (set) s1 where "world s1 = world s" "p_nodeName p \<noteq> []"
        "run_state (setNodeNetworkUnavailable E (p_nodeName p)
           (sc_ready (scan_pod (fmt_duration E) now p))
           (sc_lastStartedAt (scan_pod (fmt_duration E) now p)) ''NSXNodeAgent''
           (sc_messages (scan_pod (fmt_duration E) now p)
            @ sc_tmpMsgs (scan_pod (fmt_duration E) now p))) s1 = (out, s')"
proof -
  let ?r = "note_start_time (case si_LastNodeAgentStartTime (sharedInfo s) of None \<Rightarrow> Map.empty
              | Some m \<Rightarrow> m) (p_nodeName p) (p_startTime p)"
  let ?s1 = "s\<lparr>sharedInfo := (sharedInfo s)\<lparr>si_LastNodeAgentStartTime := Some (snd ?r)\<rparr>\<rparr>"
  show ?thesis
  proof (cases "p_nodeName p = [] \<or> fst ?r")
    case True
    with assms show ?thesis
      by (intro skipped) (auto simp: node_condition_of_pod_def Let_def split: prod.splits if_splits)
  next
    case False
    with assms show ?thesis
      by (intro set [of ?s1]) (auto simp: node_condition_of_pod_def Let_def split: prod.splits if_splits)
  qed
qed

lemma node_condition_of_pod_outdated:
  assumes "run_state (node_condition_of_pod E now p) s = (out, s')"
    and "si_LastNodeAgentStartTime (sharedInfo s) = Some starts" "p_startTime p = Some u"
    and "starts (p_nodeName p) = Some t" "u < t"
  shows "world s' = world s \<and> out = (emptyResult, None)"
  using assms by (auto simp: node_condition_of_pod_def note_start_time_def Let_def
      split: prod.splits if_splits)

section \<open>Node conditions\<close>

lemma FindNode_Set:
  "FindNodeStatusCondition (fst (SetNodeCondition cs n now)) (nc_type n) = Some c \<Longrightarrow>
   nc_status c = nc_status n \<and> nc_reason c = nc_reason n \<and> nc_message c = nc_message n"
  by (auto simp: SetNodeCondition_def FindNodeStatusCondition_def find_update_first
      split: option.splits if_splits)

lemma FindNode_Set_exists:
  "\<exists>c. FindNodeStatusCondition (fst (SetNodeCondition cs n now)) (nc_type n) = Some c"
  by (auto simp: SetNodeCondition_def FindNodeStatusCondition_def find_update_first
      split: option.splits if_splits)

lemma FindNode_Set_other:
  "t \<noteq> nc_type n \<Longrightarrow> FindNodeStatusCondition (fst (SetNodeCondition cs n now)) t =
     FindNodeStatusCondition cs t"
  by (cases "FindNodeStatusCondition cs t")
     (auto simp: SetNodeCondition_def FindNodeStatusCondition_def find_update_first_other
      split: option.splits)

lemma SetNode_unchanged: "\<not> snd (SetNodeCondition cs n now) \<Longrightarrow> fst (SetNodeCondition cs n now) = cs"
  by (auto simp: SetNodeCondition_def split: option.splits if_splits)

section \<open>The interface and the effect on the nodes\<close>

abbreviation NU :: string where "NU \<equiv> ''NetworkUnavailable''"

definition nu_status :: "node \<Rightarrow> string option" where
  "nu_status nd = map_option nc_status (FindNodeStatusCondition (n_conditions nd) NU)"

text \<open>The condition that an agent calls for, and the conditions of other types.\<close>

definition carries :: "bool \<Rightarrow> string \<Rightarrow> string \<Rightarrow> node_condition list \<Rightarrow> bool" where
  "carries ready rs m cs \<longleftrightarrow> (\<exists>c. FindNodeStatusCondition cs NU = Some c
     \<and> nc_status c = (if ready then ConditionFalse else ConditionTrue)
     \<and> nc_reason c = rs @ (if ready then ''Ready'' else ''NotReady'')
     \<and> nc_message c = (if ready then ''NSX node agent is running'' else m))"

definition same_others :: "node_condition list \<Rightarrow> node_condition list \<Rightarrow> bool" where
  "same_others cs ds \<longleftrightarrow> (\<forall>t. t \<noteq> NU \<longrightarrow> FindNodeStatusCondition cs t = FindNodeStatusCondition ds t)"

lemma SetNode_spec:
  assumes "SetNodeCondition ds (network_unavailable ready rs m now) t = (cs, ch)"
  shows "carries ready rs m cs \<and> same_others cs ds"
  using FindNode_Set [of ds "network_unavailable ready rs m now" t]
    FindNode_Set_exists [of ds "network_unavailable ready rs m now" t]
    FindNode_Set_other [of _ "network_unavailable ready rs m now" ds t] assms
  by (auto simp: carries_def same_others_def network_unavailable_def)

text \<open>
  The client of the operator reads from a cache. In \<open>node_writes\<close> a read may return any version
  of the node, an old one too; in \<open>node_store\<close> it returns the stored one.
\<close>

locale node_writes =
  fixes E :: "'w status_api" and nodes_of :: "'w \<Rightarrow> string \<Rightarrow> node option"
  assumes get_node_cached: "get_node E n w = (rg, w') \<Longrightarrow> nodes_of w' = nodes_of w \<and>
      (case rg of Inr nd \<Rightarrow> n_name nd = n | Inl e \<Rightarrow> True)"
    and update_node: "update_node_status E nd w = (r, w') \<Longrightarrow> nodes_of w' =
      (if r = None
       then (nodes_of w)(n_name nd := map_option (\<lambda>old. old\<lparr>n_conditions := n_conditions nd\<rparr>)
               (nodes_of w (n_name nd)))
       else nodes_of w)"
    and clock_nodes: "clock_now E w = (ts, w') \<Longrightarrow> nodes_of w' = nodes_of w"
begin

text \<open>
  What \<open>combineNode\<close> makes of the conditions it read: the new condition is there, and the
  others are as they were.
\<close>

lemma updateNodeStatus_writes:
  assumes "run_state (updateNodeStatus E n ready rs m) s = (r, s')"
  shows "k \<noteq> n \<Longrightarrow> nodes_of (world s') k = nodes_of (world s) k"
    and "fst (get_node E n (world s)) = Inl e \<Longrightarrow> nodes_of (world s') = nodes_of (world s)"
    and "fst (get_node E n (world s)) = Inr nd \<Longrightarrow> r = None \<Longrightarrow>
      carries ready rs m (n_conditions nd) \<and> nodes_of (world s') = nodes_of (world s)
      \<or> (\<exists>cs. carries ready rs m cs \<and> same_others cs (n_conditions nd) \<and> nodes_of (world s') n
           = map_option (\<lambda>old. old\<lparr>n_conditions := cs\<rparr>) (nodes_of (world s) n))"
proof -
  show "k \<noteq> n \<Longrightarrow> nodes_of (world s') k = nodes_of (world s) k"
    "fst (get_node E n (world s)) = Inl e \<Longrightarrow> nodes_of (world s') = nodes_of (world s)"
    using assms by (auto simp: updateNodeStatus_def combineNode_def Let_def
        dest!: get_node_cached update_node clock_nodes split: prod.splits sum.splits if_splits)
next
  assume read: "fst (get_node E n (world s)) = Inr nd" and "r = None"
  obtain w where g: "get_node E n (world s) = (Inr nd, w)" using read by (metis prod.collapse)
  obtain ts w1 where c: "clock_now E w = (ts, w1)" by force
  obtain cs ch where set: "SetNodeCondition (n_conditions nd) (network_unavailable ready rs m (ts 0)) (ts 1)
      = (cs, ch)" by force
  note laws = get_node_cached [OF g] clock_nodes [OF c] and spec = SetNode_spec [OF set]
  show "carries ready rs m (n_conditions nd) \<and> nodes_of (world s') = nodes_of (world s)
      \<or> (\<exists>cs. carries ready rs m cs \<and> same_others cs (n_conditions nd) \<and> nodes_of (world s') n
           = map_option (\<lambda>old. old\<lparr>n_conditions := cs\<rparr>) (nodes_of (world s) n))"
  proof (cases ch)
    case False
    then have "cs = n_conditions nd" using SetNode_unchanged set by (metis fst_conv snd_conv)
    with False assms g c set laws spec show ?thesis
      by (auto simp: updateNodeStatus_def combineNode_def Let_def)
  next
    case True
    with assms g c set \<open>r = None\<close> obtain w2 where
      "update_node_status E (nd\<lparr>n_conditions := cs\<rparr>) w1 = (None, w2)" "s' = s\<lparr>world := w2\<rparr>"
      by (auto simp: updateNodeStatus_def combineNode_def Let_def split: prod.splits)
    with laws spec show ?thesis by (intro disjI2 exI [of _ cs]) (auto dest!: update_node)
  qed
qed

text \<open>The assertion judges by what it reads.\<close>

lemma assertNodeStatus_reads:
  assumes "run_state (assertNodeStatus E n ready) s = (out, s')" and "snd out = None"
  shows "\<exists>nd. fst (get_node E n (world s)) = Inr nd \<and> nodes_of (world s') = nodes_of (world s)
    \<and> fst out = (if nu_status nd \<noteq> None \<and> (ready \<longleftrightarrow> nu_status nd = Some ConditionFalse)
         then emptyResult else requeueAfter DefaultResyncPeriod)"
  using assms
  by (auto simp: assertNodeStatus_def nu_status_def dest!: get_node_cached
      split: prod.splits sum.splits option.splits if_splits)

end

locale node_store = node_writes +
  assumes fresh_read: "get_node E n w = (Inr nd, w') \<Longrightarrow> nodes_of w n = Some nd"
begin

lemma get_node: "get_node E n w = (rg, w') \<Longrightarrow> nodes_of w' = nodes_of w \<and>
    (case rg of Inr nd \<Rightarrow> nodes_of w n = Some nd \<and> n_name nd = n | Inl e \<Rightarrow> True)"
  using get_node_cached [of n w rg w'] fresh_read [of n w _ w'] by (auto split: sum.splits)

lemma updateNodeStatus_effect:
  assumes "run_state (updateNodeStatus E n ready rs m) s = (r, s')"
  shows "k \<noteq> n \<Longrightarrow> nodes_of (world s') k = nodes_of (world s) k"
    and "nodes_of (world s') n = Some nd \<Longrightarrow> nodes_of (world s) n = Some nd \<or>
           nu_status nd = Some (if ready then ConditionFalse else ConditionTrue)"
    and "nodes_of (world s') n = None \<longleftrightarrow> nodes_of (world s) n = None"
proof -
  show "k \<noteq> n \<Longrightarrow> nodes_of (world s') k = nodes_of (world s) k"
    using assms by (auto simp: updateNodeStatus_def combineNode_def Let_def
        dest!: get_node update_node clock_nodes split: prod.splits sum.splits if_splits)
  show "nodes_of (world s') n = None \<longleftrightarrow> nodes_of (world s) n = None"
    using assms by (auto simp: updateNodeStatus_def combineNode_def Let_def
        dest!: get_node update_node clock_nodes split: prod.splits sum.splits if_splits)
  assume nd: "nodes_of (world s') n = Some nd"
  have "nu_status (x\<lparr>n_conditions := cs\<rparr>) = Some (if ready then ConditionFalse else ConditionTrue)"
    if "SetNodeCondition old (network_unavailable ready rs m now) t = (cs, ch)" for x cs old now t ch
    using that FindNode_Set [of old "network_unavailable ready rs m now" t]
      FindNode_Set_exists [of old "network_unavailable ready rs m now" t]
    by (auto simp: nu_status_def network_unavailable_def)
  with assms nd show "nodes_of (world s) n = Some nd \<or>
      nu_status nd = Some (if ready then ConditionFalse else ConditionTrue)"
    by (fastforce simp: updateNodeStatus_def combineNode_def Let_def
        dest!: get_node update_node clock_nodes split: prod.splits sum.splits if_splits)
qed

lemma assertNodeStatus_effect:
  assumes "run_state (assertNodeStatus E n desire) s = (out, s')"
  shows "nodes_of (world s') = nodes_of (world s)"
    and "out = (emptyResult, None) \<Longrightarrow> \<exists>nd st. nodes_of (world s) n = Some nd \<and> nu_status nd = Some st
           \<and> (desire \<longleftrightarrow> st = ConditionFalse)"
  using assms
  by (auto simp: assertNodeStatus_def nu_status_def emptyResult_def requeueAfter_def
      DefaultResyncPeriod_def minute_def second_def
      dest!: get_node split: prod.splits sum.splits option.splits if_splits)

lemma update_and_assert_effect:
  assumes "run_state (update_and_assert E n ready rs m) s = (out, s')"
  shows "k \<noteq> n \<Longrightarrow> nodes_of (world s') k = nodes_of (world s) k"
    and "nodes_of (world s') n = Some nd \<Longrightarrow> nodes_of (world s) n = Some nd \<or>
           nu_status nd = Some (if ready then ConditionFalse else ConditionTrue)"
    and "out = (emptyResult, None) \<Longrightarrow> \<exists>nd st. nodes_of (world s') n = Some nd
           \<and> nu_status nd = Some st \<and> (ready \<longleftrightarrow> st = ConditionFalse)"
proof -
  obtain r t where u: "run_state (updateNodeStatus E n ready rs m) s = (r, t)" by force
  note U = updateNodeStatus_effect [OF u]
  have t: "nodes_of (world s') = nodes_of (world t)"
    using assms u assertNodeStatus_effect(1)
    by (auto simp: update_and_assert_def split: option.splits)
  from U(1) t show "k \<noteq> n \<Longrightarrow> nodes_of (world s') k = nodes_of (world s) k" by simp
  from U(2) t show "nodes_of (world s') n = Some nd \<Longrightarrow> nodes_of (world s) n = Some nd \<or>
           nu_status nd = Some (if ready then ConditionFalse else ConditionTrue)" by simp
  from t assms u assertNodeStatus_effect(2)
  show "out = (emptyResult, None) \<Longrightarrow> \<exists>nd st. nodes_of (world s') n = Some nd
           \<and> nu_status nd = Some st \<and> (ready \<longleftrightarrow> st = ConditionFalse)"
    by (auto simp: update_and_assert_def split: option.splits)
qed

text \<open>The network of a node is only ever reported available after the grace time.\<close>

lemma setNodeNetworkUnavailable_safe:
  assumes run: "run_state (setNodeNetworkUnavailable E n ready st rs m) s = (out, s')"
    and "nodes_of (world s) n = Some nd" "nu_status nd \<noteq> Some ConditionFalse"
    and "nodes_of (world s') n = Some nd'" "nu_status nd' = Some ConditionFalse"
  shows "ready \<and> (\<exists>t. st = Some t \<and>
     time_Sub (fst (clock_now E (world s)) 0) t \<ge> TimeBeforeRecoverNetwork)"
proof -
  obtain ts w where c: "clock_now E (world s) = (ts, w)" by force
  show ?thesis
  proof (cases ready)
    case False
    with run assms(2-5) update_and_assert_effect(2) [of n False rs m s out s' nd']
    show ?thesis by (auto simp: setNodeNetworkUnavailable_def)
  next
    case True
    then show ?thesis
      using run c assms(2-5) clock_nodes [OF c]
        updateNodeStatus_effect(2) [of n False rs m "s\<lparr>world := w\<rparr>" _ _ nd']
      by (auto simp: setNodeNetworkUnavailable_def Let_def split: option.splits if_splits prod.splits)
  qed
qed

lemma setNodeNetworkUnavailable_other:
  assumes "run_state (setNodeNetworkUnavailable E n ready st rs m) s = (out, s')" "k \<noteq> n"
  shows "nodes_of (world s') k = nodes_of (world s) k"
  using assms
  by (auto simp: setNodeNetworkUnavailable_def Let_def
      dest!: clock_nodes update_and_assert_effect(1) [where k = k]
        updateNodeStatus_effect(1) [where k = k]
      split: option.splits if_splits prod.splits)

theorem pod_safe:
  assumes run: "run_state (node_condition_of_pod E now p) s = (out, s')"
    and before: "nodes_of (world s) (p_nodeName p) = Some nd" "nu_status nd \<noteq> Some ConditionFalse"
    and after: "nodes_of (world s') (p_nodeName p) = Some nd'" "nu_status nd' = Some ConditionFalse"
  shows "all_running p \<and> (\<forall>cs \<in> set (p_containerStatuses p). \<forall>t. cs_running cs = Some t \<longrightarrow>
     t + TimeBeforeRecoverNetwork \<le> fst (clock_now E (world s)) 0)"
proof -
  let ?sc = "scan_pod (fmt_duration E) now p"
  obtain s1 where w: "world s1 = world s" and set:
    "run_state (setNodeNetworkUnavailable E (p_nodeName p) (sc_ready ?sc) (sc_lastStartedAt ?sc)
       ''NSXNodeAgent'' (sc_messages ?sc @ sc_tmpMsgs ?sc)) s1 = (out, s')"
    using run before after by (cases rule: node_condition_of_pod_cases) auto
  have ready: "all_running p" and
    "\<exists>m. latest None (starts_of (p_containerStatuses p)) = Some m \<and>
       TimeBeforeRecoverNetwork \<le> time_Sub (fst (clock_now E (world s)) 0) m"
    using setNodeNetworkUnavailable_safe [OF set, of nd nd'] before after w
    by (auto simp: scan_pod_ready scan_pod_latest)
  then obtain m where m: "latest None (starts_of (p_containerStatuses p)) = Some m"
    and "m + TimeBeforeRecoverNetwork \<le> fst (clock_now E (world s)) 0"
    by (auto simp: grace_over)
  with ready show ?thesis using latest_ge [OF m] by (fastforce dest: starts_of_mem)
qed

theorem pod_other_nodes:
  assumes "run_state (node_condition_of_pod E now p) s = (out, s')" "k \<noteq> p_nodeName p"
  shows "nodes_of (world s') k = nodes_of (world s) k"
  using assms
  by (auto simp: node_condition_of_pod_def Let_def
      dest!: setNodeNetworkUnavailable_other [where k = k]
      split: option.splits if_splits prod.splits)

end

section \<open>The cluster in memory provides it\<close>

definition mem_node :: "'a mem_world_scheme \<Rightarrow> string \<Rightarrow> node option" where
  "mem_node w n = find (\<lambda>nd. n_name nd = n) (m_nodes w)"

lemma next_fault_nodes: "next_fault w = (f, w') \<Longrightarrow> m_nodes w' = m_nodes w"
  by (auto simp: next_fault_def split: list.splits)

lemma mem_update_node_law:
  assumes "mem_update_node nd w = (r, w')"
  shows "mem_node w' = (if r = None
       then (mem_node w)(n_name nd := map_option (\<lambda>old. old\<lparr>n_conditions := n_conditions nd\<rparr>)
               (mem_node w (n_name nd)))
       else mem_node w)"
  using assms
  by (auto simp: mem_update_node_def mem_node_def fun_eq_iff find_update_first
      find_update_first_other split: if_splits)

lemma mem_get_node_law:
  assumes "get_node (mem_api mar unmar) n w = (r, w')"
  shows "mem_node w' = mem_node w \<and>
      (case r of Inr nd \<Rightarrow> mem_node w n = Some nd \<and> n_name nd = n | Inl e \<Rightarrow> True)"
  using assms
  by (auto simp: mem_api_def reading_def mem_node_def fun_eq_iff found_def
      dest!: next_fault_nodes dest: find_SomeD split: prod.splits option.splits)

lemma mem_update_law:
  assumes "update_node_status (mem_api mar unmar) nd w = (r, w')"
  shows "mem_node w' = (if r = None
       then (mem_node w)(n_name nd := map_option (\<lambda>old. old\<lparr>n_conditions := n_conditions nd\<rparr>)
               (mem_node w (n_name nd)))
       else mem_node w)"
proof -
  obtain f w1 where n: "next_fault w = (f, w1)" by force
  have "mem_node w1 = mem_node w"
    using next_fault_nodes [OF n] by (simp add: mem_node_def fun_eq_iff)
  with assms n mem_update_node_law [of nd w1 r w'] show ?thesis
    by (auto simp: mem_api_def writing_def split: option.splits)
qed

lemma mem_clock_nodes: "clock_now (mem_api mar unmar) w = (ts, w') \<Longrightarrow> mem_node w' = mem_node w"
  by (auto simp: mem_clock_def mem_node_def fun_eq_iff)

interpretation mem_nodes: node_store "mem_api mar unmar" mem_node for mar unmar
proof unfold_locales
  show "get_node (mem_api mar unmar) n w = (rg, w') \<Longrightarrow> mem_node w' = mem_node w \<and>
      (case rg of Inr nd \<Rightarrow> n_name nd = n | Inl e \<Rightarrow> True)"
    "get_node (mem_api mar unmar) n w = (Inr nd, w') \<Longrightarrow> mem_node w n = Some nd"
    for n w w' rg nd
    using mem_get_node_law [of mar unmar n w] by (cases rg; auto)+
qed (rule mem_update_law mem_clock_nodes, assumption)+

text \<open>The same cluster behind a cache of nodes that is never brought up to date.\<close>

definition lagging ::
  "(string \<Rightarrow> node option) \<Rightarrow> 'a mem_world_scheme status_api \<Rightarrow> 'a mem_world_scheme status_api" where
  "lagging cache E =
     E\<lparr>get_node := (\<lambda>n w. (found ''node'' (map_option (\<lambda>nd. nd\<lparr>n_name := n\<rparr>) (cache n)), w))\<rparr>"

lemma lagging_simps [simp]:
  "get_node (lagging cache E) n w = (found ''node'' (map_option (\<lambda>nd. nd\<lparr>n_name := n\<rparr>) (cache n)), w)"
  "update_node_status (lagging cache E) = update_node_status E" "clock_now (lagging cache E) = clock_now E"
  by (simp_all add: lagging_def)

interpretation lagging_nodes: node_writes "lagging cache (mem_api mar unmar)" mem_node for cache mar unmar
proof unfold_locales
  show "get_node (lagging cache (mem_api mar unmar)) n w = (rg, w') \<Longrightarrow> mem_node w' = mem_node w \<and>
      (case rg of Inr nd \<Rightarrow> n_name nd = n | Inl e \<Rightarrow> True)" for n and w :: "'a mem_world_scheme" and rg w'
    by (auto simp: found_def split: option.splits)
qed (use mem_update_law mem_clock_nodes in \<open>simp_all only: lagging_simps\<close>)

end
