(* ===== verification/Rollout_Facts.thy ===== *)
theory Rollout_Facts
  imports Node_Store
begin

text \<open>
  Correctness of the overall status. The survey of the DaemonSets and Deployments reaches the
  available level exactly when something is monitored and nothing progresses; a rollout is
  called hung only if it was seen before with the very same status, for longer than the
  timeout; the last-seen states track the last change. \<open>complete\<close> is the specification of a
  finished rollout.
\<close>

section \<open>Finished rollouts\<close>

definition ds_complete :: "daemonset \<Rightarrow> bool" where
  "ds_complete ds \<longleftrightarrow>
     dss_desiredNumberScheduled (ds_status ds) \<le> dss_updatedNumberScheduled (ds_status ds)
     \<and> dss_numberUnavailable (ds_status ds) \<le> 0
     \<and> dss_numberAvailable (ds_status ds) \<noteq> 0
     \<and> ds_generation ds \<le> dss_observedGeneration (ds_status ds)"

definition dep_complete :: "deployment \<Rightarrow> bool" where
  "dep_complete dep \<longleftrightarrow>
     deps_unavailableReplicas (dep_status dep) \<le> 0
     \<and> deps_availableReplicas (dep_status dep) \<noteq> 0
     \<and> dep_generation dep \<le> deps_observedGeneration (dep_status dep)"

lemma ds_progress_None: "ds_progress n ds = None \<longleftrightarrow> ds_complete ds"
  by (auto simp: ds_progress_def ds_complete_def Let_def)

lemma dep_progress_None: "dep_progress n dep = None \<longleftrightarrow> dep_complete dep"
  by (auto simp: dep_progress_def dep_complete_def Let_def)

section \<open>Hung rollouts\<close>

lemma track_ds_hung:
  assumes "track_ds n st now later states = (states', Some t)" "later - now \<le> ProgressTimeout"
  obtains d where "map_of states n = Some d" "dst_LastSeenStatus d = st" "t = dst_LastChangeTime d"
    "later - t > ProgressTimeout" "states' = states"
  using assms
  by (auto simp: track_ds_def Let_def time_Sub_def max_duration_def min_duration_def
      ProgressTimeout_def minute_def second_def split: option.splits if_splits)

lemma track_dep_hung:
  assumes "track_dep n st now later states = (states', Some t)" "later - now \<le> ProgressTimeout"
  obtains d where "map_of states n = Some d" "dpt_LastSeenStatus d = st" "t = dpt_LastChangeTime d"
    "later - t > ProgressTimeout" "states' = states"
  using assms
  by (auto simp: track_dep_def Let_def time_Sub_def max_duration_def min_duration_def
      ProgressTimeout_def minute_def second_def split: option.splits if_splits)

text \<open>After tracking, the map holds the status seen, dated at its last change.\<close>

lemma track_ds_records:
  "track_ds n st now later states = (states', h) \<Longrightarrow>
   \<exists>d. map_of states' n = Some d \<and> dst_LastSeenStatus d = st \<and>
     dst_LastChangeTime d =
       (case map_of states n of
          Some old \<Rightarrow> if dst_LastSeenStatus old = st then dst_LastChangeTime old else now
        | None \<Rightarrow> now) \<and>
     (\<forall>k. k \<noteq> n \<longrightarrow> map_of states' k = map_of states k)"
  by (auto simp: track_ds_def Let_def update_conv' split: option.splits if_splits)

lemma track_dep_records:
  "track_dep n st now later states = (states', h) \<Longrightarrow>
   \<exists>d. map_of states' n = Some d \<and> dpt_LastSeenStatus d = st \<and>
     dpt_LastChangeTime d =
       (case map_of states n of
          Some old \<Rightarrow> if dpt_LastSeenStatus old = st then dpt_LastChangeTime old else now
        | None \<Rightarrow> now) \<and>
     (\<forall>k. k \<noteq> n \<longrightarrow> map_of states' k = map_of states k)"
  by (auto simp: track_dep_def Let_def update_conv' split: option.splits if_splits)

section \<open>The survey\<close>

text \<open>The invariant of both loops, for the start value \<open>b\<close> of \<open>reachedAvailableLevel\<close>.\<close>

definition rollout_inv :: "bool \<Rightarrow> rollout \<Rightarrow> bool" where
  "rollout_inv b ro \<longleftrightarrow>
     (ro_reached ro \<longleftrightarrow> b \<and> ro_progressing ro = []) \<and> (ro_hung ro \<noteq> [] \<longrightarrow> ro_progressing ro \<noteq> [])"

lemma ds_step_inv:
  "run_state (ds_step E n (ro, m)) s = ((ro', m'), s') \<Longrightarrow> rollout_inv b ro \<Longrightarrow> rollout_inv b ro'"
  by (auto simp: ds_step_def rollout_inv_def split: prod.splits sum.splits option.splits)

lemma dep_step_inv:
  "run_state (dep_step E n (ro, m)) s = ((ro', m'), s') \<Longrightarrow> rollout_inv b ro \<Longrightarrow> rollout_inv b ro'"
  by (auto simp: dep_step_def rollout_inv_def split: prod.splits sum.splits option.splits)

lemma fold_state_inv:
  assumes "run_state (fold_state f xs acc) s = (acc', s')" "P acc"
    and "\<And>x acc s acc' s'. run_state (f x acc) s = (acc', s') \<Longrightarrow> P acc \<Longrightarrow> P acc'"
  shows "P acc'"
  using assms(1,2)
proof (induction xs arbitrary: acc s)
  case (Cons x xs)
  obtain a t where "run_state (f x acc) s = (a, t)" by force
  with Cons assms(3) show ?case by auto
qed simp

theorem survey_inv:
  assumes "run_state (survey_rollouts E) s = ((ro, dss, deps), s')"
  shows "rollout_inv (sm_daemonSets (status s) \<noteq> [] \<or> sm_deployments (status s) \<noteq> []) ro"
proof -
  let ?b = "sm_daemonSets (status s) \<noteq> [] \<or> sm_deployments (status s) \<noteq> []"
  obtain dss0 deps0 s1 where l: "run_state (getLastPodState E) s = ((dss0, deps0), s1)"
    by (metis surj_pair)
  obtain ro1 dss1 s2 where d: "run_state (fold_state (ds_step E) (sm_daemonSets (status s))
      (\<lparr>ro_progressing = [], ro_hung = [], ro_reached = ?b\<rparr>, dss0)) s1 = ((ro1, dss1), s2)"
    by (metis surj_pair)
  have "rollout_inv ?b (fst (ro1, dss1))"
    by (rule fold_state_inv [OF d, where P = "\<lambda>a. rollout_inv ?b (fst a)"])
       (auto simp: rollout_inv_def dest: ds_step_inv)
  moreover obtain deps1 where p: "run_state (fold_state (dep_step E) (sm_deployments (status s))
      (ro1, deps0)) s2 = ((ro, deps1), s')"
    using assms l d by (auto simp: survey_rollouts_def Let_def split: prod.splits)
  ultimately have "rollout_inv ?b (fst (ro, deps1))"
    by (intro fold_state_inv [OF p, where P = "\<lambda>a. rollout_inv ?b (fst a)"])
       (auto dest: dep_step_inv)
  then show ?thesis by simp
qed

section \<open>What the survey calls hung\<close>

text \<open>
  A hung rollout, for the message that reports it: the state recalled before the pass is the
  state recorded after it, its last change is more than the timeout before the end of the pass,
  and a read during the pass found the rollout incomplete with the very status of that state.
\<close>

definition ds_hung ::
  "'w status_api \<Rightarrow> ('w \<Rightarrow> time) \<Rightarrow> time \<Rightarrow> time \<Rightarrow> daemonset_state option \<Rightarrow> daemonset_state option
   \<Rightarrow> nsname \<Rightarrow> string \<Rightarrow> bool" where
  "ds_hung E time_of t0 t1 before after n msg \<longleftrightarrow> (\<exists>d ds w. before = Some d \<and> after = Some d
     \<and> fst (get_daemonset E n w) = Inr ds \<and> t0 \<le> time_of w \<and> time_of w \<le> t1
     \<and> ds_status ds = dst_LastSeenStatus d \<and> \<not> ds_complete ds
     \<and> ProgressTimeout < t1 - dst_LastChangeTime d
     \<and> msg = hung_message E ''DaemonSet'' n (dst_LastChangeTime d))"

definition dep_hung ::
  "'w status_api \<Rightarrow> ('w \<Rightarrow> time) \<Rightarrow> time \<Rightarrow> time \<Rightarrow> deployment_state option \<Rightarrow> deployment_state option
   \<Rightarrow> nsname \<Rightarrow> string \<Rightarrow> bool" where
  "dep_hung E time_of t0 t1 before after n msg \<longleftrightarrow> (\<exists>d dep w. before = Some d \<and> after = Some d
     \<and> fst (get_deployment E n w) = Inr dep \<and> t0 \<le> time_of w \<and> time_of w \<le> t1
     \<and> dep_status dep = dpt_LastSeenStatus d \<and> \<not> dep_complete dep
     \<and> ProgressTimeout < t1 - dpt_LastChangeTime d
     \<and> msg = hung_message E ''Deployment'' n (dpt_LastChangeTime d))"

text \<open>What is hung in a span of time is hung in a longer one.\<close>

definition span_mono :: "(time \<Rightarrow> time \<Rightarrow> 'd option \<Rightarrow> 'd option \<Rightarrow> nsname \<Rightarrow> string \<Rightarrow> bool) \<Rightarrow> bool" where
  "span_mono J \<longleftrightarrow> (\<forall>t0 t1 u0 u1 a b n x. J t0 t1 a b n x \<longrightarrow> u0 \<le> t0 \<longrightarrow> t1 \<le> u1 \<longrightarrow> J u0 u1 a b n x)"

lemma span_monoD: "span_mono J \<Longrightarrow> J t0 t1 a b n x \<Longrightarrow> u0 \<le> t0 \<Longrightarrow> t1 \<le> u1 \<Longrightarrow> J u0 u1 a b n x"
  unfolding span_mono_def by blast

lemma hung_mono: "span_mono (ds_hung E time_of)" "span_mono (dep_hung E time_of)"
  unfolding span_mono_def ds_hung_def dep_hung_def
  by (blast intro: order_trans less_le_trans diff_right_mono)+

text \<open>A clock that does not go back, in whose time every call lies.\<close>

locale pass_clock =
  fixes E :: "'w status_api" and time_of :: "'w \<Rightarrow> time"
  assumes clock_between: "clock_now E w = (ts, w') \<Longrightarrow>
      time_of w \<le> ts 0 \<and> ts 0 \<le> ts 1 \<and> ts 1 \<le> time_of w'"
    and read_later: "time_of w \<le> time_of (snd (get_daemonset E n w))"
      "time_of w \<le> time_of (snd (get_deployment E n w))"
      "time_of w \<le> time_of (snd (get_clusteroperator E name w))"
begin

abbreviation now_of :: "'w operator \<Rightarrow> time" where
  "now_of s \<equiv> time_of (world s)"

text \<open>One step, and the loop over distinct names, for a notion \<open>J\<close> of a hung rollout.\<close>

definition justified_step ::
  "(time \<Rightarrow> time \<Rightarrow> 'd option \<Rightarrow> 'd option \<Rightarrow> nsname \<Rightarrow> string \<Rightarrow> bool) \<Rightarrow> nsname
   \<Rightarrow> rollout \<Rightarrow> (nsname \<times> 'd) list \<Rightarrow> 'w operator \<Rightarrow> rollout \<Rightarrow> (nsname \<times> 'd) list \<Rightarrow> 'w operator \<Rightarrow> bool" where
  "justified_step J n ro m s ro' m' s' \<longleftrightarrow> now_of s \<le> now_of s'
     \<and> (\<forall>k. k \<noteq> n \<longrightarrow> map_of m' k = map_of m k)
     \<and> (now_of s' - now_of s \<le> ProgressTimeout \<longrightarrow> (\<forall>x \<in> set (ro_hung ro'). x \<in> set (ro_hung ro)
          \<or> J (now_of s) (now_of s') (map_of m n) (map_of m' n) n x))"

definition justified_steps where
  "justified_steps J f \<longleftrightarrow> (\<forall>n ro m s ro' m' s'. run_state (f n (ro, m)) s = ((ro', m'), s')
     \<longrightarrow> justified_step J n ro m s ro' m' s')"

lemma ds_step_justified:
  assumes "run_state (ds_step E n (ro, m)) s = ((ro', m'), s')"
  shows "justified_step (ds_hung E time_of) n ro m s ro' m' s'"
proof -
  obtain x w where g: "get_daemonset E n (world s) = (x, w)" by force
  have w: "now_of s \<le> time_of w" using read_later(1) [of "world s" n] g by simp
  show ?thesis
  proof (cases "\<exists>ds p. x = Inr ds \<and> ds_progress n ds = Some p")
    case False
    with assms g w show ?thesis
      by (auto simp: ds_step_def justified_step_def delete_conv' split: prod.splits sum.splits option.splits)
  next
    case True
    then obtain ds p where x: "x = Inr ds" "ds_progress n ds = Some p" by blast
    obtain ts w1 where c: "clock_now E w = (ts, w1)" by force
    note T = clock_between [OF c]
    obtain h where k: "track_ds n (ds_status ds) (ts 0) (ts 1) m = (m', h)"
      and s': "s' = s\<lparr>world := w1\<rparr>" and ro': "ro_hung ro' = ro_hung ro @ (case h of None \<Rightarrow> []
        | Some t \<Rightarrow> [hung_message E ''DaemonSet'' n t])"
      using assms g x c by (auto simp: ds_step_def split: prod.splits)
    have "ds_hung E time_of (now_of s) (now_of s') (map_of m n) (map_of m' n) n
        (hung_message E ''DaemonSet'' n t)"
      if "h = Some t" "now_of s' - now_of s \<le> ProgressTimeout" for t
    proof -
      from T s' w that(2) have "ts 1 - ts 0 \<le> ProgressTimeout" by simp
      from track_ds_hung [OF k [unfolded that(1)] this] obtain d where d: "map_of m n = Some d"
        "dst_LastSeenStatus d = ds_status ds" "t = dst_LastChangeTime d" "ts 1 - t > ProgressTimeout" "m' = m"
        by metis
      have "\<not> ds_complete ds" using x(2) ds_progress_None [of n ds] by simp
      with d g x(1) s' T w show ?thesis
        unfolding ds_hung_def by (intro exI [of _ d] exI [of _ ds] exI [of _ "world s"]) auto
    qed
    with ro' s' w T track_ds_records [OF k] show ?thesis
      by (auto simp: justified_step_def split: option.splits)
  qed
qed

lemma dep_step_justified:
  assumes "run_state (dep_step E n (ro, m)) s = ((ro', m'), s')"
  shows "justified_step (dep_hung E time_of) n ro m s ro' m' s'"
proof -
  obtain x w where g: "get_deployment E n (world s) = (x, w)" by force
  have w: "now_of s \<le> time_of w" using read_later(2) [of "world s" n] g by simp
  show ?thesis
  proof (cases "\<exists>dep p. x = Inr dep \<and> dep_progress n dep = Some p")
    case False
    with assms g w show ?thesis
      by (auto simp: dep_step_def justified_step_def delete_conv' split: prod.splits sum.splits option.splits)
  next
    case True
    then obtain dep p where x: "x = Inr dep" "dep_progress n dep = Some p" by blast
    obtain ts w1 where c: "clock_now E w = (ts, w1)" by force
    note T = clock_between [OF c]
    obtain h where k: "track_dep n (dep_status dep) (ts 0) (ts 1) m = (m', h)"
      and s': "s' = s\<lparr>world := w1\<rparr>" and ro': "ro_hung ro' = ro_hung ro @ (case h of None \<Rightarrow> []
        | Some t \<Rightarrow> [hung_message E ''Deployment'' n t])"
      using assms g x c by (auto simp: dep_step_def split: prod.splits)
    have "dep_hung E time_of (now_of s) (now_of s') (map_of m n) (map_of m' n) n
        (hung_message E ''Deployment'' n t)"
      if "h = Some t" "now_of s' - now_of s \<le> ProgressTimeout" for t
    proof -
      from T s' w that(2) have "ts 1 - ts 0 \<le> ProgressTimeout" by simp
      from track_dep_hung [OF k [unfolded that(1)] this] obtain d where d: "map_of m n = Some d"
        "dpt_LastSeenStatus d = dep_status dep" "t = dpt_LastChangeTime d" "ts 1 - t > ProgressTimeout" "m' = m"
        by metis
      have "\<not> dep_complete dep" using x(2) dep_progress_None [of n dep] by simp
      with d g x(1) s' T w show ?thesis
        unfolding dep_hung_def by (intro exI [of _ d] exI [of _ dep] exI [of _ "world s"]) auto
    qed
    with ro' s' w T track_dep_records [OF k] show ?thesis
      by (auto simp: justified_step_def split: option.splits)
  qed
qed

lemma steps_justified:
  "justified_steps (ds_hung E time_of) (ds_step E)" "justified_steps (dep_hung E time_of) (dep_step E)"
  unfolding justified_steps_def using ds_step_justified dep_step_justified by blast+

lemma fold_justified:
  assumes step: "justified_steps J f" and mono: "span_mono J"
    and "run_state (fold_state f ns (ro, m)) s = ((ro', m'), s')" "distinct ns"
  shows "now_of s \<le> now_of s' \<and> (\<forall>k. k \<notin> set ns \<longrightarrow> map_of m' k = map_of m k)
    \<and> (now_of s' - now_of s \<le> ProgressTimeout \<longrightarrow> (\<forall>x \<in> set (ro_hung ro'). x \<in> set (ro_hung ro)
         \<or> (\<exists>n \<in> set ns. J (now_of s) (now_of s') (map_of m n) (map_of m' n) n x)))"
  using assms(3,4)
proof (induction ns arbitrary: ro m s)
  case (Cons n ns)
  obtain ro1 m1 s1 where one: "run_state (f n (ro, m)) s = ((ro1, m1), s1)" by (metis surj_pair)
  note S = step [unfolded justified_steps_def, rule_format, OF one, unfolded justified_step_def]
  have "run_state (fold_state f ns (ro1, m1)) s1 = ((ro', m'), s')" "distinct ns" "n \<notin> set ns"
    using Cons.prems one by simp_all
  note IH = Cons.IH [OF this(1,2)] and apart = this(3)
  have "x \<in> set (ro_hung ro) \<or> (\<exists>k \<in> set (n # ns). J (now_of s) (now_of s') (map_of m k) (map_of m' k) k x)"
    if gap: "now_of s' - now_of s \<le> ProgressTimeout" and x: "x \<in> set (ro_hung ro')" for x
  proof -
    from gap S IH have "now_of s1 - now_of s \<le> ProgressTimeout" "now_of s' - now_of s1 \<le> ProgressTimeout"
      by auto
    with S IH x consider "x \<in> set (ro_hung ro)" | "J (now_of s) (now_of s1) (map_of m n) (map_of m1 n) n x"
      | k where "k \<in> set ns" "J (now_of s1) (now_of s') (map_of m1 k) (map_of m' k) k x" by blast
    then show ?thesis
    proof cases
      case 2
      with IH apart have "J (now_of s) (now_of s') (map_of m n) (map_of m' n) n x"
        by (auto intro: span_monoD [OF mono])
      then show ?thesis by auto
    next
      case (3 k)
      with S apart have "J (now_of s) (now_of s') (map_of m k) (map_of m' k) k x"
        by (metis span_monoD [OF mono] order_refl)
      with 3 show ?thesis by auto
    qed simp
  qed
  with S IH show ?case by auto
qed simp

lemma recall_later:
  assumes "run_state (getLastPodState E) s = (r, s')"
  shows "now_of s \<le> now_of s'"
  using assms read_later(3) [of "world s" "sm_name (status s)"]
  by (auto simp: getLastPodState_def getLastPodState_K8s_def getLastPodState_Oc_def Let_def
      split: adaptor.splits prod.splits sum.splits option.splits if_splits)

theorem survey_justified:
  assumes run: "run_state (survey_rollouts E) s = ((ro, dss, deps), s')"
    and d: "distinct (sm_daemonSets (status s))" "distinct (sm_deployments (status s))"
    and gap: "now_of s' - now_of s \<le> ProgressTimeout"
    and last: "fst (run_state (getLastPodState E) s) = (dss0, deps0)"
  shows "\<forall>x \<in> set (ro_hung ro).
    (\<exists>n \<in> set (sm_daemonSets (status s)).
        ds_hung E time_of (now_of s) (now_of s') (map_of dss0 n) (map_of dss n) n x)
    \<or> (\<exists>n \<in> set (sm_deployments (status s)).
        dep_hung E time_of (now_of s) (now_of s') (map_of deps0 n) (map_of deps n) n x)"
proof -
  let ?b = "sm_daemonSets (status s) \<noteq> [] \<or> sm_deployments (status s) \<noteq> []"
  obtain s1 where l: "run_state (getLastPodState E) s = ((dss0, deps0), s1)"
    using last by (metis prod.collapse)
  obtain ro1 dss1 s2 where one: "run_state (fold_state (ds_step E) (sm_daemonSets (status s))
      (\<lparr>ro_progressing = [], ro_hung = [], ro_reached = ?b\<rparr>, dss0)) s1 = ((ro1, dss1), s2)"
    by (metis surj_pair)
  have two: "run_state (fold_state (dep_step E) (sm_deployments (status s)) (ro1, deps0)) s2 = ((ro, deps), s')"
    and dss: "dss1 = dss"
    using run l one by (auto simp: survey_rollouts_def Let_def split: prod.splits)
  note A = fold_justified [OF steps_justified(1) hung_mono(1) one d(1)]
    and B = fold_justified [OF steps_justified(2) hung_mono(2) two d(2)]
  have t: "now_of s \<le> now_of s1" by (rule recall_later [OF l])
  with gap A B have gaps: "now_of s2 - now_of s1 \<le> ProgressTimeout" "now_of s' - now_of s2 \<le> ProgressTimeout"
    by auto
  have ends: "now_of s2 \<le> now_of s'" "now_of s \<le> now_of s2" using A B t by auto
  show ?thesis
  proof
    fix x assume "x \<in> set (ro_hung ro)"
    with A B gaps consider n where "n \<in> set (sm_daemonSets (status s))"
        "ds_hung E time_of (now_of s1) (now_of s2) (map_of dss0 n) (map_of dss1 n) n x"
      | n where "n \<in> set (sm_deployments (status s))"
        "dep_hung E time_of (now_of s2) (now_of s') (map_of deps0 n) (map_of deps n) n x"
      by fastforce
    then show "(\<exists>n \<in> set (sm_daemonSets (status s)).
        ds_hung E time_of (now_of s) (now_of s') (map_of dss0 n) (map_of dss n) n x)
      \<or> (\<exists>n \<in> set (sm_deployments (status s)).
        dep_hung E time_of (now_of s) (now_of s') (map_of deps0 n) (map_of deps n) n x)"
      using t ends dss by cases (metis order_refl span_monoD [OF hung_mono(1)] span_monoD [OF hung_mono(2)])+
  qed
qed

end

text \<open>The level that reports them.\<close>

lemma overall_hung:
  assumes "run_state (survey_rollouts E) s = ((ro, dss, deps), s1)"
  shows "sm_failing (status (snd (run_state (SetFromPodsForOverall E) s))) RolloutHung =
    (if ro_hung ro = [] then None
     else Some (make_condition OperatorDegraded ConditionTrue ''RolloutHung'' (Join (ro_hung ro) [CHR 0x0A])))"
  using assms by (simp add: SetFromPodsForOverall_def snd_run_bind del: State_Monad.run_state_bind)

interpretation mem_passes: pass_clock "mem_api mar unmar" m_clock for mar unmar
proof unfold_locales
  have reads: "m_clock w \<le> m_clock (snd (reading f w))" for f and w :: "'a mem_world_scheme"
    by (auto simp: reading_def next_fault_def split: prod.splits option.splits list.splits)
  show "m_clock w \<le> m_clock (snd (get_daemonset (mem_api mar unmar) n w))"
    "m_clock w \<le> m_clock (snd (get_deployment (mem_api mar unmar) n w))"
    "m_clock w \<le> m_clock (snd (get_clusteroperator (mem_api mar unmar) name w))"
    for n name and w :: "'a mem_world_scheme"
    by (simp_all add: mem_api_def reads)
qed (auto simp: mem_clock_def second_def)

section \<open>On Kubernetes nothing is remembered\<close>

lemma ds_step_fresh:
  "run_state (ds_step E n (ro, m)) s = ((ro', m'), s') \<Longrightarrow> n \<notin> dom (map_of m) \<Longrightarrow>
   ro_hung ro' = ro_hung ro \<and> dom (map_of m') \<subseteq> insert n (dom (map_of m))"
  by (auto simp: ds_step_def track_ds_def Let_def update_conv' delete_conv'
      split: prod.splits sum.splits option.splits if_splits)

lemma dep_step_fresh:
  "run_state (dep_step E n (ro, m)) s = ((ro', m'), s') \<Longrightarrow> n \<notin> dom (map_of m) \<Longrightarrow>
   ro_hung ro' = ro_hung ro \<and> dom (map_of m') \<subseteq> insert n (dom (map_of m))"
  by (auto simp: dep_step_def track_dep_def Let_def update_conv' delete_conv'
      split: prod.splits sum.splits option.splits if_splits)

lemma fold_state_fresh:
  assumes step: "\<And>n ro m s ro' m' s'. run_state (f n (ro, m)) s = ((ro', m'), s') \<Longrightarrow>
      n \<notin> dom (map_of m) \<Longrightarrow> ro_hung ro' = ro_hung ro \<and> dom (map_of m') \<subseteq> insert n (dom (map_of m))"
    and "run_state (fold_state f ns (ro, m)) s = ((ro', m'), s')" "distinct ns"
    and "set ns \<inter> dom (map_of m) = {}"
  shows "ro_hung ro' = ro_hung ro"
  using assms(2-4)
proof (induction ns arbitrary: ro m s)
  case (Cons n ns)
  obtain ro1 m1 s1 where one: "run_state (f n (ro, m)) s = ((ro1, m1), s1)" by (metis surj_pair)
  have "n \<notin> dom (map_of m)" "n \<notin> set ns" "distinct ns" using Cons.prems by auto
  note S = step [OF one this(1)]
  have "set ns \<inter> dom (map_of m1) = {}" using S Cons.prems(3) \<open>n \<notin> set ns\<close> by auto
  moreover have "run_state (fold_state f ns (ro1, m1)) s1 = ((ro', m'), s')"
    using Cons.prems(1) one by simp
  ultimately show ?case using Cons.IH \<open>distinct ns\<close> S by metis
qed simp

lemma survey_K8s_hung:
  assumes "run_state (survey_rollouts E) s = ((ro, dss, deps), s')"
    and "sm_Adaptor (status s) = AdaptorK8s"
    and "distinct (sm_daemonSets (status s))" "distinct (sm_deployments (status s))"
  shows "ro_hung ro = []"
proof -
  let ?b = "sm_daemonSets (status s) \<noteq> [] \<or> sm_deployments (status s) \<noteq> []"
  let ?ro0 = "\<lparr>ro_progressing = [], ro_hung = [], ro_reached = ?b\<rparr>"
  obtain ro1 dss1 s2 where d: "run_state (fold_state (ds_step E) (sm_daemonSets (status s)) (?ro0, [])) s =
      ((ro1, dss1), s2)" by (metis surj_pair)
  then obtain deps1 where p:
    "run_state (fold_state (dep_step E) (sm_deployments (status s)) (ro1, [])) s2 = ((ro, deps1), s')"
    using assms(1,2)
    by (auto simp: survey_rollouts_def getLastPodState_def getLastPodState_K8s_def Let_def
        split: prod.splits)
  have "ro_hung ro1 = ro_hung ?ro0"
    by (rule fold_state_fresh [OF _ d assms(3)]) (use ds_step_fresh in \<open>blast, simp\<close>)
  moreover have "ro_hung ro = ro_hung ro1"
    by (rule fold_state_fresh [OF _ p assms(4)]) (use dep_step_fresh in \<open>blast, simp\<close>)
  ultimately show ?thesis by simp
qed

end
