(* ===== verification/Status_Properties.thy ===== *)
theory Status_Properties
  imports Rollout_Facts
begin

text \<open>
  The properties of the status manager, stated over every API that meets the interfaces
  \<open>status_store\<close>, \<open>healthy_store\<close>, \<open>node_writes\<close>, \<open>node_store\<close> and \<open>pass_clock\<close>, with concrete
  runs on the cluster in memory as witnesses.
\<close>

section \<open>A concrete cluster\<close>

definition demo_marshal :: "pod_state \<Rightarrow> go_error + string" where
  "demo_marshal ps = Inl (GoError ''no codec'')"

definition demo_unmarshal :: "string \<Rightarrow> go_error + pod_state" where
  "demo_unmarshal s = Inl (GoError ''no codec'')"

abbreviation demo_api :: "mem_world status_api" where
  "demo_api \<equiv> mem_api demo_marshal demo_unmarshal"

definition demo_ncpinstall :: ncpinstall where
  "demo_ncpinstall = \<lparr>ni_namespace = ''nsx-system-operator'', ni_ncpReplicas = 1, ni_addNodeTag = True,
     ni_nodeSelector = None, ni_ncpTolerations = None, ni_agentTolerations = None, ni_conditions = []\<rparr>"

definition demo_world :: mem_world where
  "demo_world = \<lparr>m_cos = [''nsx-ncp'' \<mapsto> new_clusteroperator ''nsx-ncp''],
     m_nis = [nsn ''nsx-system-operator'' ''ncp-install'' \<mapsto> demo_ncpinstall],
     m_pods = [], m_nodes = [\<lparr>n_name = ''node-1'', n_addresses = [], n_conditions = [], n_providerID = []\<rparr>],
     m_dss = Map.empty, m_deps = Map.empty, m_clock = 1000 * second, m_faults = []\<rparr>"

definition demo_info :: shared_info where
  "demo_info = \<lparr>si_AdaptorName = ''openshift4'', si_AddNodeTag = True,
     si_PodSecurityPolicySupport = False, si_LastNodeAgentStartTime = None, si_NetworkConfig = None,
     si_OperatorConfigMap = None, si_OperatorNsxSecret = None, si_NsxNodeAgentDsSpec = None,
     si_NsxNcpBootstrapDsSpec = None, si_NsxNcpDeploymentSpec = None\<rparr>"

definition demo_state :: "mem_world operator" where
  "demo_state = \<lparr>world = demo_world,
     status = New_StatusManager ''nsx-ncp'' ''nsx-system-operator'' demo_info,
     sharedInfo = demo_info, firstBoot = True, cachedNodeSet = [], appliedConfigMap = None\<rparr>"

lemma demo_ready:
  "m_faults (world demo_state) = []"
  "mem_co (world demo_state) (sm_name (status demo_state)) \<noteq> None"
  "mem_ni (world demo_state) (ncp_key Names.OperatorNamespace) \<noteq> None"
  "mem_ni (world demo_state) (ncp_key (sm_OperatorNamespace (status demo_state))) \<noteq> None"
  "degraded_only (sm_failing (status demo_state))"
  "sm_Adaptor (status demo_state) = AdaptorOc"
  by (simp_all add: demo_state_def demo_world_def New_StatusManager_def demo_info_def mem_co_def
      mem_ni_def names adaptor_for_def)

section \<open>Degraded\<close>

text \<open>
  C1. Refinement. After any non-empty sequence of \<open>SetDegraded\<close> and \<open>SetNotDegraded\<close>, on an API
  that answers, the manager holds the abstract map of failing levels, and the cluster shows
  the condition of its most urgent entry: in the ClusterOperator on OpenShift, in the
  NcpInstall on Kubernetes.
\<close>

theorem degraded_events_reported:
  assumes "healthy_store E co_of ni_of healthy"
    and "healthy (world s)" "co_of (world s) (sm_name (status s)) \<noteq> None"
    and "ni_of (world s) (ncp_key Names.OperatorNamespace) \<noteq> None"
    and "ni_of (world s) (ncp_key (sm_OperatorNamespace (status s))) \<noteq> None"
    and "degraded_only (sm_failing (status s))" "es \<noteq> []"
    and "s' = snd (run_state (run_events E es) s)"
  shows "sm_failing (status s') = fold spec_event es (sm_failing (status s)) \<and>
    (\<exists>c. most_urgent (sm_failing (status s')) c \<and>
      (case sm_Adaptor (status s) of
         AdaptorOc \<Rightarrow> \<exists>co. co_of (world s') (sm_name (status s)) = Some co
           \<and> asserts (co_conditions co) [c]
       | AdaptorK8s \<Rightarrow> \<exists>crd. ni_of (world s') (ncp_key (sm_OperatorNamespace (status s))) = Some crd
           \<and> asserts (ni_conditions crd) [c]))"
proof -
  have run: "run_state (run_events E es) s = ((), s')" using assms(8) by (simp add: prod_eq_iff)
  have "healthy_store.publishable co_of ni_of healthy s"
    using assms(2-5) by (simp add: healthy_store.publishable_def [OF assms(1)])
  from healthy_store.run_events_reports [OF assms(1) this assms(6,7) run]
    status_after_events [of E es s] assms(8)
    degraded_report_most_urgent [of "fold spec_event es (sm_failing (status s))"]
  show ?thesis by (auto simp: healthy_store.published_def [OF assms(1)] split: adaptor.splits)
qed

theorem degraded_events_reported_witness:
  "\<exists>co. mem_co (world (snd (run_state (run_events demo_api
          [Fail RolloutHung ''RolloutHung'' ''slow'', Fail OperatorConfig ''Bad'' ''no'']) demo_state)))
        ''nsx-ncp'' = Some co \<and>
     asserts (co_conditions co) [make_condition OperatorDegraded ConditionTrue ''Bad'' ''no'']"
proof -
  let ?es = "[Fail RolloutHung ''RolloutHung'' ''slow'', Fail OperatorConfig ''Bad'' ''no'']"
  let ?f = "fold spec_event ?es (sm_failing (status demo_state))"
  have "most_urgent ?f (make_condition OperatorDegraded ConditionTrue ''Bad'' ''no'')"
    unfolding most_urgent_def
    by (auto simp: demo_state_def New_StatusManager_def less_status_level_def
        intro!: exI [of _ OperatorConfig])
  then have unique: "most_urgent ?f c \<Longrightarrow> c = make_condition OperatorDegraded ConditionTrue ''Bad'' ''no''" for c
    using most_urgent_unique by blast
  let ?s = "snd (run_state (run_events demo_api ?es) demo_state)"
  have name: "sm_name (status demo_state) = ''nsx-ncp''"
    by (simp add: demo_state_def New_StatusManager_def)
  have "sm_failing (status ?s) = ?f \<and> (\<exists>c. most_urgent (sm_failing (status ?s)) c
      \<and> (\<exists>co. mem_co (world ?s) ''nsx-ncp'' = Some co \<and> asserts (co_conditions co) [c]))"
    using degraded_events_reported [OF mem.healthy_store_axioms demo_ready(1-5), of ?es ?s demo_marshal
        demo_unmarshal]
    unfolding demo_ready(6) adaptor.case name by blast
  with unique show ?thesis by metis
qed

section \<open>Publishing conditions\<close>

text \<open>
  C2. Whatever conflicts were retried, when \<open>StatusOc.set\<close> ends without error and the
  ClusterOperator was there, it asserts every wanted condition, Upgradeable=True, and the
  operator's version once the available level is reached. When it was not there, it was created,
  the server dropped the status, and nothing is published: neither in the ClusterOperator, which
  is bare, nor in the NcpInstall. The next call of \<open>set\<close> then is of the first kind.
\<close>

theorem set_Oc_published:
  assumes "status_store E co_of ni_of"
    and "run_state (set_retried E (set_closure_Oc E) level conds) s = (None, s')"
    and "distinct (map ctype conds)" "OperatorUpgradeable \<notin> ctype ` set conds"
  shows "let n = sm_name (status s) in
    case co_of (world s) n of
      Some old \<Rightarrow> \<exists>co. co_of (world s') n = Some co \<and> reports co conds level
    | None \<Rightarrow> co_of (world s') n = Some (new_clusteroperator n) \<and> ni_of (world s') = ni_of (world s)"
  using status_store.set_Oc_persists [OF assms(1,2) _ assms(3,4)] status_store.set_Oc_created [OF assms(1,2)]
  by (auto simp: Let_def split: option.splits)

abbreviation demo_conditions :: "condition list" where
  "demo_conditions \<equiv> [make_condition OperatorProgressing ConditionFalse [] [],
     make_condition OperatorAvailable ConditionTrue [] []]"

text \<open>The first call creates the ClusterOperator, the second one publishes.\<close>

theorem set_Oc_published_witness:
  "\<exists>s1 s2 co. run_state (set_retried demo_api (set_closure_Oc demo_api) True demo_conditions)
       (demo_state\<lparr>world := demo_world\<lparr>m_cos := Map.empty\<rparr>\<rparr>) = (None, s1)
     \<and> mem_co (world s1) ''nsx-ncp'' = Some (new_clusteroperator ''nsx-ncp'')
     \<and> run_state (set_retried demo_api (set_closure_Oc demo_api) True demo_conditions) s1 = (None, s2)
     \<and> mem_co (world s2) ''nsx-ncp'' = Some co \<and> reports co demo_conditions True"
proof -
  let ?set = "set_retried demo_api (set_closure_Oc demo_api) True demo_conditions"
  let ?s = "demo_state\<lparr>world := demo_world\<lparr>m_cos := Map.empty\<rparr>\<rparr>"
  let ?r = "run_state ?set ?s"
  have "fst ?r = None" "fst (run_state ?set (snd ?r)) = None" by code_simp+
  then have runs: "?r = (None, snd ?r)" "run_state ?set (snd ?r) = (None, snd (run_state ?set (snd ?r)))"
    by (simp_all add: prod_eq_iff)
  have name: "sm_name (status ?s) = ''nsx-ncp''" "sm_name (status (snd ?r)) = ''nsx-ncp''"
    "mem_co (world ?s) ''nsx-ncp'' = None" by code_simp+
  have conds: "distinct (map ctype demo_conditions)" "OperatorUpgradeable \<notin> ctype ` set demo_conditions"
    by simp_all
  note first = set_Oc_published [OF mem.status_store_axioms runs(1) conds, unfolded name Let_def]
  then have one: "mem_co (world (snd ?r)) ''nsx-ncp'' = Some (new_clusteroperator ''nsx-ncp'')"
    by (simp add: name(3))
  from set_Oc_published [OF mem.status_store_axioms runs(2) conds, unfolded name Let_def] one
  obtain co where "mem_co (world (snd (run_state ?set (snd ?r)))) ''nsx-ncp'' = Some co"
    "reports co demo_conditions True" by auto
  with one runs show ?thesis by blast
qed

text \<open>
  C3. The same on Kubernetes, where the NcpInstall in the manager's namespace carries the
  conditions.
\<close>

theorem set_K8s_published:
  assumes "status_store E co_of ni_of"
    and "run_state (set_retried E (set_closure_K8s E) level conds) s = (None, s')"
    and "distinct (map ctype conds)"
  shows "\<exists>crd. ni_of (world s') (ncp_key (sm_OperatorNamespace (status s))) = Some crd
           \<and> asserts (ni_conditions crd) conds"
  using status_store.set_K8s_persists [OF assms] .

theorem set_K8s_published_witness:
  "\<exists>crd. mem_ni (world (snd (run_state (set_retried demo_api (set_closure_K8s demo_api) True
      demo_conditions) demo_state))) (ncp_key ''nsx-system-operator'') = Some crd
    \<and> asserts (ni_conditions crd) demo_conditions"
proof -
  let ?r = "run_state (set_retried demo_api (set_closure_K8s demo_api) True demo_conditions) demo_state"
  have "fst ?r = None" by code_simp
  then have "?r = (None, snd ?r)" by (simp add: prod_eq_iff)
  moreover have "sm_OperatorNamespace (status demo_state) = ''nsx-system-operator''"
    by (simp add: demo_state_def New_StatusManager_def)
  ultimately show ?thesis
    using set_K8s_published [OF mem.status_store_axioms,
      of demo_marshal demo_unmarshal True demo_conditions demo_state "snd ?r"] by simp
qed

text \<open>
  C4. A ClusterOperator that already carries what \<open>set\<close> computes is left alone: the clock is
  read, and no object is written. This holds whatever the NcpInstall says, so an update of the
  NcpInstall that failed after the ClusterOperator was written is not made up for.
\<close>

theorem set_Oc_settled:
  assumes "distinct (map ctype conds)" "OperatorUpgradeable \<notin> ctype ` set conds"
    and "co_conditions co = Oc_conditions (fmt_condition E) old conds ts tb tc"
    and "co_versions co = versions_for level v"
    and "run_state (set_Oc_write E level conds sm nf co) s = (r, s')"
  shows "r = None \<and> local_state s' = local_state s \<and>
    (\<exists>u1 w1 u2 w2 u3. clock_now E (world s) = (u1, w1) \<and> clock_now E w1 = (u2, w2)
       \<and> clock_now E w2 = (u3, world s'))"
proof -
  obtain u1 w1 where c1: "clock_now E (world s) = (u1, w1)" by force
  obtain u2 w2 where c2: "clock_now E w1 = (u2, w2)" by force
  obtain u3 w3 where c3: "clock_now E w2 = (u3, w3)" by force
  have "Oc_conditions (fmt_condition E) (co_conditions co) conds u1 (u2 0) (u3 0) = co_conditions co"
    using Oc_conditions_fixpoint [OF assms(1,2)] assms(3) by simp
  with assms(4,5) have "r = None \<and> s' = s\<lparr>world := w3\<rparr>"
    by (auto simp: set_Oc_write_def Let_def c1 c2 c3 Oc_conditions_def)
  with c1 c2 c3 show ?thesis by auto
qed

theorem set_Oc_settled_witness:
  "fst (run_state (set_Oc_write demo_api True demo_conditions (status demo_state) False
     ((new_clusteroperator ''nsx-ncp'')
        \<lparr>co_conditions := Oc_conditions (fmt_condition demo_api) [] demo_conditions (\<lambda>_. 5) 6 7,
         co_versions := [(''operator'', operator_version)]\<rparr>)) demo_state) = None"
proof -
  let ?co = "(new_clusteroperator ''nsx-ncp'')
        \<lparr>co_conditions := Oc_conditions (fmt_condition demo_api) [] demo_conditions (\<lambda>_. 5) 6 7,
         co_versions := [(''operator'', operator_version)]\<rparr>"
  let ?r = "run_state (set_Oc_write demo_api True demo_conditions (status demo_state) False ?co) demo_state"
  have "fst ?r = None \<and> local_state (snd ?r) = local_state demo_state \<and>
    (\<exists>u1 w1 u2 w2 u3. clock_now demo_api (world demo_state) = (u1, w1) \<and> clock_now demo_api w1 = (u2, w2)
       \<and> clock_now demo_api w2 = (u3, world (snd ?r)))"
    by (rule set_Oc_settled [where co = ?co and old = "[]" and ts = "\<lambda>_. 5" and tb = 6 and tc = 7
          and v = "[]" and conds = demo_conditions and level = True])
       (simp_all add: versions_for_def prod_eq_iff)
  then show ?thesis by simp
qed

text \<open>
  Consequently a conflict on the NcpInstall update is swallowed: the retry finds the
  ClusterOperator up to date and returns nil. The run below ends without error, the
  ClusterOperator is Degraded, and the NcpInstall has no condition at all.
\<close>

definition conflict_state :: "mem_world operator" where
  "conflict_state = demo_state\<lparr>world := demo_world\<lparr>m_faults := [None, None, None, Some (Conflict ''modified'')]\<rparr>\<rparr>"

theorem ncpinstall_conflict_lost:
  "(case run_state (set_retried demo_api (set_closure_Oc demo_api) False
           [make_condition OperatorDegraded ConditionTrue ''Bad'' ''no'']) conflict_state of
      (r, s') \<Rightarrow> r = None
        \<and> map_option (\<lambda>c. map ctype (co_conditions c)) (mem_co (world s') ''nsx-ncp'')
            = Some [OperatorDegraded, OperatorUpgradeable]
        \<and> map_option ni_conditions (mem_ni (world s') (ncp_key ''nsx-system-operator'')) = Some [])"
  by code_simp

text \<open>
  C6. \<open>CombineConditions\<close>: afterwards every new condition is asserted, conditions of other types
  are untouched, an unchanged status keeps its transition time, and the reported flag is true
  exactly when some new condition was not yet asserted.
\<close>

theorem combine_conditions_spec:
  assumes "distinct (map ctype ns)"
    and "CombineConditions fmtv cs ns ts = (cs', changed, messages)"
  shows "asserts cs' ns \<and> (changed \<longleftrightarrow> \<not> asserts cs ns) \<and> (\<not> changed \<longrightarrow> cs' = cs) \<and>
    (\<forall>t. t \<notin> ctype ` set ns \<longrightarrow> FindStatusCondition cs' t = FindStatusCondition cs t) \<and>
    (\<forall>n \<in> set ns. \<forall>d. FindStatusCondition cs (ctype n) = Some d \<and> cstatus d = cstatus n \<longrightarrow>
       map_option cltt (FindStatusCondition cs' (ctype n)) = Some (cltt d))"
proof -
  have loop: "cs' = fst (combine_loop fmtv cs ns ts False [])"
    using assms(2) by (simp add: CombineConditions_def)
  have "map_option cltt (FindStatusCondition cs' (ctype n)) = Some (cltt d)"
    if "n \<in> set ns" "FindStatusCondition cs (ctype n) = Some d" "cstatus d = cstatus n" for n d
    using combine_loop_asserts [OF assms(1) that(1), of fmtv cs ts False "[]"] that(2,3) loop by auto
  then show ?thesis
    using assms Combine_result [OF assms(2)] Combine_changed_iff [OF assms(1), of fmtv cs ts]
      Combine_other [of _ ns fmtv cs ts]
    by (auto simp: asserts_def)
qed

theorem combine_conditions_spec_witness:
  "asserts (fst (CombineConditions ctype [make_condition OperatorDegraded ConditionFalse [] []]
     demo_conditions (\<lambda>_. 3))) demo_conditions"
proof -
  obtain cs' ch m where c: "CombineConditions ctype
      [make_condition OperatorDegraded ConditionFalse [] []] demo_conditions (\<lambda>_. 3) = (cs', ch, m)"
    by (metis surj_pair)
  show ?thesis using combine_conditions_spec [OF _ c] c by simp
qed

section \<open>Nodes\<close>

text \<open>
  C7. Safety of the node condition. If handling a pod turns the NetworkUnavailable condition of
  its node to False, then the pod has containers, all of them run, and each has been running
  for at least \<open>TimeBeforeRecoverNetwork\<close> (180 s) at the clock reading taken for the decision.
\<close>

theorem network_available_only_after_grace:
  assumes "node_store E nodes_of"
    and "run_state (node_condition_of_pod E now p) s = (out, s')"
    and "nodes_of (world s) (p_nodeName p) = Some nd" "nu_status nd \<noteq> Some ConditionFalse"
    and "nodes_of (world s') (p_nodeName p) = Some nd'" "nu_status nd' = Some ConditionFalse"
  shows "all_running p \<and> (\<forall>cs \<in> set (p_containerStatuses p). \<forall>t. cs_running cs = Some t \<longrightarrow>
     t + TimeBeforeRecoverNetwork \<le> fst (clock_now E (world s)) 0)"
  using node_store.pod_safe [OF assms] .

definition demo_pod :: "time \<Rightarrow> pod" where
  "demo_pod t = \<lparr>p_name = ''nsx-node-agent-1'', p_namespace = ''nsx-system'', p_nodeName = ''node-1'',
     p_phase = ''Running'', p_startTime = Some t,
     p_containerStatuses = [\<lparr>cs_name = ''nsx-node-agent'', cs_running = Some t, cs_waiting = None,
        cs_terminated = None\<rparr>, \<lparr>cs_name = ''nsx-kube-proxy'', cs_running = Some (t + 5 * second),
        cs_waiting = None, cs_terminated = None\<rparr>]\<rparr>"

theorem network_available_only_after_grace_witness:
  "505 * second + TimeBeforeRecoverNetwork \<le> fst (clock_now demo_api (world demo_state)) 0
   \<and> map_option nu_status (mem_node (world (snd (run_state (node_condition_of_pod demo_api (900 * second)
        (demo_pod (500 * second))) demo_state))) ''node-1'') = Some (Some ConditionFalse)"
proof -
  let ?p = "demo_pod (500 * second)"
  let ?r = "run_state (node_condition_of_pod demo_api (900 * second) ?p) demo_state"
  have before: "map_option nu_status (mem_node (world demo_state) (p_nodeName ?p)) = Some None"
    by code_simp
  have after: "map_option nu_status (mem_node (world (snd ?r)) (p_nodeName ?p)) = Some (Some ConditionFalse)"
    by code_simp
  obtain nd where nd: "mem_node (world demo_state) (p_nodeName ?p) = Some nd" "nu_status nd = None"
    using before by auto
  obtain nd' where nd': "mem_node (world (snd ?r)) (p_nodeName ?p) = Some nd'"
      "nu_status nd' = Some ConditionFalse"
    using after by auto
  have "all_running ?p \<and> (\<forall>cs \<in> set (p_containerStatuses ?p). \<forall>t. cs_running cs = Some t \<longrightarrow>
     t + TimeBeforeRecoverNetwork \<le> fst (clock_now demo_api (world demo_state)) 0)"
    by (rule network_available_only_after_grace [OF mem_nodes.node_store_axioms _ nd(1) _ nd'])
       (use nd in \<open>simp_all add: prod_eq_iff\<close>)
  with after show ?thesis by (simp add: demo_pod_def)
qed

text \<open>
  C8. A pod event changes the condition of no other node, and an event of a pod that started
  before the last one seen on its node changes no node at all.
\<close>

theorem pod_event_frame:
  assumes "node_store E nodes_of"
    and "run_state (node_condition_of_pod E now p) s = (out, s')"
  shows "(\<forall>k. k \<noteq> p_nodeName p \<longrightarrow> nodes_of (world s') k = nodes_of (world s) k) \<and>
    ((\<exists>starts u t. si_LastNodeAgentStartTime (sharedInfo s) = Some starts \<and> p_startTime p = Some u
       \<and> starts (p_nodeName p) = Some t \<and> u < t)
     \<longrightarrow> world s' = world s \<and> out = (emptyResult, None))"
  using node_store.pod_other_nodes [OF assms] node_condition_of_pod_outdated [OF assms(2)] by blast

theorem pod_event_frame_witness:
  "world (snd (run_state (node_condition_of_pod demo_api 0 (demo_pod 5))
     (demo_state\<lparr>sharedInfo := demo_info\<lparr>si_LastNodeAgentStartTime := Some [''node-1'' \<mapsto> 9]\<rparr>\<rparr>))) = demo_world"
proof -
  let ?s = "demo_state\<lparr>sharedInfo := demo_info\<lparr>si_LastNodeAgentStartTime := Some [''node-1'' \<mapsto> 9]\<rparr>\<rparr>"
  let ?r = "run_state (node_condition_of_pod demo_api 0 (demo_pod 5)) ?s"
  have "?r = (fst ?r, snd ?r)" by simp
  from pod_event_frame [OF mem_nodes.node_store_axioms this] show ?thesis
    by (simp add: demo_pod_def demo_state_def)
qed

text \<open>
  C9. Updating a node, when reads may come from a cache and be old. Without an error, the node as
  it was read carries the condition already, with its status, reason and message, or the stored
  node gets it, next to the other conditions that were read; no other node changes. Then the
  handler is done exactly when a second read shows the status of the condition; it looks
  again after the resync period otherwise.
\<close>

theorem node_condition_visible:
  assumes "node_writes E nodes_of"
    and "run_state (update_and_assert E n ready reason msg) s = ((res, None), s')"
  shows "(\<forall>k. k \<noteq> n \<longrightarrow> nodes_of (world s') k = nodes_of (world s) k)
    \<and> (case fst (get_node E n (world s)) of
         Inl e \<Rightarrow> nodes_of (world s') = nodes_of (world s)
       | Inr nd \<Rightarrow> carries ready reason msg (n_conditions nd) \<and> nodes_of (world s') = nodes_of (world s)
           \<or> (\<exists>cs. carries ready reason msg cs \<and> same_others cs (n_conditions nd)
                \<and> nodes_of (world s') n = map_option (\<lambda>old. old\<lparr>n_conditions := cs\<rparr>) (nodes_of (world s) n)))
    \<and> (\<exists>nd. fst (get_node E n (world (snd (run_state (updateNodeStatus E n ready reason msg) s)))) = Inr nd
         \<and> res = (if nu_status nd \<noteq> None \<and> (ready \<longleftrightarrow> nu_status nd = Some ConditionFalse)
                then emptyResult else requeueAfter DefaultResyncPeriod))"
proof -
  obtain r t where u: "run_state (updateNodeStatus E n ready reason msg) s = (r, t)" by force
  with assms(2) have "r = None" and a: "run_state (assertNodeStatus E n ready) t = ((res, None), s')"
    by (auto simp: update_and_assert_def split: option.splits)
  note W = node_writes.updateNodeStatus_writes [OF assms(1) u]
  from node_writes.assertNodeStatus_reads [OF assms(1) a] obtain nd where
    "fst (get_node E n (world t)) = Inr nd" and t: "nodes_of (world s') = nodes_of (world t)"
    and "res = (if nu_status nd \<noteq> None \<and> (ready \<longleftrightarrow> nu_status nd = Some ConditionFalse)
        then emptyResult else requeueAfter DefaultResyncPeriod)" by auto
  with W \<open>r = None\<close> u show ?thesis unfolding t by (auto split: sum.splits)
qed

text \<open>Behind a cache that still has the node without the condition, the node is looked at again.\<close>

theorem node_condition_visible_witness:
  "\<exists>s' nd. run_state (update_and_assert (lagging (mem_node demo_world) demo_api) ''node-1'' False ''R'' ''m'')
       demo_state = ((requeueAfter DefaultResyncPeriod, None), s')
     \<and> mem_node (world s') ''node-1'' = Some nd \<and> carries False ''R'' ''m'' (n_conditions nd)"
proof -
  let ?E = "lagging (mem_node demo_world) demo_api"
  let ?r = "run_state (update_and_assert ?E ''node-1'' False ''R'' ''m'') demo_state"
  have "fst ?r = (requeueAfter DefaultResyncPeriod, None)" by code_simp
  then have run: "?r = ((requeueAfter DefaultResyncPeriod, None), snd ?r)" by (simp add: prod_eq_iff)
  have read: "fst (get_node ?E ''node-1'' (world demo_state)) =
      Inr \<lparr>n_name = ''node-1'', n_addresses = [], n_conditions = [], n_providerID = []\<rparr>"
    "mem_node (world demo_state) ''node-1'' =
      Some \<lparr>n_name = ''node-1'', n_addresses = [], n_conditions = [], n_providerID = []\<rparr>"
    by code_simp+
  have "\<not> carries False ''R'' ''m'' []" by (simp add: carries_def FindNodeStatusCondition_def)
  with node_condition_visible [OF lagging_nodes.node_writes_axioms run, unfolded read]
  have "\<exists>nd. mem_node (world (snd ?r)) ''node-1'' = Some nd \<and> carries False ''R'' ''m'' (n_conditions nd)"
    by auto
  with run show ?thesis by blast
qed

text \<open>
  C10. A ready agent inside the grace time is checked again exactly when the grace time ends:
  the requeue delay is positive and at most 180 s, and the node is meanwhile not reported
  available by this run.
\<close>

theorem grace_requeue_bounds:
  assumes "run_state (setNodeNetworkUnavailable E n True (Some t) reason msg) s = ((res, None), s')"
    and "t \<le> fst (clock_now E (world s)) 0"
    and "fst (clock_now E (world s)) 0 < t + TimeBeforeRecoverNetwork"
  shows "\<not> Requeue res \<and> 0 < RequeueAfter res \<and> RequeueAfter res \<le> TimeBeforeRecoverNetwork
    \<and> fst (clock_now E (world s)) 0 + RequeueAfter res = t + TimeBeforeRecoverNetwork"
proof -
  obtain ts w where c: "clock_now E (world s) = (ts, w)" by force
  have sub: "time_Sub (ts 0) t = ts 0 - t"
    using assms(2,3) c by (simp add: time_Sub_def max_duration_def min_duration_def
        TimeBeforeRecoverNetwork_def second_def)
  have "wrap64 (TimeBeforeRecoverNetwork - (ts 0 - t)) = TimeBeforeRecoverNetwork - (ts 0 - t)"
    using assms(2,3) c by (intro wrap64_id) (simp_all add: max_duration_def min_duration_def
        TimeBeforeRecoverNetwork_def second_def)
  with assms c sub show ?thesis
    by (auto simp: setNodeNetworkUnavailable_def Let_def requeueAfter_def
        split: prod.splits option.splits if_splits)
qed

theorem grace_requeue_bounds_witness:
  "RequeueAfter (fst (fst (run_state (setNodeNetworkUnavailable demo_api ''node-1'' True
     (Some (900 * second)) ''R'' ''m'') demo_state))) \<le> 180 * second"
proof -
  let ?r = "run_state (setNodeNetworkUnavailable demo_api ''node-1'' True
     (Some (900 * second)) ''R'' ''m'') demo_state"
  have "snd (fst ?r) = None" by code_simp
  then have "?r = ((fst (fst ?r), None), snd ?r)" by (simp add: prod_eq_iff)
  from grace_requeue_bounds [OF this] show ?thesis
    by (simp add: mem_clock_def demo_state_def demo_world_def TimeBeforeRecoverNetwork_def second_def)
qed

section \<open>Rollouts\<close>

text \<open>
  C11. The operator claims the available level exactly when it monitors something and no
  rollout progresses; a rollout is called hung only while something progresses.
\<close>

theorem available_iff_no_progress:
  assumes "run_state (survey_rollouts E) s = ((ro, dss, deps), s')"
  shows "(ro_reached ro \<longleftrightarrow> (sm_daemonSets (status s) \<noteq> [] \<or> sm_deployments (status s) \<noteq> [])
            \<and> ro_progressing ro = [])
    \<and> (ro_hung ro \<noteq> [] \<longrightarrow> ro_progressing ro \<noteq> [])"
  using survey_inv [OF assms] by (simp add: rollout_inv_def)

theorem available_iff_no_progress_witness:
  "\<not> ro_reached (fst (fst (run_state (survey_rollouts demo_api) demo_state)))"
  using available_iff_no_progress [of demo_api demo_state
      "fst (fst (run_state (survey_rollouts demo_api) demo_state))"
      "fst (snd (fst (run_state (survey_rollouts demo_api) demo_state)))"
      "snd (snd (fst (run_state (survey_rollouts demo_api) demo_state)))"
      "snd (run_state (survey_rollouts demo_api) demo_state)"]
  by (simp add: demo_state_def New_StatusManager_def)

text \<open>
  C12. Every rollout of a pass that is called hung, of a DaemonSet or of a Deployment, is
  monitored and incomplete, was recalled from earlier passes with the very status that was read,
  has not changed for more than the ten minutes of \<open>ProgressTimeout\<close>, and its record stays. This
  holds for a pass that itself takes at most ten minutes. The level RolloutHung is clear when
  nothing is hung, and otherwise reports exactly these rollouts.
\<close>

theorem hung_is_justified:
  assumes "pass_clock E time_of"
    and "distinct (sm_daemonSets (status s))" "distinct (sm_deployments (status s))"
    and "run_state (survey_rollouts E) s = ((ro, dss, deps), s')"
    and "time_of (world s') - time_of (world s) \<le> ProgressTimeout"
    and "fst (run_state (getLastPodState E) s) = (dss0, deps0)"
  shows "(\<forall>x \<in> set (ro_hung ro).
      (\<exists>n \<in> set (sm_daemonSets (status s)). ds_hung E time_of (time_of (world s)) (time_of (world s'))
          (map_of dss0 n) (map_of dss n) n x)
      \<or> (\<exists>n \<in> set (sm_deployments (status s)). dep_hung E time_of (time_of (world s)) (time_of (world s'))
          (map_of deps0 n) (map_of deps n) n x))
    \<and> sm_failing (status (snd (run_state (SetFromPodsForOverall E) s))) RolloutHung =
        (if ro_hung ro = [] then None else Some (make_condition OperatorDegraded ConditionTrue
           ''RolloutHung'' (Join (ro_hung ro) [CHR 0x0A])))"
  using pass_clock.survey_justified [OF assms(1,4,2,3,5,6)] overall_hung [OF assms(4)] by blast

definition hung_ds :: daemonset where
  "hung_ds = \<lparr>ds_generation = 1, ds_status = dst_LastSeenStatus zero_ds_state, ds_tolerations = None\<rparr>"

definition hung_dep :: deployment where
  "hung_dep = \<lparr>dep_generation = 1, dep_status = dpt_LastSeenStatus zero_dep_state, dep_replicas = None,
     dep_images = [], dep_nodeSelector = None, dep_tolerations = None\<rparr>"

definition hung_api :: "mem_world status_api" where
  "hung_api = mem_api demo_marshal (\<lambda>s. Inr
     \<lparr>ps_DaemonsetStates = [zero_ds_state\<lparr>dst_name := nsn ''a'' ''ds'', dst_LastChangeTime := 300 * second\<rparr>],
      ps_DeploymentStates = [zero_dep_state\<lparr>dpt_name := nsn ''a'' ''dep'', dpt_LastChangeTime := 900 * second\<rparr>]\<rparr>)"

definition hung_operator :: "mem_world operator" where
  "hung_operator = demo_state\<lparr>world := demo_world
       \<lparr>m_cos := [''nsx-ncp'' \<mapsto> (new_clusteroperator ''nsx-ncp'')\<lparr>co_annotations := [lastSeenAnnotation \<mapsto> ''{}'']\<rparr>],
        m_dss := (\<lambda>k. Some hung_ds), m_deps := (\<lambda>k. Some hung_dep)\<rparr>,
     status := (status demo_state)\<lparr>sm_daemonSets := [nsn ''a'' ''ds''], sm_deployments := [nsn ''a'' ''dep'']\<rparr>\<rparr>"

text \<open>The DaemonSet has not changed for 700 seconds, the Deployment for 100.\<close>

theorem hung_is_justified_witness:
  "\<exists>msg dss. sm_failing (status (snd (run_state (SetFromPodsForOverall hung_api) hung_operator))) RolloutHung
       = Some (make_condition OperatorDegraded ConditionTrue ''RolloutHung'' msg)
     \<and> ds_hung hung_api m_clock (1000 * second) (1002 * second)
         (Some (zero_ds_state\<lparr>dst_name := nsn ''a'' ''ds'', dst_LastChangeTime := 300 * second\<rparr>)) (dss (nsn ''a'' ''ds''))
         (nsn ''a'' ''ds'') msg"
proof -
  let ?r = "run_state (survey_rollouts hung_api) hung_operator"
  let ?ro = "fst (fst ?r)" and ?dss = "fst (snd (fst ?r))" and ?deps = "snd (snd (fst ?r))"
  let ?d = "zero_ds_state\<lparr>dst_name := nsn ''a'' ''ds'', dst_LastChangeTime := 300 * second\<rparr>"
  have run: "?r = ((?ro, ?dss, ?deps), snd ?r)" by simp
  have time: "m_clock (world (snd ?r)) = 1002 * second" "m_clock (world hung_operator) = 1000 * second"
    "sm_daemonSets (status hung_operator) = [nsn ''a'' ''ds'']"
    "sm_deployments (status hung_operator) = [nsn ''a'' ''dep'']"
    by code_simp+
  have hung: "ro_hung ?ro = [hung_message hung_api ''DaemonSet'' (nsn ''a'' ''ds'') (300 * second)]" by code_simp
  have last: "fst (run_state (getLastPodState hung_api) hung_operator) = ([(nsn ''a'' ''ds'', ?d)],
      [(nsn ''a'' ''dep'', zero_dep_state\<lparr>dpt_name := nsn ''a'' ''dep'', dpt_LastChangeTime := 900 * second\<rparr>)])"
    by code_simp
  have clock: "pass_clock hung_api m_clock" unfolding hung_api_def by (rule mem_passes.pass_clock_axioms)
  have "\<not> dep_hung hung_api m_clock (1000 * second) (1002 * second)
      (Some (zero_dep_state\<lparr>dpt_name := nsn ''a'' ''dep'', dpt_LastChangeTime := 900 * second\<rparr>)) b n x" for b n x
    by (simp add: dep_hung_def ProgressTimeout_def minute_def second_def)
  moreover note hung_is_justified [OF clock _ _ run _ last, unfolded time hung]
  ultimately show ?thesis
    by (intro exI [of _ "hung_message hung_api ''DaemonSet'' (nsn ''a'' ''ds'') (300 * second)"] exI [of _ "map_of ?dss"])
       (simp add: ProgressTimeout_def minute_def second_def)
qed

text \<open>
  On Kubernetes the last-seen states are never kept, so a rollout is never called hung
  there: however long it lasts, \<open>SetFromPodsForOverall\<close> leaves the RolloutHung level clear.
\<close>

theorem kubernetes_never_hung:
  assumes "sm_Adaptor (status s) = AdaptorK8s"
    and "distinct (sm_daemonSets (status s))" "distinct (sm_deployments (status s))"
  shows "sm_failing (status (snd (run_state (SetFromPodsForOverall E) s))) RolloutHung = None"
proof -
  obtain ro dss deps s1 where survey: "run_state (survey_rollouts E) s = ((ro, dss, deps), s1)"
    by (metis surj_pair)
  have "ro_hung ro = []" by (rule survey_K8s_hung [OF survey assms])
  with survey show ?thesis
    by (simp add: SetFromPodsForOverall_def snd_run_bind del: State_Monad.run_state_bind)
qed

theorem kubernetes_never_hung_witness:
  "sm_failing (status (snd (run_state (SetFromPodsForOverall demo_api)
     (demo_state\<lparr>status := (status demo_state)\<lparr>sm_Adaptor := AdaptorK8s,
        sm_failing := (\<lambda>l. Some degraded_false)\<rparr>\<rparr>)))) RolloutHung = None"
  by (rule kubernetes_never_hung) (simp_all add: demo_state_def New_StatusManager_def)

end
