(* ===== verification/Ini_Lib.thy ===== *)
theory Ini_Lib
  imports Objects "HOL-Library.Mapping" "HOL-Library.AList_Mapping"
begin

text \<open>
  The INI library (\<open>gopkg.in/ini.v1\<close>) as a parameter of the model. A \<open>*ini.File\<close> is a value
  of any type \<open>'f\<close>; a method that changes the file returns the changed one, and a section is
  addressed by the file and its name. \<open>Section\<close> and \<open>Key\<close> create what they do not find. The
  locale \<open>ini_laws\<close> states what the operator relies on, over the view of a file as a partial
  map from sections and keys to values.
\<close>

record 'f ini_lib =
  Load :: "string \<Rightarrow> go_error + 'f"
  WriteTo :: "'f \<Rightarrow> go_error + string"
  Empty :: 'f
  GetSection :: "'f \<Rightarrow> string \<Rightarrow> go_error option"  \<comment> \<open>None when the section exists\<close>
  Section :: "'f \<Rightarrow> string \<Rightarrow> 'f"
  NewSection :: "'f \<Rightarrow> string \<Rightarrow> 'f"
  DeleteSection :: "'f \<Rightarrow> string \<Rightarrow> 'f"
  SectionStrings :: "'f \<Rightarrow> string list"
  HasKey :: "'f \<Rightarrow> string \<Rightarrow> string \<Rightarrow> bool"
  Key :: "'f \<Rightarrow> string \<Rightarrow> string \<Rightarrow> 'f"
  Value :: "'f \<Rightarrow> string \<Rightarrow> string \<Rightarrow> string"
  String :: "'f \<Rightarrow> string \<Rightarrow> string \<Rightarrow> string"
  SetValue :: "'f \<Rightarrow> string \<Rightarrow> string \<Rightarrow> string \<Rightarrow> 'f"
  NewKey :: "'f \<Rightarrow> string \<Rightarrow> string \<Rightarrow> string \<Rightarrow> go_error option \<times> 'f"
  DeleteKey :: "'f \<Rightarrow> string \<Rightarrow> string \<Rightarrow> 'f"
  KeyStrings :: "'f \<Rightarrow> string \<Rightarrow> string list"
  KeysHash :: "'f \<Rightarrow> string \<Rightarrow> (string, string) mapping"

text \<open>The calls of the operator are chains; these are the chains.\<close>

definition sec_has_key :: "'f ini_lib \<Rightarrow> 'f \<Rightarrow> string \<Rightarrow> string \<Rightarrow> bool \<times> 'f" where
  "sec_has_key L f sec key = (let f' = Section L f sec in (HasKey L f' sec key, f'))"

definition sec_key_value :: "'f ini_lib \<Rightarrow> 'f \<Rightarrow> string \<Rightarrow> string \<Rightarrow> string \<times> 'f" where
  "sec_key_value L f sec key = (let f' = Key L (Section L f sec) sec key in (Value L f' sec key, f'))"

definition sec_key_string :: "'f ini_lib \<Rightarrow> 'f \<Rightarrow> string \<Rightarrow> string \<Rightarrow> string \<times> 'f" where
  "sec_key_string L f sec key = (let f' = Key L (Section L f sec) sec key in (String L f' sec key, f'))"

section \<open>What the operator relies on\<close>

text \<open>Names and values that are written and read back as they are.\<close>

definition name_char :: "char \<Rightarrow> bool" where
  "name_char c \<longleftrightarrow>
     (let n = (of_char c :: nat) in
      (48 \<le> n \<and> n \<le> 57) \<or> (65 \<le> n \<and> n \<le> 90) \<or> (97 \<le> n \<and> n \<le> 122) \<or> n = 95)"

definition ini_name :: "string \<Rightarrow> bool" where
  "ini_name s \<longleftrightarrow> s \<noteq> [] \<and> list_all name_char s"

definition text_char :: "char \<Rightarrow> bool" where
  "text_char c \<longleftrightarrow> name_char c \<or> c \<in> {CHR '','', CHR ''.'', CHR ''/'', CHR '':'', CHR ''-''}"

definition ini_text :: "string \<Rightarrow> bool" where
  "ini_text s \<longleftrightarrow> list_all text_char s"

type_synonym ini_view = "string \<Rightarrow> string \<rightharpoonup> string"

definition view_set :: "ini_view \<Rightarrow> string \<Rightarrow> string \<Rightarrow> string option \<Rightarrow> ini_view" where
  "view_set v s k x = v(s := (v s)(k := x))"

lemma view_set_apply [simp]:
  "view_set v s k x s' k' = (if s' = s \<and> k' = k then x else v s' k')"
  by (simp add: view_set_def)

text \<open>Reading a missing key creates it with the empty value.\<close>

definition touch :: "ini_view \<Rightarrow> string \<Rightarrow> string \<Rightarrow> ini_view" where
  "touch v s k = (if v s k = None then view_set v s k (Some []) else v)"

definition get_or_empty :: "ini_view \<Rightarrow> string \<Rightarrow> string \<Rightarrow> string" where
  "get_or_empty v s k = (case v s k of None \<Rightarrow> [] | Some x \<Rightarrow> x)"

locale ini_laws =
  fixes L :: "'f ini_lib"
    and val :: "'f \<Rightarrow> ini_view"
    and secs :: "'f \<Rightarrow> string set"
    and wf :: "'f \<Rightarrow> bool"
  assumes val_secs: "val f s k = Some v \<Longrightarrow> s \<in> secs f"
    and wf_names: "wf f \<Longrightarrow> val f s k = Some v \<Longrightarrow> ini_name s \<and> ini_name k \<and> ini_text v"
    and get_section: "GetSection L f s = None \<longleftrightarrow> s \<in> secs f"
    and section_secs: "secs (Section L f s) = insert s (secs f)"
    and section_val: "val (Section L f s) = val f"
    and section_wf: "wf f \<Longrightarrow> ini_name s \<Longrightarrow> wf (Section L f s)"
    and section_strings: "set (SectionStrings L f) = secs f"
    and has_key: "HasKey L f s k \<longleftrightarrow> val f s k \<noteq> None"
    and key_secs: "s \<in> secs f \<Longrightarrow> secs (Key L f s k) = secs f"
    and key_val: "s \<in> secs f \<Longrightarrow>
          val (Key L f s k) = (if val f s k = None then view_set (val f) s k (Some []) else val f)"
    and key_wf: "wf f \<Longrightarrow> ini_name s \<Longrightarrow> ini_name k \<Longrightarrow> wf (Key L f s k)"
    and value_val: "val f s k = Some v \<Longrightarrow> Value L f s k = v"
    and string_val: "val f s k = Some v \<Longrightarrow> CHR ''%'' \<notin> set v \<Longrightarrow> String L f s k = v"
    and set_value: "val f s k \<noteq> None \<Longrightarrow>
          val (SetValue L f s k v) = view_set (val f) s k (Some v)
          \<and> secs (SetValue L f s k v) = secs f"
    and set_value_wf: "wf f \<Longrightarrow> val f s k \<noteq> None \<Longrightarrow> ini_text v \<Longrightarrow> wf (SetValue L f s k v)"
    and new_key: "s \<in> secs f \<Longrightarrow> k \<noteq> [] \<Longrightarrow>
          fst (NewKey L f s k v) = None
          \<and> val (snd (NewKey L f s k v)) = view_set (val f) s k (Some v)
          \<and> secs (snd (NewKey L f s k v)) = secs f"
    and new_key_wf: "wf f \<Longrightarrow> s \<in> secs f \<Longrightarrow> ini_name k \<Longrightarrow> ini_text v \<Longrightarrow>
          wf (snd (NewKey L f s k v))"
    and delete_key: "val (DeleteKey L f s k) = view_set (val f) s k None
          \<and> secs (DeleteKey L f s k) = secs f"
    and delete_key_wf: "wf f \<Longrightarrow> wf (DeleteKey L f s k)"
    and delete_section: "val (DeleteSection L f s) = (val f)(s := Map.empty)"
    and delete_section_wf: "wf f \<Longrightarrow> wf (DeleteSection L f s)"
    and new_section: "val (NewSection L f s) = val f \<and> secs (NewSection L f s) = insert s (secs f)"
    and new_section_wf: "wf f \<Longrightarrow> ini_name s \<Longrightarrow> wf (NewSection L f s)"
    and empty: "val (Empty L) = (\<lambda>_. Map.empty)" "wf (Empty L)"
    and key_strings: "set (KeyStrings L f s) = dom (val f s)" "distinct (KeyStrings L f s)"
    and keys_hash: "Mapping.lookup (KeysHash L f s) = val f s"
    and write_reload: "wf f \<Longrightarrow> \<exists>w f'. WriteTo L f = Inr w
          \<and> Load L ([CHR 0x0A] @ ''[DEFAULT]'' @ [CHR 0x0A] @ w) = Inr f'
          \<and> val f' = val f \<and> wf f'"
begin

lemma keys_hash_eq: "KeysHash L f s = KeysHash L g t \<longleftrightarrow> val f s = val g t"
  by (metis keys_hash mapping_eqI)

lemma sec_has_key_run:
  assumes "sec_has_key L f s k = (b, f')"
  shows "b \<longleftrightarrow> val f s k \<noteq> None" "val f' = val f" "secs f' = insert s (secs f)"
    "wf f \<Longrightarrow> ini_name s \<Longrightarrow> wf f'"
  using assms by (auto simp: sec_has_key_def Let_def has_key section_val section_secs section_wf)

lemma sec_key_value_run:
  assumes "sec_key_value L f s k = (x, f')"
  shows "x = get_or_empty (val f) s k" "val f' = touch (val f) s k" "secs f' = insert s (secs f)"
    "wf f \<Longrightarrow> ini_name s \<Longrightarrow> ini_name k \<Longrightarrow> wf f'"
proof -
  have f': "f' = Key L (Section L f s) s k" and x: "x = Value L f' s k"
    using assms by (auto simp: sec_key_value_def Let_def)
  have v: "val f' = touch (val f) s k"
    by (simp add: f' key_val section_secs section_val touch_def)
  then show "val f' = touch (val f) s k" .
  show "x = get_or_empty (val f) s k"
    using value_val [of f' s k] v x by (auto simp: touch_def get_or_empty_def split: option.splits)
  show "secs f' = insert s (secs f)" by (simp add: f' key_secs section_secs)
  show "wf f \<Longrightarrow> ini_name s \<Longrightarrow> ini_name k \<Longrightarrow> wf f'"
    by (simp add: f' key_wf section_wf)
qed

end

end
