(* ===== verification/Go_Net.thy ===== *)
theory Go_Net
  imports Go_Strings
begin

text \<open>
  \<open>net.ParseIP\<close>, \<open>IP.To4\<close> and \<open>net.ParseCIDR\<close> of Go's standard library, as far as the
  operator observes them: whether a text is an address, of which family, and whether a
  CIDR text is valid. IPv4 is four decimal octets without leading zeros; IPv6 is eight
  16-bit groups with at most one ellipsis and an optional trailing IPv4 part; a text
  with a zone is refused, as both callers of \<open>netip.ParseAddr\<close> do.
\<close>

datatype ip_addr = IP4 "nat list" | IP6 "nat list"

text \<open>An IPv4 octet: decimal, at most 255, no leading zero.\<close>

definition parse_octet :: "string \<Rightarrow> nat option" where
  "parse_octet f =
     (if f = [] \<or> (length f > 1 \<and> hd f = CHR ''0'') then None
      else case uint_loop 255 f 0 of Inl _ \<Rightarrow> None | Inr n \<Rightarrow> Some (nat n))"

definition parse_ipv4 :: "string \<Rightarrow> nat list option" where
  "parse_ipv4 s =
     (let fs = map parse_octet (Split s ''.'')
      in if length fs = 4 \<and> None \<notin> set fs then Some (map the fs) else None)"

definition hex_val :: "char \<Rightarrow> nat option" where
  "hex_val c =
     (let n = of_char c in
      if 48 \<le> n \<and> n \<le> 57 then Some (n - 48)
      else if 97 \<le> n \<and> n \<le> 102 then Some (n - 87)
      else if 65 \<le> n \<and> n \<le> 70 then Some (n - 55)
      else None)"

text \<open>One hexadecimal group: the digits up to the first other byte, and the rest.\<close>

fun hex_group :: "string \<Rightarrow> nat \<Rightarrow> nat \<times> nat \<times> string" where
  "hex_group [] acc = (acc, 0, [])"
| "hex_group (c # cs) acc =
     (case hex_val c of
        None \<Rightarrow> (acc, 0, c # cs)
      | Some d \<Rightarrow> (case hex_group cs (acc * 16 + d) of (v, n, r) \<Rightarrow> (v, Suc n, r)))"

lemma hex_group_length: "hex_group s acc = (v, n, r) \<Longrightarrow> length s = n + length r"
  by (induction s arbitrary: acc v n r) (auto split: option.splits prod.splits)

text \<open>
  The group loop of \<open>parseIPv6\<close>: \<open>bs\<close> are the bytes read so far, \<open>ell\<close> the position of
  the ellipsis. It returns the bytes, the ellipsis and the unread text.
\<close>

function v6_loop :: "string \<Rightarrow> nat list \<Rightarrow> nat option \<Rightarrow> (nat list \<times> nat option \<times> string) option" where
  "v6_loop s bs ell =
     (if length bs \<ge> 16 then Some (bs, ell, s)
      else case hex_group s 0 of (acc, off, r) \<Rightarrow>
        if off = 0 \<or> off > 4 then None
        else if r \<noteq> [] \<and> hd r = CHR ''.'' then
          (if (ell = None \<and> length bs \<noteq> 12) \<or> length bs + 4 > 16 then None
           else case parse_ipv4 s of None \<Rightarrow> None | Some v4 \<Rightarrow> Some (bs @ v4, ell, []))
        else let bs' = bs @ [acc div 256, acc mod 256] in
          if r = [] then Some (bs', ell, [])
          else if hd r \<noteq> CHR '':'' \<or> length r = 1 then None
          else let s' = tl r in
            if hd s' = CHR '':'' then
              (if ell \<noteq> None then None
               else if tl s' = [] then Some (bs', Some (length bs'), [])
               else v6_loop (tl s') bs' (Some (length bs')))
            else v6_loop s' bs' ell)"
  by pat_completeness auto
termination
  by (relation "measure (\<lambda>(s, bs, ell). length s)") (auto dest!: hex_group_length [OF sym])

declare v6_loop.simps [simp del]

definition parse_ipv6 :: "string \<Rightarrow> nat list option" where
  "parse_ipv6 s =
     (let lead = prefix ''::'' s;
          s0 = (if lead then drop 2 s else s);
          ell0 = (if lead then Some 0 else None)
      in if lead \<and> s0 = [] then Some (replicate 16 0)
         else case v6_loop s0 [] ell0 of
                None \<Rightarrow> None
              | Some (bs, ell, rest) \<Rightarrow>
                  if rest \<noteq> [] then None
                  else if length bs < 16 then
                    (case ell of
                       None \<Rightarrow> None
                     | Some e \<Rightarrow> Some (take e bs @ replicate (16 - length bs) 0 @ drop e bs))
                  else if ell \<noteq> None then None else Some bs)"

text \<open>The first of the bytes \<open>.\<close>, \<open>:\<close>, \<open>%\<close> decides the family, as in \<open>netip.ParseAddr\<close>.\<close>

definition ParseAddr :: "string \<Rightarrow> ip_addr option" where
  "ParseAddr s =
     (case IndexAny s [CHR ''.'', CHR '':'', CHR ''%''] of
        None \<Rightarrow> None
      | Some i \<Rightarrow>
          if s ! i = CHR ''.'' then map_option IP4 (parse_ipv4 s)
          else if s ! i = CHR '':'' \<and> CHR ''%'' \<notin> set s then map_option IP6 (parse_ipv6 s)
          else None)"

abbreviation ParseIP :: "string \<Rightarrow> ip_addr option" where
  "ParseIP \<equiv> ParseAddr"

text \<open>\<open>IP.To4\<close> is not nil for IPv4 and for an IPv4-mapped IPv6 address.\<close>

fun is_To4 :: "ip_addr \<Rightarrow> bool" where
  "is_To4 (IP4 _) = True"
| "is_To4 (IP6 bs) = (take 12 bs = replicate 10 0 @ [255, 255])"

fun BitLen :: "ip_addr \<Rightarrow> nat" where
  "BitLen (IP4 _) = 32"
| "BitLen (IP6 _) = 128"

text \<open>The mask of a CIDR: only digits, below Go's bound of 0xFFFFFF, at most the address length.\<close>

definition ParseCIDR :: "string \<Rightarrow> (ip_addr \<times> nat) option" where
  "ParseCIDR s =
     (case Index s ''/'' of
        None \<Rightarrow> None
      | Some i \<Rightarrow>
          (case ParseAddr (take i s) of
             None \<Rightarrow> None
           | Some a \<Rightarrow>
               let mask = drop (Suc i) s in
               if mask = [] then None
               else case uint_loop (16777215 - 1) mask 0 of
                      Inl _ \<Rightarrow> None
                    | Inr n \<Rightarrow> if nat n > BitLen a then None else Some (a, nat n)))"

definition cidr_error :: "string \<Rightarrow> go_error" where
  "cidr_error s = GoError (''invalid CIDR address: '' @ s)"

end
