(* ===== verification/Config_Options.thy ===== *)
theory Config_Options
  imports Ini_Lib Go_Net
begin

text \<open>
  Defaults and validation of the operator's ConfigMap:
  \<open>pkg/controller/configmap/config.go\<close>, from \<open>FillDefaults\<close> to \<open>getPrefixFromCIDR\<close>, with
  \<open>optionInConfigMap\<close> and the certificate options. A function that changes the ConfigMap it
  points to returns the changed one; a function on an INI file returns the changed file.
\<close>

section \<open>The data of a ConfigMap\<close>

text \<open>\<open>configmap.Data[key]\<close>: a nil map reads as empty.\<close>

definition cm_get :: "configmap \<Rightarrow> string \<Rightarrow> string" where
  "cm_get cm key = (case cm_data cm of None \<Rightarrow> []
     | Some d \<Rightarrow> (case d key of None \<Rightarrow> [] | Some v \<Rightarrow> v))"

definition cm_init :: "configmap \<Rightarrow> configmap" where
  "cm_init cm = (if cm_data cm = None then cm\<lparr>cm_data := Some Map.empty\<rparr> else cm)"

definition cm_set :: "configmap \<Rightarrow> string \<Rightarrow> string \<Rightarrow> configmap" where
  "cm_set cm key v = cm\<lparr>cm_data := map_option (\<lambda>d. d(key \<mapsto> v)) (cm_data cm)\<rparr>"

definition appendErrorIfNotNil :: "go_error list \<Rightarrow> go_error option \<Rightarrow> go_error list" where
  "appendErrorIfNotNil errs err = (case err of None \<Rightarrow> errs | Some e \<Rightarrow> errs @ [e])"

definition iniWriteToString :: "'f ini_lib \<Rightarrow> 'f \<Rightarrow> go_error + string" where
  "iniWriteToString L cfg =
     (case WriteTo L cfg of
        Inl e \<Rightarrow> Inl e
      | Inr buf \<Rightarrow> Inr ([CHR 0x0A] @ ''[DEFAULT]'' @ [CHR 0x0A] @ buf))"

text \<open>The end of every function that rewrites the ConfigMap: the text, or empty on an error.\<close>

definition write_back ::
  "'f ini_lib \<Rightarrow> 'f \<Rightarrow> go_error list \<Rightarrow> configmap \<Rightarrow> go_error list \<times> configmap" where
  "write_back L cfg errs cm =
     (case iniWriteToString L cfg of
        Inl e \<Rightarrow> (appendErrorIfNotNil errs (Some e), cm_set cm ConfigMapDataKey [])
      | Inr txt \<Rightarrow> (errs, cm_set cm ConfigMapDataKey txt))"

section \<open>Defaults\<close>

definition fillDefault ::
  "'f ini_lib \<Rightarrow> 'f \<Rightarrow> string \<Rightarrow> string \<Rightarrow> string \<Rightarrow> bool \<Rightarrow> go_error option \<times> 'f" where
  "fillDefault L cfg sec key val force =
     (case GetSection L cfg sec of
        Some err \<Rightarrow> (Some (wrapf err (''failed to get section '' @ sec)), cfg)
      | None \<Rightarrow>
          (case sec_has_key L cfg sec key of (has, cfg) \<Rightarrow>
             if \<not> has then
               (case NewKey L (Section L cfg sec) sec key val of
                  (None, cfg') \<Rightarrow> (None, cfg')
                | (Some err, cfg') \<Rightarrow>
                    (Some (wrapf err (''failed to fill key '' @ key @ '' default value '' @ val @
                       '' in section '' @ sec)), cfg'))
             else
               (case sec_key_value L cfg sec key of (v, cfg) \<Rightarrow>
                  if v = [] \<or> force then (None, SetValue L (Key L (Section L cfg sec) sec key) sec key val)
                  else (None, cfg))))"

text \<open>A run of \<open>fillDefault\<close> calls whose errors are collected.\<close>

fun fill_all ::
  "'f ini_lib \<Rightarrow> (string \<times> string \<times> string \<times> bool) list \<Rightarrow> 'f \<Rightarrow> go_error list \<Rightarrow> go_error list \<times> 'f" where
  "fill_all L [] cfg errs = (errs, cfg)"
| "fill_all L ((sec, key, val, force) # ds) cfg errs =
     (case fillDefault L cfg sec key val force of
        (err, cfg) \<Rightarrow> fill_all L ds cfg (appendErrorIfNotNil errs err))"

definition clusterNetworkBlocks :: "network \<Rightarrow> string" where
  "clusterNetworkBlocks spec = Join (map cn_CIDR (net_clusterNetwork spec)) '',''"

definition defaults_K8s :: "(string \<times> string \<times> string \<times> bool) list" where
  "defaults_K8s =
     [(''coe'', ''adaptor'', ''kubernetes'', True),
      (''nsx_v3'', ''policy_nsxapi'', ''True'', True),
      (''coe'', ''enable_snat'', ''True'', False),
      (''ha'', ''enable'', ''True'', False),
      (''nsx_node_agent'', ''mtu'', Itoa DefaultMTU, False)]"

text \<open>The last entry is \<open>fillClusterNetwork\<close>.\<close>

definition defaults_Oc :: "network \<Rightarrow> (string \<times> string \<times> string \<times> bool) list" where
  "defaults_Oc spec =
     [(''coe'', ''adaptor'', ''openshift4'', True),
      (''nsx_v3'', ''policy_nsxapi'', ''True'', True),
      (''nsx_v3'', ''single_tier_topology'', ''True'', True),
      (''coe'', ''enable_snat'', ''True'', False),
      (''ha'', ''enable'', ''True'', False),
      (''nsx_node_agent'', ''waiting_before_cni_response'', ''3'', False),
      (''nsx_node_agent'', ''mtu'', Itoa DefaultMTU, False),
      (''nsx_node_agent'', ''enable_ovs_mcast_snooping'', ''false'', False),
      (''nsx_v3'', ''container_ip_blocks'', clusterNetworkBlocks spec, True)]"

text \<open>
  The body both adaptors share. The test of \<open>coe.adaptor\<close> before it only logs, but its
  \<open>Section\<close> call creates the section.
\<close>

definition fill_defaults ::
  "'f ini_lib \<Rightarrow> (string \<times> string \<times> string \<times> bool) list \<Rightarrow> string \<Rightarrow> configmap
   \<Rightarrow> go_error option \<times> configmap" where
  "fill_defaults L ds what configmap =
     (let cm = cm_init configmap in
      case Load L (cm_get cm ConfigMapDataKey) of
        Inl err \<Rightarrow> (Some err, cm)
      | Inr cfg \<Rightarrow>
          (case sec_has_key L cfg ''coe'' ''adaptor'' of (has, cfg) \<Rightarrow>
             let cfg = (if has then snd (sec_key_value L cfg ''coe'' ''adaptor'') else cfg) in
             (case fill_all L ds cfg [] of (errs, cfg) \<Rightarrow>
                (case write_back L cfg errs cm of (errs, cm) \<Rightarrow>
                   if length errs > 0
                   then (Some (GoError (''failed to fill '' @ what @ '': '' @ quote_errors errs)), cm)
                   else (None, cm)))))"

definition FillDefaults_K8s ::
  "'f ini_lib \<Rightarrow> configmap \<Rightarrow> network \<Rightarrow> go_error option \<times> configmap" where
  "FillDefaults_K8s L configmap spec = fill_defaults L defaults_K8s ''defaults'' configmap"

definition FillDefaults_Oc ::
  "'f ini_lib \<Rightarrow> configmap \<Rightarrow> network \<Rightarrow> go_error option \<times> configmap" where
  "FillDefaults_Oc L configmap spec = fill_defaults L (defaults_Oc spec) ''defaults'' configmap"

section \<open>Certificate options\<close>

definition secret_has :: "secret option \<Rightarrow> string \<Rightarrow> bool" where
  "secret_has sec key = (case sec of None \<Rightarrow> False
     | Some s \<Rightarrow> (case sec_data s of None \<Rightarrow> False
        | Some d \<Rightarrow> (case d key of None \<Rightarrow> False | Some v \<Rightarrow> length v > 0)))"

definition fill_certs ::
  "'f ini_lib \<Rightarrow> (string \<times> string \<times> string \<times> bool) list \<Rightarrow> string \<Rightarrow> configmap
   \<Rightarrow> go_error option \<times> configmap" where
  "fill_certs L ds what configmap =
     (let cm = cm_init configmap in
      case Load L (cm_get cm ConfigMapDataKey) of
        Inl err \<Rightarrow> (Some err, cm)
      | Inr cfg \<Rightarrow>
          (case fill_all L ds cfg [] of (errs, cfg) \<Rightarrow>
             (case write_back L cfg errs cm of (errs, cm) \<Rightarrow>
                if length errs > 0
                then (Some (GoError (''failed to fill '' @ what @ '': '' @ quote_errors errs)), cm)
                else (None, cm))))"

definition FillNsxAuthCfg ::
  "'f ini_lib \<Rightarrow> configmap \<Rightarrow> secret option \<Rightarrow> go_error option \<times> configmap" where
  "FillNsxAuthCfg L configmap nsxSecret =
     fill_certs L
       ((if secret_has nsxSecret ''tls.crt''
         then [(''nsx_v3'', ''nsx_api_cert_file'', ''/etc/nsx-ujo/nsx-cert/tls.crt'', True)] else []) @
        (if secret_has nsxSecret ''tls.key''
         then [(''nsx_v3'', ''nsx_api_private_key_file'', ''/etc/nsx-ujo/nsx-cert/tls.key'', True)] else []) @
        (if secret_has nsxSecret ''tls.ca''
         then [(''nsx_v3'', ''ca_file'', ''/etc/nsx-ujo/nsx-cert/tls.ca'', True)] else []))
       ''nsx authentication configuration'' configmap"

definition FillLbCertCfg ::
  "'f ini_lib \<Rightarrow> configmap \<Rightarrow> secret option \<Rightarrow> go_error option \<times> configmap" where
  "FillLbCertCfg L configmap lbSecret =
     fill_certs L
       ((if secret_has lbSecret ''tls.crt''
         then [(''nsx_v3'', ''lb_default_cert_path'', ''/etc/nsx-ujo/lb-cert/tls.crt'', True)] else []) @
        (if secret_has lbSecret ''tls.key''
         then [(''nsx_v3'', ''lb_priv_key_path'', ''/etc/nsx-ujo/lb-cert/tls.key'', True)] else []))
       ''lb certification configuration'' configmap"

section \<open>Validation\<close>

definition validateConfig ::
  "'f ini_lib \<Rightarrow> 'f \<Rightarrow> string \<Rightarrow> string \<Rightarrow> go_error option \<times> 'f" where
  "validateConfig L cfg sec key =
     (case GetSection L cfg sec of
        Some err \<Rightarrow> (Some (wrapf err (''failed to get section '' @ sec)), cfg)
      | None \<Rightarrow>
          (let missing = GoError (''failed to get key '' @ key @ '' from section '' @ sec) in
           case sec_has_key L cfg sec key of (has, cfg) \<Rightarrow>
             if \<not> has then (Some missing, cfg)
             else (case sec_key_value L cfg sec key of
                     (v, cfg) \<Rightarrow> if v = [] then (Some missing, cfg) else (None, cfg))))"

definition validateNodeAgentOptions ::
  "'f ini_lib \<Rightarrow> configmap \<Rightarrow> go_error + go_error list \<times> configmap" where
  "validateNodeAgentOptions L configmap =
     (let cm = cm_init configmap in
      case Load L (cm_get cm ConfigMapDataKey) of
        Inl _ \<Rightarrow> Inl (GoPanic ''nil ini file'')
      | Inr cfg \<Rightarrow>
          (let mtu = fst (sec_key_value L cfg ''nsx_node_agent'' ''mtu'') in
           Inr (case snd (Atoi mtu) of
                  Some err \<Rightarrow> [wrapf err ''mtu is invalid'']
                | None \<Rightarrow> [], cm)))"

definition validateCommonOptions ::
  "'f ini_lib \<Rightarrow> configmap \<Rightarrow> go_error + go_error list \<times> configmap" where
  "validateCommonOptions L configmap =
     (let cm = cm_init configmap in
      case Load L (cm_get cm ConfigMapDataKey) of
        Inl _ \<Rightarrow> Inl (GoPanic ''nil ini file'')
      | Inr cfg \<Rightarrow>
          (let v = fst (sec_key_value L cfg ''DEFAULT'' ''log_file'') in
           Inr (if v \<noteq> []
                then [GoError (''DEFAULT section option: log_file is not allowed to change, current value:''
                        @ v)]
                else [], cm)))"

definition optionInConfigMap ::
  "'f ini_lib \<Rightarrow> configmap option \<Rightarrow> string \<Rightarrow> string \<Rightarrow> bool" where
  "optionInConfigMap L configMap sec key =
     (case configMap of None \<Rightarrow> False
      | Some cm \<Rightarrow>
          if cm_data cm = None then False
          else case Load L (cm_get cm ConfigMapDataKey) of
                 Inl _ \<Rightarrow> False
               | Inr cfg \<Rightarrow>
                   (case GetSection L cfg sec of
                      Some _ \<Rightarrow> False
                    | None \<Rightarrow> HasKey L cfg sec key \<and> Value L cfg sec key \<noteq> []))"

definition getOptionInConfigMap ::
  "'f ini_lib \<Rightarrow> configmap option \<Rightarrow> string \<Rightarrow> string \<Rightarrow> string" where
  "getOptionInConfigMap L configMap sec key =
     (case configMap of None \<Rightarrow> []
      | Some cm \<Rightarrow>
          if cm_data cm = None then []
          else case Load L (cm_get cm ConfigMapDataKey) of
                 Inl _ \<Rightarrow> []
               | Inr cfg \<Rightarrow>
                   (case GetSection L cfg sec of
                      Some _ \<Rightarrow> []
                    | None \<Rightarrow> if HasKey L cfg sec key then Value L cfg sec key else []))"

definition IsMTUChanged :: "'f ini_lib \<Rightarrow> configmap option \<Rightarrow> configmap option \<Rightarrow> bool" where
  "IsMTUChanged L currConfigMap prevConfigMap =
     (getOptionInConfigMap L currConfigMap ''nsx_node_agent'' ''mtu''
      \<noteq> getOptionInConfigMap L prevConfigMap ''nsx_node_agent'' ''mtu'')"

text \<open>
  The two loops over a table of unsupported options, as the pairs they visit: an option the
  ConfigMap sets is deleted from the file.
\<close>

definition option_pairs :: "(string \<times> string list) list \<Rightarrow> (string \<times> string) list" where
  "option_pairs table = concat (map (\<lambda>(sec, keys). map (Pair sec) keys) table)"

fun drop_options ::
  "'f ini_lib \<Rightarrow> configmap \<Rightarrow> (string \<times> string) list \<Rightarrow> 'f \<Rightarrow> bool \<Rightarrow> 'f \<times> bool" where
  "drop_options L cm [] cfg changed = (cfg, changed)"
| "drop_options L cm ((sec, key) # ps) cfg changed =
     (if optionInConfigMap L (Some cm) sec key
      then drop_options L cm ps (DeleteKey L (Section L cfg sec) sec key) True
      else drop_options L cm ps cfg changed)"

text \<open>\<open>order\<close> is the order in which the runtime iterates over each of the two maps.\<close>

definition validateUnSupportedOptions ::
  "'f ini_lib \<Rightarrow> ((string \<times> string list) list \<Rightarrow> (string \<times> string list) list) \<Rightarrow> configmap
   \<Rightarrow> go_error + go_error list \<times> configmap" where
  "validateUnSupportedOptions L order configmap =
     (let cm = cm_init configmap in
      case Load L (cm_get cm ConfigMapDataKey) of
        Inl _ \<Rightarrow> Inl (GoPanic ''nil ini file'')
      | Inr cfg \<Rightarrow>
          (case drop_options L cm (option_pairs (order MPOptions)) cfg False of (cfg, changed) \<Rightarrow>
           case drop_options L cm (option_pairs (order WCPOptions)) cfg changed of (cfg, changed) \<Rightarrow>
             let cfg = Section L cfg TASSection;
                 tas = (length (KeyStrings L cfg TASSection) \<noteq> 0);
                 cfg = (if tas then DeleteSection L cfg TASSection else cfg)
             in Inr (if changed \<or> tas then write_back L cfg [] cm else ([], cm))))"

text \<open>The body both adaptors share; \<open>blocks\<close> says whether \<open>container_ip_blocks\<close> is required.\<close>

definition validate_required ::
  "'f ini_lib \<Rightarrow> bool \<Rightarrow> 'f \<Rightarrow> go_error list" where
  "validate_required L blocks cfg =
     (case validateConfig L cfg ''coe'' ''cluster'' of (e1, cfg) \<Rightarrow>
      case validateConfig L cfg ''nsx_v3'' ''nsx_api_managers'' of (e2, cfg) \<Rightarrow>
      case sec_key_value L cfg ''coe'' ''enable_snat'' of (snat, cfg) \<Rightarrow>
      case (if snat = ''True'' then validateConfig L cfg ''nsx_v3'' ''external_ip_pools''
            else (None, cfg)) of (e3, cfg) \<Rightarrow>
      case (if blocks then validateConfig L cfg ''nsx_v3'' ''container_ip_blocks''
            else (None, cfg)) of (e4, cfg) \<Rightarrow>
      case validateConfig L cfg ''nsx_v3'' ''tier0_gateway'' of (t0, cfg) \<Rightarrow>
        let e5 = (if t0 \<noteq> None \<and> fst (validateConfig L cfg ''nsx_v3'' ''top_tier_router'') \<noteq> None
                  then Some (GoError ''failed to get tier0_gateway or top_tier_router'') else None)
        in foldl appendErrorIfNotNil [] [e1, e2, e3, e4, e5])"

definition validate_config_map ::
  "'f ini_lib \<Rightarrow> bool \<Rightarrow> ((string \<times> string list) list \<Rightarrow> (string \<times> string list) list) \<Rightarrow> configmap
   \<Rightarrow> go_error + go_error list \<times> configmap" where
  "validate_config_map L blocks order configmap =
     (let cm = cm_init configmap in
      case Load L (cm_get cm ConfigMapDataKey) of
        Inl err \<Rightarrow> Inr ([wrapf err ''failed to load ConfigMap''], cm)
      | Inr cfg \<Rightarrow>
          (let errs = validate_required L blocks cfg in
           case validateNodeAgentOptions L cm of Inl p \<Rightarrow> Inl p
           | Inr (errs1, cm) \<Rightarrow>
               (case validateCommonOptions L cm of Inl p \<Rightarrow> Inl p
                | Inr (errs2, cm) \<Rightarrow>
                    (case validateUnSupportedOptions L order cm of Inl p \<Rightarrow> Inl p
                     | Inr (errs3, cm) \<Rightarrow> Inr (errs @ errs1 @ errs2 @ errs3, cm)))))"

definition validateConfigMap_K8s ::
  "'f ini_lib \<Rightarrow> ((string \<times> string list) list \<Rightarrow> (string \<times> string list) list) \<Rightarrow> configmap
   \<Rightarrow> go_error + go_error list \<times> configmap" where
  "validateConfigMap_K8s L order configmap = validate_config_map L True order configmap"

definition validateConfigMap_Oc ::
  "'f ini_lib \<Rightarrow> ((string \<times> string list) list \<Rightarrow> (string \<times> string list) list) \<Rightarrow> configmap
   \<Rightarrow> go_error + go_error list \<times> configmap" where
  "validateConfigMap_Oc L order configmap = validate_config_map L False order configmap"

section \<open>Validation of the cluster network\<close>

definition getPrefixFromCIDR :: "string \<Rightarrow> go_error + int" where
  "getPrefixFromCIDR cidr =
     ParseUint10 32 (case LastIndexByte cidr (CHR ''/'') of
                       None \<Rightarrow> cidr | Some i \<Rightarrow> drop (i + 1) cidr)"

definition pool_errors :: "nat \<Rightarrow> cluster_network \<Rightarrow> go_error list" where
  "pool_errors idx pool =
     (let q = Quote (cn_CIDR pool) in
      case ParseCIDR (cn_CIDR pool) of
        None \<Rightarrow> [wrapf (cidr_error (cn_CIDR pool))
                  (''cluster network '' @ show_nat idx @ '' CIDR '' @ q @ '' is invalid'')]
      | Some _ \<Rightarrow>
          (case getPrefixFromCIDR (cn_CIDR pool) of
             Inl err \<Rightarrow> [wrapf err (''unable to infer CIDR prefix in CIDR: '' @ q)]
           | Inr cidrPrefix \<Rightarrow>
               (if cidrPrefix > 30
                then [GoError (''invalid CIDR prefix length for CIDR '' @ q @
                        ''. it must be larger than 30'')] else []) @
               (if cn_HostPrefix pool < cidrPrefix
                then [GoError (''invalid CIDR HostPrefix: '' @ Itoa (cn_HostPrefix pool) @
                        '' for CIDR '' @ q @
                        ''. It must be smaller than or equal to the CIDR Prefix'')] else [])))"

definition validateClusterNetwork_K8s :: "network \<Rightarrow> go_error list" where
  "validateClusterNetwork_K8s spec = []"

definition validateClusterNetwork_Oc :: "network \<Rightarrow> go_error list" where
  "validateClusterNetwork_Oc spec =
     (if ToLower (net_networkType spec) \<noteq> NetworkType
      then [GoError (''network type '' @ net_networkType spec @ '' is not '' @ NetworkType)]
      else if length (net_clusterNetwork spec) = 0
      then [GoError ''cluster network cannot be empty'']
      else concat (map (\<lambda>(i, p). pool_errors i p) (enumerate 0 (net_clusterNetwork spec))))"

end
