(* ===== verification/Config_Change.thy ===== *)
theory Config_Change
  imports Config_Options
begin

text \<open>
  Change detection and generation of ConfigMaps: the rest of
  \<open>pkg/controller/configmap/config.go\<close> up to rendering. \<open>NeedApplyChange\<close> decides which of the
  nsx-ncp, nsx-node-agent and nsx-ncp-bootstrap pods must restart. The parts of its loops that
  only log the changed options are left out.
\<close>

section \<open>Small helpers\<close>

fun inSlice :: "string \<Rightarrow> string list \<Rightarrow> bool" where
  "inSlice str [] = False"
| "inSlice str (v # s) = (if str = v then True else inSlice str s)"

fun all_in_slice :: "string list \<Rightarrow> string list \<Rightarrow> bool" where
  "all_in_slice [] b = True"
| "all_in_slice (v # a) b = (if \<not> inSlice v b then False else all_in_slice a b)"

definition stringSliceEqual :: "string list \<Rightarrow> string list \<Rightarrow> bool" where
  "stringSliceEqual a b = (if length a \<noteq> length b then False else all_in_slice a b)"

definition hasSection :: "'f ini_lib \<Rightarrow> 'f \<Rightarrow> string \<Rightarrow> bool" where
  "hasSection L cfg sec = (GetSection L cfg sec = None)"

section \<open>Changes of the network configuration\<close>

definition HasNetworkConfigChange_K8s :: "network \<Rightarrow> network \<Rightarrow> bool" where
  "HasNetworkConfigChange_K8s currConfig prevConfig = False"

definition HasNetworkConfigChange_Oc :: "network \<Rightarrow> network \<Rightarrow> bool" where
  "HasNetworkConfigChange_Oc currConfig prevConfig =
     (if \<not> stringSliceEqual (net_serviceNetwork currConfig) (net_serviceNetwork prevConfig) then True
      else stringSliceEqual (map cn_CIDR (net_clusterNetwork currConfig))
             (map cn_CIDR (net_clusterNetwork prevConfig)))"

section \<open>Changes of the ConfigMap\<close>

record podNeedChange =
  pnc_ncp :: bool
  pnc_agent :: bool
  pnc_bootstrap :: bool

abbreviation pod_need_change :: "bool \<Rightarrow> bool \<Rightarrow> bool \<Rightarrow> podNeedChange" where
  "pod_need_change n a b \<equiv> \<lparr>pnc_ncp = n, pnc_agent = a, pnc_bootstrap = b\<rparr>"

definition immutableFields :: "(string \<times> string) list" where
  "immutableFields = [(''coe'', ''cluster''), (''nsx_v3'', ''l4_lb_auto_scaling'')]"

text \<open>Both files are read with \<open>Key\<close>, which creates a missing option in them.\<close>

fun immutable_loop ::
  "'f ini_lib \<Rightarrow> (string \<times> string) list \<Rightarrow> 'f \<Rightarrow> 'f \<Rightarrow> bool \<times> 'f \<times> 'f" where
  "immutable_loop L [] cur prev = (False, cur, prev)"
| "immutable_loop L ((sec, key) # fs) cur prev =
     (case sec_key_string L cur sec key of (a, cur) \<Rightarrow>
      case sec_key_string L prev sec key of (b, prev) \<Rightarrow>
        if a \<noteq> b then (True, cur, prev) else immutable_loop L fs cur prev)"

definition immutableFieldChanged :: "'f ini_lib \<Rightarrow> 'f \<Rightarrow> 'f \<Rightarrow> bool \<times> 'f \<times> 'f" where
  "immutableFieldChanged L cur prev = immutable_loop L immutableFields cur prev"

text \<open>The sections that differ: first those of the new file, then those only the old one has.\<close>

definition diff_curr :: "'f ini_lib \<Rightarrow> 'f \<Rightarrow> 'f \<Rightarrow> string list" where
  "diff_curr L cur prev =
     filter (\<lambda>name.
         if \<not> hasSection L prev name then length (KeyStrings L cur name) \<noteq> 0
         else KeysHash L cur name \<noteq> KeysHash L prev name)
       (SectionStrings L cur)"

definition diff_prev :: "'f ini_lib \<Rightarrow> 'f \<Rightarrow> 'f \<Rightarrow> string list" where
  "diff_prev L cur prev =
     filter (\<lambda>name. \<not> hasSection L cur name \<and> length (KeyStrings L prev name) \<noteq> 0)
       (SectionStrings L prev)"

fun options_loop :: "'f ini_lib \<Rightarrow> string \<Rightarrow> string list \<Rightarrow> 'f \<Rightarrow> 'f \<Rightarrow> bool" where
  "options_loop L sec [] prev cur = False"
| "options_loop L sec (key # keys) prev cur =
     (case sec_has_key L prev sec key of (hp, prev) \<Rightarrow>
      case sec_has_key L cur sec key of (hc, cur) \<Rightarrow>
        if hp \<noteq> hc then True
        else if hp \<and> hc then
          (case sec_key_value L prev sec key of (vp, prev) \<Rightarrow>
           case sec_key_value L cur sec key of (vc, cur) \<Rightarrow>
             if vp \<noteq> vc then True else options_loop L sec keys prev cur)
        else options_loop L sec keys prev cur)"

definition checkOptionsChange ::
  "'f ini_lib \<Rightarrow> (string \<times> string list) list \<Rightarrow> string \<Rightarrow> 'f \<Rightarrow> 'f \<Rightarrow> bool" where
  "checkOptionsChange L options sec prevCfg currCfg =
     (case map_of options sec of
        None \<Rightarrow> False
      | Some keys \<Rightarrow>
          if hasSection L prevCfg sec \<noteq> hasSection L currCfg sec then True
          else options_loop L sec keys prevCfg currCfg)"

fun change_loop ::
  "'f ini_lib \<Rightarrow> 'f \<Rightarrow> 'f \<Rightarrow> string list \<Rightarrow> podNeedChange \<Rightarrow> podNeedChange" where
  "change_loop L cur prev [] nc = nc"
| "change_loop L cur prev (sec # secs) nc =
     (let nc = (if \<not> pnc_ncp nc \<and> inSlice sec NcpSections then nc\<lparr>pnc_ncp := True\<rparr> else nc);
          nc = (if \<not> pnc_agent nc \<and> inSlice sec AgentRestartSections
                then nc\<lparr>pnc_agent := True\<rparr> else nc);
          nc = (if \<not> pnc_agent nc \<and> checkOptionsChange L AgentRestartOptionKeys sec prev cur
                then nc\<lparr>pnc_agent := True\<rparr> else nc);
          nc = (if \<not> pnc_bootstrap nc \<and> checkOptionsChange L BootstrapRestartOptionKeys sec prev cur
                then nc\<lparr>pnc_bootstrap := True\<rparr> else nc)
      in if pnc_ncp nc \<and> pnc_agent nc \<and> pnc_bootstrap nc then nc
         else change_loop L cur prev secs nc)"

definition NeedApplyChange ::
  "'f ini_lib \<Rightarrow> configmap \<Rightarrow> configmap option \<Rightarrow> podNeedChange \<times> go_error option" where
  "NeedApplyChange L currConfig prevConfig =
     (case prevConfig of
        None \<Rightarrow> (pod_need_change True True True, None)
      | Some prev \<Rightarrow>
          let currData = cm_get currConfig ConfigMapDataKey;
              prevData = cm_get prev ConfigMapDataKey
          in if TrimSpace currData = TrimSpace prevData then (pod_need_change False False False, None)
             else case Load L currData of
               Inl err \<Rightarrow> (pod_need_change False False False, Some err)
             | Inr currCfg \<Rightarrow>
                 (case Load L prevData of
                    Inl err \<Rightarrow> (pod_need_change False False False, Some err)
                  | Inr prevCfg \<Rightarrow>
                      (case immutableFieldChanged L currCfg prevCfg of
                         (changed, currCfg, prevCfg) \<Rightarrow>
                           if changed
                           then (pod_need_change False False False,
                                 Some (GoError (''Immutable field can'' @ [CHR 0x27] @ ''t be changed.'')))
                           else (change_loop L currCfg prevCfg
                                   (diff_curr L currCfg prevCfg @ diff_prev L currCfg prevCfg)
                                   (pod_need_change False False False), None))))"

section \<open>Generating ConfigMaps\<close>

text \<open>The copy of a section: its options, in their order, into a section of the same name.\<close>

fun copy_keys :: "'f ini_lib \<Rightarrow> 'f \<Rightarrow> string \<Rightarrow> string list \<Rightarrow> 'f \<Rightarrow> 'f" where
  "copy_keys L src name [] dest = dest"
| "copy_keys L src name (key # keys) dest =
     copy_keys L src name keys
       (snd (NewKey L (Section L dest name) name key (Value L src name key)))"

definition copy_section :: "'f ini_lib \<Rightarrow> 'f \<Rightarrow> string \<Rightarrow> 'f \<Rightarrow> 'f" where
  "copy_section L src name dest =
     copy_keys L src name (KeyStrings L src name) (NewSection L dest name)"

fun copy_sections :: "'f ini_lib \<Rightarrow> 'f \<Rightarrow> string list \<Rightarrow> 'f \<Rightarrow> 'f" where
  "copy_sections L src [] dest = dest"
| "copy_sections L src (name # names) dest =
     copy_sections L src names
       (if GetSection L src name \<noteq> None then dest else copy_section L src name dest)"

definition generateConfigMap :: "'f ini_lib \<Rightarrow> 'f \<Rightarrow> string list \<Rightarrow> go_error + string" where
  "generateConfigMap L srcCfg sections =
     iniWriteToString L (copy_sections L srcCfg sections (Empty L))"

fun merge_sections :: "'f ini_lib \<Rightarrow> 'f \<Rightarrow> 'f \<Rightarrow> string list \<Rightarrow> 'f \<Rightarrow> 'f" where
  "merge_sections L ncp agent [] op = op"
| "merge_sections L ncp agent (name # names) op =
     merge_sections L ncp agent names
       (if GetSection L ncp name = None then copy_section L ncp name op
        else if GetSection L agent name = None then copy_section L agent name op
        else op)"

definition cm_text :: "configmap option \<Rightarrow> string" where
  "cm_text cm = (case cm of None \<Rightarrow> [] | Some c \<Rightarrow> cm_get c ConfigMapDataKey)"

definition GenerateOperatorConfigMap ::
  "'f ini_lib \<Rightarrow> configmap \<Rightarrow> configmap option \<Rightarrow> configmap option \<Rightarrow> go_error option \<times> configmap" where
  "GenerateOperatorConfigMap L opConfigmap ncpConfigMap agentConfigMap =
     (case Load L (cm_text ncpConfigMap) of
        Inl err \<Rightarrow> (Some err, opConfigmap)
      | Inr ncpCfg \<Rightarrow>
          (case Load L (cm_text agentConfigMap) of
             Inl err \<Rightarrow> (Some err, opConfigmap)
           | Inr agentCfg \<Rightarrow>
               let opCfg = merge_sections L ncpCfg agentCfg OperatorSections (Empty L);
                   cm = cm_init opConfigmap
               in case iniWriteToString L opCfg of
                    Inl err \<Rightarrow> (Some err, cm_set cm ConfigMapDataKey [])
                  | Inr txt \<Rightarrow> (None, cm_set cm ConfigMapDataKey txt)))"

end
