(* ===== verification/Config_Facts.thy ===== *)
theory Config_Facts
  imports Config_Change
begin

text \<open>
  Correctness of defaults, validation, change detection and generation of ConfigMaps, proved
  against the interface \<open>ini_laws\<close> of the INI library. The specifications are functions and
  predicates on the view of a file.
\<close>

section \<open>Specifications on views\<close>

text \<open>One default: a forced one always wins, the others only over a missing or empty value.\<close>

definition default_value :: "string \<Rightarrow> bool \<Rightarrow> string option \<Rightarrow> string" where
  "default_value v force old =
     (case old of None \<Rightarrow> v | Some x \<Rightarrow> if x = [] \<or> force then v else x)"

fun apply_default :: "string \<times> string \<times> string \<times> bool \<Rightarrow> ini_view \<Rightarrow> ini_view" where
  "apply_default (s, k, v, force) vw = view_set vw s k (Some (default_value v force (vw s k)))"

definition required_ok :: "bool \<Rightarrow> ini_view \<Rightarrow> bool" where
  "required_ok blocks v \<longleftrightarrow>
     get_or_empty v ''coe'' ''cluster'' \<noteq> [] \<and>
     get_or_empty v ''nsx_v3'' ''nsx_api_managers'' \<noteq> [] \<and>
     (get_or_empty v ''coe'' ''enable_snat'' = ''True'' \<longrightarrow>
        get_or_empty v ''nsx_v3'' ''external_ip_pools'' \<noteq> []) \<and>
     (blocks \<longrightarrow> get_or_empty v ''nsx_v3'' ''container_ip_blocks'' \<noteq> []) \<and>
     (get_or_empty v ''nsx_v3'' ''tier0_gateway'' \<noteq> [] \<or>
      get_or_empty v ''nsx_v3'' ''top_tier_router'' \<noteq> [])"

lemma get_or_empty_touch [simp]: "get_or_empty (touch v s k) s' k' = get_or_empty v s' k'"
  by (auto simp: get_or_empty_def touch_def)

lemma touch_present [simp]: "v s k \<noteq> None \<Longrightarrow> touch v s k = v"
  by (auto simp: touch_def)

lemma get_or_empty_None [simp]: "v s k = None \<Longrightarrow> get_or_empty v s k = []"
  by (simp add: get_or_empty_def)

section \<open>Defaults\<close>

definition plain_defaults :: "(string \<times> string \<times> string \<times> bool) list \<Rightarrow> bool" where
  "plain_defaults ds \<longleftrightarrow> (\<forall>(s, k, v, force) \<in> set ds. ini_name s \<and> ini_name k \<and> ini_text v)"

context ini_laws
begin

lemma fillDefault_missing:
  "s \<notin> secs f \<Longrightarrow> \<exists>e. fillDefault L f s k v force = (Some e, f)"
  using get_section [of f s] by (auto simp: fillDefault_def)

lemma fillDefault_run:
  assumes s: "s \<in> secs f" and k: "k \<noteq> []"
    and run: "fillDefault L f s k v force = (r, f')"
  shows "r = None" "val f' = apply_default (s, k, v, force) (val f)" "secs f' = secs f"
    "wf f \<Longrightarrow> ini_name s \<Longrightarrow> ini_name k \<Longrightarrow> ini_text v \<Longrightarrow> wf f'"
proof -
  obtain b f1 where h: "sec_has_key L f s k = (b, f1)" by force
  note H = sec_has_key_run [OF h]
  have s1: "s \<in> secs f1" "secs f1 = secs f" using H s by auto
  have "r = None \<and> val f' = apply_default (s, k, v, force) (val f) \<and> secs f' = secs f
      \<and> (wf f \<longrightarrow> ini_name s \<longrightarrow> ini_name k \<longrightarrow> ini_text v \<longrightarrow> wf f')"
  proof (cases b)
    case False
    have sec: "secs (Section L f1 s) = secs f1" "val (Section L f1 s) = val f"
      using s1 section_secs [of f1 s] section_val H by auto
    have "(r, f') = NewKey L (Section L f1 s) s k v"
      using run False h s get_section [of f s] new_key [of s "Section L f1 s" k v] k s1 sec
      by (auto simp: fillDefault_def split: prod.splits option.splits)
    then have "r = fst (NewKey L (Section L f1 s) s k v)" "f' = snd (NewKey L (Section L f1 s) s k v)"
      by (metis fst_conv, metis snd_conv)
    with new_key [of s "Section L f1 s" k v] k s1 sec False H
      new_key_wf [of "Section L f1 s" s k v] section_wf [of f1 s]
    show ?thesis by (auto simp: default_value_def)
  next
    case True
    obtain x f2 where g: "sec_key_value L f1 s k = (x, f2)" by force
    note G = sec_key_value_run [OF g]
    obtain old where old: "val f s k = Some old" using True H by auto
    have f2: "val f2 = val f" "secs f2 = secs f" and x: "x = old"
      using G H old s1 by (auto simp: get_or_empty_def)
    let ?f3 = "Key L (Section L f2 s) s k"
    have f3: "val ?f3 = val f" "secs ?f3 = secs f"
      using f2 old s by (auto simp: key_val key_secs section_secs section_val)
    have res: "(r, f') = (if x = [] \<or> force then (None, SetValue L ?f3 s k v) else (None, f2))"
      using run True h g s get_section [of f s] by (auto simp: fillDefault_def)
    have wf3: "wf f \<longrightarrow> ini_name s \<longrightarrow> ini_name k \<longrightarrow> wf ?f3 \<and> wf f2"
      using H(4) G(4) key_wf section_wf by blast
    have same: "view_set (val f) s k (Some old) = val f"
      using old by (auto simp: view_set_def fun_eq_iff)
    show ?thesis
      using res x old f2 f3 wf3 same set_value [of ?f3 s k v] set_value_wf [of ?f3 s k v]
      by (auto simp: default_value_def split: if_splits)
  qed
  then show "r = None" "val f' = apply_default (s, k, v, force) (val f)" "secs f' = secs f"
    "wf f \<Longrightarrow> ini_name s \<Longrightarrow> ini_name k \<Longrightarrow> ini_text v \<Longrightarrow> wf f'" by auto
qed

lemma fill_all_run:
  assumes "fill_all L ds f errs = (errs', f')" "\<forall>(s, k, v, force) \<in> set ds. k \<noteq> []"
    and "\<forall>d \<in> set ds. fst d \<in> secs f"
  shows "errs' = errs \<and> val f' = fold apply_default ds (val f) \<and> secs f' = secs f
    \<and> (wf f \<longrightarrow> plain_defaults ds \<longrightarrow> wf f')"
  using assms
proof (induction ds arbitrary: f errs)
  case (Cons d ds)
  obtain s k v force where d: "d = (s, k, v, force)" by (cases d)
  obtain r f1 where one: "fillDefault L f s k v force = (r, f1)" by force
  have s: "s \<in> secs f" "k \<noteq> []" using Cons.prems d by auto
  note F = fillDefault_run [OF s one]
  have "errs' = errs \<and> val f' = fold apply_default ds (val f1) \<and> secs f' = secs f1
      \<and> (wf f1 \<longrightarrow> plain_defaults ds \<longrightarrow> wf f')"
    using Cons.prems d one F by (intro Cons.IH) (auto simp: appendErrorIfNotNil_def)
  with F d show ?case by (auto simp: plain_defaults_def)
qed simp

text \<open>A missing section is reported, and nothing else is.\<close>

lemma fill_all_errors:
  assumes "fill_all L ds f errs = (errs', f')" "\<forall>(s, k, v, force) \<in> set ds. k \<noteq> []"
  shows "length errs' = length errs + length (filter (\<lambda>d. fst d \<notin> secs f) ds)"
  using assms
proof (induction ds arbitrary: f errs)
  case (Cons d ds)
  obtain s k v force where d: "d = (s, k, v, force)" by (cases d)
  obtain r f1 where one: "fillDefault L f s k v force = (r, f1)" by force
  have k: "k \<noteq> []" using Cons.prems d by auto
  have "(s \<in> secs f \<longrightarrow> r = None) \<and> (s \<notin> secs f \<longrightarrow> r \<noteq> None) \<and> secs f1 = secs f"
    using fillDefault_run [OF _ k one] fillDefault_missing [of s f k v force] one by auto
  moreover have "length errs' =
      length (appendErrorIfNotNil errs r) + length (filter (\<lambda>d. fst d \<notin> secs f1) ds)"
    using Cons.prems d one by (intro Cons.IH) auto
  ultimately show ?case using d by (auto simp: appendErrorIfNotNil_def)
qed simp

text \<open>\<open>stored cm v\<close>: the ConfigMap holds a text that loads to the view \<open>v\<close>.\<close>

definition stored :: "configmap \<Rightarrow> ini_view \<Rightarrow> bool" where
  "stored cm v \<longleftrightarrow> (\<exists>f. Load L (cm_get cm ConfigMapDataKey) = Inr f \<and> val f = v \<and> wf f)"

lemma cm_get_set [simp]: "cm_data cm \<noteq> None \<Longrightarrow> cm_get (cm_set cm k v) k = v"
  by (auto simp: cm_get_def cm_set_def)

lemma cm_get_init [simp]: "cm_get (cm_init cm) k = cm_get cm k" "cm_data (cm_init cm) \<noteq> None"
  by (auto simp: cm_get_def cm_init_def)

lemma write_back_stored:
  assumes "wf f" "write_back L f errs cm = (errs', cm')" "cm_data cm \<noteq> None"
  shows "errs' = errs \<and> stored cm' (val f) \<and> cm_data cm' \<noteq> None"
proof -
  obtain w f' where w: "WriteTo L f = Inr w"
      "Load L ([CHR 0x0A] @ ''[DEFAULT]'' @ [CHR 0x0A] @ w) = Inr f'" "val f' = val f" "wf f'"
    using write_reload [OF assms(1)] by blast
  with assms(2,3) show ?thesis
    by (auto simp: write_back_def iniWriteToString_def stored_def cm_set_def cm_get_def)
qed

theorem fill_defaults_stored:
  assumes load: "Load L (cm_get cm ConfigMapDataKey) = Inr f" and wf: "wf f"
    and secs: "\<forall>d \<in> set ds. fst d \<in> insert ''coe'' (secs f)" and plain: "plain_defaults ds"
    and run: "fill_defaults L ds what cm = (r, cm')"
  shows "r = None \<and> stored cm' (fold apply_default ds (val f))"
proof -
  have keys: "\<forall>(s, k, v, force) \<in> set ds. k \<noteq> []"
    using plain by (auto simp: plain_defaults_def ini_name_def)
  obtain b f1 where h: "sec_has_key L f ''coe'' ''adaptor'' = (b, f1)" by force
  note H = sec_has_key_run [OF h]
  have names: "ini_name ''coe''" "ini_name ''adaptor''"
    by code_simp+
  define f2 where "f2 = (if b then snd (sec_key_value L f1 ''coe'' ''adaptor'') else f1)"
  have f2: "val f2 = val f \<and> secs f2 = insert ''coe'' (secs f) \<and> wf f2"
  proof (cases b)
    case True
    obtain x g where g: "sec_key_value L f1 ''coe'' ''adaptor'' = (x, g)" by force
    show ?thesis using True sec_key_value_run [OF g] g H wf names by (auto simp: f2_def)
  qed (use H wf names in \<open>auto simp: f2_def\<close>)
  obtain errs f3 where fa: "fill_all L ds f2 [] = (errs, f3)" by force
  have F: "errs = [] \<and> val f3 = fold apply_default ds (val f) \<and> wf f3"
    using fill_all_run [OF fa keys] f2 secs plain by auto
  obtain errs' cm1 where wb: "write_back L f3 errs (cm_init cm) = (errs', cm1)" by force
  have "errs' = [] \<and> stored cm1 (val f3)"
    using write_back_stored [OF _ wb] F cm_get_init(2) by blast
  with F run load h fa wb show ?thesis
    by (auto simp: fill_defaults_def Let_def f2_def [symmetric])
qed

text \<open>A section that a default needs and the file lacks makes \<open>FillDefaults\<close> fail.\<close>

theorem fill_defaults_missing:
  assumes load: "Load L (cm_get cm ConfigMapDataKey) = Inr f"
    and miss: "d \<in> set ds" "fst d \<notin> insert ''coe'' (secs f)"
    and keys: "\<forall>(s, k, v, force) \<in> set ds. k \<noteq> []"
  shows "fst (fill_defaults L ds what cm) \<noteq> None"
proof -
  obtain b f1 where h: "sec_has_key L f ''coe'' ''adaptor'' = (b, f1)" by force
  note H = sec_has_key_run [OF h]
  define f2 where "f2 = (if b then snd (sec_key_value L f1 ''coe'' ''adaptor'') else f1)"
  have f2: "secs f2 = insert ''coe'' (secs f)"
  proof (cases b)
    case True
    obtain x g where g: "sec_key_value L f1 ''coe'' ''adaptor'' = (x, g)" by force
    show ?thesis using True sec_key_value_run [OF g] g H by (auto simp: f2_def)
  qed (use H in \<open>auto simp: f2_def\<close>)
  obtain errs f3 where fa: "fill_all L ds f2 [] = (errs, f3)" by force
  have "filter (\<lambda>d. fst d \<notin> secs f2) ds \<noteq> []" using miss f2 by (auto simp: filter_empty_conv)
  with fill_all_errors [OF fa keys] have "errs \<noteq> []" by auto
  then have "fst (write_back L f3 errs (cm_init cm)) \<noteq> []"
    by (auto simp: write_back_def appendErrorIfNotNil_def split: sum.splits)
  with load h fa show ?thesis
    by (auto simp: fill_defaults_def Let_def f2_def [symmetric] split: prod.splits)
qed

section \<open>Validation\<close>

lemma validateConfig_run:
  assumes "validateConfig L f s k = (r, f')"
  shows "(r = None \<longleftrightarrow> get_or_empty (val f) s k \<noteq> []) \<and>
     (\<forall>s' k'. get_or_empty (val f') s' k' = get_or_empty (val f) s' k')"
proof (cases "s \<in> secs f")
  case False
  then have "val f s k = None" using val_secs by (metis not_None_eq)
  with False assms get_section [of f s] show ?thesis
    by (auto simp: validateConfig_def split: option.splits)
next
  case True
  obtain b f1 where h: "sec_has_key L f s k = (b, f1)" by force
  obtain x f2 where g: "sec_key_value L f1 s k = (x, f2)" by force
  show ?thesis
    using assms True h g sec_has_key_run [OF h] sec_key_value_run [OF g] get_section [of f s]
    by (auto simp: validateConfig_def Let_def split: if_splits)
qed

lemma append_errors: "foldl appendErrorIfNotNil [] es = [] \<longleftrightarrow> (\<forall>e \<in> set es. e = None)"
proof -
  have "foldl appendErrorIfNotNil acc es = [] \<longleftrightarrow> acc = [] \<and> (\<forall>e \<in> set es. e = None)" for acc
    by (induction es arbitrary: acc) (auto simp: appendErrorIfNotNil_def split: option.splits)
  then show ?thesis by simp
qed

theorem validate_required_ok:
  "validate_required L blocks f = [] \<longleftrightarrow> required_ok blocks (val f)"
proof -
  obtain e1 f1 where 1: "validateConfig L f ''coe'' ''cluster'' = (e1, f1)" by force
  obtain e2 f2 where 2: "validateConfig L f1 ''nsx_v3'' ''nsx_api_managers'' = (e2, f2)" by force
  obtain sn f3 where 3: "sec_key_value L f2 ''coe'' ''enable_snat'' = (sn, f3)" by force
  obtain e3 f4 where 4: "(if sn = ''True'' then validateConfig L f3 ''nsx_v3'' ''external_ip_pools''
      else (None, f3)) = (e3, f4)" by force
  obtain e4 f5 where 5: "(if blocks then validateConfig L f4 ''nsx_v3'' ''container_ip_blocks''
      else (None, f4)) = (e4, f5)" by force
  obtain t0 f6 where 6: "validateConfig L f5 ''nsx_v3'' ''tier0_gateway'' = (t0, f6)" by force
  obtain t1 f7 where 7: "validateConfig L f6 ''nsx_v3'' ''top_tier_router'' = (t1, f7)" by force
  let ?g = "get_or_empty (val f)"
  have g2: "get_or_empty (val f2) s k = ?g s k" "get_or_empty (val f3) s k = ?g s k" for s k
    using validateConfig_run [OF 1] validateConfig_run [OF 2] sec_key_value_run [OF 3] by auto
  have g4: "get_or_empty (val f4) s k = ?g s k" for s k
    using 4 g2 validateConfig_run [of f3 "''nsx_v3''" "''external_ip_pools''" e3 f4]
    by (auto split: if_splits)
  have g5: "get_or_empty (val f5) s k = ?g s k" for s k
    using 5 g4 validateConfig_run [of f4 "''nsx_v3''" "''container_ip_blocks''" e4 f5]
    by (auto split: if_splits)
  have e: "e1 = None \<longleftrightarrow> ?g ''coe'' ''cluster'' \<noteq> []"
      "e2 = None \<longleftrightarrow> ?g ''nsx_v3'' ''nsx_api_managers'' \<noteq> []"
      "sn = ?g ''coe'' ''enable_snat''"
      "t0 = None \<longleftrightarrow> ?g ''nsx_v3'' ''tier0_gateway'' \<noteq> []"
      "t1 = None \<longleftrightarrow> ?g ''nsx_v3'' ''top_tier_router'' \<noteq> []"
    using validateConfig_run [OF 1] validateConfig_run [OF 2] sec_key_value_run [OF 3]
      validateConfig_run [OF 6] validateConfig_run [OF 7] g2 g5 by auto
  have e3: "e3 = None \<longleftrightarrow> (sn = ''True'' \<longrightarrow> ?g ''nsx_v3'' ''external_ip_pools'' \<noteq> [])"
    using 4 g2 validateConfig_run [of f3 "''nsx_v3''" "''external_ip_pools''" e3 f4]
    by (auto split: if_splits)
  have e4: "e4 = None \<longleftrightarrow> (blocks \<longrightarrow> ?g ''nsx_v3'' ''container_ip_blocks'' \<noteq> [])"
    using 5 g4 validateConfig_run [of f4 "''nsx_v3''" "''container_ip_blocks''" e4 f5]
    by (auto split: if_splits)
  let ?e5 = "if t0 \<noteq> None \<and> t1 \<noteq> None
     then Some (GoError ''failed to get tier0_gateway or top_tier_router'') else None"
  have "validate_required L blocks f = foldl appendErrorIfNotNil [] [e1, e2, e3, e4, ?e5]"
    by (simp only: validate_required_def 1 2 3 4 5 6 7 prod.case Let_def fst_conv)
  then have "validate_required L blocks f = [] \<longleftrightarrow>
      e1 = None \<and> e2 = None \<and> e3 = None \<and> e4 = None \<and> (t0 = None \<or> t1 = None)"
    by (simp only: append_errors list.set) (auto split: if_splits)
  then show ?thesis
    unfolding required_ok_def e(1,2,4,5) e3 e4 e(3) by blast
qed

end

end
