(* ===== verification/Config_Validation.thy ===== *)
theory Config_Validation
  imports Config_Facts
begin

text \<open>
  Acceptance of ConfigMaps: the validation succeeds exactly on the ConfigMaps with the required
  options, an integer MTU and no log file, and leaves the ConfigMap without the unsupported
  options; the validation of the cluster network is characterised by its CIDRs.
\<close>

section \<open>Validation of the whole ConfigMap\<close>

text \<open>
  What the operator does not support: the options of the two tables that have a value, and
  the whole section \<open>cf\<close>.
\<close>

definition unsupported :: "string \<Rightarrow> string \<Rightarrow> bool" where
  "unsupported s k \<longleftrightarrow> (s, k) \<in> set (option_pairs MPOptions @ option_pairs WCPOptions)"

definition drop_unsupported :: "ini_view \<Rightarrow> ini_view" where
  "drop_unsupported v =
     (\<lambda>s k. if s = TASSection \<or> (unsupported s k \<and> get_or_empty v s k \<noteq> []) then None else v s k)"

text \<open>The accepted ConfigMaps, and what acceptance leaves.\<close>

definition config_ok :: "bool \<Rightarrow> ini_view \<Rightarrow> bool" where
  "config_ok blocks v \<longleftrightarrow> required_ok blocks v
     \<and> snd (Atoi (get_or_empty v ''nsx_node_agent'' ''mtu'')) = None
     \<and> get_or_empty v ''DEFAULT'' ''log_file'' = []"

lemma set_option_pairs: "set (option_pairs t) = {(s, k). \<exists>ks. (s, ks) \<in> set t \<and> k \<in> set ks}"
  by (auto simp: option_pairs_def)

lemma option_pairs_perm:
  assumes "mset t = mset u"
  shows "set (option_pairs t) = set (option_pairs u)"
  unfolding set_option_pairs mset_eq_setD [OF assms] ..

context ini_laws
begin

lemma optionInConfigMap_run:
  assumes "Load L (cm_get cm ConfigMapDataKey) = Inr f" "cm_data cm \<noteq> None"
  shows "optionInConfigMap L (Some cm) s k \<longleftrightarrow> get_or_empty (val f) s k \<noteq> []"
proof (cases "s \<in> secs f")
  case False
  then have "val f s k = None" using val_secs by (metis not_None_eq)
  with False assms get_section [of f s] show ?thesis
    by (auto simp: optionInConfigMap_def split: option.splits)
next
  case True
  then show ?thesis
    using assms get_section [of f s] has_key [of f s k] value_val [of f s k]
    by (auto simp: optionInConfigMap_def get_or_empty_def split: option.splits)
qed

lemma drop_options_run:
  assumes load: "Load L (cm_get cm ConfigMapDataKey) = Inr f0" "cm_data cm \<noteq> None"
    and run: "drop_options L cm ps f b = (f', b')"
  shows "val f' = (\<lambda>s k. if (s, k) \<in> set ps \<and> get_or_empty (val f0) s k \<noteq> [] then None else val f s k)
     \<and> (b' \<longleftrightarrow> b \<or> (\<exists>(s, k) \<in> set ps. get_or_empty (val f0) s k \<noteq> []))
     \<and> (wf f \<longrightarrow> (\<forall>(s, k) \<in> set ps. ini_name s) \<longrightarrow> wf f')"
  using run
proof (induction ps arbitrary: f b)
  case (Cons p ps)
  obtain s k where p: "p = (s, k)" by force
  note opt = optionInConfigMap_run [OF load, of s k]
  let ?f = "DeleteKey L (Section L f s) s k"
  have d: "val ?f = view_set (val f) s k None" "wf f \<longrightarrow> ini_name s \<longrightarrow> wf ?f"
    using delete_key [of "Section L f s" s k] section_val delete_key_wf section_wf by auto
  show ?case
  proof (cases "get_or_empty (val f0) s k = []")
    case True
    with Cons.prems opt p have "drop_options L cm ps f b = (f', b')" by simp
    from Cons.IH [OF this] True p show ?thesis by (auto simp: fun_eq_iff)
  next
    case False
    with Cons.prems opt p have "drop_options L cm ps ?f True = (f', b')" by simp
    from Cons.IH [OF this] False p d show ?thesis by (auto simp: fun_eq_iff)
  qed
qed auto

lemma names_of_options: "\<forall>(s, k) \<in> set (option_pairs MPOptions @ option_pairs WCPOptions). ini_name s"
  by code_simp

theorem unsupported_removed:
  assumes load: "Load L (cm_get cm ConfigMapDataKey) = Inr f" and wf: "wf f"
    and order: "\<And>t. mset (order t) = mset t"
  shows "\<exists>cm'. validateUnSupportedOptions L order cm = Inr ([], cm')
           \<and> stored cm' (drop_unsupported (val f)) \<and> cm_data cm' \<noteq> None"
proof -
  let ?cm = "cm_init cm"
  have load': "Load L (cm_get ?cm ConfigMapDataKey) = Inr f" "cm_data ?cm \<noteq> None"
    using load by simp_all
  obtain f1 b1 where 1: "drop_options L ?cm (option_pairs (order MPOptions)) f False = (f1, b1)" by force
  obtain f2 b2 where 2: "drop_options L ?cm (option_pairs (order WCPOptions)) f1 b1 = (f2, b2)" by force
  have sets: "set (option_pairs (order MPOptions)) = set (option_pairs MPOptions)"
      "set (option_pairs (order WCPOptions)) = set (option_pairs WCPOptions)"
    by (rule option_pairs_perm [OF order])+
  note R1 = drop_options_run [OF load' 1, unfolded sets] and R2 = drop_options_run [OF load' 2, unfolded sets]
  let ?f3 = "Section L f2 TASSection"
  let ?tas = "length (KeyStrings L ?f3 TASSection) \<noteq> 0"
  let ?f4 = "if ?tas then DeleteSection L ?f3 TASSection else ?f3"
  have wf2: "wf f2" using R1 R2 wf names_of_options by auto
  have wf3: "wf ?f3" using wf2 section_wf by (simp add: TASSection_def ini_name_def name_char_def)
  have val2: "val f2 = (\<lambda>s k. if unsupported s k \<and> get_or_empty (val f) s k \<noteq> [] then None else val f s k)"
    using R1 R2 by (auto simp: fun_eq_iff unsupported_def)
  have tas: "?tas \<longleftrightarrow> val f2 TASSection \<noteq> Map.empty"
    by (metis dom_eq_empty_conv key_strings(1) length_0_conv section_val set_empty)
  have wf4: "wf ?f4" using wf3 delete_section_wf by simp
  have "val ?f4 = (val f2)(TASSection := Map.empty)"
    using tas delete_section [of ?f3 TASSection] by (simp add: section_val fun_upd_idem)
  then have val4: "val ?f4 = drop_unsupported (val f)"
    by (simp add: fun_eq_iff drop_unsupported_def val2)
  have eq: "validateUnSupportedOptions L order cm =
      Inr (if b2 \<or> ?tas then write_back L ?f4 [] ?cm else ([], ?cm))"
    by (simp add: validateUnSupportedOptions_def load 1 2 Let_def)
  show ?thesis
  proof (cases "b2 \<or> ?tas")
    case True
    obtain es cm' where wb: "write_back L ?f4 [] ?cm = (es, cm')" by force
    with True eq write_back_stored [OF wf4 wb] val4 show ?thesis by auto
  next
    case False
    then have "\<forall>s k. unsupported s k \<longrightarrow> get_or_empty (val f) s k = []" "val f2 TASSection = Map.empty"
      using R1 R2 tas by (auto simp: unsupported_def)
    then have "drop_unsupported (val f) = val f"
      by (auto simp: fun_eq_iff drop_unsupported_def val2 split: if_splits)
    moreover have "stored ?cm (val f)" using load' wf by (auto simp: stored_def)
    ultimately show ?thesis using False eq load'(2) by (simp del: cm_get_init)
  qed
qed

theorem validate_config_map_ok:
  assumes load: "Load L (cm_get cm ConfigMapDataKey) = Inr f" and wf: "wf f"
    and order: "\<And>t. mset (order t) = mset t"
  shows "\<exists>errs cm'. validate_config_map L blocks order cm = Inr (errs, cm')
           \<and> (errs = [] \<longleftrightarrow> config_ok blocks (val f))
           \<and> stored cm' (drop_unsupported (val f))"
proof -
  obtain cm' where u: "validateUnSupportedOptions L order (cm_init cm) = Inr ([], cm')"
      "stored cm' (drop_unsupported (val f))"
    using unsupported_removed [of "cm_init cm" f order] load wf order by auto
  have idem: "cm_init (cm_init cm) = cm_init cm" by (auto simp: cm_init_def)
  obtain m f1 where m: "sec_key_value L f ''nsx_node_agent'' ''mtu'' = (m, f1)" by force
  obtain l f2 where l: "sec_key_value L f ''DEFAULT'' ''log_file'' = (l, f2)" by force
  have ml: "m = get_or_empty (val f) ''nsx_node_agent'' ''mtu''"
      "l = get_or_empty (val f) ''DEFAULT'' ''log_file''"
    using sec_key_value_run(1) [OF m] sec_key_value_run(1) [OF l] by auto
  show ?thesis
    using u validate_required_ok [of blocks f]
    by (auto simp: validate_config_map_def validateNodeAgentOptions_def validateCommonOptions_def
        Let_def load idem m l ml [symmetric] config_ok_def split: option.splits)
qed

text \<open>A text that does not load is an error, never a crash.\<close>

lemma validate_config_map_unloadable:
  "Load L (cm_get cm ConfigMapDataKey) = Inl e \<Longrightarrow>
   validate_config_map L blocks order cm = Inr ([wrapf e ''failed to load ConfigMap''], cm_init cm)"
  by (simp add: validate_config_map_def Let_def)

end

section \<open>The cluster network\<close>

lemma uint_loop_mono: "uint_loop mx s n = Inr r \<Longrightarrow> mx \<le> mx' \<Longrightarrow> uint_loop mx' s n = Inr r"
  by (induction s arbitrary: n) (auto split: option.splits if_splits)

lemma uint_loop_digits: "uint_loop mx s n = Inr r \<Longrightarrow> CHR ''/'' \<notin> set s"
proof (induction s arbitrary: n)
  case (Cons c s)
  have "digit_val CHR ''/'' = None" by (simp add: digit_val_def)
  with Cons show ?case by (auto split: option.splits if_splits)
qed simp

lemma uint_loop_ge: "uint_loop mx s n = Inr r \<Longrightarrow> 0 \<le> n \<Longrightarrow> n \<le> r"
proof (induction s arbitrary: n)
  case (Cons c s)
  then obtain d where "uint_loop mx s (n * 10 + int d) = Inr r" by (auto split: option.splits if_splits)
  with Cons.IH [of "n * 10 + int d"] Cons.prems(2) show ?case by linarith
qed simp

lemma LastIndexByte_None: "c \<notin> set s \<Longrightarrow> LastIndexByte s c = None"
  by (induction s) auto

lemma LastIndexByte_last: "c \<notin> set t \<Longrightarrow> LastIndexByte (s @ c # t) c = Some (length s)"
  by (induction s) (auto simp: LastIndexByte_None)

text \<open>The prefix length read from the text is the one of the parsed CIDR.\<close>

theorem getPrefixFromCIDR_mask:
  assumes "ParseCIDR s = Some (a, m)"
  shows "getPrefixFromCIDR s = Inr (int m)"
proof -
  obtain i where i: "Index s ''/'' = Some i" and mask: "drop (Suc i) s \<noteq> []"
    and u: "\<exists>n. uint_loop 16777214 (drop (Suc i) s) 0 = Inr n \<and> nat n = m"
    using assms by (auto simp: ParseCIDR_def Let_def split: option.splits sum.splits if_splits)
  then obtain n where n: "uint_loop 16777214 (drop (Suc i) s) 0 = Inr n" "nat n = m" by blast
  have n0: "0 \<le> n" using uint_loop_ge [OF n(1)] by simp
  have "s = take i s @ CHR ''/'' # drop (Suc i) s" using Index_at [OF i] by simp
  then have "LastIndexByte s CHR ''/'' = Some (length (take i s))"
    using LastIndexByte_last [OF uint_loop_digits [OF n(1)], of "take i s"] by simp
  moreover have "length (take i s) = i" using Index_bound [OF i] by simp
  moreover have "uint_loop (2 ^ 32 - 1) (drop (Suc i) s) 0 = Inr n"
    by (rule uint_loop_mono [OF n(1)]) simp
  ultimately show ?thesis using mask n(2) n0 by (simp add: getPrefixFromCIDR_def ParseUint10_def)
qed

definition pool_ok :: "cluster_network \<Rightarrow> bool" where
  "pool_ok p \<longleftrightarrow>
     (case ParseCIDR (cn_CIDR p) of None \<Rightarrow> False
      | Some (a, m) \<Rightarrow> m \<le> 30 \<and> int m \<le> cn_HostPrefix p)"

lemma pool_errors_ok: "pool_errors i p = [] \<longleftrightarrow> pool_ok p"
  by (auto simp: pool_errors_def pool_ok_def Let_def getPrefixFromCIDR_mask split: option.splits)

lemma cluster_network_ok:
  "validateClusterNetwork_Oc spec = [] \<longleftrightarrow>
     ToLower (net_networkType spec) = NetworkType \<and> net_clusterNetwork spec \<noteq> []
     \<and> (\<forall>p \<in> set (net_clusterNetwork spec). pool_ok p)"
proof -
  have "concat (map (\<lambda>(i, p). pool_errors i p) (enumerate n ps)) = [] \<longleftrightarrow> (\<forall>p \<in> set ps. pool_ok p)"
    for n ps by (induction ps arbitrary: n) (auto simp: pool_errors_ok)
  then show ?thesis by (simp add: validateClusterNetwork_Oc_def)
qed

end
