(* ===== verification/Config_Change_Facts.thy ===== *)
theory Config_Change_Facts
  imports Config_Validation
begin

text \<open>
  Change detection and generation of ConfigMaps, against \<open>ini_laws\<close>: \<open>NeedApplyChange\<close> decides
  by the differences of the two views (with the two immutable options read, and so created,
  in both), and a generated ConfigMap holds exactly the options of the wanted sections.
\<close>

section \<open>Slices\<close>

lemma inSlice_iff [simp]: "inSlice x s \<longleftrightarrow> x \<in> set s"
  by (induction s) auto

lemma all_in_slice_iff: "all_in_slice a b \<longleftrightarrow> set a \<subseteq> set b"
  by (induction a) auto

lemma stringSliceEqual_iff: "stringSliceEqual a b \<longleftrightarrow> length a = length b \<and> set a \<subseteq> set b"
  by (auto simp: stringSliceEqual_def all_in_slice_iff)

text \<open>On slices without repetitions it is equality as sets, hence symmetric.\<close>

lemma stringSliceEqual_distinct:
  assumes "distinct a" "distinct b"
  shows "stringSliceEqual a b \<longleftrightarrow> set a = set b"
proof
  assume "stringSliceEqual a b"
  then have "length a = length b" "set a \<subseteq> set b" by (auto simp: stringSliceEqual_iff)
  with assms show "set a = set b" by (metis card_subset_eq distinct_card finite_set)
next
  assume "set a = set b"
  with assms show "stringSliceEqual a b" by (metis distinct_card order_refl stringSliceEqual_iff)
qed

section \<open>The decision\<close>

text \<open>A view after the immutable options have been read.\<close>

definition settled :: "ini_view \<Rightarrow> ini_view" where
  "settled v = touch (touch v ''coe'' ''cluster'') ''nsx_v3'' ''l4_lb_auto_scaling''"

definition same_immutables :: "ini_view \<Rightarrow> ini_view \<Rightarrow> bool" where
  "same_immutables v w \<longleftrightarrow>
     (\<forall>(s, k) \<in> set immutableFields. get_or_empty v s k = get_or_empty w s k)"

text \<open>\<open>String\<close> expands references \<open>%(name)s\<close>; the immutable options have none.\<close>

definition no_references :: "ini_view \<Rightarrow> bool" where
  "no_references v \<longleftrightarrow> (\<forall>(s, k) \<in> set immutableFields. CHR ''%'' \<notin> set (get_or_empty v s k))"

definition options_differ ::
  "(string \<times> string list) list \<Rightarrow> (string \<Rightarrow> bool) \<Rightarrow> ini_view \<Rightarrow> ini_view \<Rightarrow> string \<Rightarrow> bool" where
  "options_differ table added v w s \<longleftrightarrow>
     (case map_of table s of None \<Rightarrow> False
      | Some keys \<Rightarrow> added s \<or> (\<exists>k \<in> set keys. v s k \<noteq> w s k))"

context ini_laws
begin

lemma sec_key_string_run:
  assumes "sec_key_string L f s k = (x, f')"
  shows "CHR ''%'' \<notin> set (get_or_empty (val f) s k) \<Longrightarrow> x = get_or_empty (val f) s k"
    and "val f' = touch (val f) s k" "secs f' = insert s (secs f)"
proof -
  obtain y g where g: "sec_key_value L f s k = (y, g)" by force
  note G = sec_key_value_run [OF g]
  have "f' = g" "x = String L g s k"
    using assms g by (auto simp: sec_key_string_def sec_key_value_def Let_def)
  with G show "val f' = touch (val f) s k" "secs f' = insert s (secs f)" by auto
  show "CHR ''%'' \<notin> set (get_or_empty (val f) s k) \<Longrightarrow> x = get_or_empty (val f) s k"
    using string_val [of g s k "get_or_empty (val f) s k"] G \<open>x = String L g s k\<close>
    by (auto simp: touch_def get_or_empty_def split: option.splits)
qed

lemma immutableFieldChanged_run:
  assumes "immutableFieldChanged L f g = (b, f', g')" "no_references (val f)" "no_references (val g)"
  shows "b \<longleftrightarrow> \<not> same_immutables (val f) (val g)"
    and "\<not> b \<Longrightarrow> val f' = settled (val f) \<and> val g' = settled (val g)
           \<and> secs f' = {''coe'', ''nsx_v3''} \<union> secs f \<and> secs g' = {''coe'', ''nsx_v3''} \<union> secs g"
proof -
  obtain x1 f1 where f1: "sec_key_string L f ''coe'' ''cluster'' = (x1, f1)" by force
  obtain y1 g1 where g1: "sec_key_string L g ''coe'' ''cluster'' = (y1, g1)" by force
  obtain x2 f2 where f2: "sec_key_string L f1 ''nsx_v3'' ''l4_lb_auto_scaling'' = (x2, f2)" by force
  obtain y2 g2 where g2: "sec_key_string L g1 ''nsx_v3'' ''l4_lb_auto_scaling'' = (y2, g2)" by force
  note F = sec_key_string_run [OF f1] sec_key_string_run [OF f2]
    and G = sec_key_string_run [OF g1] sec_key_string_run [OF g2]
  note nr = assms(2,3) [unfolded no_references_def immutableFields_def, simplified]
  have eqs: "x1 = get_or_empty (val f) ''coe'' ''cluster''" "y1 = get_or_empty (val g) ''coe'' ''cluster''"
    "x2 = get_or_empty (val f) ''nsx_v3'' ''l4_lb_auto_scaling''"
    "y2 = get_or_empty (val g) ''nsx_v3'' ''l4_lb_auto_scaling''"
    using F(1,4) G(1,4) nr F(2) G(2) by simp_all
  have run: "(b, f', g') = (if x1 \<noteq> y1 then (True, f1, g1) else (x2 \<noteq> y2, f2, g2))"
    using assms(1)
    by (auto simp: immutableFieldChanged_def immutableFields_def f1 g1 f2 g2 split: if_splits)
  show "b \<longleftrightarrow> \<not> same_immutables (val f) (val g)"
    using run eqs by (auto simp: same_immutables_def immutableFields_def split: if_splits)
  show "\<not> b \<Longrightarrow> val f' = settled (val f) \<and> val g' = settled (val g)
           \<and> secs f' = {''coe'', ''nsx_v3''} \<union> secs f \<and> secs g' = {''coe'', ''nsx_v3''} \<union> secs g"
    using run F(2,3,5,6) G(2,3,5,6) by (auto simp: settled_def split: if_splits)
qed

lemma missing_section: "s \<notin> secs f \<Longrightarrow> val f s = Map.empty"
  using val_secs by (metis not_None_eq ext)

lemma key_strings_empty: "length (KeyStrings L f s) = 0 \<longleftrightarrow> val f s = Map.empty"
  by (metis dom_eq_empty_conv key_strings(1) length_0_conv set_empty)

lemma diff_sections:
  "set (diff_curr L f g @ diff_prev L f g) = {s. val f s \<noteq> val g s}"
proof (rule set_eqI)
  fix s
  show "s \<in> set (diff_curr L f g @ diff_prev L f g) \<longleftrightarrow> s \<in> {s. val f s \<noteq> val g s}"
    using missing_section [of s f] missing_section [of s g]
    by (cases "s \<in> secs f"; cases "s \<in> secs g")
       (auto simp: diff_curr_def diff_prev_def hasSection_def get_section section_strings
         keys_hash_eq key_strings_empty simp del: length_0_conv length_greater_0_conv)
qed

lemma options_loop_run: "options_loop L s ks g f \<longleftrightarrow> (\<exists>k \<in> set ks. val f s k \<noteq> val g s k)"
proof (induction ks arbitrary: g f)
  case (Cons k ks)
  obtain hp g1 where p: "sec_has_key L g s k = (hp, g1)" by force
  obtain hc f1 where c: "sec_has_key L f s k = (hc, f1)" by force
  obtain vp g2 where p2: "sec_key_value L g1 s k = (vp, g2)" by force
  obtain vc f2 where c2: "sec_key_value L f1 s k = (vc, f2)" by force
  note R = sec_has_key_run [OF p] sec_has_key_run [OF c] sec_key_value_run [OF p2]
    sec_key_value_run [OF c2]
  show ?case
  proof (cases "hp \<and> hc")
    case True
    with R have "val g2 = val g" "val f2 = val f" by auto
    with True R p c p2 c2 Cons.IH [of g2 f2] show ?thesis
      by (auto simp: get_or_empty_def split: option.splits)
  next
    case False
    with R p c Cons.IH [of g1 f1] show ?thesis by auto
  qed
qed simp

lemma checkOptionsChange_run:
  "checkOptionsChange L table s g f \<longleftrightarrow>
     options_differ table (\<lambda>s. (s \<in> secs g) \<noteq> (s \<in> secs f)) (val f) (val g) s"
  by (auto simp: checkOptionsChange_def options_differ_def hasSection_def get_section
      options_loop_run split: option.splits)

lemma change_loop_run:
  "change_loop L f g ss nc =
     \<lparr>pnc_ncp = pnc_ncp nc \<or> (\<exists>s \<in> set ss. s \<in> set NcpSections),
      pnc_agent = pnc_agent nc \<or> (\<exists>s \<in> set ss. s \<in> set AgentRestartSections
        \<or> checkOptionsChange L AgentRestartOptionKeys s g f),
      pnc_bootstrap = pnc_bootstrap nc
        \<or> (\<exists>s \<in> set ss. checkOptionsChange L BootstrapRestartOptionKeys s g f)\<rparr>"
  by (induction ss arbitrary: nc) (auto simp: Let_def)

theorem need_apply_change:
  assumes load: "Load L (cm_get cm ConfigMapDataKey) = Inr f" "Load L (cm_get pm ConfigMapDataKey) = Inr g"
    and changed: "TrimSpace (cm_get cm ConfigMapDataKey) \<noteq> TrimSpace (cm_get pm ConfigMapDataKey)"
    and refs: "no_references (val f)" "no_references (val g)"
  shows "NeedApplyChange L cm (Some pm) =
    (if same_immutables (val f) (val g)
     then (let v = settled (val f); w = settled (val g);
               added = (\<lambda>s. (s \<in> {''coe'', ''nsx_v3''} \<union> secs g) \<noteq> (s \<in> {''coe'', ''nsx_v3''} \<union> secs f))
           in (\<lparr>pnc_ncp = (\<exists>s \<in> set NcpSections. v s \<noteq> w s),
                pnc_agent = (\<exists>s. v s \<noteq> w s \<and> (s \<in> set AgentRestartSections
                               \<or> options_differ AgentRestartOptionKeys added v w s)),
                pnc_bootstrap = (\<exists>s. v s \<noteq> w s \<and> options_differ BootstrapRestartOptionKeys added v w s)\<rparr>,
               None))
     else (pod_need_change False False False,
           Some (GoError (''Immutable field can'' @ [CHR 0x27] @ ''t be changed.''))))"
proof -
  obtain b f' g' where im: "immutableFieldChanged L f g = (b, f', g')" by (metis surj_pair)
  note I = immutableFieldChanged_run [OF im refs]
  have run: "NeedApplyChange L cm (Some pm) = (if b
      then (pod_need_change False False False,
            Some (GoError (''Immutable field can'' @ [CHR 0x27] @ ''t be changed.'')))
      else (change_loop L f' g' (diff_curr L f' g' @ diff_prev L f' g')
              (pod_need_change False False False), None))"
    using changed by (simp only: NeedApplyChange_def load im Let_def option.case sum.case prod.case if_False)
  show ?thesis
  proof (cases b)
    case True
    with I(1) run show ?thesis by simp
  next
    case False
    note V = I(2) [OF False]
    have "\<And>s. checkOptionsChange L t s g' f' = options_differ t
        (\<lambda>s. (s \<in> {''coe'', ''nsx_v3''} \<union> secs g) \<noteq> (s \<in> {''coe'', ''nsx_v3''} \<union> secs f))
        (settled (val f)) (settled (val g)) s" for t
      using V by (simp only: checkOptionsChange_run)
    with False I(1) run V show ?thesis
      by (simp only: change_loop_run diff_sections Let_def) auto
  qed
qed

text \<open>A first application concerns every pod, an unchanged text none.\<close>

lemma need_apply_first: "NeedApplyChange L cm None = (pod_need_change True True True, None)"
  by (simp add: NeedApplyChange_def)

section \<open>Generation\<close>

lemma copy_keys_run:
  assumes "name \<in> secs d" "\<forall>k \<in> set ks. val src name k \<noteq> None" "wf src"
  shows "val (copy_keys L src name ks d) =
           (val d)(name := \<lambda>k. if k \<in> set ks then val src name k else val d name k)
         \<and> secs (copy_keys L src name ks d) = secs d
         \<and> (wf d \<longrightarrow> wf (copy_keys L src name ks d))"
  using assms
proof (induction ks arbitrary: d)
  case (Cons k ks)
  from Cons.prems obtain v where v: "val src name k = Some v" by auto
  note N = wf_names [OF Cons.prems(3) v]
  have k: "k \<noteq> []" using N by (auto simp: ini_name_def)
  let ?d = "snd (NewKey L (Section L d name) name k (Value L src name k))"
  have d: "val ?d = view_set (val d) name k (Some v)" "secs ?d = secs d" "wf d \<longrightarrow> wf ?d"
    using new_key [of name "Section L d name" k v] new_key_wf [of "Section L d name" name k v]
      section_wf [of d name] section_secs [of d name] section_val [of d name]
      value_val [OF v] N k Cons.prems(1) by auto
  have "val (copy_keys L src name ks ?d) =
      (val ?d)(name := \<lambda>k. if k \<in> set ks then val src name k else val ?d name k)
    \<and> secs (copy_keys L src name ks ?d) = secs ?d \<and> (wf ?d \<longrightarrow> wf (copy_keys L src name ks ?d))"
    using Cons.prems d by (intro Cons.IH) auto
  with d v show ?case by (auto simp: fun_eq_iff)
qed simp

lemma copy_section_run:
  assumes "wf src" "name \<in> secs src"
  shows "val (copy_section L src name d) = (val d)(name := val d name ++ val src name)
         \<and> (wf d \<longrightarrow> ini_name name \<longrightarrow> wf (copy_section L src name d))"
proof -
  have d: "name \<in> secs (NewSection L d name)" "val (NewSection L d name) = val d"
      "wf d \<longrightarrow> ini_name name \<longrightarrow> wf (NewSection L d name)"
    using new_section [of d name] new_section_wf [of d name] by auto
  have "\<forall>k \<in> set (KeyStrings L src name). val src name k \<noteq> None"
    by (auto simp: key_strings)
  from copy_keys_run [OF d(1) this assms(1)] d show ?thesis
    by (auto simp: copy_section_def key_strings fun_eq_iff map_add_def dom_def split: option.splits)
qed

lemma copy_sections_run:
  assumes "wf src" "list_all ini_name names" "wf d"
  shows "val (copy_sections L src names d) =
           (\<lambda>s. if s \<in> set names then val d s ++ val src s else val d s)
         \<and> wf (copy_sections L src names d)"
  using assms(2,3)
proof (induction names arbitrary: d)
  case (Cons n names)
  show ?case
  proof (cases "n \<in> secs src")
    case True
    note C = copy_section_run [OF assms(1) True, of d]
    have "val (copy_sections L src names (copy_section L src n d)) =
        (\<lambda>s. if s \<in> set names then val (copy_section L src n d) s ++ val src s
             else val (copy_section L src n d) s)
      \<and> wf (copy_sections L src names (copy_section L src n d))"
      using Cons.prems C by (intro Cons.IH) auto
    with C Cons.prems True show ?thesis by (auto simp: fun_eq_iff get_section map_add_def split: option.splits)
  next
    case False
    with missing_section have "val src n = Map.empty" by blast
    with False Cons show ?thesis by (auto simp: fun_eq_iff get_section map_add_def)
  qed
qed auto

text \<open>A written file, read back.\<close>

lemma written_view:
  assumes "wf f"
  shows "\<exists>txt g. iniWriteToString L f = Inr txt \<and> Load L txt = Inr g \<and> val g = val f \<and> wf g"
  using write_reload [OF assms] by (auto simp: iniWriteToString_def)

theorem generateConfigMap_view:
  assumes "wf f" "list_all ini_name names"
  shows "\<exists>txt g. generateConfigMap L f names = Inr txt \<and> Load L txt = Inr g
           \<and> val g = (\<lambda>s. if s \<in> set names then val f s else Map.empty)"
proof -
  have "val (copy_sections L f names (Empty L)) =
      (\<lambda>s. if s \<in> set names then val f s else Map.empty)
    \<and> wf (copy_sections L f names (Empty L))"
    using copy_sections_run [OF assms empty(2)] by (auto simp: empty fun_eq_iff)
  with written_view [of "copy_sections L f names (Empty L)"] show ?thesis
    by (auto simp: generateConfigMap_def)
qed

lemma merge_sections_run:
  assumes "wf ncp" "wf agent" "list_all ini_name names" "wf d"
  shows "val (merge_sections L ncp agent names d) =
           (\<lambda>s. if s \<in> set names then val d s ++ (if s \<in> secs ncp then val ncp s else val agent s)
                else val d s)
         \<and> wf (merge_sections L ncp agent names d)"
  using assms(3,4)
proof (induction names arbitrary: d)
  case (Cons n names)
  let ?src = "if n \<in> secs ncp then ncp else agent"
  let ?d = "if n \<in> secs ncp \<or> n \<in> secs agent then copy_section L ?src n d else d"
  have d: "val ?d = (val d)(n := val d n ++ val ?src n) \<and> wf ?d"
    using copy_section_run [of ncp n d] copy_section_run [of agent n d] assms(1,2) Cons.prems
      missing_section [of n agent] by (auto simp: fun_eq_iff map_add_def)
  have eq: "merge_sections L ncp agent (n # names) d = merge_sections L ncp agent names ?d"
    by (simp add: get_section)
  have "val (merge_sections L ncp agent names ?d) =
      (\<lambda>s. if s \<in> set names then val ?d s ++ (if s \<in> secs ncp then val ncp s else val agent s)
           else val ?d s)
    \<and> wf (merge_sections L ncp agent names ?d)"
    using Cons.prems d by (intro Cons.IH) auto
  with d show ?case unfolding eq by (auto simp: fun_eq_iff map_add_def split: option.splits)
qed simp

theorem GenerateOperatorConfigMap_view:
  assumes "Load L (cm_text ncp) = Inr f" "wf f" "Load L (cm_text agent) = Inr g" "wf g"
  shows "\<exists>cm'. GenerateOperatorConfigMap L cm ncp agent = (None, cm') \<and>
    stored cm' (\<lambda>s. if s \<in> set OperatorSections
                   then (if s \<in> secs f then val f s else val g s) else Map.empty)"
proof -
  have names: "list_all ini_name OperatorSections" by code_simp
  let ?m = "merge_sections L f g OperatorSections (Empty L)"
  have m: "val ?m = (\<lambda>s. if s \<in> set OperatorSections
      then (if s \<in> secs f then val f s else val g s) else Map.empty)" "wf ?m"
    using merge_sections_run [OF assms(2,4) names empty(2)] by (auto simp: empty fun_eq_iff)
  from written_view [OF m(2)] assms(1,3) m(1) show ?thesis
    by (auto simp: GenerateOperatorConfigMap_def stored_def Let_def)
qed

end

end
