(* ===== verification/Mini_Ini.thy ===== *)
theory Mini_Ini
  imports Config_Change_Facts
begin

text \<open>
  A small INI library that provides the interface \<open>ini_laws\<close>: a file is a list of sections, a
  section a list of options; reading splits into lines and accepts comments, headers and
  \<open>key = value\<close>, writing prints the default section first, without its header. It stands in
  for \<open>gopkg.in/ini.v1\<close>, which is not part of this repository, so that runs of the operator on
  concrete texts can be evaluated.
\<close>

type_synonym mini = "(string \<times> (string \<times> string) list) list"

section \<open>The file\<close>

definition m_keys :: "mini \<Rightarrow> string \<Rightarrow> (string \<times> string) list" where
  "m_keys f s = (case map_of f s of None \<Rightarrow> [] | Some ks \<Rightarrow> ks)"

definition m_val :: "mini \<Rightarrow> ini_view" where
  "m_val f = (\<lambda>s. map_of (m_keys f s))"

definition m_secs :: "mini \<Rightarrow> string set" where
  "m_secs f = fst ` set f"

definition m_section :: "mini \<Rightarrow> string \<Rightarrow> mini" where
  "m_section f s = (if s \<in> fst ` set f then f else f @ [(s, [])])"

definition m_put :: "mini \<Rightarrow> string \<Rightarrow> string \<Rightarrow> string \<Rightarrow> mini" where
  "m_put f s k v = AList.update s (AList.update k v (m_keys f s)) f"

definition m_remove :: "mini \<Rightarrow> string \<Rightarrow> string \<Rightarrow> mini" where
  "m_remove f s k = (if s \<in> fst ` set f then AList.update s (AList.delete k (m_keys f s)) f else f)"

definition ok_keys :: "(string \<times> string) list \<Rightarrow> bool" where
  "ok_keys ks \<longleftrightarrow> distinct (map fst ks) \<and> (\<forall>(k, v) \<in> set ks. ini_name k \<and> ini_text v)"

definition m_wf :: "mini \<Rightarrow> bool" where
  "m_wf f \<longleftrightarrow> distinct (map fst f) \<and> (\<forall>(s, ks) \<in> set f. ini_name s \<and> ok_keys ks)"

section \<open>Reading and writing\<close>

fun split_lines :: "string \<Rightarrow> string \<Rightarrow> string list" where
  "split_lines acc [] = [rev acc]"
| "split_lines acc (c # cs) =
     (if c = CHR 0x0A then rev acc # split_lines [] cs else split_lines (c # acc) cs)"

fun parse_line :: "string \<times> mini \<Rightarrow> string \<Rightarrow> go_error + string \<times> mini" where
  "parse_line (cur, f) line =
     (let l = TrimSpace line in
      if l = [] \<or> hd l = CHR ''#'' \<or> hd l = CHR '';'' then Inr (cur, f)
      else if hd l = CHR ''['' then
        (if last l = CHR '']'' then
           (let n = TrimSpace (butlast (tl l)) in Inr (n, m_section f n))
         else Inl (GoError (''unclosed section: '' @ l)))
      else case IndexAny l [CHR ''='', CHR '':''] of
             None \<Rightarrow> Inl (GoError (''key-value delimiter not found: '' @ l))
           | Some i \<Rightarrow> Inr (cur, m_put f cur (TrimSpace (take i l)) (TrimSpace (drop (Suc i) l))))"

fun parse_lines :: "string \<times> mini \<Rightarrow> string list \<Rightarrow> go_error + mini" where
  "parse_lines st [] = Inr (snd st)"
| "parse_lines st (l # ls) =
     (case parse_line st l of Inl e \<Rightarrow> Inl e | Inr st' \<Rightarrow> parse_lines st' ls)"

abbreviation default_section :: string where "default_section \<equiv> ''DEFAULT''"

definition m_load :: "string \<Rightarrow> go_error + mini" where
  "m_load s = parse_lines (default_section, [(default_section, [])]) (split_lines [] s)"

definition key_line :: "string \<times> string \<Rightarrow> string" where
  "key_line kv = fst kv @ '' = '' @ snd kv"

definition header_line :: "string \<Rightarrow> string" where
  "header_line s = CHR ''['' # s @ [CHR '']'']"

definition section_lines :: "string \<times> (string \<times> string) list \<Rightarrow> string list" where
  "section_lines sec = header_line (fst sec) # map key_line (snd sec)"

definition m_lines :: "mini \<Rightarrow> string list" where
  "m_lines f = map key_line (m_keys f default_section)
     @ concat (map section_lines (filter (\<lambda>sec. fst sec \<noteq> default_section) f))"

definition unlines :: "string list \<Rightarrow> string" where
  "unlines ls = concat (map (\<lambda>l. l @ [CHR 0x0A]) ls)"

definition mini_ini :: "mini ini_lib" where
  "mini_ini =
     \<lparr>Load = m_load,
      WriteTo = (\<lambda>f. Inr (unlines (m_lines f))),
      Empty = [(default_section, [])],
      GetSection = (\<lambda>f s. if s \<in> m_secs f then None
                         else Some (GoError (''section '' @ Quote s @ '' does not exist''))),
      Section = m_section,
      NewSection = m_section,
      DeleteSection = (\<lambda>f s. AList.delete s f),
      SectionStrings = (\<lambda>f. map fst f),
      HasKey = (\<lambda>f s k. m_val f s k \<noteq> None),
      Key = (\<lambda>f s k. if m_val f s k = None then m_put f s k [] else f),
      Value = (\<lambda>f s k. get_or_empty (m_val f) s k),
      String = (\<lambda>f s k. get_or_empty (m_val f) s k),
      SetValue = m_put,
      NewKey = (\<lambda>f s k v. if k = [] then (Some (GoError ''error creating new key: empty key name''), f)
                          else (None, m_put f s k v)),
      DeleteKey = m_remove,
      KeyStrings = (\<lambda>f s. remdups (map fst (m_keys f s))),
      KeysHash = (\<lambda>f s. Mapping.of_alist (m_keys f s))\<rparr>"

section \<open>Views of the changed files\<close>

lemma m_keys_update [simp]: "m_keys (AList.update s ks f) t = (if t = s then ks else m_keys f t)"
  by (simp add: m_keys_def update_conv')

lemma m_secs_update [simp]: "m_secs (AList.update s ks f) = insert s (m_secs f)"
  by (auto simp: m_secs_def dom_update [unfolded dom_map_of_conv_image_fst] simp flip: image_set)

lemma m_val_put [simp]: "m_val (m_put f s k v) = view_set (m_val f) s k (Some v)"
  by (auto simp: fun_eq_iff m_val_def m_put_def update_conv')

lemma m_val_remove [simp]: "m_val (m_remove f s k) = view_set (m_val f) s k None"
proof (cases "s \<in> fst ` set f")
  case False
  then have "map_of f s = None" by (simp add: map_of_eq_None_iff)
  with False show ?thesis by (auto simp: fun_eq_iff m_val_def m_remove_def m_keys_def)
qed (auto simp: fun_eq_iff m_val_def m_remove_def delete_conv')

lemma m_keys_section [simp]: "m_keys (m_section f s) t = m_keys f t"
  by (auto simp: m_section_def m_keys_def map_add_def split: option.splits)

lemma m_val_section [simp]: "m_val (m_section f s) = m_val f"
  by (simp add: m_val_def)

lemma m_secs_section [simp]: "m_secs (m_section f s) = insert s (m_secs f)"
  by (auto simp: m_section_def m_secs_def)

lemma m_secs_put [simp]: "m_secs (m_put f s k v) = insert s (m_secs f)"
  by (simp add: m_put_def)

lemma m_secs_remove [simp]: "m_secs (m_remove f s k) = m_secs f"
  by (auto simp: m_remove_def) (force simp: m_secs_def)

lemma m_val_delete [simp]: "m_val (AList.delete s f) = (m_val f)(s := Map.empty)"
  by (auto simp: fun_eq_iff m_val_def m_keys_def delete_conv')

lemma set_remdups_keys: "set (remdups (map fst (m_keys f s))) = dom (m_val f s)"
  by (simp add: m_val_def dom_map_of_conv_image_fst)

section \<open>Well-formedness\<close>

lemma set_update_sub: "set (AList.update k v al) \<subseteq> insert (k, v) (set al)"
  by (induction al) auto

lemma set_delete_sub: "set (AList.delete k al) \<subseteq> set al"
  by (auto simp: AList.delete_eq)

lemma ok_keys_update: "ok_keys ks \<Longrightarrow> ini_name k \<Longrightarrow> ini_text v \<Longrightarrow> ok_keys (AList.update k v ks)"
  unfolding ok_keys_def using set_update_sub [of k v ks] distinct_update [of ks k v] by blast

lemma ok_keys_delete: "ok_keys ks \<Longrightarrow> ok_keys (AList.delete k ks)"
  unfolding ok_keys_def using set_delete_sub [of k ks] distinct_delete [of ks k] by blast

lemma ok_keys_Nil [simp]: "ok_keys []"
  by (simp add: ok_keys_def)

lemma m_wf_keys: "m_wf f \<Longrightarrow> ok_keys (m_keys f s)"
  by (auto simp: m_wf_def m_keys_def dest!: map_of_SomeD split: option.splits)

lemma m_wf_update: "m_wf f \<Longrightarrow> ini_name s \<Longrightarrow> ok_keys ks \<Longrightarrow> m_wf (AList.update s ks f)"
  unfolding m_wf_def using set_update_sub [of s ks f] distinct_update [of f s ks] by blast

lemma m_wf_names: "m_wf f \<Longrightarrow> s \<in> m_secs f \<Longrightarrow> ini_name s"
  by (auto simp: m_wf_def m_secs_def)

lemma m_wf_section: "m_wf f \<Longrightarrow> ini_name s \<Longrightarrow> m_wf (m_section f s)"
  by (auto simp: m_wf_def m_section_def)

lemma m_wf_put: "m_wf f \<Longrightarrow> ini_name s \<Longrightarrow> ini_name k \<Longrightarrow> ini_text v \<Longrightarrow> m_wf (m_put f s k v)"
  by (simp add: m_put_def m_wf_update ok_keys_update m_wf_keys)

lemma m_wf_remove: "m_wf f \<Longrightarrow> m_wf (m_remove f s k)"
  using m_wf_names [of f s]
  by (auto simp: m_remove_def m_secs_def intro!: m_wf_update ok_keys_delete m_wf_keys)

lemma m_wf_delete: "m_wf f \<Longrightarrow> m_wf (AList.delete s f)"
  unfolding m_wf_def using set_delete_sub [of s f] distinct_delete [of f s] by blast

lemma m_val_Some:
  assumes "m_val f s k = Some v"
  shows "s \<in> m_secs f" "m_wf f \<Longrightarrow> ini_name s \<and> ini_name k \<and> ini_text v"
proof -
  obtain ks where ks: "map_of f s = Some ks" "map_of ks k = Some v"
    using assms by (auto simp: m_val_def m_keys_def split: option.splits)
  have s: "(s, ks) \<in> set f" and k: "(k, v) \<in> set ks" using ks by (auto dest: map_of_SomeD)
  from s show "s \<in> m_secs f" by (force simp: m_secs_def)
  assume "m_wf f"
  with s k show "ini_name s \<and> ini_name k \<and> ini_text v" by (auto simp: m_wf_def ok_keys_def)
qed

section \<open>Reading back what was written\<close>

lemma split_lines_append:
  "CHR 0x0A \<notin> set l \<Longrightarrow> split_lines acc (l @ CHR 0x0A # r) = (rev acc @ l) # split_lines [] r"
  by (induction l arbitrary: acc) auto

lemma split_unlines:
  "\<forall>l \<in> set ls. CHR 0x0A \<notin> set l \<Longrightarrow> split_lines [] (unlines ls) = ls @ [[]]"
  by (induction ls) (auto simp: unlines_def split_lines_append)

lemma name_char_facts:
  assumes "name_char c"
  shows "\<not> is_space c" "c \<noteq> CHR ''#''" "c \<noteq> CHR '';''" "c \<noteq> CHR ''[''" "c \<noteq> CHR '']''"
    "c \<noteq> CHR ''=''" "c \<noteq> CHR '':''" "c \<noteq> CHR 0x0A"
  using assms by (auto simp: name_char_def is_space_def Let_def)

lemma text_char_facts:
  assumes "text_char c"
  shows "\<not> is_space c" "c \<noteq> CHR 0x0A"
  using assms name_char_facts [of c] by (auto simp: text_char_def is_space_def)

lemma TrimSpace_id: "list_all (\<lambda>c. \<not> is_space c) s \<Longrightarrow> TrimSpace s = s"
proof (cases s rule: rev_cases)
  case (snoc t c)
  assume "list_all (\<lambda>c. \<not> is_space c) s"
  then have h: "dropWhile is_space s = s" by (cases s) auto
  have "\<not> is_space c" using \<open>list_all _ s\<close> snoc by simp
  with h snoc show ?thesis by (simp add: TrimSpace_def)
qed (simp add: TrimSpace_def)

lemma no_space_name: "ini_name s \<Longrightarrow> list_all (\<lambda>c. \<not> is_space c) s"
  by (auto simp: ini_name_def list_all_iff dest: name_char_facts)

lemma no_space_text: "ini_text s \<Longrightarrow> list_all (\<lambda>c. \<not> is_space c) s"
  by (auto simp: ini_text_def list_all_iff dest: text_char_facts)

lemma space_is [simp]: "is_space CHR '' ''"
  by (simp add: is_space_def)

lemma TrimSpace_left [simp]: "TrimSpace (CHR '' '' # s) = TrimSpace s"
  by (simp add: TrimSpace_def)

lemma TrimSpace_right: "s \<noteq> [] \<Longrightarrow> \<not> is_space (hd s) \<Longrightarrow> TrimSpace (s @ [CHR '' '']) = TrimSpace s"
  by (cases s) (auto simp: TrimSpace_def)

lemma dropWhile_hd: "xs \<noteq> [] \<Longrightarrow> \<not> p (hd xs) \<Longrightarrow> dropWhile p xs = xs"
  by (cases xs) auto

lemma TrimSpace_ends: "s \<noteq> [] \<Longrightarrow> \<not> is_space (hd s) \<Longrightarrow> \<not> is_space (last s) \<Longrightarrow> TrimSpace s = s"
  by (simp add: TrimSpace_def dropWhile_hd hd_rev)

lemma IndexAny_append:
  "\<forall>c \<in> set p. c \<notin> set cs \<Longrightarrow> d \<in> set cs \<Longrightarrow> IndexAny (p @ d # r) cs = Some (length p)"
  by (induction p) auto

lemma parse_key_line:
  assumes k: "ini_name k" and v: "ini_text v"
  shows "parse_line (cur, f) (key_line (k, v)) = Inr (cur, m_put f cur k v)"
proof -
  obtain c ks where c: "k = c # ks" "name_char c" using k by (cases k) (auto simp: ini_name_def)
  note C = name_char_facts [OF c(2)]
  define r where "r = (if v = [] then [] else CHR '' '' # v)"
  let ?l = "(k @ '' '') @ CHR ''='' # r"
  have trim: "TrimSpace (key_line (k, v)) = ?l"
  proof (cases "v = []")
    case True
    have "TrimSpace ((k @ '' ='') @ '' '') = TrimSpace (k @ '' ='')"
      using C c by (intro TrimSpace_right) auto
    also have "\<dots> = k @ '' =''"
      using C c by (intro TrimSpace_ends) (auto simp: is_space_def)
    finally show ?thesis using True by (simp add: key_line_def r_def)
  next
    case False
    then have "\<not> is_space (last v)" using no_space_text [OF v] by (auto simp: list_all_iff)
    with False C c have "TrimSpace (k @ '' = '' @ v) = k @ '' = '' @ v"
      by (intro TrimSpace_ends) auto
    with False show ?thesis by (simp add: key_line_def r_def)
  qed
  have "\<forall>d \<in> set (k @ '' ''). d \<notin> set [CHR ''='', CHR '':'']"
    using k name_char_facts by (auto simp: ini_name_def list_all_iff)
  then have idx: "IndexAny ?l [CHR ''='', CHR '':''] = Some (length (k @ '' ''))"
    by (rule IndexAny_append) simp
  have "TrimSpace (k @ '' '') = k"
    using C c TrimSpace_right [of k] TrimSpace_id [OF no_space_name [OF k]] by simp
  moreover have "TrimSpace r = v"
    using TrimSpace_id [OF no_space_text [OF v]] by (simp add: r_def TrimSpace_def)
  ultimately show ?thesis using trim idx C c by (simp add: Let_def)
qed

lemma parse_header_line:
  assumes "ini_name s"
  shows "parse_line (cur, f) (header_line s) = Inr (s, m_section f s)"
proof -
  have "TrimSpace (header_line s) = header_line s"
    by (rule TrimSpace_ends) (auto simp: header_line_def is_space_def)
  then show ?thesis
    using TrimSpace_id [OF no_space_name [OF assms]] by (simp add: header_line_def Let_def)
qed

lemma update_fresh: "k \<notin> fst ` set al \<Longrightarrow> AList.update k v al = al @ [(k, v)]"
  by (induction al) auto

text \<open>Reading the options of a section appends them, one by one.\<close>

lemma parse_keys:
  assumes "\<forall>(k, v) \<in> set kvs. ini_name k \<and> ini_text v" "distinct (map fst (m_keys f s @ kvs))"
  shows "parse_lines (s, f) (map key_line kvs @ ls) =
     parse_lines (s, if kvs = [] then f else AList.update s (m_keys f s @ kvs) f) ls"
  using assms
proof (induction kvs arbitrary: f)
  case (Cons kv kvs)
  obtain k v where kv: "kv = (k, v)" by force
  let ?f = "m_put f s k v"
  have fresh: "m_keys ?f s = m_keys f s @ [(k, v)]"
    using Cons.prems(2) kv by (simp add: m_put_def update_fresh)
  have "parse_lines (s, f) (map key_line (kv # kvs) @ ls) = parse_lines (s, ?f) (map key_line kvs @ ls)"
    using Cons.prems(1) kv parse_key_line [of k v s f] by (simp del: parse_line.simps)
  also have "\<dots> = parse_lines (s, if kvs = [] then ?f else AList.update s (m_keys ?f s @ kvs) ?f) ls"
    using Cons.prems kv fresh by (intro Cons.IH) auto
  also have "(if kvs = [] then ?f else AList.update s (m_keys ?f s @ kvs) ?f) =
      AList.update s (m_keys f s @ kv # kvs) f"
    using fresh kv by (auto simp: m_put_def update_fresh Cons.prems(2) [unfolded kv, simplified])
  finally show ?case by simp
qed simp

lemma m_keys_append: "s \<notin> fst ` set f \<Longrightarrow> m_keys (f @ [(s, ks)]) s = ks"
  by (simp add: m_keys_def map_add_def map_of_eq_None_iff [THEN iffD2])

lemma update_append: "s \<notin> fst ` set f \<Longrightarrow> AList.update s ks (f @ [(s, ks')]) = f @ [(s, ks)]"
  by (induction f) auto

lemma parse_sections:
  assumes "\<forall>(s, ks) \<in> set secs. ini_name s \<and> ok_keys ks" "distinct (map fst (f @ secs))"
  shows "\<exists>cur'. parse_lines (cur, f) (concat (map section_lines secs) @ ls) =
     parse_lines (cur', f @ secs) ls"
  using assms
proof (induction secs arbitrary: cur f)
  case (Cons sec secs)
  obtain s ks where sec: "sec = (s, ks)" by force
  have s: "ini_name s" "ok_keys ks" "s \<notin> fst ` set f" using Cons.prems sec by auto
  let ?rest = "concat (map section_lines secs) @ ls"
  have "parse_lines (cur, f) (concat (map section_lines (sec # secs)) @ ls) =
      parse_lines (s, f @ [(s, [])]) (map key_line ks @ ?rest)"
    using s sec parse_header_line [OF s(1), of cur f]
    by (simp add: section_lines_def m_section_def del: parse_line.simps)
  also have "\<dots> = parse_lines (s, f @ [(s, ks)]) ?rest"
    using s parse_keys [of ks "f @ [(s, [])]" s ?rest]
    by (cases "ks = []") (simp_all add: ok_keys_def m_keys_append update_append)
  finally have "parse_lines (cur, f) (concat (map section_lines (sec # secs)) @ ls) =
      parse_lines (s, f @ [(s, ks)]) ?rest" .
  moreover have "\<exists>cur'. parse_lines (s, f @ [(s, ks)]) ?rest =
      parse_lines (cur', (f @ [(s, ks)]) @ secs) ls"
    using Cons.prems sec by (intro Cons.IH) auto
  ultimately show ?case using sec by auto
qed auto

lemma ini_text_Nil: "ini_text []"
  by (simp add: ini_text_def)

lemma name_line: "ini_name s \<Longrightarrow> CHR 0x0A \<notin> set s"
  by (auto simp: ini_name_def list_all_iff dest: name_char_facts)

lemma text_line: "ini_text s \<Longrightarrow> CHR 0x0A \<notin> set s"
  by (auto simp: ini_text_def list_all_iff dest: text_char_facts)

lemma m_lines_plain:
  assumes "m_wf f" "l \<in> set (m_lines f)"
  shows "CHR 0x0A \<notin> set l"
proof -
  have keys: "CHR 0x0A \<notin> set (key_line kv)" if "ok_keys ks" "kv \<in> set ks" for ks kv
    using that by (cases kv) (auto simp: ok_keys_def key_line_def dest: name_line text_line)
  show ?thesis
    using assms keys [OF m_wf_keys [OF assms(1)]]
    by (fastforce simp: m_lines_def section_lines_def header_line_def m_wf_def
        dest: name_line keys)
qed

text \<open>The file with its default section first.\<close>

definition m_normal :: "mini \<Rightarrow> mini" where
  "m_normal f = (default_section, m_keys f default_section)
                # filter (\<lambda>sec. fst sec \<noteq> default_section) f"

lemma map_of_filter_fst: "s \<noteq> d \<Longrightarrow> map_of (filter (\<lambda>x. fst x \<noteq> d) f) s = map_of f s"
  by (induction f) auto

lemma m_val_normal: "m_val (m_normal f) = m_val f"
  by (auto simp: fun_eq_iff m_val_def m_normal_def m_keys_def map_of_filter_fst)

lemma ini_name_default: "ini_name default_section"
  by code_simp

lemma m_wf_normal: "m_wf f \<Longrightarrow> m_wf (m_normal f)"
  using m_wf_keys [of f default_section] ini_name_default
  by (auto simp: m_wf_def m_normal_def distinct_map_filter)

theorem m_reload:
  assumes "m_wf f"
  shows "m_load ([CHR 0x0A] @ ''[DEFAULT]'' @ [CHR 0x0A] @ unlines (m_lines f)) = Inr (m_normal f)"
proof -
  let ?ks = "m_keys f default_section" and ?secs = "filter (\<lambda>sec. fst sec \<noteq> default_section) f"
  have ok: "ok_keys ?ks" by (rule m_wf_keys [OF assms])
  have whole: "[CHR 0x0A] @ ''[DEFAULT]'' @ [CHR 0x0A] @ unlines (m_lines f) =
      unlines ([] # header_line default_section # m_lines f)"
    by (simp add: unlines_def header_line_def)
  have "split_lines [] (unlines ([] # header_line default_section # m_lines f)) =
      ([] # header_line default_section # m_lines f) @ [[]]"
    by (rule split_unlines) (use m_lines_plain [OF assms] in \<open>auto simp: header_line_def\<close>)
  then have lines: "m_load ([CHR 0x0A] @ ''[DEFAULT]'' @ [CHR 0x0A] @ unlines (m_lines f)) =
      parse_lines (default_section, [(default_section, [])])
        ([] # header_line default_section # m_lines f @ [[]])"
    unfolding m_load_def whole by simp
  have "parse_line (default_section, [(default_section, [])]) [] =
      Inr (default_section, [(default_section, [])])"
    by (simp add: TrimSpace_def)
  then have start: "parse_lines (default_section, [(default_section, [])])
        ([] # header_line default_section # m_lines f @ [[]]) =
      parse_lines (default_section, [(default_section, [])])
        (map key_line ?ks @ concat (map section_lines ?secs) @ [[]])"
    using parse_header_line [OF ini_name_default]
    by (simp add: m_section_def m_lines_def del: parse_line.simps)
  have keys: "m_keys [(default_section, [])] default_section = []" by (simp add: m_keys_def)
  have "parse_lines (default_section, [(default_section, [])])
        (map key_line ?ks @ concat (map section_lines ?secs) @ [[]]) =
      parse_lines (default_section, [(default_section, ?ks)]) (concat (map section_lines ?secs) @ [[]])"
    using ok parse_keys [of ?ks "[(default_section, [])]" default_section] keys
    by (cases "?ks = []") (auto simp: ok_keys_def)
  moreover have "\<exists>cur. parse_lines (default_section, [(default_section, ?ks)])
        (concat (map section_lines ?secs) @ [[]]) =
      parse_lines (cur, [(default_section, ?ks)] @ ?secs) [[]]"
    using assms by (intro parse_sections) (auto simp: m_wf_def distinct_map_filter)
  moreover have "parse_lines (cur, g) [[]] = Inr g" for cur g
    by (simp add: TrimSpace_def)
  ultimately show ?thesis using lines start by (auto simp: m_normal_def)
qed

interpretation mini: ini_laws mini_ini m_val m_secs m_wf
proof
  show "m_wf f \<Longrightarrow> \<exists>w f'. WriteTo mini_ini f = Inr w
          \<and> Load mini_ini ([CHR 0x0A] @ ''[DEFAULT]'' @ [CHR 0x0A] @ w) = Inr f'
          \<and> m_val f' = m_val f \<and> m_wf f'" for f
    using m_reload [of f] m_val_normal [of f] m_wf_normal [of f] by (simp add: mini_ini_def)
  show "m_val f s k = Some v \<Longrightarrow> s \<in> m_secs f" for f s k v by (rule m_val_Some(1))
  show "m_wf f \<Longrightarrow> m_val f s k = Some v \<Longrightarrow> ini_name s \<and> ini_name k \<and> ini_text v" for f s k v
    by (rule m_val_Some(2))
  show "m_wf f \<Longrightarrow> m_val f s k \<noteq> None \<Longrightarrow> ini_text v \<Longrightarrow> m_wf (SetValue mini_ini f s k v)" for f s k v
    using m_val_Some [of f s k] by (auto simp: mini_ini_def m_wf_put)
  show "set (SectionStrings mini_ini f) = m_secs f" for f by (simp add: mini_ini_def m_secs_def)
  show "m_val (Empty mini_ini) = (\<lambda>_. Map.empty)"
    by (auto simp: mini_ini_def m_val_def m_keys_def fun_eq_iff)
  show "m_wf (Empty mini_ini)" using ini_name_default by (simp add: mini_ini_def m_wf_def)
  show "set (KeyStrings mini_ini f s) = dom (m_val f s)" for f s
    by (simp add: mini_ini_def set_remdups_keys del: set_remdups)
  show "Mapping.lookup (KeysHash mini_ini f s) = m_val f s" for f s
    by (simp add: mini_ini_def m_val_def lookup_of_alist fun_eq_iff)
qed (auto simp: mini_ini_def m_wf_section m_wf_put m_wf_remove m_wf_delete m_wf_names
       get_or_empty_def view_set_def dest: m_val_Some intro: m_wf_put [OF _ _ _ ini_text_Nil])

end
