(* ===== verification/Config_Properties.thy ===== *)
theory Config_Properties
  imports Mini_Ini
begin

text \<open>
  The properties of the ConfigMap functions, stated over every INI library that meets
  \<open>ini_laws\<close>, with concrete texts read by the small library of \<open>Mini_Ini\<close> as witnesses.
\<close>

section \<open>Defaults, option by option\<close>

text \<open>What a list of defaults makes of one option.\<close>

definition default_of ::
  "(string \<times> string \<times> string \<times> bool) list \<Rightarrow> string \<Rightarrow> string \<Rightarrow> (string \<times> bool) option" where
  "default_of ds s k = map_of (map (\<lambda>(s, k, v, force). ((s, k), (v, force))) ds) (s, k)"

definition after_defaults ::
  "(string \<times> string \<times> string \<times> bool) list \<Rightarrow> ini_view \<Rightarrow> ini_view" where
  "after_defaults ds v = (\<lambda>s k. case default_of ds s k of
      None \<Rightarrow> v s k
    | Some (d, force) \<Rightarrow> Some (default_value d force (v s k)))"

lemma fold_apply_default:
  "distinct (map (\<lambda>(s, k, v, force). (s, k)) ds) \<Longrightarrow> fold apply_default ds v = after_defaults ds v"
proof (induction ds arbitrary: v)
  case (Cons d ds)
  obtain s k x force where d: "d = (s, k, x, force)" by (metis surj_pair)
  have fresh: "default_of ds s k = None"
    using Cons.prems d by (force simp: default_of_def map_of_eq_None_iff)
  show ?case using Cons fresh d
    by (auto simp: fun_eq_iff after_defaults_def default_of_def split: option.split)
qed (simp add: after_defaults_def default_of_def)

lemma default_value_idem: "default_value v force (Some (default_value v force old)) = default_value v force old"
  by (auto simp: default_value_def split: option.splits)

lemma after_defaults_idem: "after_defaults ds (after_defaults ds v) = after_defaults ds v"
  by (auto simp: fun_eq_iff after_defaults_def default_value_idem split: option.splits)

lemma distinct_defaults:
  "distinct (map (\<lambda>(s, k, v, force). (s, k)) defaults_K8s)"
  "distinct (map (\<lambda>(s, k, v, force). (s, k)) (defaults_Oc spec))"
  by (simp_all add: defaults_K8s_def defaults_Oc_def)

lemma plain_defaults_K8s: "plain_defaults defaults_K8s"
  by code_simp

lemma plain_defaults_Oc:
  assumes "ini_text (clusterNetworkBlocks spec)"
  shows "plain_defaults (defaults_Oc spec)"
proof -
  have "plain_defaults (butlast (defaults_Oc spec))"
    unfolding defaults_Oc_def by code_simp
  moreover have "ini_name ''nsx_v3'' \<and> ini_name ''container_ip_blocks''" by code_simp
  ultimately show ?thesis using assms by (simp add: plain_defaults_def defaults_Oc_def)
qed

section \<open>A concrete ConfigMap\<close>

definition demo_text :: string where
  "demo_text = unlines [''[DEFAULT]'', ''[coe]'', ''cluster = c1'', ''adaptor = other'', ''[ha]'',
     ''[nsx_v3]'', ''nsx_api_managers = 10.0.0.1'', ''external_ip_pools = pool'',
     ''container_ip_blocks = block'', ''tier0_gateway = t0'', ''multi_t0 = x'', ''[nsx_node_agent]'',
     ''mtu = 9000'', ''[cf]'', ''a = b'']"

definition demo_cm :: configmap where
  "demo_cm = \<lparr>cm_data = Some [ConfigMapDataKey \<mapsto> demo_text]\<rparr>"

definition demo_file :: mini where
  "demo_file = [(''DEFAULT'', []), (''coe'', [(''cluster'', ''c1''), (''adaptor'', ''other'')]), (''ha'', []),
     (''nsx_v3'', [(''nsx_api_managers'', ''10.0.0.1''), (''external_ip_pools'', ''pool''),
        (''container_ip_blocks'', ''block''), (''tier0_gateway'', ''t0''), (''multi_t0'', ''x'')]),
     (''nsx_node_agent'', [(''mtu'', ''9000'')]), (''cf'', [(''a'', ''b'')])]"

lemma demo_load: "Load mini_ini (cm_get demo_cm ConfigMapDataKey) = Inr demo_file"
  by code_simp

lemma demo_wf: "m_wf demo_file"
  by code_simp

lemma demo_secs: "m_secs demo_file = {''DEFAULT'', ''coe'', ''ha'', ''nsx_v3'', ''nsx_node_agent'', ''cf''}"
  by (simp add: m_secs_def demo_file_def)

definition demo_network :: network where
  "demo_network = \<lparr>net_serviceNetwork = [''10.96.0.0/16''],
     net_clusterNetwork = [\<lparr>cn_CIDR = ''10.4.0.0/16'', cn_HostPrefix = 23\<rparr>],
     net_networkType = ''NCP'', net_status_serviceNetwork = [], net_status_clusterNetwork = [],
     net_status_networkType = [], net_status_clusterNetworkMTU = 0\<rparr>"

section \<open>Properties\<close>

text \<open>
  A needed section that the ConfigMap lacks is never filled in silently: \<open>FillDefaults\<close>
  fails on either adaptor. (The section \<open>coe\<close> alone is created.)
\<close>

theorem fill_defaults_missing_section:
  assumes "ini_laws L val secs ok"
    and "Load L (cm_get cm ConfigMapDataKey) = Inr f"
    and "s \<in> {''nsx_v3'', ''ha'', ''nsx_node_agent''}" "s \<notin> secs f"
  shows "fst (FillDefaults_K8s L cm spec) \<noteq> None \<and> fst (FillDefaults_Oc L cm spec) \<noteq> None"
proof -
  obtain d e where d: "d \<in> set defaults_K8s" "fst d = s" and e: "e \<in> set (defaults_Oc spec)" "fst e = s"
  proof -
    have "s \<in> fst ` set defaults_K8s" "s \<in> fst ` set (defaults_Oc spec)"
      using assms(3) by (auto simp: defaults_K8s_def defaults_Oc_def)
    then show thesis using that by auto
  qed
  have "s \<noteq> ''coe''" using assms(3) by auto
  with d e assms(4) have "fst d \<notin> insert ''coe'' (secs f)" "fst e \<notin> insert ''coe'' (secs f)" by auto
  moreover have "\<forall>(s, k, v, force) \<in> set defaults_K8s. k \<noteq> []"
      "\<forall>(s, k, v, force) \<in> set (defaults_Oc spec). k \<noteq> []"
    by (auto simp: defaults_K8s_def defaults_Oc_def)
  ultimately show ?thesis
    using ini_laws.fill_defaults_missing [OF assms(1,2)] d(1) e(1)
    unfolding FillDefaults_K8s_def FillDefaults_Oc_def by blast
qed

theorem fill_defaults_missing_section_witness:
  "fst (FillDefaults_K8s mini_ini \<lparr>cm_data = None\<rparr> demo_network) \<noteq> None"
proof -
  have "Load mini_ini (cm_get \<lparr>cm_data = None\<rparr> ConfigMapDataKey) = Inr [(''DEFAULT'', [])]"
    by code_simp
  from fill_defaults_missing_section [OF mini.ini_laws_axioms this, of "''ha''" demo_network]
  show ?thesis by (simp add: m_secs_def)
qed

text \<open>
  C17. Acceptance. For a ConfigMap that loads, and any iteration order of the option tables,
  validation runs without a crash, reports no error exactly when the required options are
  there, the MTU is an integer and no log file is set, and leaves a ConfigMap that reads back
  without the unsupported options.
\<close>

theorem validate_config_map_spec:
  assumes "ini_laws L val secs ok"
    and "Load L (cm_get cm ConfigMapDataKey) = Inr f" "ok f"
    and "\<And>t. mset (order t) = mset t"
  shows "(\<exists>errs cm' f'. validateConfigMap_K8s L order cm = Inr (errs, cm')
           \<and> (errs = [] \<longleftrightarrow> config_ok True (val f))
           \<and> Load L (cm_get cm' ConfigMapDataKey) = Inr f' \<and> val f' = drop_unsupported (val f))
    \<and> (\<exists>errs cm' f'. validateConfigMap_Oc L order cm = Inr (errs, cm')
           \<and> (errs = [] \<longleftrightarrow> config_ok False (val f))
           \<and> Load L (cm_get cm' ConfigMapDataKey) = Inr f' \<and> val f' = drop_unsupported (val f))"
  using ini_laws.validate_config_map_ok [OF assms, of True]
    ini_laws.validate_config_map_ok [OF assms, of False]
  unfolding validateConfigMap_K8s_def validateConfigMap_Oc_def ini_laws.stored_def [OF assms(1)]
  by blast

theorem validate_config_map_spec_witness:
  "\<exists>cm' f'. validateConfigMap_K8s mini_ini id demo_cm = Inr ([], cm')
     \<and> Load mini_ini (cm_get cm' ConfigMapDataKey) = Inr f'
     \<and> m_val f' ''nsx_v3'' ''multi_t0'' = None \<and> m_val f' ''nsx_node_agent'' ''mtu'' = Some ''9000''"
proof -
  obtain errs cm' f' where v: "validateConfigMap_K8s mini_ini id demo_cm = Inr (errs, cm')"
      "errs = [] \<longleftrightarrow> config_ok True (m_val demo_file)"
      "Load mini_ini (cm_get cm' ConfigMapDataKey) = Inr f'" "m_val f' = drop_unsupported (m_val demo_file)"
    using validate_config_map_spec [OF mini.ini_laws_axioms demo_load demo_wf, of id] by auto
  moreover have "config_ok True (m_val demo_file)"
      "drop_unsupported (m_val demo_file) ''nsx_v3'' ''multi_t0'' = None"
      "drop_unsupported (m_val demo_file) ''nsx_node_agent'' ''mtu'' = Some ''9000''"
    by code_simp+
  ultimately show ?thesis by auto
qed

text \<open>
  C18. The cluster network is accepted exactly when its type is ncp in any case, it is not
  empty, and every CIDR parses with a prefix length of at most 30 that does not exceed the
  host prefix.
\<close>

theorem cluster_network_accepted_iff:
  "validateClusterNetwork_Oc spec = [] \<longleftrightarrow>
     ToLower (net_networkType spec) = ''ncp'' \<and> net_clusterNetwork spec \<noteq> [] \<and>
     (\<forall>p \<in> set (net_clusterNetwork spec). \<exists>a m. ParseCIDR (cn_CIDR p) = Some (a, m)
        \<and> m \<le> 30 \<and> int m \<le> cn_HostPrefix p)"
  by (auto simp: cluster_network_ok NetworkType_def pool_ok_def split: option.splits)

theorem cluster_network_accepted_iff_witness:
  "validateClusterNetwork_Oc demo_network = []"
proof -
  have "map_option snd (ParseCIDR ''10.4.0.0/16'') = Some 16" by code_simp
  then obtain a where a: "ParseCIDR ''10.4.0.0/16'' = Some (a, 16)" by auto
  have "ToLower (net_networkType demo_network) = ''ncp''" by code_simp
  moreover have "net_clusterNetwork demo_network = [\<lparr>cn_CIDR = ''10.4.0.0/16'', cn_HostPrefix = 23\<rparr>]"
    by (simp add: demo_network_def)
  ultimately show ?thesis
    unfolding cluster_network_accepted_iff using a by auto
qed

text \<open>
  C19. The prefix length that \<open>getPrefixFromCIDR\<close> reads off the text is the one of the parsed
  CIDR, for every text that parses.
\<close>

theorem prefix_of_parsed_cidr:
  assumes "ParseCIDR s = Some (a, m)"
  shows "getPrefixFromCIDR s = Inr (int m)"
  by (rule getPrefixFromCIDR_mask [OF assms])

theorem prefix_of_parsed_cidr_witness: "getPrefixFromCIDR ''2001:db8::/29'' = Inr 29"
proof -
  obtain a where "ParseCIDR ''2001:db8::/29'' = Some (a, 29)"
  proof -
    have "map_option snd (ParseCIDR ''2001:db8::/29'') = Some 29" by code_simp
    then show thesis using that by auto
  qed
  from prefix_of_parsed_cidr [OF this] show ?thesis by simp
qed

text \<open>
  C20. The decision of \<open>NeedApplyChange\<close> between two ConfigMaps whose texts differ: an error
  and no change exactly when an immutable option differs; otherwise nsx-ncp restarts exactly
  when a section it reads differs, and the two other components exactly when a section differs
  that is theirs, or that holds one of their options and was added, removed or changed there.
\<close>

theorem need_apply_change_spec:
  assumes "ini_laws L val secs ok"
    and "Load L (cm_get cm ConfigMapDataKey) = Inr f" "Load L (cm_get pm ConfigMapDataKey) = Inr g"
    and "TrimSpace (cm_get cm ConfigMapDataKey) \<noteq> TrimSpace (cm_get pm ConfigMapDataKey)"
    and "no_references (val f)" "no_references (val g)"
  shows "NeedApplyChange L cm (Some pm) =
    (if same_immutables (val f) (val g)
     then (let v = settled (val f); w = settled (val g);
               added = (\<lambda>s. (s \<in> {''coe'', ''nsx_v3''} \<union> secs g) \<noteq> (s \<in> {''coe'', ''nsx_v3''} \<union> secs f))
           in (\<lparr>pnc_ncp = (\<exists>s \<in> set NcpSections. v s \<noteq> w s),
                pnc_agent = (\<exists>s. v s \<noteq> w s \<and> (s \<in> set AgentRestartSections
                               \<or> options_differ AgentRestartOptionKeys added v w s)),
                pnc_bootstrap = (\<exists>s. v s \<noteq> w s \<and> options_differ BootstrapRestartOptionKeys added v w s)\<rparr>,
               None))
     else (pod_need_change False False False,
           Some (GoError (''Immutable field can'' @ [CHR 0x27] @ ''t be changed.''))))"
  by (rule ini_laws.need_apply_change [OF assms])

definition demo_cm2 :: configmap where
  "demo_cm2 = \<lparr>cm_data = Some [ConfigMapDataKey \<mapsto> unlines [''[coe]'', ''cluster = c2'']]\<rparr>"

definition demo_file2 :: mini where
  "demo_file2 = [(''DEFAULT'', []), (''coe'', [(''cluster'', ''c2'')])]"

theorem need_apply_change_spec_witness:
  "snd (NeedApplyChange mini_ini demo_cm (Some demo_cm2)) \<noteq> None"
proof -
  have load: "Load mini_ini (cm_get demo_cm2 ConfigMapDataKey) = Inr demo_file2" by code_simp
  have "TrimSpace (cm_get demo_cm ConfigMapDataKey) \<noteq> TrimSpace (cm_get demo_cm2 ConfigMapDataKey)"
    by code_simp
  moreover have "no_references (m_val demo_file)" "no_references (m_val demo_file2)"
      "\<not> same_immutables (m_val demo_file) (m_val demo_file2)"
    by code_simp+
  ultimately show ?thesis
    using need_apply_change_spec [OF mini.ini_laws_axioms demo_load load] by simp
qed

text \<open>
  C21. If nsx-ncp need not restart, every option it reads has the value it had, so the
  configuration generated for it gives it the same values.
\<close>

theorem no_ncp_restart_same_options:
  assumes "ini_laws L val secs ok"
    and "Load L (cm_get cm ConfigMapDataKey) = Inr f" "Load L (cm_get pm ConfigMapDataKey) = Inr g"
    and "TrimSpace (cm_get cm ConfigMapDataKey) \<noteq> TrimSpace (cm_get pm ConfigMapDataKey)"
    and "no_references (val f)" "no_references (val g)"
    and "NeedApplyChange L cm (Some pm) = (nc, None)" "\<not> pnc_ncp nc"
    and "s \<in> set NcpSections"
  shows "get_or_empty (val f) s k = get_or_empty (val g) s k"
proof -
  note R = ini_laws.need_apply_change [OF assms(1-6), unfolded assms(7)]
  have "settled (val f) s = settled (val g) s"
    using R assms(8,9) by (auto simp: Let_def split: if_splits)
  then have "get_or_empty (settled (val f)) s k = get_or_empty (settled (val g)) s k"
    by (simp add: get_or_empty_def)
  then show ?thesis by (simp add: settled_def)
qed

definition demo_cm3 :: configmap where
  "demo_cm3 = \<lparr>cm_data = Some [ConfigMapDataKey \<mapsto> unlines [''[coe]'', ''cluster = c2'',
     ''[nsx_node_agent]'', ''mtu = 1400'']]\<rparr>"

definition demo_file3 :: mini where
  "demo_file3 = [(''DEFAULT'', []), (''coe'', [(''cluster'', ''c2'')]), (''nsx_node_agent'', [(''mtu'', ''1400'')])]"

theorem no_ncp_restart_same_options_witness:
  "fst (NeedApplyChange mini_ini demo_cm3 (Some demo_cm2)) = pod_need_change False True True
   \<and> get_or_empty (m_val demo_file3) ''coe'' ''cluster'' = get_or_empty (m_val demo_file2) ''coe'' ''cluster''"
proof -
  have loads: "Load mini_ini (cm_get demo_cm3 ConfigMapDataKey) = Inr demo_file3"
      "Load mini_ini (cm_get demo_cm2 ConfigMapDataKey) = Inr demo_file2" by code_simp+
  have diff: "TrimSpace (cm_get demo_cm3 ConfigMapDataKey) \<noteq> TrimSpace (cm_get demo_cm2 ConfigMapDataKey)"
    by code_simp
  have refs: "no_references (m_val demo_file3)" "no_references (m_val demo_file2)" by code_simp+
  have run: "NeedApplyChange mini_ini demo_cm3 (Some demo_cm2) = (pod_need_change False True True, None)"
    by code_simp
  have "''coe'' \<in> set NcpSections" by (simp add: NcpSections_def)
  from no_ncp_restart_same_options [OF mini.ini_laws_axioms loads diff refs run _ this] run
  show ?thesis by simp
qed

text \<open>
  C22. A generated ConfigMap reads back as exactly the wanted sections of the source, option by
  option.
\<close>

theorem generated_config_map_view:
  assumes "ini_laws L val secs ok" "ok f" "list_all ini_name names"
  shows "\<exists>out g. generateConfigMap L f names = Inr out \<and> Load L out = Inr g
           \<and> val g = (\<lambda>s. if s \<in> set names then val f s else Map.empty)"
  by (rule ini_laws.generateConfigMap_view [OF assms])

theorem generated_config_map_view_witness:
  "\<exists>out g. generateConfigMap mini_ini demo_file AgentSections = Inr out \<and> Load mini_ini out = Inr g
     \<and> m_val g ''nsx_node_agent'' ''mtu'' = Some ''9000'' \<and> m_val g ''nsx_v3'' = Map.empty"
proof -
  have "list_all ini_name AgentSections" by code_simp
  from generated_config_map_view [OF mini.ini_laws_axioms demo_wf this] obtain out g where
    "generateConfigMap mini_ini demo_file AgentSections = Inr out" "Load mini_ini out = Inr g"
    "m_val g = (\<lambda>s. if s \<in> set AgentSections then m_val demo_file s else Map.empty)" by blast
  moreover have "m_val demo_file ''nsx_node_agent'' ''mtu'' = Some ''9000''" by code_simp
  ultimately show ?thesis by (auto simp: AgentSections_def)
qed

text \<open>
  C23. The operator ConfigMap rebuilt from those of nsx-ncp and nsx-node-agent has each of the
  operator's sections from nsx-ncp where it has one, else from nsx-node-agent.
\<close>

theorem operator_config_map_view:
  assumes "ini_laws L val secs ok"
    and "Load L (cm_text ncp) = Inr f" "ok f" "Load L (cm_text agent) = Inr g" "ok g"
  shows "\<exists>cm' h. GenerateOperatorConfigMap L cm ncp agent = (None, cm')
    \<and> Load L (cm_get cm' ConfigMapDataKey) = Inr h
    \<and> val h = (\<lambda>s. if s \<in> set OperatorSections
                   then (if s \<in> secs f then val f s else val g s) else Map.empty)"
  using ini_laws.GenerateOperatorConfigMap_view [OF assms, of cm]
  unfolding ini_laws.stored_def [OF assms(1)] by blast

theorem operator_config_map_view_witness:
  "\<exists>cm' h. GenerateOperatorConfigMap mini_ini \<lparr>cm_data = None\<rparr> (Some demo_cm2) (Some demo_cm) = (None, cm')
    \<and> Load mini_ini (cm_get cm' ConfigMapDataKey) = Inr h
    \<and> m_val h ''coe'' ''cluster'' = Some ''c2'' \<and> m_val h ''nsx_node_agent'' ''mtu'' = Some ''9000''"
proof -
  have "Load mini_ini (cm_text (Some demo_cm2)) = Inr demo_file2" "m_wf demo_file2"
      "Load mini_ini (cm_text (Some demo_cm)) = Inr demo_file" by code_simp+
  from operator_config_map_view [OF mini.ini_laws_axioms this demo_wf] obtain cm' h where
    "GenerateOperatorConfigMap mini_ini \<lparr>cm_data = None\<rparr> (Some demo_cm2) (Some demo_cm) = (None, cm')"
    "Load mini_ini (cm_get cm' ConfigMapDataKey) = Inr h"
    "m_val h = (\<lambda>s. if s \<in> set OperatorSections then (if s \<in> m_secs demo_file2 then m_val demo_file2 s
                   else m_val demo_file s) else Map.empty)" by blast
  moreover have "m_val demo_file2 ''coe'' ''cluster'' = Some ''c2''"
      "m_val demo_file ''nsx_node_agent'' ''mtu'' = Some ''9000''" by code_simp+
  ultimately show ?thesis by (auto simp: OperatorSections_def m_secs_def demo_file2_def)
qed

text \<open>
  \<open>HasNetworkConfigChange\<close> has its last answer inverted: it reports a change when nothing
  changed, and none when a cluster network was added.
\<close>

theorem network_change_inverted:
  "HasNetworkConfigChange_Oc c c \<and>
   \<not> HasNetworkConfigChange_Oc (c\<lparr>net_clusterNetwork := p # net_clusterNetwork c\<rparr>) c"
  by (simp add: HasNetworkConfigChange_Oc_def stringSliceEqual_iff)

text \<open>
  \<open>stringSliceEqual\<close> is equality as sets on slices without repetitions; with repetitions it
  is not even symmetric.
\<close>

theorem string_slice_equal_sets:
  "(distinct a \<and> distinct b \<longrightarrow> (stringSliceEqual a b \<longleftrightarrow> set a = set b)) \<and>
   stringSliceEqual [x, x] [x, y] \<and> (x \<noteq> y \<longrightarrow> \<not> stringSliceEqual [x, y] [x, x])"
  using stringSliceEqual_distinct [of a b] by (auto simp: stringSliceEqual_iff)

theorem string_slice_equal_sets_witness:
  "stringSliceEqual [''a'', ''b''] [''b'', ''a''] \<and> \<not> stringSliceEqual [''a'', ''b''] [''a'', ''a'']"
  using string_slice_equal_sets [of "[''a'', ''b'']" "[''b'', ''a'']" "''a''" "''b''"] by auto

end
