(* ===== verification/Go_Encoding.thy ===== *)
theory Go_Encoding
  imports Go_Strings
begin

text \<open>
  The standard library functions that rendering uses: \<open>base64.StdEncoding\<close>, the order of
  strings and \<open>sort.Sort\<close>, \<open>filepath.Split\<close>, \<open>strings.Repeat\<close> and the replacement of newlines.
  \<open>sort.Sort\<close> is insertion sort on at most twelve elements; for more, elements that compare
  equal may come out in another order than here.
\<close>

section \<open>base64\<close>

definition b64_alphabet :: string where
  "b64_alphabet =
     ''ABCDEFGHIJKLMNOPQRSTUVWXYZabcdefghijklmnopqrstuvwxyz0123456789+/''"

definition b64_char :: "nat \<Rightarrow> char" where
  "b64_char i = b64_alphabet ! i"

fun b64_groups :: "nat list \<Rightarrow> string" where
  "b64_groups [] = []"
| "b64_groups [a] = [b64_char (a div 4), b64_char (a mod 4 * 16), CHR ''='', CHR ''='']"
| "b64_groups [a, b] =
     [b64_char (a div 4), b64_char (a mod 4 * 16 + b div 16), b64_char (b mod 16 * 4), CHR ''='']"
| "b64_groups (a # b # c # ns) =
     [b64_char (a div 4), b64_char (a mod 4 * 16 + b div 16),
      b64_char (b mod 16 * 4 + c div 64), b64_char (c mod 64)] @ b64_groups ns"

definition EncodeToString :: "string \<Rightarrow> string" where
  "EncodeToString src = b64_groups (map of_char src)"

text \<open>The reading of an encoded text, to state that nothing is lost.\<close>

fun find_index :: "'a \<Rightarrow> 'a list \<Rightarrow> nat" where
  "find_index x [] = 0"
| "find_index x (y # ys) = (if x = y then 0 else Suc (find_index x ys))"

lemma find_index_nth: "distinct ys \<Longrightarrow> i < length ys \<Longrightarrow> find_index (ys ! i) ys = i"
proof (induction ys arbitrary: i)
  case (Cons y ys)
  then show ?case by (cases i) auto
qed simp

definition b64_val :: "char \<Rightarrow> nat" where
  "b64_val c = find_index c b64_alphabet"

fun b64_decode :: "string \<Rightarrow> nat list" where
  "b64_decode (w # x # y # z # rest) =
     (if z = CHR ''=''
      then (if y = CHR ''='' then [b64_val w * 4 + b64_val x div 16]
            else [b64_val w * 4 + b64_val x div 16, b64_val x mod 16 * 16 + b64_val y div 4])
      else [b64_val w * 4 + b64_val x div 16, b64_val x mod 16 * 16 + b64_val y div 4,
            b64_val y mod 4 * 64 + b64_val z] @ b64_decode rest)"
| "b64_decode _ = []"

lemma alphabet_distinct: "distinct b64_alphabet" "length b64_alphabet = 64"
    "CHR ''='' \<notin> set b64_alphabet"
  by code_simp+

lemma b64_val_char [simp]: "i < 64 \<Longrightarrow> b64_val (b64_char i) = i"
  using find_index_nth [of b64_alphabet i] alphabet_distinct
  by (simp only: b64_val_def b64_char_def)

lemma b64_char_pad [simp]: "i < 64 \<Longrightarrow> b64_char i \<noteq> CHR ''=''"
  using alphabet_distinct by (metis b64_char_def nth_mem)

lemma b64_roundtrip:
  "\<forall>n \<in> set ns. n < 256 \<Longrightarrow> b64_decode (b64_groups ns) = ns"
proof (induction ns rule: b64_groups.induct)
  case (2 a)
  then have "a div 4 < 64" by auto
  then show ?case by simp
next
  case (3 a b)
  then have "a div 4 < 64" "a mod 4 * 16 + b div 16 < 64" "b mod 16 * 4 < 64" by auto
  moreover have "a div 4 * 4 + (a mod 4 * 16 + b div 16) div 16 = a" using 3 by auto
  moreover have "(a mod 4 * 16 + b div 16) mod 16 * 16 + b mod 16 * 4 div 4 = b" using 3 by auto
  ultimately show ?case by simp
next
  case (4 a b c ns)
  then have "a div 4 < 64" "a mod 4 * 16 + b div 16 < 64" "b mod 16 * 4 + c div 64 < 64" by auto
  moreover have "a div 4 * 4 + (a mod 4 * 16 + b div 16) div 16 = a" using 4 by auto
  moreover have "(a mod 4 * 16 + b div 16) mod 16 * 16 + (b mod 16 * 4 + c div 64) div 4 = b"
    using 4 by auto
  moreover have "(b mod 16 * 4 + c div 64) mod 4 * 64 + c mod 64 = c" using 4 by auto
  ultimately show ?case using 4 by simp
qed simp

lemma EncodeToString_inj: "EncodeToString s = EncodeToString t \<longleftrightarrow> s = t"
proof
  have bytes: "\<forall>n \<in> set (map of_char u). n < (256 :: nat)" for u :: string by auto
  assume "EncodeToString s = EncodeToString t"
  then have "map of_char s = (map of_char t :: nat list)"
    unfolding EncodeToString_def by (metis b64_roundtrip [OF bytes])
  moreover have "inj (of_char :: char \<Rightarrow> nat)" by (rule inj_of_char)
  ultimately show "s = t" by (simp add: inj_map_eq_map)
qed simp

section \<open>Order and sorting\<close>

fun str_less :: "string \<Rightarrow> string \<Rightarrow> bool" where
  "str_less s [] = False"
| "str_less [] (b # t) = True"
| "str_less (a # s) (b # t) =
     ((of_char a :: nat) < of_char b \<or> (a = b \<and> str_less s t))"

fun insert_by :: "('a \<Rightarrow> 'a \<Rightarrow> bool) \<Rightarrow> 'a \<Rightarrow> 'a list \<Rightarrow> 'a list" where
  "insert_by lt x [] = [x]"
| "insert_by lt x (y # ys) = (if lt x y then x # y # ys else y # insert_by lt x ys)"

definition sort_by :: "('a \<Rightarrow> 'a \<Rightarrow> bool) \<Rightarrow> 'a list \<Rightarrow> 'a list" where
  "sort_by lt xs = foldl (\<lambda>acc x. insert_by lt x acc) [] xs"

lemma str_less_irrefl [simp]: "\<not> str_less s s"
  by (induction s) auto

lemma str_less_linear: "str_less s t \<or> s = t \<or> str_less t s"
proof (induction s t rule: str_less.induct)
  case (1 s)
  then show ?case by (cases s) auto
qed (auto simp: linorder_neq_iff)

lemma str_less_trans: "str_less s t \<Longrightarrow> str_less t u \<Longrightarrow> str_less s u"
proof (induction s t arbitrary: u rule: str_less.induct)
  case (2 b t)
  then show ?case by (cases u) auto
next
  case (3 a s b t)
  then show ?case by (cases u) auto
qed simp

lemma str_less_asym: "str_less s t \<Longrightarrow> \<not> str_less t s"
  using str_less_trans str_less_irrefl by blast

lemma mset_insert_by [simp]: "mset (insert_by lt x ys) = add_mset x (mset ys)"
  by (induction ys) auto

lemma mset_sort_by: "mset (sort_by lt xs) = mset xs"
proof -
  have "mset (foldl (\<lambda>acc x. insert_by lt x acc) ys xs) = mset ys + mset xs" for ys
    by (induction xs arbitrary: ys) auto
  then show ?thesis by (simp add: sort_by_def)
qed

lemma set_sort_by [simp]: "set (sort_by lt xs) = set xs"
  using mset_sort_by by (metis set_mset_mset)

lemma set_insert_by [simp]: "set (insert_by lt x ys) = insert x (set ys)"
  by (metis mset_insert_by set_mset_add_mset_insert set_mset_mset)

lemma sorted_insert_by:
  assumes trans: "\<And>x y z. \<not> lt y x \<Longrightarrow> \<not> lt z y \<Longrightarrow> \<not> lt z x"
    and asym: "\<And>x y. lt x y \<Longrightarrow> \<not> lt y x"
    and "sorted_wrt (\<lambda>x y. \<not> lt y x) ys"
  shows "sorted_wrt (\<lambda>x y. \<not> lt y x) (insert_by lt x ys)"
  using assms(3) by (induction ys) (auto dest: asym trans)

lemma sorted_sort_by:
  assumes "\<And>x y z. \<not> lt y x \<Longrightarrow> \<not> lt z y \<Longrightarrow> \<not> lt z x"
    and "\<And>x y. lt x y \<Longrightarrow> \<not> lt y x"
  shows "sorted_wrt (\<lambda>x y. \<not> lt y x) (sort_by lt xs)"
proof -
  have "sorted_wrt (\<lambda>x y. \<not> lt y x) (foldl (\<lambda>acc x. insert_by lt x acc) ys xs)"
    if "sorted_wrt (\<lambda>x y. \<not> lt y x) ys" for ys
    using that
  proof (induction xs arbitrary: ys)
    case (Cons x xs)
    have "sorted_wrt (\<lambda>x y. \<not> lt y x) (insert_by lt x ys)"
      by (rule sorted_insert_by [OF _ _ Cons.prems]) (use assms in blast)+
    with Cons.IH show ?case by simp
  qed simp
  then show ?thesis by (simp add: sort_by_def)
qed

definition sort_Strings :: "string list \<Rightarrow> string list" where
  "sort_Strings xs = sort_by str_less xs"

lemma sorted_distinct_less:
  "sorted_wrt (\<lambda>x y. \<not> str_less y x) ys \<Longrightarrow> distinct ys \<Longrightarrow> sorted_wrt str_less ys"
  using str_less_linear by (induction ys) auto

text \<open>Sorting distinct strings: strictly increasing, and a function of the set alone.\<close>

lemma sorted_sort_Strings:
  assumes "distinct xs"
  shows "sorted_wrt str_less (sort_Strings xs)"
proof -
  have "sorted_wrt (\<lambda>x y. \<not> str_less y x) (sort_Strings xs)"
    unfolding sort_Strings_def
    by (rule sorted_sort_by) (metis str_less_linear str_less_trans, metis str_less_asym)
  moreover have "distinct (sort_Strings xs)"
    using assms mset_sort_by [of str_less xs] by (metis mset_eq_imp_distinct_iff sort_Strings_def)
  ultimately show ?thesis by (rule sorted_distinct_less)
qed

end
