(* ===== verification/Cluster_Api.thy ===== *)
theory Cluster_Api
  imports Status_Levels Pod_Status Rollout_Status Go_Encoding
begin

text \<open>
  What the controllers call outside this repository, besides the status manager's API: the
  controller-runtime client on further kinds, files, the environment, templates, YAML and
  JSON, and the helpers of apimachinery on unstructured objects. Also the early returns of a
  handler (\<open>or_return\<close>) and the namespace a controller watches.
\<close>

section \<open>The calls\<close>

text \<open>
  An entry of \<open>filepath.Walk\<close>: the path, whether it is a directory, and the error the
  callback gets.
\<close>

record walk_entry =
  we_path :: string
  we_dir :: bool
  we_err :: "go_error option"

text \<open>The data of a template.\<close>

datatype render_value = RStr string | RInt int | RBool bool

type_synonym render_data = "string \<rightharpoonup> render_value"

record 'w cluster_api =
  st :: "'w status_api"
  get_configmap :: "nsname \<Rightarrow> 'w \<Rightarrow> (go_error + configmap) \<times> 'w"
  get_secret :: "nsname \<Rightarrow> 'w \<Rightarrow> (go_error + secret) \<times> 'w"
  get_network :: "string \<Rightarrow> 'w \<Rightarrow> (go_error + network) \<times> 'w"
  apply_object :: "unstructured \<Rightarrow> 'w \<Rightarrow> go_error option \<times> 'w"
  delete_pod :: "pod \<Rightarrow> 'w \<Rightarrow> go_error option \<times> 'w"
  delete_all_pods :: "string \<Rightarrow> string \<times> string \<Rightarrow> 'w \<Rightarrow> go_error option \<times> 'w"
  container_logs :: "pod \<Rightarrow> string \<Rightarrow> 'w \<Rightarrow> (go_error + string) \<times> 'w"
  getenv :: "string \<Rightarrow> string"
  read_file :: "string \<Rightarrow> 'w \<Rightarrow> (go_error + string) \<times> 'w"
  open_and_read :: "string \<Rightarrow> 'w \<Rightarrow> (go_error + string \<times> go_error option) \<times> 'w"
    \<comment> \<open>\<open>os.Open\<close>, then what \<open>ioutil.ReadAll\<close> returns\<close>
  walk_dir :: "string \<Rightarrow> 'w \<Rightarrow> walk_entry list \<times> 'w"
  parse_template :: "string \<Rightarrow> string \<Rightarrow> go_error option"
  exec_template :: "(int \<Rightarrow> string \<Rightarrow> go_error + string) \<Rightarrow> string \<Rightarrow> render_data \<Rightarrow> go_error + string"
  decode_docs :: "string \<Rightarrow> (go_error + unstructured) list"  \<comment> \<open>what the YAML decoder yields, up to EOF\<close>
  marshal_selector :: "(string \<times> string) list option \<Rightarrow> go_error + string"
  marshal_tolerations :: "toleration list option \<Rightarrow> go_error + string"
  marshal_network :: "network \<Rightarrow> go_error + string"
  unmarshal_object :: "string \<Rightarrow> go_error + unstructured"
  set_owner :: "network \<Rightarrow> unstructured \<Rightarrow> go_error option \<times> unstructured"
  nested_map :: "json \<Rightarrow> string list \<Rightarrow> go_error + json option"
  set_nested_field :: "json \<Rightarrow> json \<Rightarrow> string list \<Rightarrow> go_error option \<times> json"
  remove_nested_field :: "json \<Rightarrow> string list \<Rightarrow> json"
  mergo_merge :: "json \<Rightarrow> json \<Rightarrow> go_error option \<times> json"
  clear_managed_fields :: "unstructured \<Rightarrow> unstructured"
  set_resource_version :: "unstructured \<Rightarrow> string \<Rightarrow> unstructured"
  set_uid :: "unstructured \<Rightarrow> string \<Rightarrow> unstructured"
  fmt_gvk :: "unstructured \<Rightarrow> string"
  fmt_rfc3339 :: "time \<Rightarrow> string"

section \<open>Early returns\<close>

text \<open>An error is wrapped with a message and returned.\<close>

definition try_wrap :: "string \<Rightarrow> go_error + 'a \<Rightarrow> ('a \<Rightarrow> go_error + 'b) \<Rightarrow> go_error + 'b" where
  "try_wrap msg r f = (case r of Inl e \<Rightarrow> Inl (wrapf e msg) | Inr a \<Rightarrow> f a)"

lemma try_wrap_Inr: "try_wrap msg r f = Inr b \<longleftrightarrow> (\<exists>a. r = Inr a \<and> f a = Inr b)"
  by (auto simp: try_wrap_def split: sum.splits)

text \<open>A step yields the result the handler returns at once, or a value to go on with.\<close>

definition or_return ::
  "('s, 'r + 'a) state \<Rightarrow> ('a \<Rightarrow> ('s, 'r) state) \<Rightarrow> ('s, 'r) state" where
  "or_return m f = do { x \<leftarrow> m; case x of Inl r \<Rightarrow> ret r | Inr a \<Rightarrow> f a }"

definition and_then ::
  "('s, 'r + 'a) state \<Rightarrow> ('a \<Rightarrow> ('s, 'r + 'b) state) \<Rightarrow> ('s, 'r + 'b) state" where
  "and_then m f = do { x \<leftarrow> m; case x of Inl r \<Rightarrow> ret (Inl r) | Inr a \<Rightarrow> f a }"

definition stop :: "'r \<Rightarrow> ('s, 'r + 'a) state" where
  "stop r = ret (Inl r)"

definition go_on :: "'a \<Rightarrow> ('s, 'r + 'a) state" where
  "go_on a = ret (Inr a)"

lemma run_or_return [run_rules]:
  "run_state (or_return m f) s =
     (case run_state m s of (Inl r, s') \<Rightarrow> (r, s') | (Inr a, s') \<Rightarrow> run_state (f a) s')"
  by (simp add: or_return_def split: prod.splits sum.splits)

lemma run_and_then [run_rules]:
  "run_state (and_then m f) s =
     (case run_state m s of (Inl r, s') \<Rightarrow> (Inl r, s') | (Inr a, s') \<Rightarrow> run_state (f a) s')"
  by (simp add: and_then_def split: prod.splits sum.splits)

lemma run_stop [simp, run_rules]: "run_state (stop r) s = (Inl r, s)"
  by (simp add: stop_def)

lemma run_go_on [simp, run_rules]: "run_state (go_on a) s = (Inr a, s)"
  by (simp add: go_on_def)

lemma keeps_or_return [keeps_rules]:
  "keeps I m \<Longrightarrow> (\<And>a. keeps I (f a)) \<Longrightarrow> keeps I (or_return m f)"
  unfolding or_return_def by (intro keeps_rules)

lemma keeps_and_then [keeps_rules]:
  "keeps I m \<Longrightarrow> (\<And>a. keeps I (f a)) \<Longrightarrow> keeps I (and_then m f)"
  unfolding and_then_def by (intro keeps_rules)

lemma preserves_or_return [preserves_rules]:
  "preserves P m \<Longrightarrow> (\<And>a. preserves P (f a)) \<Longrightarrow> preserves P (or_return m f)"
  unfolding or_return_def by (intro preserves_rules)

lemma preserves_and_then [preserves_rules]:
  "preserves P m \<Longrightarrow> (\<And>a. preserves P (f a)) \<Longrightarrow> preserves P (and_then m f)"
  unfolding and_then_def by (intro preserves_rules)

lemma preserves_stop [preserves_rules]: "preserves P (stop r)" "preserves P (go_on a)"
  by (simp_all add: preserves_def)

lemma yields_stop [yields_rules]: "(\<And>s. P s \<Longrightarrow> Q (Inl r) s) \<Longrightarrow> yields P (stop r) Q"
  by (simp add: yields_def)

lemma yields_go_on [yields_rules]: "(\<And>s. P s \<Longrightarrow> Q (Inr a) s) \<Longrightarrow> yields P (go_on a) Q"
  by (simp add: yields_def)

lemma keeps_stop [keeps_rules]: "keeps I (stop r)"
  by (simp add: keeps_def)

lemma keeps_go_on [keeps_rules]: "keeps I (go_on a)"
  by (simp add: keeps_def)

text \<open>A run of a handler that stops later has passed each step; one that stops has not.\<close>

lemma or_return_cases:
  assumes "run_state (or_return m f) s = (r, s')"
  obtains (early) "run_state m s = (Inl r, s')"
    | (on) a s1 where "run_state m s = (Inr a, s1)" "run_state (f a) s1 = (r, s')"
  using assms by (auto simp: run_or_return split: prod.splits sum.splits)

lemma and_then_cases:
  assumes "run_state (and_then m f) s = (r, s')"
  obtains (early) x where "run_state m s = (Inl x, s')" "r = Inl x"
    | (on) a s1 where "run_state m s = (Inr a, s1)" "run_state (f a) s1 = (r, s')"
  using assms by (auto simp: run_and_then split: prod.splits sum.splits)

section \<open>The watched namespace\<close>

text \<open>The namespace of the configuration, with its default.\<close>

definition watched_namespace :: "string \<Rightarrow> string" where
  "watched_namespace ns = (if ns = [] then Names.OperatorNamespace else ns)"

text \<open>The four event filters of a namespaced watch agree: the object's namespace decides.\<close>

definition byNameSpaceFilter :: "string \<Rightarrow> string \<Rightarrow> bool" where
  "byNameSpaceFilter watchNameSpace objNamespace \<longleftrightarrow> objNamespace = watchNameSpace"

section \<open>Existence of a monitored resource (utils.go)\<close>

definition CheckIfNCPK8sResourceExists ::
  "'w status_api \<Rightarrow> string \<Rightarrow> ('w operator, go_error + bool) state" where
  "CheckIfNCPK8sResourceExists E resName =
     (let instanceDetails = nsn NsxNamespace resName;
          verdict = (\<lambda>err. case err of
             None \<Rightarrow> Inr True
           | Some e \<Rightarrow> if is_not_found e then Inr False else Inl e)
      in case identifyAndGetInstance resName of
           Inl e \<Rightarrow> ret (Inl e)
         | Inr DaemonSetKind \<Rightarrow> do {
             r \<leftarrow> api (get_daemonset E instanceDetails);
             ret (verdict (case r of Inl e \<Rightarrow> Some e | Inr _ \<Rightarrow> None)) }
         | Inr DeploymentKind \<Rightarrow> do {
             r \<leftarrow> api (get_deployment E instanceDetails);
             ret (verdict (case r of Inl e \<Rightarrow> Some e | Inr _ \<Rightarrow> None)) })"

end
