(* ===== verification/Render_Templates.thy ===== *)
theory Render_Templates
  imports Cluster_Api
begin

text \<open>
  \<open>pkg/util/render/render.go\<close> and \<open>pkg/util/k8s/unstructured.go\<close>: the manifests of a list of
  directories, in the order of their file names, each read, executed as a template and decoded
  into objects. The template engine, the YAML decoder and the directory walk are parameters.
\<close>

section \<open>Files\<close>

text \<open>The second result of \<open>filepath.Split\<close>.\<close>

definition file_name :: "string \<Rightarrow> string" where
  "file_name path =
     (case LastIndexByte path (CHR ''/'') of None \<Rightarrow> path | Some i \<Rightarrow> drop (i + 1) path)"

definition byFilename_Less :: "string \<Rightarrow> string \<Rightarrow> bool" where
  "byFilename_Less p q = str_less (file_name p) (file_name q)"

definition is_manifest :: "string \<Rightarrow> bool" where
  "is_manifest path \<longleftrightarrow>
     HasSuffix path ''.yml'' \<or> HasSuffix path ''.yaml'' \<or> HasSuffix path ''.json''"

text \<open>The walk callback: an error ends the walk, directories and other files are skipped.\<close>

fun walk_files :: "walk_entry list \<Rightarrow> string list \<Rightarrow> go_error + string list" where
  "walk_files [] files = Inr files"
| "walk_files (e # es) files =
     (case we_err e of
        Some err \<Rightarrow> Inl err
      | None \<Rightarrow>
          if we_dir e then walk_files es files
          else if \<not> is_manifest (we_path e) then walk_files es files
          else walk_files es (files @ [we_path e]))"

fun collect_files ::
  "'w cluster_api \<Rightarrow> string list \<Rightarrow> string list \<Rightarrow> ('w operator, go_error + string list) state"
where
  "collect_files E [] files = ret (Inr files)"
| "collect_files E (dir # dirs) files = do {
     es \<leftarrow> api (walk_dir E dir);
     case walk_files es files of
       Inl err \<Rightarrow> ret (Inl (wrapf err ''error listing manifests''))
     | Inr files \<Rightarrow> collect_files E dirs files
   }"

section \<open>One manifest\<close>

definition newline :: char where "newline = CHR 0x0A"

definition indent :: "int \<Rightarrow> string \<Rightarrow> go_error + string" where
  "indent spaces v =
     (if spaces < 0 then Inl (GoPanic ''strings: negative Repeat count'')
      else let pad = replicate (nat spaces) (CHR '' '') in
           Inr (pad @ concat (map (\<lambda>c. if c = newline then newline # pad else [c]) v)))"

fun decode_loop ::
  "string \<Rightarrow> (go_error + unstructured) list \<Rightarrow> unstructured list \<Rightarrow> go_error + unstructured list"
where
  "decode_loop path [] out = Inr out"
| "decode_loop path (Inl err # ds) out = Inl (wrapf err (''failed to unmarshal manifest '' @ path))"
| "decode_loop path (Inr u # ds) out = decode_loop path ds (out @ [u])"

definition RenderTemplate ::
  "'w cluster_api \<Rightarrow> string \<Rightarrow> render_data \<Rightarrow> ('w operator, go_error + unstructured list) state"
where
  "RenderTemplate E path d = do {
     r \<leftarrow> api (read_file E path);
     case r of
       Inl err \<Rightarrow> ret (Inl (wrapf err (''failed to read manifest '' @ path)))
     | Inr source \<Rightarrow>
         (case parse_template E path source of
            Some err \<Rightarrow>
              ret (Inl (wrapf err (''failed to parse manifest '' @ path @ '' as template'')))
          | None \<Rightarrow>
              (case exec_template E indent source d of
                 Inl err \<Rightarrow> ret (Inl (wrapf err (''failed to render manifest '' @ path)))
               | Inr rendered \<Rightarrow>
                   if length (TrimSpace rendered) = 0 then ret (Inr [])
                   else ret (decode_loop path (decode_docs E rendered) [])))
   }"

fun render_files ::
  "'w cluster_api \<Rightarrow> render_data \<Rightarrow> string list \<Rightarrow> unstructured list
   \<Rightarrow> ('w operator, go_error + unstructured list) state" where
  "render_files E d [] out = ret (Inr out)"
| "render_files E d (path # files) out = do {
     r \<leftarrow> RenderTemplate E path d;
     case r of
       Inl err \<Rightarrow> ret (Inl (wrapf err (''failed to render file '' @ path)))
     | Inr objs \<Rightarrow> render_files E d files (out @ objs)
   }"

definition RenderDirs ::
  "'w cluster_api \<Rightarrow> string list \<Rightarrow> render_data \<Rightarrow> ('w operator, go_error + unstructured list) state"
where
  "RenderDirs E manifestDirs d = do {
     r \<leftarrow> collect_files E manifestDirs [];
     case r of
       Inl err \<Rightarrow> ret (Inl err)
     | Inr files \<Rightarrow> render_files E d (sort_by byFilename_Less files) []
   }"

definition RenderDir ::
  "'w cluster_api \<Rightarrow> string \<Rightarrow> render_data \<Rightarrow> ('w operator, go_error + unstructured list) state"
where
  "RenderDir E manifestDir d = RenderDirs E [manifestDir] d"

section \<open>unstructured.go\<close>

definition ToUnstructured :: "'w cluster_api \<Rightarrow> network \<Rightarrow> go_error + unstructured" where
  "ToUnstructured E obj =
     (case marshal_network E obj of
        Inl err \<Rightarrow> Inl (wrapf err ''failed to convert to unstructured (marshal)'')
      | Inr b \<Rightarrow>
          (case unmarshal_object E b of
             Inl err \<Rightarrow> Inl (wrapf err ''failed to convert to unstructured (unmarshal)'')
           | Inr u \<Rightarrow> Inr u))"

section \<open>Facts\<close>

text \<open>Rendering keeps every view of the state that the two file calls keep.\<close>

lemma keeps_RenderTemplate:
  assumes "\<And>p. keeps I (api (read_file E p))"
  shows "keeps I (RenderTemplate E path d)"
  unfolding RenderTemplate_def by (intro keeps_rules assms)

lemma keeps_render_files:
  assumes "\<And>p. keeps I (api (read_file E p))"
  shows "keeps I (render_files E d files out)"
  by (induction files arbitrary: out) (auto intro!: keeps_rules keeps_RenderTemplate assms)

lemma keeps_collect_files:
  assumes "\<And>p. keeps I (api (walk_dir E p))"
  shows "keeps I (collect_files E dirs files)"
  by (induction dirs arbitrary: files) (auto intro!: keeps_rules assms)

lemma keeps_RenderDir:
  assumes "\<And>p. keeps I (api (read_file E p))" "\<And>p. keeps I (api (walk_dir E p))"
  shows "keeps I (RenderDir E dir d)"
  unfolding RenderDir_def RenderDirs_def
  by (intro keeps_rules keeps_render_files keeps_collect_files assms)

text \<open>The files of a walk without errors are its manifests, in the walk's order.\<close>

lemma walk_files_eq:
  "walk_files es files =
     (case List.find (\<lambda>e. we_err e \<noteq> None) es of
        Some e \<Rightarrow> Inl (the (we_err e))
      | None \<Rightarrow> Inr (files @ map we_path (filter (\<lambda>e. \<not> we_dir e \<and> is_manifest (we_path e)) es)))"
  by (induction es files rule: walk_files.induct) (auto split: option.splits)

text \<open>The manifests are rendered in the order of their file names.\<close>

lemma byFilename_sorted:
  "sorted_wrt (\<lambda>p q. \<not> str_less (file_name q) (file_name p)) (sort_by byFilename_Less files)"
  unfolding byFilename_Less_def
  by (rule sorted_sort_by) (metis str_less_linear str_less_trans, metis str_less_asym)

text \<open>Indentation puts the padding before every line and changes nothing else.\<close>

lemma Split_newline_Cons:
  "Split (c # s) [newline] = (if c = newline then [] # Split s [newline]
     else case Split s [newline] of l # ls \<Rightarrow> (c # l) # ls | [] \<Rightarrow> [[c]])"
  by (subst Split.simps) (auto simp: Split.simps [of s] split: option.splits)

lemma indent_body:
  assumes "newline \<notin> set pad" "newline \<notin> set p"
  shows "Split (p @ concat (map (\<lambda>c. if c = newline then newline # pad else [c]) v)) [newline] =
    (case Split v [newline] of l # ls \<Rightarrow> (p @ l) # map ((@) pad) ls | [] \<Rightarrow> [])"
  using assms(2)
proof (induction v arbitrary: p)
  case Nil
  then show ?case
    by (induction p) (auto simp: Split_newline_Cons Split.simps [of "[]"])
next
  case (Cons c v)
  have snoc: "Split (p @ newline # s) [newline] = p # Split s [newline]"
    if "newline \<notin> set p" for p s
    using that by (induction p) (auto simp: Split_newline_Cons)
  show ?case
  proof (cases "c = newline")
    case True
    with Cons.IH [of pad] Cons.prems assms(1) show ?thesis
      by (simp add: snoc Split_newline_Cons split: list.splits)
  next
    case False
    with Cons.IH [of "p @ [c]"] Cons.prems show ?thesis
      using Split_nonempty [of "[newline]" v]
      by (auto simp: Split_newline_Cons split: list.splits)
  qed
qed

lemma indent_lines:
  assumes "0 \<le> n"
  shows "\<exists>t. indent n v = Inr t
    \<and> Split t [newline] = map (\<lambda>l. replicate (nat n) (CHR '' '') @ l) (Split v [newline])"
proof -
  let ?pad = "replicate (nat n) (CHR '' '')"
  have "newline \<notin> set ?pad" by (auto simp: newline_def)
  from indent_body [OF this this, of v] assms show ?thesis
    using Split_nonempty [of "[newline]" v]
    by (auto simp: indent_def Let_def split: list.splits)
qed

end
