(* ===== verification/Config_Render.thy ===== *)
theory Config_Render
  imports Config_Change_Facts Render_Templates
begin

text \<open>
  \<open>Render\<close> and \<open>GetManifestDir\<close> of \<open>pkg/controller/configmap/config.go\<close>: the values the
  manifests are rendered with, and the manifests' directory. \<open>Render\<close> writes the number of
  replicas through a pointer; the model returns it.
\<close>

section \<open>The values\<close>

definition render_image :: "string \<Rightarrow> string" where
  "render_image env = (if env = [] then ''nsx-ncp:latest'' else env)"

text \<open>The replicas: one when high availability is off.\<close>

definition render_replicas :: "'f ini_lib \<Rightarrow> 'f \<Rightarrow> int \<Rightarrow> (go_error + int) \<times> 'f" where
  "render_replicas L cfg n =
     (case sec_has_key L cfg ''ha'' ''enable'' of (has, cfg) \<Rightarrow>
        let cap = (\<lambda>haEnabled. if \<not> haEnabled \<and> n > 1 then 1 else n) in
        if has then
          (case sec_key_value L cfg ''ha'' ''enable'' of (v, cfg) \<Rightarrow>
             (case ParseBool v of
                Inl err \<Rightarrow> (Inl (wrapf err ''failed to get ha option''), cfg)
              | Inr haEnabled \<Rightarrow> (Inr (cap haEnabled), cfg)))
        else (Inr (cap False), cfg))"

definition secret_value :: "secret \<Rightarrow> string \<Rightarrow> string" where
  "secret_value s key = (case sec_data s of None \<Rightarrow> []
     | Some d \<Rightarrow> (case d key of None \<Rightarrow> [] | Some v \<Rightarrow> v))"

definition render_secrets :: "secret option \<Rightarrow> secret option \<Rightarrow> (string \<times> render_value) list" where
  "render_secrets nsxSecret lbSecret =
     (let enc = (\<lambda>s key. RStr (case s of None \<Rightarrow> [] | Some s \<Rightarrow> EncodeToString (secret_value s key)))
      in [(LbCertRenderKey, enc lbSecret ''tls.crt''), (LbKeyRenderKey, enc lbSecret ''tls.key''),
          (NsxCertRenderKey, enc nsxSecret ''tls.crt''), (NsxKeyRenderKey, enc nsxSecret ''tls.key''),
          (NsxCARenderKey, enc nsxSecret ''tls.ca'')])"

text \<open>A pointer that is nil renders as the empty text, one that is not as the JSON of its value.\<close>

definition render_json :: "string \<Rightarrow> ('a \<Rightarrow> go_error + string) \<Rightarrow> 'a option \<Rightarrow> go_error + string" where
  "render_json msg marshal p =
     (case p of None \<Rightarrow> Inr [] | Some v \<Rightarrow>
        (case marshal v of Inl err \<Rightarrow> Inl (wrapf err msg) | Inr js \<Rightarrow> Inr js))"

definition render_kmod :: "'f ini_lib \<Rightarrow> 'f \<Rightarrow> bool" where
  "render_kmod L cfg \<longleftrightarrow>
     fst (sec_key_value L cfg ''nsx_node_agent'' ''use_nsx_ovs_kernel_module'') = ''True''"

text \<open>All values, in the order in which the code computes them, and the replicas.\<close>

definition render_values ::
  "'w cluster_api \<Rightarrow> 'f ini_lib \<Rightarrow> 'f \<Rightarrow> string \<Rightarrow> int
   \<Rightarrow> (string \<times> string) list option option \<Rightarrow> toleration list option option
   \<Rightarrow> toleration list option option \<Rightarrow> secret option \<Rightarrow> secret option
   \<Rightarrow> (go_error + render_data) \<times> int" where
  "render_values E L cfg img n selector ncpTol agentTol nsxSecret lbSecret =
     (case generateConfigMap L cfg NcpSections of
        Inl err \<Rightarrow> (Inl (wrapf err ''failed to render nsx-ncp ConfigMap''), n)
      | Inr ncp \<Rightarrow>
     (case generateConfigMap L cfg AgentSections of
        Inl err \<Rightarrow> (Inl (wrapf err ''failed to render nsx-node-agent ConfigMap''), n)
      | Inr agent \<Rightarrow>
     (case render_replicas L cfg n of
        (Inl err, cfg) \<Rightarrow> (Inl err, n)
      | (Inr replicas, cfg) \<Rightarrow>
          (case render_json ''failed to get NCP NodeSelector'' (marshal_selector E) selector of
             Inl err \<Rightarrow> Inl err | Inr sel \<Rightarrow>
           (case render_json ''failed to get NCP Tolerations'' (marshal_tolerations E) ncpTol of
             Inl err \<Rightarrow> Inl err | Inr nt \<Rightarrow>
           (case render_json ''failed to get Nsx Node Agent Tolerations''
                   (marshal_tolerations E) agentTol of
             Inl err \<Rightarrow> Inl err | Inr at \<Rightarrow>
             Inr (map_of
               ([(NcpConfigMapRenderKey, RStr ncp), (NodeAgentConfigMapRenderKey, RStr agent),
                 (NcpImageKey, RStr (render_image img)), (NcpReplicasKey, RInt replicas),
                 (NcpNodeSelectorRenderKey, RStr sel), (NcpTolerationsRenderKey, RStr nt),
                 (NsxNodeTolerationsRenderKey, RStr at)] @
                render_secrets nsxSecret lbSecret @
                [(NsxOvsKmodRenderKey, RBool (render_kmod L cfg))])))),
           replicas))))"

section \<open>The manifests\<close>

text \<open>
  The directory for the operating system of the node. For an unknown system the code wraps
  the nil error of \<open>ReadAll\<close>, which is nil again: no error, and the empty directory.
\<close>

definition GetManifestDir :: "'w cluster_api \<Rightarrow> ('w operator, string \<times> go_error option) state" where
  "GetManifestDir E = do {
     r \<leftarrow> api (open_and_read E OsReleaseFile);
     case r of
       Inl err \<Rightarrow> ret ([], Some err)
     | Inr (osRelease, err) \<Rightarrow>
         if Contains osRelease ''CoreOS'' then ret (''./manifest/openshift4/coreos'', None)
         else if Contains osRelease ''Ubuntu'' then ret (''./manifest/kubernetes/ubuntu'', None)
         else if Contains osRelease ''CentOS'' \<or> Contains osRelease ''Red Hat''
         then ret (''./manifest/kubernetes/rhel'', None)
         else ret ([], map_option (\<lambda>e. wrapf e ''failed to get os-release'') err)
   }"

definition Render ::
  "'w cluster_api \<Rightarrow> 'f ini_lib \<Rightarrow> configmap \<Rightarrow> int
   \<Rightarrow> (string \<times> string) list option option \<Rightarrow> toleration list option option
   \<Rightarrow> toleration list option option \<Rightarrow> secret option \<Rightarrow> secret option
   \<Rightarrow> ('w operator, (go_error + unstructured list) \<times> int \<times> configmap) state" where
  "Render E L configmap ncpReplicas selector ncpTol agentTol nsxSecret lbSecret =
     (let cm = cm_init configmap in
      case Load L (cm_get cm ConfigMapDataKey) of
        Inl err \<Rightarrow> ret (Inl (wrapf err ''failed to load ConfigMap''), ncpReplicas, cm)
      | Inr cfg \<Rightarrow>
          (case render_values E L cfg (getenv E NcpImageEnv) ncpReplicas selector ncpTol agentTol
                  nsxSecret lbSecret of
            (Inl err, n) \<Rightarrow> ret (Inl err, n, cm)
          | (Inr renderData, n) \<Rightarrow> do {
              dir \<leftarrow> GetManifestDir E;
              case dir of
                (_, Some err) \<Rightarrow> ret (Inl (wrapf err ''failed to get manifestDir''), n, cm)
              | (manifestDir, None) \<Rightarrow> do {
                  r \<leftarrow> RenderDir E manifestDir renderData;
                  ret (case r of Inl err \<Rightarrow> Inl (wrapf err ''failed to render manifests'')
                               | Inr manifests \<Rightarrow> Inr manifests, n, cm)
                }
            }))"

section \<open>Facts\<close>

lemma keeps_GetManifestDir:
  assumes "\<And>p. keeps I (api (open_and_read E p))"
  shows "keeps I (GetManifestDir E)"
  unfolding GetManifestDir_def by (intro keeps_rules assms)

lemma keeps_Render:
  assumes "\<And>p. keeps I (api (open_and_read E p))" "\<And>p. keeps I (api (read_file E p))"
    "\<And>p. keeps I (api (walk_dir E p))"
  shows "keeps I (Render E L cm n sel nt at ns ls)"
  unfolding Render_def Let_def
  by (intro keeps_rules keeps_GetManifestDir keeps_RenderDir assms)

lemma render_values_Inr:
  assumes "render_values E L cfg img n sel nt at ns ls = (Inr d, m)"
  obtains ncp agent cfg' where
    "generateConfigMap L cfg NcpSections = Inr ncp" "generateConfigMap L cfg AgentSections = Inr agent"
    "render_replicas L cfg n = (Inr m, cfg')"
    "d NcpConfigMapRenderKey = Some (RStr ncp)" "d NodeAgentConfigMapRenderKey = Some (RStr agent)"
    "d NcpReplicasKey = Some (RInt m)" "d NcpImageKey = Some (RStr (render_image img))"
    "\<forall>kv \<in> set (render_secrets ns ls). d (fst kv) = Some (snd kv)"
    "d NsxOvsKmodRenderKey = Some (RBool (render_kmod L cfg'))"
proof -
  from assms obtain ncp agent cfg' where *:
    "generateConfigMap L cfg NcpSections = Inr ncp" "generateConfigMap L cfg AgentSections = Inr agent"
    "render_replicas L cfg n = (Inr m, cfg')"
    by (auto simp: render_values_def split: sum.splits prod.splits)
  from assms * show ?thesis
    by (intro that [OF *])
       (auto simp: render_values_def render_secrets_def names split: sum.splits)
qed

end
