(* ===== verification/ConfigMap_Controller.thy ===== *)
theory ConfigMap_Controller
  imports Config_Render
begin

text \<open>
  The ConfigMap controller: \<open>pkg/controller/configmap/configmap_controller.go\<close>. \<open>Reconcile\<close> is
  cut at its early returns into steps in the order of the code; a step yields what the
  handler returns at once (\<open>Inl\<close>) or what the next step needs. Pointers shared between the
  controller and \<open>sharedInfo\<close> (\<open>networkConfig\<close>, \<open>instance\<close>) are written in both places. The
  kind of a template object is its \<open>u_kind\<close>; helper functions of apimachinery are parameters.
\<close>

section \<open>Comparisons with the cluster\<close>

definition compareKey :: "secret \<Rightarrow> secret \<Rightarrow> string \<Rightarrow> bool" where
  "compareKey s1 s2 key \<longleftrightarrow> secret_value s1 key \<noteq> secret_value s2 key"

definition secretNotEqual :: "secret option \<Rightarrow> secret option \<Rightarrow> bool" where
  "secretNotEqual s1 s2 =
     (let nil_secret = \<lparr>sec_data = None\<rparr>;
          s1 = (case s1 of None \<Rightarrow> nil_secret | Some s \<Rightarrow> s);
          s2 = (case s2 of None \<Rightarrow> nil_secret | Some s \<Rightarrow> s)
      in compareKey s1 s2 ''tls.crt'' \<or> compareKey s1 s2 ''tls.key'' \<or> compareKey s1 s2 ''tls.ca'')"

text \<open>A secret that is not found is nil; any other error is returned.\<close>

definition get_secret_or_nil ::
  "'w cluster_api \<Rightarrow> string \<Rightarrow> string \<Rightarrow> ('w operator, go_error + secret option) state" where
  "get_secret_or_nil E ns name = do {
     r \<leftarrow> api (get_secret E (nsn ns name));
     ret (case r of
            Inr s \<Rightarrow> Inr (Some s)
          | Inl e \<Rightarrow> if is_not_found e then Inr None else Inl e)
   }"

definition isSecretChanged ::
  "'w cluster_api \<Rightarrow> secret option \<Rightarrow> secret option \<Rightarrow> ('w operator, bool \<times> go_error option) state"
where
  "isSecretChanged E opNsxSecret opLbSecret = do {
     r \<leftarrow> get_secret_or_nil E NsxNamespace NsxSecret;
     case r of
       Inl e \<Rightarrow> ret (True, Some e)
     | Inr ncpNsxSecret \<Rightarrow>
         if secretNotEqual opNsxSecret ncpNsxSecret then ret (True, None)
         else do {
           r \<leftarrow> get_secret_or_nil E NsxNamespace LbSecret;
           case r of
             Inl e \<Rightarrow> ret (True, Some e)
           | Inr ncpLbSecret \<Rightarrow> ret (secretNotEqual opLbSecret ncpLbSecret, None)
         }
   }"

definition isNsxNodeAgentDsChanged ::
  "'w cluster_api \<Rightarrow> toleration list option \<Rightarrow> ('w operator, go_error + bool) state" where
  "isNsxNodeAgentDsChanged E tolerations = do {
     r \<leftarrow> api (get_daemonset (st E) (nsn NsxNamespace NsxNodeAgentDsName));
     ret (case r of
            Inl e \<Rightarrow> if is_not_found e then Inr True else Inl e
          | Inr ds \<Rightarrow> Inr (ds_tolerations ds \<noteq> tolerations))
   }"

definition isNcpDeploymentChanged ::
  "'w cluster_api \<Rightarrow> int \<Rightarrow> (string \<times> string) list option \<Rightarrow> toleration list option
   \<Rightarrow> ('w operator, go_error + bool) state" where
  "isNcpDeploymentChanged E ncpReplicas ncpNodeSelector ncpTolerations = do {
     r \<leftarrow> api (get_deployment (st E) (nsn NsxNamespace NsxNcpDeploymentName));
     ret (case r of
            Inl e \<Rightarrow> if is_not_found e then Inr True else Inl e
          | Inr dep \<Rightarrow>
              (case dep_images dep of
                 [] \<Rightarrow> Inl (GoPanic ''index out of range'')
               | prevImage # _ \<Rightarrow>
                   if prevImage \<noteq> getenv E NcpImageEnv then Inr True
                   else (case dep_replicas dep of
                           None \<Rightarrow> Inl (GoPanic ''nil Replicas'')
                         | Some n \<Rightarrow> Inr (ncpReplicas \<noteq> n \<or> dep_nodeSelector dep \<noteq> ncpNodeSelector
                                       \<or> dep_tolerations dep \<noteq> ncpTolerations))))
   }"

fun any_deleted_loop ::
  "'w cluster_api \<Rightarrow> string list \<Rightarrow> ('w operator, go_error + bool) state" where
  "any_deleted_loop E [] = ret (Inr False)"
| "any_deleted_loop E (name # names) = do {
     r \<leftarrow> CheckIfNCPK8sResourceExists (st E) name;
     case r of
       Inl e \<Rightarrow> ret (Inl e)
     | Inr resExists \<Rightarrow> if \<not> resExists then ret (Inr True) else any_deleted_loop E names
   }"

definition isAnyMonitoredNCPResDeleted ::
  "'w cluster_api \<Rightarrow> ('w operator, go_error + bool) state" where
  "isAnyMonitoredNCPResDeleted E =
     any_deleted_loop E [NsxNodeAgentDsName, NsxNcpBootstrapDsName, NsxNcpDeploymentName]"

section \<open>Network status\<close>

definition buildNetworkStatus :: "'f ini_lib \<Rightarrow> network \<Rightarrow> configmap \<Rightarrow> network" where
  "buildNetworkStatus L net cm =
     net\<lparr>net_status_serviceNetwork := net_serviceNetwork net,
         net_status_clusterNetwork :=
           map (\<lambda>c. \<lparr>cn_CIDR = cn_CIDR c, cn_HostPrefix = 0\<rparr>) (net_clusterNetwork net),
         net_status_networkType := net_networkType net,
         net_status_clusterNetworkMTU :=
           fst (Atoi (getOptionInConfigMap L (Some cm) ''nsx_node_agent'' ''mtu''))\<rparr>"

text \<open>The status is written through the pointer that \<open>sharedInfo\<close> holds too.\<close>

definition updateNetworkStatus ::
  "'w cluster_api \<Rightarrow> 'f ini_lib \<Rightarrow> network \<Rightarrow> configmap \<Rightarrow> ('w operator, go_error option) state"
where
  "updateNetworkStatus E L networkConfig cm =
     (let net = buildNetworkStatus L networkConfig cm in do {
        modify (\<lambda>s. s\<lparr>sharedInfo := (sharedInfo s)\<lparr>si_NetworkConfig := Some net\<rparr>\<rparr>);
        case ToUnstructured E net of
          Inl err \<Rightarrow> ret (Some err)
        | Inr data \<Rightarrow>
            let data = set_uid E (set_resource_version E (clear_managed_fields E data) []) [] in
            api (apply_object E (data\<lparr>u_body := remove_nested_field E (u_body data) [''spec'']\<rparr>))
      })"

definition deleteExistingPods :: "'w cluster_api \<Rightarrow> string \<Rightarrow> ('w operator, go_error option) state" where
  "deleteExistingPods E component =
     api (delete_all_pods E NsxNamespace (''component'', component))"

section \<open>Objects\<close>

definition patchObjSpecAnnotations ::
  "'w cluster_api \<Rightarrow> unstructured \<Rightarrow> ('w operator, go_error option \<times> unstructured) state" where
  "patchObjSpecAnnotations E obj =
     (case nested_map E (u_body obj) [''spec'', ''template''] of
        Inl err \<Rightarrow> ret (Some err, obj)
      | Inr None \<Rightarrow> ret (Some (GoError ''Object template not found''), obj)
      | Inr (Some template) \<Rightarrow>
          if template = JNull then ret (None, obj)
          else do {
            ts \<leftarrow> api (clock_now (st E));
            let annotations = JObj [(''metadata'', JObj [(''annotations'',
                  JObj [(''updateTimeStamp'', JStr (fmt_rfc3339 E (ts 0)))])])];
            case mergo_merge E template annotations of
              (Some err, _) \<Rightarrow> ret (Some err, obj)
            | (None, template') \<Rightarrow>
                (case set_nested_field E (u_body obj) template' [''spec'', ''template''] of
                   (err, body) \<Rightarrow> ret (err, obj\<lparr>u_body := body\<rparr>))
          })"

definition note_resource :: "shared_info \<Rightarrow> unstructured \<Rightarrow> shared_info" where
  "note_resource si obj =
     (if u_name obj = NsxNodeAgentDsName then si\<lparr>si_NsxNodeAgentDsSpec := Some obj\<rparr>
      else if u_name obj = NsxNcpBootstrapDsName then si\<lparr>si_NsxNcpBootstrapDsSpec := Some obj\<rparr>
      else if u_name obj = NsxNcpDeploymentName then si\<lparr>si_NsxNcpDeploymentSpec := Some obj\<rparr>
      else si)"

definition updateSharedInfoWithNsxNcpResources ::
  "unstructured list \<Rightarrow> ('w operator, unit) state" where
  "updateSharedInfoWithNsxNcpResources objs =
     modify (\<lambda>s. s\<lparr>sharedInfo := foldl note_resource (sharedInfo s) objs\<rparr>)"

section \<open>The two adaptors\<close>

definition newReconciler_configmap :: "shared_info \<Rightarrow> adaptor" where
  "newReconciler_configmap si = adaptor_for (si_AdaptorName si)"

fun FillDefaults ::
  "adaptor \<Rightarrow> 'f ini_lib \<Rightarrow> configmap \<Rightarrow> network \<Rightarrow> go_error option \<times> configmap" where
  "FillDefaults AdaptorK8s L cm spec = FillDefaults_K8s L cm spec"
| "FillDefaults AdaptorOc L cm spec = FillDefaults_Oc L cm spec"

fun validateConfigMap ::
  "adaptor \<Rightarrow> 'f ini_lib \<Rightarrow> ((string \<times> string list) list \<Rightarrow> (string \<times> string list) list) \<Rightarrow> configmap
   \<Rightarrow> go_error + go_error list \<times> configmap" where
  "validateConfigMap AdaptorK8s L order cm = validateConfigMap_K8s L order cm"
| "validateConfigMap AdaptorOc L order cm = validateConfigMap_Oc L order cm"

fun validateClusterNetwork :: "adaptor \<Rightarrow> network \<Rightarrow> go_error list" where
  "validateClusterNetwork AdaptorK8s spec = validateClusterNetwork_K8s spec"
| "validateClusterNetwork AdaptorOc spec = validateClusterNetwork_Oc spec"

fun HasNetworkConfigChange :: "adaptor \<Rightarrow> network \<Rightarrow> network \<Rightarrow> bool" where
  "HasNetworkConfigChange AdaptorK8s cur prev = HasNetworkConfigChange_K8s cur prev"
| "HasNetworkConfigChange AdaptorOc cur prev = HasNetworkConfigChange_Oc cur prev"

fun setControllerReference ::
  "adaptor \<Rightarrow> 'w cluster_api \<Rightarrow> network \<Rightarrow> unstructured \<Rightarrow> go_error option \<times> unstructured" where
  "setControllerReference AdaptorK8s E net obj = (None, obj)"
| "setControllerReference AdaptorOc E net obj = set_owner E net obj"

definition zero_network :: network where
  "zero_network =
     \<lparr>net_serviceNetwork = [], net_clusterNetwork = [], net_networkType = [],
      net_status_serviceNetwork = [], net_status_clusterNetwork = [],
      net_status_networkType = [], net_status_clusterNetworkMTU = 0\<rparr>"

fun getNetworkConfig :: "adaptor \<Rightarrow> 'w cluster_api \<Rightarrow> ('w operator, go_error + network) state" where
  "getNetworkConfig AdaptorK8s E = ret (Inr zero_network)"
| "getNetworkConfig AdaptorOc E = api (get_network E NetworkCRDName)"

text \<open>A panic of the validation (\<open>Inl\<close>) is not one of its errors.\<close>

definition Validate ::
  "adaptor \<Rightarrow> 'f ini_lib \<Rightarrow> ((string \<times> string list) list \<Rightarrow> (string \<times> string list) list) \<Rightarrow> configmap
   \<Rightarrow> network \<Rightarrow> go_error + go_error option \<times> configmap" where
  "Validate A L order cm spec =
     (case validateConfigMap A L order cm of
        Inl p \<Rightarrow> Inl p
      | Inr (errs, cm) \<Rightarrow>
          (let errs = errs @ validateClusterNetwork A spec in
           if length errs > 0
           then Inr (Some (GoError (''invalid configuration: '' @ quote_errors errs)), cm)
           else Inr (None, cm)))"

end
