(* ===== verification/ConfigMap_Reconcile.thy ===== *)
theory ConfigMap_Reconcile
  imports ConfigMap_Controller
begin

text \<open>
  \<open>Reconcile\<close> of the ConfigMap controller. The steps follow the handler from top to bottom:
  the guard on the request, the reads with their degraded reports, the completion and
  validation of the configuration, rendering, the update of the shared state, the decision
  whether anything must be applied, the loop that applies the objects, and the end. A panic
  ends the handler with its error and no requeue result.
\<close>

section \<open>Reading the inputs\<close>

text \<open>The requests the handler goes on with.\<close>

definition accepts_request :: "string \<Rightarrow> request \<Rightarrow> bool" where
  "accepts_request watched req \<longleftrightarrow>
     (if req_namespace req = watched
      then req_name req = ConfigMapName \<or> req_name req = NcpInstallCRDName
           \<or> req_name req = NsxSecret \<or> req_name req = LbSecret
      else req_namespace req = [] \<and>
           (req_name req = NetworkCRDName \<or> req_name req = OperatorRoleName))"

definition done_with :: "go_error option \<Rightarrow> outcome" where
  "done_with err = (emptyResult, err)"

definition retry_with :: "go_error \<Rightarrow> outcome" where
  "retry_with e = (if is_panic e then emptyResult else requeue, Some e)"

definition fetch_ncpinstall ::
  "'w cluster_api \<Rightarrow> string \<Rightarrow> ('w operator, outcome + ncpinstall) state" where
  "fetch_ncpinstall E watched = do {
     r \<leftarrow> api (get_ncpinstall (st E) (nsn watched NcpInstallCRDName));
     case r of
       Inr crd \<Rightarrow> go_on crd
     | Inl e \<Rightarrow>
         if is_not_found e then do {
           SetDegraded (st E) OperatorConfig ''NoNcpInstallCRD''
             (NcpInstallCRDName @ '' CRD is not found'');
           stop (done_with None)
         }
         else do {
           SetDegraded (st E) OperatorConfig ''InvalidNcpInstallCRD''
             (''Failed to get operator CRD: '' @ err_text e);
           stop (requeue, Some e)
         }
   }"

definition sync_add_node_tag :: "'w cluster_api \<Rightarrow> bool \<Rightarrow> ('w operator, unit) state" where
  "sync_add_node_tag E addNodeTag = do {
     old \<leftarrow> gets (\<lambda>s. si_AddNodeTag (sharedInfo s));
     if addNodeTag \<noteq> old then do {
       (if \<not> addNodeTag then SetFromNodes (st E) [] else ret ());
       modify (\<lambda>s. s\<lparr>sharedInfo := (sharedInfo s)\<lparr>si_AddNodeTag := addNodeTag\<rparr>\<rparr>)
     }
     else ret ()
   }"

definition fetch_instance ::
  "'w cluster_api \<Rightarrow> string \<Rightarrow> ('w operator, outcome + configmap) state" where
  "fetch_instance E watched = do {
     r \<leftarrow> api (get_configmap E (nsn watched ConfigMapName));
     case r of
       Inr cm \<Rightarrow> go_on cm
     | Inl e \<Rightarrow>
         if is_not_found e then do {
           SetDegraded (st E) OperatorConfig ''NoOperatorConfig''
             (ConfigMapName @ '' ConfigMap is not found'');
           stop (done_with None)
         }
         else do {
           SetDegraded (st E) OperatorConfig ''InvalidOperatorConfig''
             (''Failed to get operator ConfigMap: '' @ err_text e);
           stop (requeue, Some e)
         }
   }"

definition fetch_network ::
  "'w cluster_api \<Rightarrow> adaptor \<Rightarrow> ('w operator, outcome + network) state" where
  "fetch_network E A = do {
     r \<leftarrow> getNetworkConfig A E;
     case r of
       Inr net \<Rightarrow> go_on net
     | Inl e \<Rightarrow>
         if is_not_found e then do {
           SetDegraded (st E) ClusterConfig ''NoClusterConfig'' ''Cluster network CRD is not found'';
           stop (done_with None)
         }
         else do {
           SetDegraded (st E) ClusterConfig ''InvalidClusterConfig''
             (''Failed to get cluster network CRD: '' @ err_text e);
           stop (requeue, Some e)
         }
   }"

section \<open>Completing the configuration\<close>

text \<open>\<open>order\<close> is the iteration order of the tables of unsupported options.\<close>

type_synonym map_order = "(string \<times> string list) list \<Rightarrow> (string \<times> string list) list"

definition complete_config ::
  "'w cluster_api \<Rightarrow> 'f ini_lib \<Rightarrow> map_order \<Rightarrow> adaptor \<Rightarrow> configmap \<Rightarrow> network
   \<Rightarrow> ('w operator, outcome + configmap) state" where
  "complete_config E L order A cm net =
     (case FillDefaults A L cm net of
        (Some err, cm) \<Rightarrow> do {
          SetDegraded (st E) OperatorConfig ''FillDefaultsError''
            (''Failed to fill default configurations: '' @ err_text err);
          stop (done_with (Some err))
        }
      | (None, cm) \<Rightarrow>
          (case Validate A L order cm net of
             Inl p \<Rightarrow> stop (done_with (Some p))
           | Inr (Some err, cm) \<Rightarrow> do {
               SetDegraded (st E) OperatorConfig ''InvalidOperatorConfig''
                 (''The operator configuration is invalid: '' @ err_text err);
               stop (done_with (Some err))
             }
           | Inr (None, cm) \<Rightarrow> go_on cm))"

text \<open>A secret of the operator and the options it adds to the ConfigMap.\<close>

definition fetch_secret ::
  "'w cluster_api \<Rightarrow> string \<Rightarrow> string
   \<Rightarrow> (configmap \<Rightarrow> secret option \<Rightarrow> go_error option \<times> configmap) \<Rightarrow> configmap
   \<Rightarrow> ('w operator, outcome + secret option \<times> configmap) state" where
  "fetch_secret E watched name fill cm = do {
     r \<leftarrow> get_secret_or_nil E watched name;
     case r of
       Inl e \<Rightarrow> stop (done_with (Some e))
     | Inr None \<Rightarrow> go_on (None, cm)
     | Inr (Some sec) \<Rightarrow>
         (case fill cm (Some sec) of
            (Some err, cm) \<Rightarrow> stop (done_with (Some err))
          | (None, cm) \<Rightarrow> go_on (Some sec, cm))
   }"

text \<open>What the first half of the handler finds: the configuration and the objects to apply.\<close>

record cm_inputs =
  ci_replicas :: int
  ci_nodeSelector :: "(string \<times> string) list option"
  ci_ncpTolerations :: "toleration list option"
  ci_agentTolerations :: "toleration list option"
  ci_network :: network
  ci_instance :: configmap
  ci_nsxSecret :: "secret option"
  ci_lbSecret :: "secret option"
  ci_objs :: "unstructured list"

definition render_step ::
  "'w cluster_api \<Rightarrow> 'f ini_lib \<Rightarrow> ncpinstall \<Rightarrow> network \<Rightarrow> configmap \<Rightarrow> secret option
   \<Rightarrow> secret option \<Rightarrow> ('w operator, outcome + cm_inputs) state" where
  "render_step E L crd net cm nsxSecret lbSecret = do {
     r \<leftarrow> Render E L cm (ni_ncpReplicas crd) (Some (ni_nodeSelector crd))
            (Some (ni_ncpTolerations crd)) (Some (ni_agentTolerations crd)) nsxSecret lbSecret;
     case r of
       (Inl err, _, _) \<Rightarrow> do {
         SetDegraded (st E) OperatorConfig ''RenderConfigError''
           (''Failed to render operator configuration: '' @ err_text err);
         stop (done_with (Some err))
       }
     | (Inr objs, replicas, cm) \<Rightarrow>
         go_on \<lparr>ci_replicas = replicas, ci_nodeSelector = ni_nodeSelector crd,
                ci_ncpTolerations = ni_ncpTolerations crd,
                ci_agentTolerations = ni_agentTolerations crd, ci_network = net,
                ci_instance = cm, ci_nsxSecret = nsxSecret, ci_lbSecret = lbSecret,
                ci_objs = objs\<rparr>
   }"

definition read_inputs ::
  "'w cluster_api \<Rightarrow> 'f ini_lib \<Rightarrow> map_order \<Rightarrow> adaptor \<Rightarrow> string
   \<Rightarrow> ('w operator, outcome + cm_inputs) state" where
  "read_inputs E L order A watched =
     and_then (fetch_ncpinstall E watched) (\<lambda>crd.
     do { sync_add_node_tag E (ni_addNodeTag crd);
     and_then (fetch_instance E watched) (\<lambda>cm.
     and_then (fetch_network E A) (\<lambda>net.
     and_then (complete_config E L order A cm net) (\<lambda>cm.
     and_then (fetch_secret E watched NsxSecret (FillNsxAuthCfg L) cm) (\<lambda>(nsxSecret, cm).
     and_then (fetch_secret E watched LbSecret (FillLbCertCfg L) cm) (\<lambda>(lbSecret, cm).
     render_step E L crd net cm nsxSecret lbSecret))))) })"

section \<open>The shared state\<close>

definition share_inputs :: "cm_inputs \<Rightarrow> ('w operator, unit) state" where
  "share_inputs ci = do {
     updateSharedInfoWithNsxNcpResources (ci_objs ci);
     modify (\<lambda>s. s\<lparr>sharedInfo := (sharedInfo s)\<lparr>si_NetworkConfig := Some (ci_network ci),
       si_OperatorConfigMap := Some (ci_instance ci),
       si_OperatorNsxSecret := ci_nsxSecret ci\<rparr>\<rparr>)
   }"

definition get_configmap_or_nil ::
  "'w cluster_api \<Rightarrow> string \<Rightarrow> ('w operator, configmap option) state" where
  "get_configmap_or_nil E name = do {
     r \<leftarrow> api (get_configmap E (nsn NsxNamespace name));
     ret (case r of Inl e \<Rightarrow> None | Inr cm \<Rightarrow> Some cm)
   }"

text \<open>
  After a start the applied configuration is read back from the cluster. It is assigned before
  it is filled, so it stays there when filling fails.
\<close>

definition init_applied ::
  "'w cluster_api \<Rightarrow> 'f ini_lib \<Rightarrow> ('w operator, outcome + unit) state" where
  "init_applied E L = do {
     applied \<leftarrow> gets appliedConfigMap;
     if applied \<noteq> None then go_on ()
     else do {
       ncpConfigMap \<leftarrow> get_configmap_or_nil E NcpConfigMapName;
       agentConfigMap \<leftarrow> get_configmap_or_nil E NodeAgentConfigMapName;
       if ncpConfigMap \<noteq> None \<and> agentConfigMap \<noteq> None then
         (case GenerateOperatorConfigMap L \<lparr>cm_data = Some Map.empty\<rparr> ncpConfigMap agentConfigMap of
            (err, cm) \<Rightarrow> do {
              modify (\<lambda>s. s\<lparr>appliedConfigMap := Some cm\<rparr>);
              case err of
                None \<Rightarrow> go_on ()
              | Some e \<Rightarrow> do {
                  SetDegraded (st E) OperatorConfig ''InternalError''
                    (''Failed to generate operator ConfigMap: '' @ err_text e);
                  stop (done_with (Some e))
                }
            })
       else go_on ()
     }
   }"

section \<open>The decision\<close>

text \<open>Both halves of the handler end with these reports.\<close>

definition finish ::
  "'w cluster_api \<Rightarrow> 'f ini_lib \<Rightarrow> cm_inputs \<Rightarrow> bool \<Rightarrow> ('w operator, outcome) state" where
  "finish E L ci networkConfigChanged = do {
     err \<leftarrow> (if networkConfigChanged
             then updateNetworkStatus E L (ci_network ci) (ci_instance ci) else ret None);
     case err of
       Some e \<Rightarrow> do {
         SetDegraded (st E) ClusterConfig ''UpdateNetworkStatusError''
           (''Failed to update network status: '' @ err_text e);
         ret (done_with (Some e))
       }
     | None \<Rightarrow> do {
         SetNotDegraded (st E) ClusterConfig;
         SetNotDegraded (st E) OperatorConfig;
         ret (done_with None)
       }
   }"

definition network_changed ::
  "'f ini_lib \<Rightarrow> adaptor \<Rightarrow> cm_inputs \<Rightarrow> network option \<Rightarrow> configmap option \<Rightarrow> bool" where
  "network_changed L A ci prev applied =
     (case prev of
        None \<Rightarrow> True
      | Some p \<Rightarrow>
          HasNetworkConfigChange A (ci_network ci) p
          \<or> IsMTUChanged L (Some (ci_instance ci)) applied)"

text \<open>
  The comparisons with the applied configuration and the cluster: the handler ends, or must
  apply the objects, with the pods to restart and whether the network status is to be written.
\<close>

definition check_unchanged ::
  "'w cluster_api \<Rightarrow> 'f ini_lib \<Rightarrow> cm_inputs \<Rightarrow> bool \<Rightarrow> bool
   \<Rightarrow> ('w operator, outcome + unit) state" where
  "check_unchanged E L ci networkConfigChanged nsxNodeAgentDsChanged = do {
     r \<leftarrow> isAnyMonitoredNCPResDeleted E;
     case r of
       Inl e \<Rightarrow> stop (retry_with e)
     | Inr deleted \<Rightarrow>
         if deleted then go_on ()
         else do {
           r \<leftarrow> isNcpDeploymentChanged E (ci_replicas ci) (ci_nodeSelector ci) (ci_ncpTolerations ci);
           case r of
             Inl e \<Rightarrow> stop (retry_with e)
           | Inr ncpDeploymentChanged \<Rightarrow>
               if \<not> ncpDeploymentChanged \<and> \<not> nsxNodeAgentDsChanged
               then do { out \<leftarrow> finish E L ci networkConfigChanged; stop out }
               else go_on ()
         }
   }"

definition decide ::
  "'w cluster_api \<Rightarrow> 'f ini_lib \<Rightarrow> adaptor \<Rightarrow> cm_inputs
   \<Rightarrow> ('w operator, outcome + podNeedChange \<times> bool) state" where
  "decide E L A ci = do {
     applied \<leftarrow> gets appliedConfigMap;
     prev \<leftarrow> gets (\<lambda>s. si_NetworkConfig (sharedInfo s));
     let networkConfigChanged = network_changed L A ci prev applied;
     case NeedApplyChange L (ci_instance ci) applied of
       (_, Some e) \<Rightarrow> stop (done_with (Some e))
     | (needChange, None) \<Rightarrow> do {
         sec \<leftarrow> (if pnc_ncp needChange then ret (True, None)
                 else isSecretChanged E (ci_nsxSecret ci) (ci_lbSecret ci));
         case sec of
           (_, Some e) \<Rightarrow> stop (requeue, Some e)
         | (ncp, None) \<Rightarrow> do {
             let needChange = needChange\<lparr>pnc_ncp := ncp\<rparr>;
             r \<leftarrow> isNsxNodeAgentDsChanged E (ci_agentTolerations ci);
             case r of
               Inl e \<Rightarrow> stop (requeue, Some e)
             | Inr nsxNodeAgentDsChanged \<Rightarrow>
                 and_then
                   (if \<not> pnc_ncp needChange \<and> \<not> pnc_agent needChange \<and> \<not> pnc_bootstrap needChange
                    then check_unchanged E L ci networkConfigChanged nsxNodeAgentDsChanged
                    else go_on ())
                   (\<lambda>_. go_on (needChange, networkConfigChanged))
           }
       }
   }"

section \<open>Applying\<close>

definition in_nsx :: "string \<Rightarrow> unstructured \<Rightarrow> bool" where
  "in_nsx name obj \<longleftrightarrow> u_name obj = name \<and> u_namespace obj = NsxNamespace"

text \<open>A restart is asked for by a new annotation in the template of the workload.\<close>

definition patch_if ::
  "'w cluster_api \<Rightarrow> bool \<Rightarrow> string \<Rightarrow> string \<Rightarrow> string \<Rightarrow> unstructured
   \<Rightarrow> ('w operator, outcome + unstructured) state" where
  "patch_if E need name kind reason obj =
     (if need \<and> in_nsx name obj then do {
        r \<leftarrow> patchObjSpecAnnotations E obj;
        case r of
          (None, obj) \<Rightarrow> go_on obj
        | (Some err, _) \<Rightarrow> do {
            SetDegraded (st E) OperatorConfig reason
              (kind @ '' '' @ name @ '' is not using the latest configuration updates because: '' @
               err_text err);
            stop (done_with (Some err))
          }
      }
      else go_on obj)"

definition gvk_path :: "'w cluster_api \<Rightarrow> unstructured \<Rightarrow> string" where
  "gvk_path E obj = ''('' @ fmt_gvk E obj @ '') '' @ u_namespace obj @ ''/'' @ u_name obj"

text \<open>The three patches of an object, in the order of the code.\<close>

definition patch_all ::
  "'w cluster_api \<Rightarrow> bool \<Rightarrow> podNeedChange \<Rightarrow> unstructured
   \<Rightarrow> ('w operator, outcome + unstructured) state" where
  "patch_all E known need obj =
     and_then (patch_if E (known \<and> pnc_ncp need) NsxNcpDeploymentName
                 ''Deployment'' ''patchDeploySpecError'' obj) (\<lambda>obj.
     and_then (patch_if E (known \<and> pnc_agent need) NsxNodeAgentDsName
                 ''DaemonSet'' ''patchDaemonSetSpecError'' obj) (\<lambda>obj.
     patch_if E (known \<and> pnc_bootstrap need) NsxNcpBootstrapDsName
                 ''DaemonSet'' ''patchDaemonSetSpecError'' obj))"

definition apply_one ::
  "'w cluster_api \<Rightarrow> adaptor \<Rightarrow> network \<Rightarrow> podNeedChange \<Rightarrow> unstructured
   \<Rightarrow> ('w operator, outcome option) state" where
  "apply_one E A net need obj =
     (if length (u_name obj) = 0 then ret None
      else case setControllerReference A E net obj of
        (Some err, obj') \<Rightarrow>
          (let err = wrapf err (''could not set reference for '' @ gvk_path E obj') in do {
             SetDegraded (st E) OperatorConfig ''ApplyObjectsError''
               (''Failed to apply objects: '' @ err_text err);
             ret (Some (done_with (Some err)))
           })
      | (None, obj) \<Rightarrow> do {
          applied \<leftarrow> gets appliedConfigMap;
          r \<leftarrow> patch_all E (applied \<noteq> None) need obj;
          case r of
            Inl out \<Rightarrow> ret (Some out)
          | Inr obj \<Rightarrow> do {
              psp \<leftarrow> gets (\<lambda>s. si_PodSecurityPolicySupport (sharedInfo s));
              if u_kind obj = ''PodSecurityPolicy'' \<and> \<not> psp then ret None
              else do {
                e \<leftarrow> api (apply_object E obj);
                case e of
                  None \<Rightarrow> ret None
                | Some err \<Rightarrow> do {
                    SetDegraded (st E) OperatorConfig ''ApplyOperatorConfig''
                      (''Failed to apply operator configuration: '' @ err_text err);
                    ret (Some (done_with (Some err)))
                  }
              }
            }
        })"

definition apply_objects ::
  "'w cluster_api \<Rightarrow> adaptor \<Rightarrow> network \<Rightarrow> podNeedChange \<Rightarrow> unstructured list
   \<Rightarrow> ('w operator, outcome option) state" where
  "apply_objects E A net need objs = for_each (apply_one E A net need) objs"

definition apply_and_finish ::
  "'w cluster_api \<Rightarrow> 'f ini_lib \<Rightarrow> adaptor \<Rightarrow> cm_inputs \<Rightarrow> podNeedChange \<times> bool
   \<Rightarrow> ('w operator, outcome) state" where
  "apply_and_finish E L A ci d = (case d of (need, networkConfigChanged) \<Rightarrow> do {
     r \<leftarrow> apply_objects E A (ci_network ci) need (ci_objs ci);
     case r of
       Some out \<Rightarrow> ret out
     | None \<Rightarrow> do {
         modify (\<lambda>s. s\<lparr>appliedConfigMap := Some (ci_instance ci)\<rparr>);
         finish E L ci networkConfigChanged
       }
   })"

section \<open>The handler\<close>

definition Reconcile_configmap ::
  "'w cluster_api \<Rightarrow> 'f ini_lib \<Rightarrow> map_order \<Rightarrow> adaptor \<Rightarrow> request \<Rightarrow> ('w operator, outcome) state"
where
  "Reconcile_configmap E L order A req = do {
     watched \<leftarrow> gets (\<lambda>s. watched_namespace (sm_OperatorNamespace (status s)));
     if \<not> accepts_request watched req then ret (done_with None)
     else
       or_return (read_inputs E L order A watched) (\<lambda>ci. do {
         share_inputs ci;
         or_return (init_applied E L) (\<lambda>_.
         or_return (decide E L A ci) (apply_and_finish E L A ci))
       })
   }"

end
