(* ===== verification/Quiet_Calls.thy ===== *)
theory Quiet_Calls
  imports ConfigMap_Reconcile
begin

text \<open>
  Views of the outside world that the calls leave alone. \<open>quiet_status\<close> collects the calls of
  the status manager, \<open>quiet_calls\<close> those of the controllers other than the writes of objects;
  \<open>apply_log\<close> adds the log of the objects whose application the server has confirmed. Inside
  the locales every operation built from such calls keeps the view.
\<close>

abbreviation view_of :: "('w \<Rightarrow> 'v) \<Rightarrow> 'w operator \<Rightarrow> 'v" where
  "view_of V \<equiv> (\<lambda>s. V (world s))"

lemma keeps_api_view:
  "(\<And>w. V (snd (f w)) = V w) \<Longrightarrow> keeps (view_of V) (api f)"
  by (auto simp: keeps_def split: prod.splits) (metis snd_conv)

lemma keeps_on_world:
  assumes "keeps (view_of V) m"
  shows "V (snd (on_world m s w)) = V w"
proof -
  obtain r s' where run: "run_state m (s\<lparr>world := w\<rparr>) = (r, s')" by force
  from keepsD [OF assms run] run show ?thesis by (simp add: on_world_def)
qed

locale quiet_status =
  fixes S :: "'w status_api" and V :: "'w \<Rightarrow> 'v"
  assumes q_get_ncpinstall: "V (snd (get_ncpinstall S k w)) = V w"
    and q_update_ncpinstall: "V (snd (update_ncpinstall_status S c w)) = V w"
    and q_get_co: "V (snd (get_clusteroperator S n w)) = V w"
    and q_create_co: "V (snd (create_clusteroperator S co w)) = V w"
    and q_update_co: "V (snd (update_clusteroperator_status S co w)) = V w"
    and q_patch_co: "V (snd (patch_clusteroperator S co old w)) = V w"
    and q_get_daemonset: "V (snd (get_daemonset S k w)) = V w"
    and q_get_deployment: "V (snd (get_deployment S k w)) = V w"
    and q_retry: "(\<And>w. V (snd (f w)) = V w) \<Longrightarrow> V (snd (retry_on_conflict S f w)) = V w"
    and q_clock: "V (snd (clock_now S w)) = V w"
    and q_range_keys: "V (snd (range_keys S ks w)) = V w"
    and q_range_names: "V (snd (range_names S ns w)) = V w"
    and q_list_pods: "V (snd (list_pods S l w)) = V w"
    and q_get_pod: "V (snd (get_pod S k w)) = V w"
    and q_list_nodes: "V (snd (list_nodes S w)) = V w"
    and q_get_node: "V (snd (get_node S n w)) = V w"
    and q_update_node: "V (snd (update_node_status S nd w)) = V w"
begin

lemma quiet_api:
  "keeps (view_of V) (api (get_ncpinstall S k))"
  "keeps (view_of V) (api (update_ncpinstall_status S c))"
  "keeps (view_of V) (api (get_clusteroperator S n))"
  "keeps (view_of V) (api (create_clusteroperator S co))"
  "keeps (view_of V) (api (update_clusteroperator_status S co))"
  "keeps (view_of V) (api (patch_clusteroperator S co old))"
  "keeps (view_of V) (api (get_daemonset S k))"
  "keeps (view_of V) (api (get_deployment S k))"
  "keeps (view_of V) (api (clock_now S))"
  "keeps (view_of V) (api (range_keys S ks))"
  "keeps (view_of V) (api (range_names S ns))"
  "keeps (view_of V) (api (list_pods S l))"
  "keeps (view_of V) (api (get_pod S k))"
  "keeps (view_of V) (api (list_nodes S))"
  "keeps (view_of V) (api (get_node S n))"
  "keeps (view_of V) (api (update_node_status S nd))"
  by (rule keeps_api_view, rule q_get_ncpinstall q_update_ncpinstall q_get_co q_create_co
      q_update_co q_patch_co q_get_daemonset q_get_deployment q_clock q_range_keys
      q_range_names q_list_pods q_get_pod q_list_nodes q_get_node q_update_node)+

lemma quiet_setNcpInstall: "keeps (view_of V) (setNcpInstallCrdStatus S ns conds)"
  unfolding setNcpInstallCrdStatus_def by (intro keeps_rules quiet_api)

lemma quiet_set_Oc_write: "keeps (view_of V) (set_Oc_write S r conds sm nf co)"
  unfolding set_Oc_write_def Let_def by (intro keeps_rules quiet_api quiet_setNcpInstall)

lemma quiet_set_retried:
  assumes "\<And>r cs. keeps (view_of V) (closure r cs)"
  shows "keeps (view_of V) (set_retried S closure r cs)"
  unfolding set_retried_def
  by (intro keeps_rules keeps_api_view q_retry keeps_on_world assms)

lemma quiet_closures:
  "keeps (view_of V) (set_closure_K8s S r cs)" "keeps (view_of V) (set_closure_Oc S r cs)"
  unfolding set_closure_K8s_def set_closure_Oc_def Let_def
  by (intro keeps_rules quiet_api quiet_setNcpInstall quiet_set_Oc_write)+

lemma quiet_set_status: "keeps (view_of V) (set_status S r cs)"
proof -
  have "keeps (view_of V) (set_K8s S r cs)" "keeps (view_of V) (set_Oc S r cs)"
    unfolding set_K8s_def set_Oc_def by (intro keeps_rules quiet_set_retried quiet_closures)+
  then show ?thesis
    unfolding set_status_def by (intro keeps_rules) (simp split: adaptor.split)
qed

lemma quiet_setConditions: "keeps (view_of V) (setConditions S p r)"
  by (simp add: setConditions_def Let_def quiet_set_status)

lemma quiet_syncDegraded: "keeps (view_of V) (syncDegraded S)"
proof -
  have "keeps (view_of V) (sync_loop S ls)" for ls
    by (induction ls) (auto intro!: keeps_rules quiet_set_status)
  then show ?thesis by (simp add: syncDegraded_def)
qed

lemma quiet_SetDegraded: "keeps (view_of V) (SetDegraded S l r m)"
  unfolding SetDegraded_def setDegraded_def by (intro keeps_rules quiet_syncDegraded) simp

lemma quiet_SetNotDegraded: "keeps (view_of V) (SetNotDegraded S l)"
  unfolding SetNotDegraded_def setNotDegraded_def by (intro keeps_rules quiet_syncDegraded) simp

lemma quiet_SetFromNodes: "keeps (view_of V) (SetFromNodes S cache)"
  unfolding SetFromNodes_def
  by (intro keeps_rules quiet_api quiet_SetDegraded [unfolded SetDegraded_def]
      quiet_SetNotDegraded [unfolded SetNotDegraded_def])

lemma quiet_node_ops:
  "keeps (view_of V) (setNodeNetworkUnavailable S n ready t r m)"
  unfolding setNodeNetworkUnavailable_def update_and_assert_def updateNodeStatus_def
    combineNode_def assertNodeStatus_def Let_def
  by (intro keeps_rules quiet_api)

lemma quiet_setNodeConditionFromPod: "keeps (view_of V) (setNodeConditionFromPod S k pd)"
  unfolding setNodeConditionFromPod_def node_condition_of_pod_def Let_def
  by (intro keeps_rules quiet_api quiet_node_ops) simp_all

lemma quiet_CheckExistingAgentPods: "keeps (view_of V) (CheckExistingAgentPods S)"
  unfolding CheckExistingAgentPods_def
  by (intro keeps_rules quiet_api quiet_node_ops quiet_setNodeConditionFromPod) simp_all

lemma quiet_fold_state:
  "(\<And>x acc. keeps (view_of V) (f x acc)) \<Longrightarrow> keeps (view_of V) (fold_state f xs acc)"
  by (induction xs arbitrary: acc) (auto intro!: keeps_rules)

lemma quiet_survey: "keeps (view_of V) (survey_rollouts S)"
  unfolding survey_rollouts_def getLastPodState_def getLastPodState_Oc_def getLastPodState_K8s_def
    ds_step_def dep_step_def Let_def
  by (intro keeps_rules quiet_api quiet_fold_state) (simp_all split: adaptor.split,
    auto intro!: keeps_rules quiet_api)

lemma quiet_setLastPodState: "keeps (view_of V) (setLastPodState S d e)"
proof -
  have "V (snd (patch_last_seen S n b w)) = V w" for n b w
    using q_get_co [of n w] q_patch_co
    by (auto simp: patch_last_seen_def split: prod.splits sum.splits)
  then have "keeps (view_of V) (setLastPodState_Oc S d e)"
    unfolding setLastPodState_Oc_def by (intro keeps_rules quiet_api keeps_api_view q_retry)
  then show ?thesis
    unfolding setLastPodState_def setLastPodState_K8s_def
    by (intro keeps_rules) (simp add: keeps_ret split: adaptor.split)
qed

lemma quiet_SetFromPodsForOverall: "keeps (view_of V) (SetFromPodsForOverall S)"
  unfolding SetFromPodsForOverall_def
  by (intro keeps_rules quiet_survey quiet_setLastPodState quiet_setConditions
      quiet_SetDegraded [unfolded SetDegraded_def] quiet_SetNotDegraded [unfolded SetNotDegraded_def])

lemma quiet_CheckIfExists: "keeps (view_of V) (CheckIfNCPK8sResourceExists S name)"
  unfolding CheckIfNCPK8sResourceExists_def Let_def
  by (auto split: sum.splits res_kind.splits intro!: keeps_rules quiet_api)

lemmas quiet_ops = quiet_api quiet_SetDegraded quiet_SetNotDegraded quiet_SetFromNodes
  quiet_CheckIfExists quiet_setConditions quiet_CheckExistingAgentPods
  quiet_setNodeConditionFromPod quiet_SetFromPodsForOverall

end

locale quiet_calls = quiet_status "st E" V
  for E :: "'w cluster_api" and V :: "'w \<Rightarrow> 'v" +
  assumes q_get_configmap: "V (snd (get_configmap E k w)) = V w"
    and q_get_secret: "V (snd (get_secret E k w)) = V w"
    and q_get_network: "V (snd (get_network E n w)) = V w"
    and q_read_file: "V (snd (read_file E p w)) = V w"
    and q_open: "V (snd (open_and_read E p w)) = V w"
    and q_walk: "V (snd (walk_dir E p w)) = V w"
    and q_logs: "V (snd (container_logs E pd c w)) = V w"
    and q_delete_pod: "V (snd (delete_pod E pd w)) = V w"
begin

lemma quiet_reads:
  "keeps (view_of V) (api (get_configmap E k))"
  "keeps (view_of V) (api (get_secret E k))"
  "keeps (view_of V) (api (get_network E n))"
  "keeps (view_of V) (api (read_file E p))"
  "keeps (view_of V) (api (open_and_read E p))"
  "keeps (view_of V) (api (walk_dir E p))"
  "keeps (view_of V) (api (container_logs E pd c))"
  "keeps (view_of V) (api (delete_pod E pd))"
  by (rule keeps_api_view, rule q_get_configmap q_get_secret q_get_network q_read_file q_open
      q_walk q_logs q_delete_pod)+

lemma quiet_secret_or_nil: "keeps (view_of V) (get_secret_or_nil E ns n)"
  unfolding get_secret_or_nil_def by (intro keeps_rules quiet_reads)

lemma quiet_configmap_or_nil: "keeps (view_of V) (get_configmap_or_nil E n)"
  unfolding get_configmap_or_nil_def by (intro keeps_rules quiet_reads)

lemma quiet_getNetworkConfig: "keeps (view_of V) (getNetworkConfig A E)"
  by (cases A) (auto intro: keeps_rules quiet_reads)

lemma quiet_fetch:
  "keeps (view_of V) (fetch_ncpinstall E watched)"
  "keeps (view_of V) (fetch_instance E watched)"
  "keeps (view_of V) (fetch_network E A)"
  "keeps (view_of V) (fetch_secret E watched name fill cm)"
  unfolding fetch_ncpinstall_def fetch_instance_def fetch_network_def fetch_secret_def
  by (intro keeps_rules quiet_ops quiet_reads quiet_getNetworkConfig quiet_secret_or_nil)+

lemma quiet_sync_add_node_tag: "keeps (view_of V) (sync_add_node_tag E b)"
  unfolding sync_add_node_tag_def by (intro keeps_rules quiet_ops) auto

lemma quiet_complete_config: "keeps (view_of V) (complete_config E L order A cm net)"
  unfolding complete_config_def by (intro keeps_rules quiet_ops)

lemma quiet_render_step: "keeps (view_of V) (render_step E L crd net cm ns ls)"
  unfolding render_step_def
  by (intro keeps_rules quiet_ops keeps_Render quiet_reads)

lemma quiet_read_inputs: "keeps (view_of V) (read_inputs E L order A watched)"
  unfolding read_inputs_def
  by (intro keeps_rules quiet_fetch quiet_sync_add_node_tag quiet_complete_config
      quiet_render_step)

lemma quiet_share_inputs: "keeps (view_of V) (share_inputs ci)"
  unfolding share_inputs_def updateSharedInfoWithNsxNcpResources_def
  by (intro keeps_rules) auto

lemma quiet_init_applied: "keeps (view_of V) (init_applied E L)"
  unfolding init_applied_def
  by (intro keeps_rules quiet_ops quiet_configmap_or_nil) auto

lemma quiet_comparisons:
  "keeps (view_of V) (isSecretChanged E ns ls)"
  "keeps (view_of V) (isNsxNodeAgentDsChanged E tol)"
  "keeps (view_of V) (isNcpDeploymentChanged E n sel tol)"
  unfolding isSecretChanged_def isNsxNodeAgentDsChanged_def isNcpDeploymentChanged_def
  by (intro keeps_rules quiet_secret_or_nil quiet_ops)+

lemma quiet_any_deleted: "keeps (view_of V) (isAnyMonitoredNCPResDeleted E)"
proof -
  have "keeps (view_of V) (any_deleted_loop E names)" for names
    by (induction names) (auto intro!: keeps_rules quiet_ops)
  then show ?thesis unfolding isAnyMonitoredNCPResDeleted_def .
qed

end

end
