(* ===== verification/ConfigMap_Facts.thy ===== *)
theory ConfigMap_Facts
  imports Quiet_Calls
begin

text \<open>
  What a reconciliation of the ConfigMap controller applies to the cluster, and when. The
  locale \<open>apply_log\<close> gives every confirmed application to a log; inside it, the loop applies a
  prefix of the wanted objects in their order, and the handler applies nothing before the
  configuration was completed, validated and rendered.
\<close>

section \<open>What reports leave alone\<close>

text \<open>The operator's own state, apart from the status manager.\<close>

definition ctrl :: "'w operator \<Rightarrow>
    shared_info \<times> bool \<times> (string \<times> node_status) list \<times> configmap option" where
  "ctrl s = (sharedInfo s, firstBoot s, cachedNodeSet s, appliedConfigMap s)"

lemma ctrl_world [simp]: "ctrl (s\<lparr>world := w\<rparr>) = ctrl s"
  by (simp add: ctrl_def)

lemma ctrl_status [simp]: "ctrl (s\<lparr>status := m\<rparr>) = ctrl s"
  by (simp add: ctrl_def)

lemma ctrl_local: "local_state s' = local_state s \<Longrightarrow> ctrl s' = ctrl s"
  by (simp add: local_state_def ctrl_def)

lemma keeps_ctrl_reports [frame]:
  "keeps ctrl (SetDegraded S l r m)" "keeps ctrl (SetNotDegraded S l)"
proof -
  have "keeps ctrl (syncDegraded S)"
    using keeps_syncDegraded [of S] by (auto simp: keeps_def intro: ctrl_local)
  then show "keeps ctrl (SetDegraded S l r m)" "keeps ctrl (SetNotDegraded S l)"
    unfolding SetDegraded_def SetNotDegraded_def setDegraded_def setNotDegraded_def
    by (intro keeps_rules; simp)+
qed

lemma keeps_ctrl_patch [frame]: "keeps ctrl (patchObjSpecAnnotations E obj)"
  unfolding patchObjSpecAnnotations_def Let_def by (intro keeps_rules; simp)

lemma keeps_ctrl_patch_if [frame]: "keeps ctrl (patch_if E need name kind reason obj)"
  unfolding patch_if_def by (intro keeps_rules frame)

lemma keeps_ctrl_apply_one [frame]: "keeps ctrl (apply_one E A net need obj)"
  unfolding apply_one_def patch_all_def patch_if_def Let_def by (intro keeps_rules frame; simp)

lemma keeps_ctrl_apply_objects [frame]: "keeps ctrl (apply_objects E A net need objs)"
  unfolding apply_objects_def by (intro keeps_rules frame)

abbreviation psp_of :: "'w operator \<Rightarrow> bool" where
  "psp_of s \<equiv> si_PodSecurityPolicySupport (sharedInfo s)"

section \<open>The interface\<close>

definition ident :: "unstructured \<Rightarrow> string \<times> string \<times> string" where
  "ident u = (u_kind u, u_namespace u, u_name u)"

lemma ident_body [simp]: "ident (u\<lparr>u_body := b\<rparr>) = ident u"
  by (simp add: ident_def)

text \<open>The objects that are applied when the loop runs to its end.\<close>

definition wanted :: "bool \<Rightarrow> unstructured \<Rightarrow> bool" where
  "wanted psp u \<longleftrightarrow> u_name u \<noteq> [] \<and> (u_kind u = ''PodSecurityPolicy'' \<longrightarrow> psp)"

text \<open>How far the loop came: a prefix of the wanted objects, all of them without an error.\<close>

definition applied_upto ::
  "outcome option \<Rightarrow> (string \<times> string \<times> string) list \<Rightarrow> unstructured list \<Rightarrow> unstructured list \<Rightarrow> bool"
where
  "applied_upto r ids before after \<longleftrightarrow>
     (\<exists>new. after = before @ new \<and> prefix (map ident new) ids
        \<and> (case r of None \<Rightarrow> map ident new = ids | Some out \<Rightarrow> \<exists>e. out = done_with (Some e)))"

lemma applied_upto_append:
  assumes "applied_upto None ids1 V1 V2" and "applied_upto r ids2 V2 V3"
  shows "applied_upto r (ids1 @ ids2) V1 V3"
proof -
  from assms(1) obtain new1 where new1: "V2 = V1 @ new1" "map ident new1 = ids1"
    by (auto simp: applied_upto_def)
  from assms(2) obtain new2 where new2: "V3 = V2 @ new2" "prefix (map ident new2) ids2"
    "case r of None \<Rightarrow> map ident new2 = ids2 | Some out \<Rightarrow> \<exists>e. out = done_with (Some e)"
    by (auto simp: applied_upto_def)
  from new1 new2 show ?thesis
    unfolding applied_upto_def by (intro exI [of _ "new1 @ new2"]) (auto split: option.splits)
qed

lemma applied_upto_stop:
  "applied_upto (Some out) ids1 V1 V2 \<Longrightarrow> applied_upto (Some out) (ids1 @ ids2) V1 V2"
  by (auto simp: applied_upto_def intro: prefix_prefix)

locale apply_log = quiet_calls E V for E :: "'w cluster_api" and V :: "'w \<Rightarrow> unstructured list" +
  assumes log_apply: "apply_object E obj w = (r, w') \<Longrightarrow> V w' = (if r = None then V w @ [obj] else V w)"
    and owner_ident: "set_owner E net obj = (err, obj') \<Longrightarrow> ident obj' = ident obj"
begin

section \<open>One object\<close>

lemma patch_ident:
  "run_state (patchObjSpecAnnotations E obj) s = ((err, obj'), s') \<Longrightarrow> ident obj' = ident obj"
  by (auto simp: patchObjSpecAnnotations_def Let_def split: sum.splits option.splits if_splits
      prod.splits)

lemma quiet_patch_if: "keeps (view_of V) (patch_if E need name kind reason obj)"
  unfolding patch_if_def patchObjSpecAnnotations_def Let_def by (intro keeps_rules quiet_ops)

lemma patch_if_cases:
  assumes "run_state (patch_if E need name kind reason obj) s = (r, s')"
  shows "(\<exists>obj'. r = Inr obj' \<and> ident obj' = ident obj) \<or> (\<exists>e. r = Inl (done_with (Some e)))"
  using assms
  by (auto simp: patch_if_def dest: patch_ident split: if_splits prod.splits option.splits)

text \<open>The log and the support of pod security policies, which a reconciliation reads.\<close>

abbreviation logged :: "unstructured list \<Rightarrow> bool \<Rightarrow> 'w operator \<Rightarrow> bool" where
  "logged l p s \<equiv> V (world s) = l \<and> psp_of s = p"

lemma keeps_logged:
  "keeps (view_of V) m \<Longrightarrow> keeps ctrl m \<Longrightarrow> run_state m s = (a, s') \<Longrightarrow> logged l p s \<Longrightarrow> logged l p s'"
  by (auto dest!: keepsD simp: ctrl_def)

lemma logged_quiet: "keeps (view_of V) m \<Longrightarrow> keeps ctrl m \<Longrightarrow> preserves (logged l p) m"
  by (rule preservesI) (rule keeps_logged)

lemma logged_reported: "yields (logged l p) (SetDegraded (st E) lev r m) (\<lambda>u. logged l p)"
  by (intro yields_preserves logged_quiet quiet_SetDegraded frame)

lemma logged_psp: "yields (logged l p) (gets psp_of) (\<lambda>x s. logged l p s \<and> x = p)"
  by (simp add: yields_def)

lemma logged_apply:
  "yields (logged l p) (api (apply_object E obj))
     (\<lambda>e s. logged (if e = None then l @ [obj] else l) p s)"
  by (auto simp: yields_def dest: log_apply split: prod.splits)

lemma logged_patch:
  "yields (logged l p) (patch_all E known need obj)
     (\<lambda>r s. logged l p s \<and> (case r of Inr obj' \<Rightarrow> ident obj' = ident obj | Inl out \<Rightarrow> \<exists>e. out = done_with (Some e)))"
proof (rule yieldsI)
  fix s r s' assume run: "run_state (patch_all E known need obj) s = (r, s')" and s: "logged l p s"
  have "keeps (view_of V) (patch_all E known need obj)" "keeps ctrl (patch_all E known need obj)"
    unfolding patch_all_def by (intro keeps_rules quiet_patch_if keeps_ctrl_patch_if)+
  from keeps_logged [OF this run s] have "logged l p s'" .
  moreover have "(\<exists>obj'. r = Inr obj' \<and> ident obj' = ident obj) \<or> (\<exists>e. r = Inl (done_with (Some e)))"
    using run unfolding patch_all_def by (elim and_then_cases) (auto dest!: patch_if_cases)
  ultimately show "logged l p s' \<and> (case r of Inr obj' \<Rightarrow> ident obj' = ident obj | Inl out \<Rightarrow> \<exists>e. out = done_with (Some e))"
    by auto
qed

text \<open>An object is applied, skipped, or ends the handler with an error and nothing applied.\<close>

lemma owner_cases:
  "setControllerReference A E net obj = (err, obj') \<Longrightarrow> ident obj' = ident obj"
  by (cases A) (auto dest: owner_ident)

lemma wanted_ident: "ident u = ident v \<Longrightarrow> wanted psp u = wanted psp v"
  by (simp add: ident_def wanted_def)

lemma apply_one_log:
  "yields (logged l p) (apply_one E A net need obj) (\<lambda>r s. psp_of s = p \<and>
     applied_upto r (map ident (filter (wanted p) [obj])) l (V (world s)))"
  unfolding apply_one_def Let_def
  by (intro yields_pure [OF logged_psp [of l p]] yields_pure [OF logged_patch [of l p]] yields_rules
        yields_call [OF logged_apply [of l p]] yields_call [OF logged_reported [of l p]])
     (auto simp: applied_upto_def wanted_def ident_def dest!: owner_cases)

section \<open>The loop\<close>

lemma apply_objects_upto:
  "yields (logged l p) (apply_objects E A net need objs) (\<lambda>r s. psp_of s = p \<and>
     applied_upto r (map ident (filter (wanted p) objs)) l (V (world s)))"
  unfolding apply_objects_def
proof (induction objs arbitrary: l)
  case Nil
  then show ?case by (auto simp: applied_upto_def intro!: yields_rules)
next
  case (Cons obj objs)
  let ?ids = "\<lambda>objs. map ident (filter (wanted p) objs)"
  have rest: "yields (\<lambda>s. psp_of s = p \<and> applied_upto None (?ids [obj]) l (V (world s)))
      (for_each (apply_one E A net need) objs)
      (\<lambda>r s. psp_of s = p \<and> applied_upto r (?ids [obj] @ ?ids objs) l (V (world s)))"
    using yieldsD [OF Cons.IH] applied_upto_append by (fastforce intro!: yieldsI)
  have "?ids (obj # objs) = ?ids [obj] @ ?ids objs" by simp
  then show ?case
    unfolding for_each.simps
    by (simp only:) (intro yields_rules yields_bind [OF apply_one_log] yields_conseq [OF rest];
      blast intro: applied_upto_stop)
qed

end

end
