(* ===== verification/ConfigMap_Outcomes.thy ===== *)
theory ConfigMap_Outcomes
  imports ConfigMap_Facts
begin

text \<open>
  The outcomes of a whole reconciliation: what was read and completed before the first
  application, how the handler ends, and which objects the log gains on each way through it.
\<close>

section \<open>The inputs\<close>

text \<open>How a ConfigMap that was read becomes the instance that is rendered.\<close>

definition with_secret ::
  "(configmap \<Rightarrow> secret option \<Rightarrow> go_error option \<times> configmap) \<Rightarrow> secret option \<Rightarrow> configmap
   \<Rightarrow> configmap \<Rightarrow> bool" where
  "with_secret fill sec cm cm' \<longleftrightarrow>
     (case sec of None \<Rightarrow> cm' = cm | Some s \<Rightarrow> fill cm (Some s) = (None, cm'))"

definition completed ::
  "'f ini_lib \<Rightarrow> map_order \<Rightarrow> adaptor \<Rightarrow> configmap \<Rightarrow> network \<Rightarrow> secret option \<Rightarrow> secret option
   \<Rightarrow> configmap \<Rightarrow> bool" where
  "completed L order A cm net nsxSecret lbSecret cm' \<longleftrightarrow>
     (\<exists>cm1 cm2 cm3 cm4. FillDefaults A L cm net = (None, cm1)
        \<and> Validate A L order cm1 net = Inr (None, cm2)
        \<and> with_secret (FillNsxAuthCfg L) nsxSecret cm2 cm3
        \<and> with_secret (FillLbCertCfg L) lbSecret cm3 cm4
        \<and> cm' = cm_init cm4)"

definition returned :: "('w \<Rightarrow> (go_error + 'r) \<times> 'w) \<Rightarrow> 'r \<Rightarrow> bool" where
  "returned call r \<longleftrightarrow> (\<exists>w w'. call w = (Inr r, w'))"

text \<open>In every world of a class \<open>I\<close> the call answers with \<open>r\<close> and stays in the class.\<close>

definition answers :: "('w \<Rightarrow> bool) \<Rightarrow> ('w \<Rightarrow> 'r \<times> 'w) \<Rightarrow> 'r \<Rightarrow> bool" where
  "answers I call r \<longleftrightarrow> (\<forall>w. I w \<longrightarrow> fst (call w) = r \<and> I (snd (call w)))"

lemma answersD: "answers I call r \<Longrightarrow> I w \<Longrightarrow> \<exists>w'. call w = (r, w') \<and> I w'"
  unfolding answers_def by (metis prod.collapse)

lemma run_api_Inr: "run_state (api f) s = (Inr r, s') \<Longrightarrow> returned f r"
  unfolding returned_def by (auto split: prod.splits)

lemma fetch_ncpinstall_Inr:
  "run_state (fetch_ncpinstall E watched) s = (Inr crd, s') \<Longrightarrow>
   returned (get_ncpinstall (st E) (nsn watched NcpInstallCRDName)) crd"
  by (auto simp: fetch_ncpinstall_def returned_def split: prod.splits sum.splits if_splits)

lemma fetch_instance_Inr:
  "run_state (fetch_instance E watched) s = (Inr cm, s') \<Longrightarrow>
   returned (get_configmap E (nsn watched ConfigMapName)) cm"
  by (auto simp: fetch_instance_def returned_def split: prod.splits sum.splits if_splits)

lemma complete_config_Inr:
  "run_state (complete_config E L order A cm net) s = (Inr cm', s') \<Longrightarrow>
   \<exists>cm1. FillDefaults A L cm net = (None, cm1) \<and> Validate A L order cm1 net = Inr (None, cm')"
  by (auto simp: complete_config_def split: prod.splits option.splits sum.splits)

lemma fetch_secret_Inr:
  "run_state (fetch_secret E watched name fill cm) s = (Inr (sec, cm'), s') \<Longrightarrow>
   with_secret fill sec cm cm'"
  by (auto simp: fetch_secret_def with_secret_def split: prod.splits option.splits sum.splits)

lemma Render_cm: "fst (run_state (Render E L cm n sel nt at ns ls) s) = (r, m, cm') \<Longrightarrow> cm' = cm_init cm"
  by (auto simp: Render_def Let_def split: prod.splits option.splits sum.splits)

lemma render_step_Inr:
  assumes "run_state (render_step E L crd net cm ns ls) s = (Inr ci, s')"
  shows "ci_network ci = net \<and> ci_instance ci = cm_init cm \<and> ci_nsxSecret ci = ns
    \<and> ci_lbSecret ci = ls \<and> ci_nodeSelector ci = ni_nodeSelector crd
    \<and> ci_ncpTolerations ci = ni_ncpTolerations crd
    \<and> ci_agentTolerations ci = ni_agentTolerations crd
    \<and> fst (run_state (Render E L cm (ni_ncpReplicas crd) (Some (ni_nodeSelector crd))
          (Some (ni_ncpTolerations crd)) (Some (ni_agentTolerations crd)) ns ls) s)
        = (Inr (ci_objs ci), ci_replicas ci, ci_instance ci)"
proof -
  obtain r m cm' s1 where run: "run_state (Render E L cm (ni_ncpReplicas crd)
      (Some (ni_nodeSelector crd)) (Some (ni_ncpTolerations crd)) (Some (ni_agentTolerations crd))
      ns ls) s = ((r, m, cm'), s1)" by (metis prod_cases3 surj_pair)
  have "cm' = cm_init cm" using Render_cm [of E L cm] run by (metis fst_conv)
  with assms run show ?thesis by (auto simp: render_step_def split: sum.splits prod.splits)
qed

lemma and_then_Inr:
  "run_state (and_then m f) s = (Inr b, s') \<longleftrightarrow>
     (\<exists>a s1. run_state m s = (Inr a, s1) \<and> run_state (f a) s1 = (Inr b, s'))"
  by (auto simp: run_and_then split: prod.splits sum.splits)

lemma read_inputs_completed:
  assumes "run_state (read_inputs E L order A watched) s = (Inr ci, s')"
  shows "\<exists>crd cm. returned (get_ncpinstall (st E) (nsn watched NcpInstallCRDName)) crd
     \<and> returned (get_configmap E (nsn watched ConfigMapName)) cm
     \<and> completed L order A cm (ci_network ci) (ci_nsxSecret ci) (ci_lbSecret ci) (ci_instance ci)
     \<and> ci_nodeSelector ci = ni_nodeSelector crd \<and> ci_ncpTolerations ci = ni_ncpTolerations crd
     \<and> ci_agentTolerations ci = ni_agentTolerations crd"
proof -
  obtain crd s1 s2 cm s3 net s4 cm2 s5 ns cm3 s6 ls cm4 s7 where steps:
    "run_state (fetch_ncpinstall E watched) s = (Inr crd, s1)"
    "run_state (fetch_instance E watched) s2 = (Inr cm, s3)"
    "run_state (complete_config E L order A cm net) s4 = (Inr cm2, s5)"
    "run_state (fetch_secret E watched NsxSecret (FillNsxAuthCfg L) cm2) s5 = (Inr (ns, cm3), s6)"
    "run_state (fetch_secret E watched LbSecret (FillLbCertCfg L) cm3) s6 = (Inr (ls, cm4), s7)"
    "run_state (render_step E L crd net cm4 ns ls) s7 = (Inr ci, s')"
    using assms unfolding read_inputs_def
    by (auto simp: and_then_Inr case_prod_beta)
  from complete_config_Inr [OF steps(3)] obtain cm1 where
    "FillDefaults A L cm net = (None, cm1)" "Validate A L order cm1 net = Inr (None, cm2)" by blast
  with fetch_secret_Inr [OF steps(4)] fetch_secret_Inr [OF steps(5)] render_step_Inr [OF steps(6)]
  have "completed L order A cm (ci_network ci) (ci_nsxSecret ci) (ci_lbSecret ci) (ci_instance ci)"
    unfolding completed_def by blast
  with fetch_ncpinstall_Inr [OF steps(1)] fetch_instance_Inr [OF steps(2)]
    render_step_Inr [OF steps(6)] show ?thesis by blast
qed

text \<open>Reading the inputs, sharing them and recalling the applied configuration change nothing
  else the later steps rely on.\<close>

lemma keeps_ctrl_part: "keeps ctrl m \<Longrightarrow> (\<And>s. f s = g (ctrl s)) \<Longrightarrow> keeps f m"
  by (simp add: keeps_def)

lemma keeps_psp_reports:
  "keeps psp_of (SetDegraded S l r m)" "keeps psp_of (SetNotDegraded S l)"
  by (rule keeps_ctrl_part [where g = "\<lambda>c. si_PodSecurityPolicySupport (fst c)"], rule frame,
      simp add: ctrl_def)+

lemma keeps_psp_SetFromNodes: "keeps psp_of (SetFromNodes S cache)"
  unfolding SetFromNodes_def
  by (intro keeps_rules keeps_psp_reports [unfolded SetDegraded_def SetNotDegraded_def]; simp)

lemma keeps_psp_Render: "keeps psp_of (Render E L cm n sel nt at ns ls)"
  by (intro keeps_Render keeps_api; simp)

lemma keeps_psp_network: "keeps psp_of (getNetworkConfig A E)"
  by (cases A) (auto intro!: keeps_rules)

lemma keeps_psp_inputs: "keeps psp_of (read_inputs E L order A watched)"
  unfolding read_inputs_def fetch_ncpinstall_def sync_add_node_tag_def fetch_instance_def
    fetch_network_def complete_config_def fetch_secret_def get_secret_or_nil_def render_step_def
  by (intro keeps_rules keeps_psp_reports keeps_psp_SetFromNodes keeps_psp_Render
      keeps_psp_network; simp)

lemma keeps_psp_share: "keeps psp_of (share_inputs ci)"
proof -
  have "si_PodSecurityPolicySupport (foldl note_resource si objs) = si_PodSecurityPolicySupport si"
    for si objs by (induction objs arbitrary: si) (auto simp: note_resource_def)
  then show ?thesis
    unfolding share_inputs_def updateSharedInfoWithNsxNcpResources_def
    by (intro keeps_rules; simp)
qed

lemma keeps_psp_init: "keeps psp_of (init_applied E L)"
  unfolding init_applied_def get_configmap_or_nil_def
  by (intro keeps_rules keeps_psp_reports; simp)

lemma keeps_shared_init: "keeps sharedInfo (init_applied E L)"
proof -
  have "keeps sharedInfo (SetDegraded S l r m)" for S :: "'a status_api" and l r m
    by (rule keeps_ctrl_part [where g = fst], rule frame, simp add: ctrl_def)
  then show ?thesis
    unfolding init_applied_def get_configmap_or_nil_def by (intro keeps_rules; simp)
qed

lemma share_inputs_network:
  "si_NetworkConfig (sharedInfo (snd (run_state (share_inputs ci) s))) = Some (ci_network ci)"
  by (simp add: share_inputs_def updateSharedInfoWithNsxNcpResources_def)

text \<open>
  The network configuration is shared before it is compared with the shared one, so on
  OpenShift it is compared with itself; and the comparison of the blocks is inverted.
\<close>

lemma network_changed_Oc: "network_changed L AdaptorOc ci (Some (ci_network ci)) applied"
  by (simp add: network_changed_def HasNetworkConfigChange_Oc_def stringSliceEqual_iff)

lemma keeps_ctrl_compare [frame]:
  "keeps ctrl (isSecretChanged E ns ls)" "keeps ctrl (isNsxNodeAgentDsChanged E tol)"
  "keeps ctrl (isNcpDeploymentChanged E n sel tol)" "keeps ctrl (isAnyMonitoredNCPResDeleted E)"
proof -
  show "keeps ctrl (isSecretChanged E ns ls)" "keeps ctrl (isNsxNodeAgentDsChanged E tol)"
    "keeps ctrl (isNcpDeploymentChanged E n sel tol)"
    unfolding isSecretChanged_def get_secret_or_nil_def isNsxNodeAgentDsChanged_def
      isNcpDeploymentChanged_def
    by (intro keeps_rules; simp)+
  have exists: "keeps ctrl (CheckIfNCPK8sResourceExists S name)" for S :: "'a status_api" and name
    unfolding CheckIfNCPK8sResourceExists_def Let_def
    by (auto split: sum.splits res_kind.splits intro!: keeps_rules)
  have "keeps ctrl (any_deleted_loop E names)" for names
    by (induction names) (auto intro!: keeps_rules exists)
  then show "keeps ctrl (isAnyMonitoredNCPResDeleted E)"
    unfolding isAnyMonitoredNCPResDeleted_def .
qed

lemma keeps_applied_finish: "keeps appliedConfigMap (finish E L ci nc)"
proof -
  have "keeps appliedConfigMap (SetDegraded S l r m)" "keeps appliedConfigMap (SetNotDegraded S l)"
    for S :: "'a status_api" and l r m
    by (rule keeps_ctrl_part [where g = "\<lambda>c. snd (snd (snd c))"], rule frame, simp add: ctrl_def)+
  then show ?thesis
    unfolding finish_def updateNetworkStatus_def Let_def by (intro keeps_rules; simp)
qed

section \<open>The ends of the handler\<close>

text \<open>Both configuration levels are healthy.\<close>

definition config_healthy :: "status_manager \<Rightarrow> bool" where
  "config_healthy sm \<longleftrightarrow> sm_failing sm ClusterConfig = None \<and> sm_failing sm OperatorConfig = None"

text \<open>The object that writes the status of the network, if it can be made.\<close>

definition network_status ::
  "'w cluster_api \<Rightarrow> 'f ini_lib \<Rightarrow> network \<Rightarrow> configmap \<Rightarrow> unstructured option" where
  "network_status E L net cm = (case ToUnstructured E (buildNetworkStatus L net cm) of
     Inl err \<Rightarrow> None
   | Inr data \<Rightarrow>
       let data = set_uid E (set_resource_version E (clear_managed_fields E data) []) [] in
       Some (data\<lparr>u_body := remove_nested_field E (u_body data) [''spec'']\<rparr>))"

definition at_most :: "'a option \<Rightarrow> 'a list \<Rightarrow> bool" where
  "at_most x ys \<longleftrightarrow> ys = [] \<or> (\<exists>y. x = Some y \<and> ys = [y])"

lemma at_most_simps [simp]: "at_most x []" "at_most (Some y) [y]"
  by (simp_all add: at_most_def)

lemma at_most_length: "at_most x ys \<Longrightarrow> length ys \<le> 1"
  by (auto simp: at_most_def)

context apply_log
begin

text \<open>
  The handler ended: the log gained at most the network status, and without an error both
  levels are healthy and the status was written if the network had changed.
\<close>

abbreviation status_object :: "'f ini_lib \<Rightarrow> cm_inputs \<Rightarrow> unstructured option" where
  "status_object L ci \<equiv> network_status E L (ci_network ci) (ci_instance ci)"

definition ended :: "unstructured list \<Rightarrow> unstructured option \<Rightarrow> bool \<Rightarrow> outcome \<Rightarrow> 'w operator \<Rightarrow> bool" where
  "ended l S nc out s \<longleftrightarrow> (\<exists>nets. V (world s) = l @ nets \<and> at_most S nets
     \<and> (snd out = None \<longrightarrow> config_healthy (status s) \<and> length nets = (if nc then 1 else 0)))"

lemma ended_error: "V (world s) = l \<Longrightarrow> ended l S nc (res, Some e) s"
  by (simp add: ended_def)

lemma updateNetworkStatus_log:
  "yields (\<lambda>s. V (world s) = l) (updateNetworkStatus E L net cm)
     (\<lambda>r s. if r = None then \<exists>u. network_status E L net cm = Some u \<and> V (world s) = l @ [u]
        else V (world s) = l)"
  by (auto simp: yields_def updateNetworkStatus_def network_status_def Let_def dest: log_apply split: sum.splits prod.splits)

lemma both_healthy:
  assumes keep: "\<And>s s'. V (world s') = V (world s) \<Longrightarrow> P s \<Longrightarrow> P s'"
    and post: "\<And>s. P s \<Longrightarrow> config_healthy (status s) \<Longrightarrow> Q (done_with None) s"
  shows "yields P (do { SetNotDegraded (st E) ClusterConfig; SetNotDegraded (st E) OperatorConfig;
     ret (done_with None) }) Q"
proof (rule yieldsI)
  let ?m = "do { SetNotDegraded (st E) ClusterConfig; SetNotDegraded (st E) OperatorConfig;
     ret (done_with None) }"
  fix s out s' assume run: "run_state ?m s = (out, s')" and "P s"
  have "keeps (view_of V) ?m" by (intro keeps_rules quiet_SetNotDegraded)
  from keep [OF keepsD [OF this run] \<open>P s\<close>] have "P s'" .
  moreover have "config_healthy (status s')"
    using arg_cong [OF run, of snd] unfolding snd_run_bind SetNotDegraded_def
    by (auto simp: config_healthy_def)
  moreover have "out = done_with None" using run by (auto split: prod.splits)
  ultimately show "Q out s'" using post by blast
qed

lemma finish_log: "yields (\<lambda>s. V (world s) = l) (finish E L ci nc) (ended l (status_object L ci) nc)"
proof -
  have net: "yields (\<lambda>s. V (world s) = l)
      (if nc then updateNetworkStatus E L (ci_network ci) (ci_instance ci) else ret None)
      (\<lambda>r s. \<exists>nets. V (world s) = l @ nets \<and> at_most (status_object L ci) nets
         \<and> (r = None \<longrightarrow> length nets = (if nc then 1 else 0)))"
    by (intro yields_rules yields_conseq [OF updateNetworkStatus_log]) (auto split: if_splits)
  show ?thesis
    unfolding finish_def
    by (intro yields_rules yields_bind [OF net] both_healthy yields_keep [OF quiet_SetDegraded])
       (auto simp: ended_def done_with_def)
qed

lemma finish_applied:
  "yields (\<lambda>s. V (world s) = l \<and> appliedConfigMap s = c) (finish E L ci nc)
     (\<lambda>out s. ended l (status_object L ci) nc out s \<and> appliedConfigMap s = c)"
  by (rule yields_both [OF finish_log yields_view [OF keeps_applied_finish, where P = "\<lambda>v. v = c"]])

text \<open>The comparisons change neither the log nor the state of the controllers.\<close>

abbreviation pinned where
  "pinned l c s \<equiv> V (world s) = l \<and> ctrl s = c"

lemma pinned_compare:
  "preserves (pinned l c) (isSecretChanged E ns ls)" "preserves (pinned l c) (isNsxNodeAgentDsChanged E tol)"
  "preserves (pinned l c) (isNcpDeploymentChanged E n sel tol)"
  "preserves (pinned l c) (isAnyMonitoredNCPResDeleted E)"
  by (rule preserves_keeps [OF keeps_pair], rule quiet_comparisons quiet_any_deleted, rule frame, simp)+

lemma check_unchanged_log:
  "yields (pinned l c) (if b then check_unchanged E L ci nc ds else go_on ())
     (\<lambda>r s. case r of Inl out \<Rightarrow> ended l (status_object L ci) nc out s | Inr u \<Rightarrow> pinned l c s)"
  unfolding check_unchanged_def
  by (intro yields_rules yields_skip [OF pinned_compare(4)] yields_skip [OF pinned_compare(3)]
       yields_call [OF finish_log])
    (auto simp: retry_with_def ended_error)

lemma pinned_gets:
  "yields (pinned l c) (gets appliedConfigMap) (\<lambda>x s. pinned l c s \<and> x = snd (snd (snd c)))"
  "yields (pinned l c) (gets (\<lambda>s. si_NetworkConfig (sharedInfo s)))
     (\<lambda>x s. pinned l c s \<and> x = si_NetworkConfig (fst c))"
  by (auto simp: yields_def ctrl_def)

lemma decide_log:
  "yields (pinned l c) (decide E L A ci)
     (\<lambda>r s. let nc = network_changed L A ci (si_NetworkConfig (fst c)) (snd (snd (snd c)))
        in case r of Inl out \<Rightarrow> ended l (status_object L ci) nc out s | Inr d \<Rightarrow> pinned l c s \<and> snd d = nc)"
proof -
  have secrets: "preserves (pinned l c) (if b then ret (True, None) else isSecretChanged E ns ls)" for b ns ls
    by (intro preserves_rules pinned_compare)
  show ?thesis
    unfolding decide_def Let_def and_then_def
    by (intro yields_pure [OF pinned_gets(1) [of l c]] yields_pure [OF pinned_gets(2) [of l c]]
          yields_skip [OF secrets] yields_skip [OF pinned_compare(2)] yields_rules
          yields_call [OF check_unchanged_log [of l c]])
       (auto simp: done_with_def ended_error split: sum.splits)
qed

text \<open>Applying: a prefix of the wanted objects, and after all of them the network status.\<close>

definition applied_outcome ::
  "'f ini_lib \<Rightarrow> unstructured list \<Rightarrow> bool \<Rightarrow> cm_inputs \<Rightarrow> bool \<Rightarrow> outcome \<Rightarrow> 'w operator \<Rightarrow> bool" where
  "applied_outcome L l p ci nc out s \<longleftrightarrow>
     (\<exists>new. prefix (map ident new) (map ident (filter (wanted p) (ci_objs ci)))
        \<and> ended (l @ new) (status_object L ci) nc out s
        \<and> (snd out = None \<longrightarrow> map ident new = map ident (filter (wanted p) (ci_objs ci))
             \<and> appliedConfigMap s = Some (ci_instance ci)))"

lemma apply_and_finish_log:
  "yields (logged l p) (apply_and_finish E L A ci d) (applied_outcome L l p ci (snd d))"
proof -
  let ?ids = "map ident (filter (wanted p) (ci_objs ci))"
  have stopped: "applied_outcome L l p ci nc out s" if "applied_upto (Some out) ?ids l (V (world s))" for nc out s
    using that by (auto simp: applied_upto_def applied_outcome_def done_with_def intro: ended_error)
  have all: "yields (\<lambda>s. applied_upto None ?ids l (V (world s)) \<and> appliedConfigMap s = Some (ci_instance ci))
      (finish E L ci nc) (applied_outcome L l p ci nc)" for nc
  proof (rule yieldsI)
    fix s out s' assume run: "run_state (finish E L ci nc) s = (out, s')"
      and pre: "applied_upto None ?ids l (V (world s)) \<and> appliedConfigMap s = Some (ci_instance ci)"
    then obtain new where new: "V (world s) = l @ new" "map ident new = ?ids"
      by (auto simp: applied_upto_def)
    from yieldsD [OF finish_applied run] pre new show "applied_outcome L l p ci nc out s'"
      unfolding applied_outcome_def by (intro exI [of _ new]) auto
  qed
  show ?thesis
    unfolding apply_and_finish_def
    by (intro yields_rules yields_bind [OF apply_objects_upto] yields_conseq [OF all])
       (simp_all add: stopped, elim exE conjE, simp)
qed

text \<open>What follows the inputs. On OpenShift the network always counts as changed.\<close>

abbreviation shared_net where
  "shared_net l p ci s \<equiv> logged l p s \<and> si_NetworkConfig (sharedInfo s) = Some (ci_network ci)"

lemma share_inputs_log: "yields (logged l p) (share_inputs ci) (\<lambda>u. shared_net l p ci)"
proof (rule yieldsI)
  fix s u s' assume run: "run_state (share_inputs ci) s = (u, s')" and s: "logged l p s"
  have "si_NetworkConfig (sharedInfo s') = Some (ci_network ci)"
    using run by (auto simp: share_inputs_def updateSharedInfoWithNsxNcpResources_def)
  with keepsD [OF quiet_share_inputs run] keepsD [OF keeps_psp_share run] s
  show "shared_net l p ci s'" by simp
qed

lemma init_applied_log:
  "yields (shared_net l p ci) (init_applied E L)
     (\<lambda>r s. shared_net l p ci s \<and> (\<forall>out. r = Inl out \<longrightarrow> snd out \<noteq> None))"
proof (rule yields_conj)
  show "yields (shared_net l p ci) (init_applied E L) (\<lambda>r. shared_net l p ci)"
    by (intro yieldsI) (auto dest: keepsD [OF quiet_init_applied] keepsD [OF keeps_shared_init])
qed (auto simp: init_applied_def yields_def done_with_def split: option.splits prod.splits)

lemma decide_shared:
  "yields (shared_net l p ci) (decide E L A ci)
     (\<lambda>r s. case r of Inl out \<Rightarrow> \<exists>nc. (A = AdaptorOc \<longrightarrow> nc) \<and> ended l (status_object L ci) nc out s
        | Inr d \<Rightarrow> logged l p s \<and> (A = AdaptorOc \<longrightarrow> snd d))"
proof (rule yieldsI)
  fix s r s' assume run: "run_state (decide E L A ci) s = (r, s')" and s: "shared_net l p ci s"
  then have "pinned l (ctrl s) s" "si_NetworkConfig (fst (ctrl s)) = Some (ci_network ci)"
    by (simp_all add: ctrl_def)
  with yieldsD [OF decide_log run] s network_changed_Oc [of L ci]
  show "case r of Inl out \<Rightarrow> \<exists>nc. (A = AdaptorOc \<longrightarrow> nc) \<and> ended l (status_object L ci) nc out s'
        | Inr d \<Rightarrow> logged l p s' \<and> (A = AdaptorOc \<longrightarrow> snd d)"
    by (auto simp: Let_def ctrl_def split: sum.splits)
qed

definition handled ::
  "'f ini_lib \<Rightarrow> unstructured list \<Rightarrow> bool \<Rightarrow> cm_inputs \<Rightarrow> adaptor \<Rightarrow> outcome \<Rightarrow> 'w operator \<Rightarrow> bool" where
  "handled L l p ci A out s \<longleftrightarrow>
     (\<exists>nc. (A = AdaptorOc \<longrightarrow> nc) \<and> (ended l (status_object L ci) nc out s \<or> applied_outcome L l p ci nc out s))"

lemma handledI:
  "logged l p s \<Longrightarrow> snd out \<noteq> None \<Longrightarrow> handled L l p ci A out s"
  "\<exists>nc. (A = AdaptorOc \<longrightarrow> nc) \<and> ended l (status_object L ci) nc out s \<Longrightarrow> handled L l p ci A out s"
  "A = AdaptorOc \<longrightarrow> nc \<Longrightarrow> applied_outcome L l p ci nc out s \<Longrightarrow> handled L l p ci A out s"
proof -
  have "ended l (status_object L ci) True out s" if "V (world s) = l" "snd out \<noteq> None"
    using that unfolding ended_def by (intro exI [of _ "[]"]) simp
  then show "logged l p s \<Longrightarrow> snd out \<noteq> None \<Longrightarrow> handled L l p ci A out s"
    unfolding handled_def by (intro exI [of _ True]) simp
qed (unfold handled_def, blast+)

lemma handled_log:
  assumes "handled L l p ci A out s"
  obtains new nets where "V (world s) = l @ new @ nets" "at_most (status_object L ci) nets"
    "prefix (map ident new) (map ident (filter (wanted p) (ci_objs ci)))"
    "snd out = None \<Longrightarrow> config_healthy (status s) \<and> (A = AdaptorOc \<longrightarrow> length nets = 1)
       \<and> (new = [] \<or> map ident new = map ident (filter (wanted p) (ci_objs ci))
            \<and> appliedConfigMap s = Some (ci_instance ci))"
proof -
  from assms obtain nc where nc: "A = AdaptorOc \<longrightarrow> nc"
    and "ended l (status_object L ci) nc out s \<or> applied_outcome L l p ci nc out s" unfolding handled_def by blast
  then show thesis
  proof (elim disjE)
    assume "ended l (status_object L ci) nc out s"
    with nc that [of "[]"] show thesis by (auto simp: ended_def)
  next
    assume "applied_outcome L l p ci nc out s"
    with nc that show thesis unfolding applied_outcome_def ended_def by auto
  qed
qed

lemma after_inputs_log:
  "yields (logged l p)
     (do { share_inputs ci; or_return (init_applied E L) (\<lambda>_. or_return (decide E L A ci) (apply_and_finish E L A ci)) })
     (handled L l p ci A)"
proof -
  have last: "yields (\<lambda>s. logged l p s \<and> (A = AdaptorOc \<longrightarrow> snd d)) (apply_and_finish E L A ci d)
      (handled L l p ci A)" for d
    by (rule yieldsI) (blast intro: handledI(3) dest: yieldsD [OF apply_and_finish_log])
  show ?thesis
    unfolding or_return_def
    by (intro yields_call [OF share_inputs_log [of l p]] yields_rules
          yields_call [OF init_applied_log [of l p ci]]
          yields_call [OF decide_shared [of l p ci]] yields_conseq [OF last])
       (simp_all add: handledI)
qed

end

section \<open>Inputs that are missing\<close>

text \<open>An end without an error before the inputs were read leaves one of the levels failing.\<close>

definition reported :: "outcome + 'a \<Rightarrow> 'w operator \<Rightarrow> bool" where
  "reported r s \<longleftrightarrow> (\<forall>res. r = Inl (res, None) \<longrightarrow> \<not> config_healthy (status s))"

lemma reported_simps [simp]: "reported (Inr a) s" "reported (Inl (res, Some e)) s"
  by (simp_all add: reported_def)

lemma stop_reported:
  assumes "lev \<in> {ClusterConfig, OperatorConfig}"
  shows "yields P (do { SetDegraded S lev a b; stop out }) reported"
proof (rule yieldsI)
  fix s r s' assume run: "run_state (do { SetDegraded S lev a b; stop out }) s = (r, s')"
  from arg_cong [OF run, of snd] assms show "reported r s'"
    unfolding snd_run_bind SetDegraded_def by (auto simp: stop_def config_healthy_def reported_def)
qed

lemma reported_ret: "yields P (go_on a) reported" "yields P (stop (res, Some e)) reported"
  "yields P (stop (done_with (Some e))) reported"
  by (simp_all add: yields_def go_on_def stop_def done_with_def)

lemma and_then_reported:
  assumes "yields (\<lambda>s. True) m reported" and "\<And>a. yields (\<lambda>s. True) (f a) reported"
  shows "yields (\<lambda>s. True) (and_then m f) reported"
  unfolding and_then_def
  by (rule yields_bind [OF assms(1)], rule yields_case_sum)
     (auto simp: reported_def intro!: yields_ret yields_conseq [OF assms(2)])

lemma skip_reported:
  "(\<And>x. yields (\<lambda>s. True) (f x) reported) \<Longrightarrow> yields (\<lambda>s. True) (State_Monad.bind m f) reported"
  by (rule yields_skip) (simp_all add: preserves_def)

lemmas reported_rules =
  stop_reported yields_if yields_case_sum yields_case_option yields_case_prod reported_ret skip_reported

lemma fetch_reported:
  "yields (\<lambda>s. True) (fetch_ncpinstall E watched) reported"
  "yields (\<lambda>s. True) (fetch_instance E watched) reported"
  "yields (\<lambda>s. True) (fetch_network E A) reported"
  unfolding fetch_ncpinstall_def fetch_instance_def fetch_network_def
  by (intro reported_rules; simp)+

lemma completion_reported:
  "yields (\<lambda>s. True) (complete_config E L order A cm net) reported"
  "yields (\<lambda>s. True) (fetch_secret E watched name fill cm) reported"
  "yields (\<lambda>s. True) (render_step E L crd net cm nsxSecret lbSecret) reported"
  unfolding complete_config_def fetch_secret_def render_step_def by (intro reported_rules; simp)+

lemma read_inputs_reported: "yields (\<lambda>s. True) (read_inputs E L order A watched) reported"
  unfolding read_inputs_def
  by (intro and_then_reported fetch_reported completion_reported skip_reported yields_case_prod)

section \<open>The whole handler\<close>

context apply_log
begin

lemma reconcile_log:
  assumes run: "run_state (Reconcile_configmap E L order A req) s = (out, s')"
  defines "watched \<equiv> watched_namespace (sm_OperatorNamespace (status s))"
  obtains (ignored) "\<not> accepts_request watched req" "s' = s"
    | (missing) "accepts_request watched req" "run_state (read_inputs E L order A watched) s = (Inl out, s')"
        "V (world s') = V (world s)" "snd out = None \<Longrightarrow> \<not> config_healthy (status s')"
    | (rendered) ci s1 where "accepts_request watched req" "run_state (read_inputs E L order A watched) s = (Inr ci, s1)"
      "handled L (V (world s)) (psp_of s) ci A out s'"
proof (cases "accepts_request watched req")
  case False
  then have "s' = s" using run by (simp add: Reconcile_configmap_def watched_def)
  with False show ?thesis by (rule ignored)
next
  case True
  obtain x s1 where i: "run_state (read_inputs E L order A watched) s = (x, s1)" by (metis surj_pair)
  from keepsD [OF quiet_read_inputs i] keepsD [OF keeps_psp_inputs i]
  have s1: "logged (V (world s)) (psp_of s) s1" by simp
  show ?thesis
  proof (cases x)
    case (Inl r)
    with run True i have "r = out" "s1 = s'" by (auto simp: Reconcile_configmap_def run_or_return watched_def)
    with Inl i s1 True yieldsD [OF read_inputs_reported i] show ?thesis
      by (intro missing) (auto simp: reported_def prod_eq_iff)
  next
    case (Inr ci)
    with run True i have "run_state (do { share_inputs ci; or_return (init_applied E L)
        (\<lambda>_. or_return (decide E L A ci) (apply_and_finish E L A ci)) }) s1 = (out, s')"
      by (simp add: Reconcile_configmap_def run_or_return watched_def)
    from yieldsD [OF after_inputs_log this s1] i Inr rendered True show ?thesis by blast
  qed
qed

end

end
