(* ===== verification/ConfigMap_Decisions.thy ===== *)
theory ConfigMap_Decisions
  imports ConfigMap_Outcomes
begin

text \<open>
  When the ConfigMap controller applies and when it does not: the steady state, the reasons for
  writing the network status, the comparison of the deployment's image, and what a failed
  recall of the applied configuration leaves behind.
\<close>

section \<open>Answers\<close>

text \<open>A cluster that agrees with the inputs: nothing was deleted and nothing differs.\<close>

definition agrees :: "('w \<Rightarrow> bool) \<Rightarrow> 'w cluster_api \<Rightarrow> cm_inputs \<Rightarrow> bool" where
  "agrees I E ci \<longleftrightarrow>
     (\<exists>nsx lb agent boot dep image images.
        answers I (get_secret E (nsn NsxNamespace NsxSecret)) (Inr nsx)
        \<and> answers I (get_secret E (nsn NsxNamespace LbSecret)) (Inr lb)
        \<and> answers I (get_daemonset (st E) (nsn NsxNamespace NsxNodeAgentDsName)) (Inr agent)
        \<and> answers I (get_daemonset (st E) (nsn NsxNamespace NsxNcpBootstrapDsName)) (Inr boot)
        \<and> answers I (get_deployment (st E) (nsn NsxNamespace NsxNcpDeploymentName)) (Inr dep)
        \<and> \<not> secretNotEqual (ci_nsxSecret ci) (Some nsx)
        \<and> \<not> secretNotEqual (ci_lbSecret ci) (Some lb)
        \<and> ds_tolerations agent = ci_agentTolerations ci
        \<and> dep_images dep = image # images \<and> image = getenv E NcpImageEnv
        \<and> dep_replicas dep = Some (ci_replicas ci)
        \<and> dep_nodeSelector dep = ci_nodeSelector ci
        \<and> dep_tolerations dep = ci_ncpTolerations ci)"

lemma run_answer:
  assumes "answers I call r" "I (world s)"
  obtains w where "run_state (api call) s = (r, s\<lparr>world := w\<rparr>)" "I w"
  using answersD [OF assms] by auto

lemma steady_comparisons:
  assumes "agrees I E ci" "I (world s)"
  shows "\<exists>w. run_state (isSecretChanged E (ci_nsxSecret ci) (ci_lbSecret ci)) s =
             ((False, None), s\<lparr>world := w\<rparr>) \<and> I w"
    and "\<exists>w. run_state (isNsxNodeAgentDsChanged E (ci_agentTolerations ci)) s =
             (Inr False, s\<lparr>world := w\<rparr>) \<and> I w"
    and "\<exists>w. run_state (isNcpDeploymentChanged E (ci_replicas ci) (ci_nodeSelector ci)
             (ci_ncpTolerations ci)) s = (Inr False, s\<lparr>world := w\<rparr>) \<and> I w"
    and "\<exists>w. run_state (isAnyMonitoredNCPResDeleted E) s = (Inr False, s\<lparr>world := w\<rparr>) \<and> I w"
proof -
  from assms(1) obtain nsx lb agent boot dep images where
    ans: "answers I (get_secret E (nsn NsxNamespace NsxSecret)) (Inr nsx)"
      "answers I (get_secret E (nsn NsxNamespace LbSecret)) (Inr lb)"
      "answers I (get_daemonset (st E) (nsn NsxNamespace NsxNodeAgentDsName)) (Inr agent)"
      "answers I (get_daemonset (st E) (nsn NsxNamespace NsxNcpBootstrapDsName)) (Inr boot)"
      "answers I (get_deployment (st E) (nsn NsxNamespace NsxNcpDeploymentName)) (Inr dep)"
    and eq: "\<not> secretNotEqual (ci_nsxSecret ci) (Some nsx)" "\<not> secretNotEqual (ci_lbSecret ci) (Some lb)"
      "ds_tolerations agent = ci_agentTolerations ci" "dep_images dep = getenv E NcpImageEnv # images"
      "dep_replicas dep = Some (ci_replicas ci)" "dep_nodeSelector dep = ci_nodeSelector ci"
      "dep_tolerations dep = ci_ncpTolerations ci"
    unfolding agrees_def by blast
  obtain w1 where w1: "get_secret E (nsn NsxNamespace NsxSecret) (world s) = (Inr nsx, w1)" "I w1"
    using answersD [OF ans(1) assms(2)] by auto
  obtain w2 where w2: "get_secret E (nsn NsxNamespace LbSecret) w1 = (Inr lb, w2)" "I w2"
    using answersD [OF ans(2) w1(2)] by auto
  show "\<exists>w. run_state (isSecretChanged E (ci_nsxSecret ci) (ci_lbSecret ci)) s =
             ((False, None), s\<lparr>world := w\<rparr>) \<and> I w"
    using w1 w2 eq by (intro exI [of _ w2]) (simp add: isSecretChanged_def get_secret_or_nil_def)
  show "\<exists>w. run_state (isNsxNodeAgentDsChanged E (ci_agentTolerations ci)) s =
             (Inr False, s\<lparr>world := w\<rparr>) \<and> I w"
    using answersD [OF ans(3) assms(2)] eq by (auto simp: isNsxNodeAgentDsChanged_def)
  show "\<exists>w. run_state (isNcpDeploymentChanged E (ci_replicas ci) (ci_nodeSelector ci)
             (ci_ncpTolerations ci)) s = (Inr False, s\<lparr>world := w\<rparr>) \<and> I w"
    using answersD [OF ans(5) assms(2)] eq by (auto simp: isNcpDeploymentChanged_def)
  obtain v1 where v1: "get_daemonset (st E) (nsn NsxNamespace NsxNodeAgentDsName) (world s) = (Inr agent, v1)"
      "I v1" using answersD [OF ans(3) assms(2)] by auto
  obtain v2 where v2: "get_daemonset (st E) (nsn NsxNamespace NsxNcpBootstrapDsName) v1 = (Inr boot, v2)"
      "I v2" using answersD [OF ans(4) v1(2)] by auto
  obtain v3 where v3: "get_deployment (st E) (nsn NsxNamespace NsxNcpDeploymentName) v2 = (Inr dep, v3)"
      "I v3" using answersD [OF ans(5) v2(2)] by auto
  have kinds: "identifyAndGetInstance NsxNodeAgentDsName = Inr DaemonSetKind"
    "identifyAndGetInstance NsxNcpBootstrapDsName = Inr DaemonSetKind"
    "identifyAndGetInstance NsxNcpDeploymentName = Inr DeploymentKind" by code_simp+
  show "\<exists>w. run_state (isAnyMonitoredNCPResDeleted E) s = (Inr False, s\<lparr>world := w\<rparr>) \<and> I w"
    using v1 v2 v3
    by (intro exI [of _ v3]) (simp add: isAnyMonitoredNCPResDeleted_def
        CheckIfNCPK8sResourceExists_def kinds Let_def)
qed

text \<open>In the steady state the handler ends without applying anything it rendered.\<close>

lemma same_text_no_change:
  "TrimSpace (cm_get cm ConfigMapDataKey) = TrimSpace (cm_get pm ConfigMapDataKey) \<Longrightarrow>
   NeedApplyChange L cm (Some pm) = (pod_need_change False False False, None)"
  by (simp add: NeedApplyChange_def)

theorem steady_decide:
  assumes agree: "agrees I E ci" "I (world s)"
    and applied: "appliedConfigMap s = Some pm"
      "TrimSpace (cm_get (ci_instance ci) ConfigMapDataKey) = TrimSpace (cm_get pm ConfigMapDataKey)"
  shows "\<exists>w. I w \<and> run_state (decide E L A ci) s =
    (let r = run_state (finish E L ci (network_changed L A ci (si_NetworkConfig (sharedInfo s)) (Some pm)))
               (s\<lparr>world := w\<rparr>) in (Inl (fst r), snd r))"
proof -
  note need = same_text_no_change [OF applied(2), of L]
  obtain w1 where 1: "run_state (isSecretChanged E (ci_nsxSecret ci) (ci_lbSecret ci)) s =
      ((False, None), s\<lparr>world := w1\<rparr>)" "I w1" using steady_comparisons(1) [OF agree] by blast
  obtain w2 where 2: "run_state (isNsxNodeAgentDsChanged E (ci_agentTolerations ci)) (s\<lparr>world := w1\<rparr>) =
      (Inr False, s\<lparr>world := w2\<rparr>)" "I w2" using steady_comparisons(2) [OF agree(1), of "s\<lparr>world := w1\<rparr>"] 1 by auto
  obtain w3 where 3: "run_state (isAnyMonitoredNCPResDeleted E) (s\<lparr>world := w2\<rparr>) =
      (Inr False, s\<lparr>world := w3\<rparr>)" "I w3" using steady_comparisons(4) [OF agree(1), of "s\<lparr>world := w2\<rparr>"] 2 by auto
  obtain w4 where 4: "run_state (isNcpDeploymentChanged E (ci_replicas ci) (ci_nodeSelector ci)
      (ci_ncpTolerations ci)) (s\<lparr>world := w3\<rparr>) = (Inr False, s\<lparr>world := w4\<rparr>)" "I w4"
    using steady_comparisons(3) [OF agree(1), of "s\<lparr>world := w3\<rparr>"] 3 by auto
  show ?thesis
    using 4(2) by (intro exI [of _ w4])
      (simp add: decide_def applied(1) need Let_def 1 2 3 4 run_and_then check_unchanged_def
        split: prod.splits)
qed

section \<open>Network status\<close>

lemma network_changed_K8s:
  "network_changed L AdaptorK8s ci (Some net) applied \<longleftrightarrow>
     getOptionInConfigMap L (Some (ci_instance ci)) ''nsx_node_agent'' ''mtu''
       \<noteq> getOptionInConfigMap L applied ''nsx_node_agent'' ''mtu''"
  by (simp add: network_changed_def HasNetworkConfigChange_K8s_def IsMTUChanged_def)

section \<open>The image\<close>

text \<open>Rendering falls back to a default image when the variable is empty; the comparison does not.\<close>

lemma unset_image_changed:
  assumes "getenv E NcpImageEnv = []" "dep_images dep = render_image (getenv E NcpImageEnv) # images"
    "get_deployment (st E) (nsn NsxNamespace NsxNcpDeploymentName) (world s) = (Inr dep, w)"
  shows "fst (run_state (isNcpDeploymentChanged E n sel tol) s) = Inr True"
  using assms by (simp add: isNcpDeploymentChanged_def render_image_def)

section \<open>A failed recall\<close>

lemma generate_failure_text:
  assumes "GenerateOperatorConfigMap L \<lparr>cm_data = Some Map.empty\<rparr> a b = (Some e, cm)"
  shows "cm_get cm ConfigMapDataKey = []"
  using assms
  by (auto simp: GenerateOperatorConfigMap_def Let_def cm_get_def cm_set_def cm_init_def
      split: sum.splits)

lemma init_failure_leaves_empty:
  assumes "run_state (init_applied E L) s = (Inl out, s')"
  obtains cm where "appliedConfigMap s' = Some cm" "cm_get cm ConfigMapDataKey = []"
proof -
  from assms obtain s1 s2 ncp agent e cm where
    gen: "GenerateOperatorConfigMap L \<lparr>cm_data = Some Map.empty\<rparr> ncp agent = (Some e, cm)"
    and rep: "run_state (SetDegraded (st E) OperatorConfig ''InternalError''
                (''Failed to generate operator ConfigMap: '' @ err_text e))
                (s1\<lparr>appliedConfigMap := Some cm\<rparr>) = ((), s')"
    by (auto simp: init_applied_def split: if_splits prod.splits option.splits)
  have "ctrl s' = ctrl (s1\<lparr>appliedConfigMap := Some cm\<rparr>)"
    by (rule keepsD [OF keeps_ctrl_reports(1) rep])
  then have "appliedConfigMap s' = Some cm" by (simp add: ctrl_def)
  with generate_failure_text [OF gen] show ?thesis by (rule that [rotated])
qed

context ini_laws
begin

lemma empty_applied_blocks:
  assumes "cm_get pm ConfigMapDataKey = []" "Load L [] = Inr g" "val g = (\<lambda>_. Map.empty)"
    and "Load L (cm_get cm ConfigMapDataKey) = Inr f" "no_references (val f)"
    and set: "get_or_empty (val f) ''coe'' ''cluster'' \<noteq> []"
    and nonblank: "TrimSpace (cm_get cm ConfigMapDataKey) \<noteq> []"
  shows "\<exists>e. NeedApplyChange L cm (Some pm) = (pod_need_change False False False, Some e)"
proof -
  have "no_references (val g)" "\<not> same_immutables (val f) (val g)"
    using set by (auto simp: no_references_def same_immutables_def immutableFields_def assms(3))
  with nonblank need_apply_change [of cm f pm g] assms show ?thesis by (simp add: TrimSpace_def)
qed

end

end
