(* ===== verification/Config_Completion.thy ===== *)
theory Config_Completion
  imports ConfigMap_Decisions Config_Properties
begin

text \<open>
  Completion of the configuration as the handler runs it: defaults and validation together.
  What the objects are rendered from is the operator's text with the defaults applied and the
  unsupported options dropped, and it is rendered only when that text is acceptable.
\<close>

definition defaults_of :: "adaptor \<Rightarrow> network \<Rightarrow> (string \<times> string \<times> string \<times> bool) list" where
  "defaults_of A net = (case A of AdaptorK8s \<Rightarrow> defaults_K8s | AdaptorOc \<Rightarrow> defaults_Oc net)"

text \<open>The options after the defaults; what is acceptable; what is rendered.\<close>

definition defaulted :: "adaptor \<Rightarrow> network \<Rightarrow> ini_view \<Rightarrow> ini_view" where
  "defaulted A net v = after_defaults (defaults_of A net) v"

definition acceptable :: "adaptor \<Rightarrow> network \<Rightarrow> ini_view \<Rightarrow> bool" where
  "acceptable A net v \<longleftrightarrow>
     config_ok (A = AdaptorK8s) (defaulted A net v) \<and> validateClusterNetwork A net = []"

lemma FillDefaults_eq:
  "\<exists>what. FillDefaults A L cm net = fill_defaults L (defaults_of A net) what cm"
  by (cases A) (auto simp: defaults_of_def FillDefaults_K8s_def FillDefaults_Oc_def)

lemma validateConfigMap_eq:
  "validateConfigMap A L order cm = validate_config_map L (A = AdaptorK8s) order cm"
  by (cases A) (simp_all add: validateConfigMap_K8s_def validateConfigMap_Oc_def)

lemma plain_defaults_of:
  "ini_text (clusterNetworkBlocks net) \<Longrightarrow> plain_defaults (defaults_of A net)"
  by (cases A) (simp_all add: defaults_of_def plain_defaults_K8s plain_defaults_Oc)

lemma distinct_defaults_of: "distinct (map (\<lambda>(s, k, _, _). (s, k)) (defaults_of A net))"
  by (cases A) (simp_all add: defaults_of_def distinct_defaults)

lemma sections_defaults_of:
  "{''nsx_v3'', ''ha'', ''nsx_node_agent''} \<subseteq> ss \<Longrightarrow> d \<in> set (defaults_of A net) \<Longrightarrow>
   fst d \<in> insert ''coe'' ss"
  by (cases A) (auto simp: defaults_of_def defaults_K8s_def defaults_Oc_def)

context ini_laws
begin

lemma completion:
  assumes load: "Load L (cm_get cm ConfigMapDataKey) = Inr f" and wf: "wf f"
    and secs: "{''nsx_v3'', ''ha'', ''nsx_node_agent''} \<subseteq> secs f"
    and blocks: "ini_text (clusterNetworkBlocks net)"
    and order: "\<And>t. mset (order t) = mset t"
  obtains cm1 errs cm2 where "FillDefaults A L cm net = (None, cm1)"
    "validateConfigMap A L order cm1 = Inr (errs, cm2)"
    "errs = [] \<longleftrightarrow> config_ok (A = AdaptorK8s) (defaulted A net (val f))"
    "stored cm2 (drop_unsupported (defaulted A net (val f)))"
proof -
  obtain what where fd: "FillDefaults A L cm net = fill_defaults L (defaults_of A net) what cm"
    using FillDefaults_eq by blast
  obtain r cm1 where run: "fill_defaults L (defaults_of A net) what cm = (r, cm1)" by force
  have "r = None \<and> stored cm1 (fold apply_default (defaults_of A net) (val f))"
    by (rule fill_defaults_stored [OF load wf _ plain_defaults_of [OF blocks] run])
       (use sections_defaults_of [OF secs] in blast)
  then have filled: "r = None" "stored cm1 (defaulted A net (val f))"
    by (simp_all add: defaulted_def fold_apply_default [OF distinct_defaults_of])
  then obtain f1 where f1: "Load L (cm_get cm1 ConfigMapDataKey) = Inr f1" "wf f1"
      "val f1 = defaulted A net (val f)" by (auto simp: stored_def)
  obtain errs cm2 where "validate_config_map L (A = AdaptorK8s) order cm1 = Inr (errs, cm2)"
      "errs = [] \<longleftrightarrow> config_ok (A = AdaptorK8s) (val f1)" "stored cm2 (drop_unsupported (val f1))"
    using validate_config_map_ok [OF f1(1,2) order] by blast
  with f1(3) fd run filled(1) show ?thesis
    by (intro that [of cm1 errs cm2]) (simp_all add: validateConfigMap_eq)
qed

text \<open>The step of the handler: it goes on exactly when the completed options are acceptable.\<close>

lemma complete_config_run:
  assumes load: "Load L (cm_get cm ConfigMapDataKey) = Inr f" and wf: "wf f"
    and secs: "{''nsx_v3'', ''ha'', ''nsx_node_agent''} \<subseteq> secs f"
    and blocks: "ini_text (clusterNetworkBlocks net)"
    and order: "\<And>t. mset (order t) = mset t"
    and run: "run_state (complete_config E L order A cm net) s = (r, s')"
  shows "if acceptable A net (val f)
    then s' = s \<and> (\<exists>cm'. r = Inr cm' \<and> stored cm' (drop_unsupported (defaulted A net (val f))))
    else (\<exists>e. r = Inl (done_with (Some e))) \<and> sm_failing (status s') OperatorConfig \<noteq> None"
proof -
  from completion [OF load wf secs blocks order, of A] obtain cm1 errs cm2 where
    *: "FillDefaults A L cm net = (None, cm1)" "validateConfigMap A L order cm1 = Inr (errs, cm2)"
      "errs = [] \<longleftrightarrow> config_ok (A = AdaptorK8s) (defaulted A net (val f))"
      "stored cm2 (drop_unsupported (defaulted A net (val f)))" by blast
  show ?thesis
  proof (cases "acceptable A net (val f)")
    case True
    with * run show ?thesis by (auto simp: acceptable_def complete_config_def Validate_def)
  next
    case False
    with * have "errs @ validateClusterNetwork A net \<noteq> []" by (auto simp: acceptable_def)
    then obtain e where "Validate A L order cm1 net = Inr (Some e, cm2)"
      using * by (auto simp: Validate_def Let_def)
    with * run have "s' = snd (run_state (SetDegraded (st E) OperatorConfig ''InvalidOperatorConfig''
        (''The operator configuration is invalid: '' @ err_text e)) s)"
        "r = Inl (done_with (Some e))"
      by (auto simp: complete_config_def split: prod.splits)
    with False show ?thesis by (auto simp: SetDegraded_def)
  qed
qed

end

end
