(* ===== verification/Pod_Controller.thy ===== *)
theory Pod_Controller
  imports Quiet_Calls
begin

text \<open>
  The pod controller: \<open>pkg/controller/pod/pod_controller.go\<close>. A specification that was never
  shared is a nil object; what the libraries do with a nil object is a parameter, and where the
  code prints it the nil pointer is dereferenced.
\<close>

section \<open>The calls\<close>

record 'w pod_api =
  pc :: "'w cluster_api"
  set_owner_nil :: "network \<Rightarrow> go_error option"
  apply_nil :: "'w \<Rightarrow> go_error option \<times> 'w"

section \<open>The resources\<close>

definition getNsxSystemNsName :: string where
  "getNsxSystemNsName = NsxNamespace"

definition getNsxNcpDeployments :: "string \<Rightarrow> nsname list" where
  "getNsxNcpDeployments nsxSystemNs = [nsn nsxSystemNs NsxNcpDeploymentName]"

definition getNsxNcpDs :: "string \<Rightarrow> nsname list" where
  "getNsxNcpDs nsxSystemNs = [nsn nsxSystemNs NsxNodeAgentDsName, nsn nsxSystemNs NsxNcpBootstrapDsName]"

definition mergeAndGetNsxNcpResources :: "nsname list list \<Rightarrow> nsname list" where
  "mergeAndGetNsxNcpResources resources = foldl (@) [] resources"

text \<open>The new controller: the resources it watches and its adaptor; the manager monitors them.\<close>

definition newReconciler_pod :: "('w operator, nsname list \<times> adaptor) state" where
  "newReconciler_pod = do {
     let nsxSystemNs = getNsxSystemNsName;
     let nsxNcpDs = getNsxNcpDs nsxSystemNs;
     SetDaemonSets nsxNcpDs;
     let nsxNcpDeployments = getNsxNcpDeployments nsxSystemNs;
     SetDeployments nsxNcpDeployments;
     A \<leftarrow> gets (\<lambda>s. adaptor_for (si_AdaptorName (sharedInfo s)));
     ret (mergeAndGetNsxNcpResources [nsxNcpDs, nsxNcpDeployments], A)
   }"

definition isForNcpDeployOrNodeAgentDS :: "nsname list \<Rightarrow> request \<Rightarrow> bool" where
  "isForNcpDeployOrNodeAgentDS nsxNcpResources req \<longleftrightarrow>
     (\<exists>r \<in> set nsxNcpResources. ns_namespace r = req_namespace req \<and> ns_name r = req_name req)"

definition isForNsxNodeAgentPod :: "request \<Rightarrow> bool" where
  "isForNsxNodeAgentPod req \<longleftrightarrow>
     req_namespace req = NsxNamespace \<and> Contains (req_name req) NsxNodeAgentDsName
     \<and> req_name req \<noteq> NsxNodeAgentDsName"

section \<open>Recreating a deleted resource\<close>

definition identifyAndGetK8SObjToCreate :: "shared_info \<Rightarrow> string \<Rightarrow> unstructured option" where
  "identifyAndGetK8SObjToCreate si resName =
     (if resName = NsxNcpBootstrapDsName then si_NsxNcpBootstrapDsSpec si
      else if resName = NsxNodeAgentDsName then si_NsxNodeAgentDsSpec si
      else si_NsxNcpDeploymentSpec si)"

definition nil_object :: go_error where
  "nil_object = GoPanic ''invalid memory address or nil pointer dereference''"

definition setControllerReference_pod ::
  "'w pod_api \<Rightarrow> adaptor \<Rightarrow> unstructured option
   \<Rightarrow> ('w operator, go_error option \<times> unstructured option) state" where
  "setControllerReference_pod P A obj =
     (case A of
        AdaptorK8s \<Rightarrow> ret (None, obj)
      | AdaptorOc \<Rightarrow> do {
          net \<leftarrow> gets (\<lambda>s. si_NetworkConfig (sharedInfo s));
          case net of
            None \<Rightarrow> ret (Some (GoError
              ''NetworkConfig empty. Waiting for config_map controller to set it''), obj)
          | Some net \<Rightarrow>
              (case obj of
                 None \<Rightarrow> ret (case set_owner_nil P net of None \<Rightarrow> None | Some e \<Rightarrow> Some nil_object, None)
               | Some u \<Rightarrow>
                   (case set_owner (pc P) net u of
                      (None, u) \<Rightarrow> ret (None, Some u)
                    | (Some err, u) \<Rightarrow>
                        (let err = wrapf err (''could not set reference for '' @ gvk_path (pc P) u) in do {
                           SetDegraded (st (pc P)) OperatorConfig ''ApplyObjectsError''
                             (''Failed to apply objects: '' @ err_text err);
                           ret (Some err, Some u)
                         })))
        })"

definition createK8sObject ::
  "'w pod_api \<Rightarrow> unstructured option \<Rightarrow> ('w operator, go_error option) state" where
  "createK8sObject P obj =
     (case obj of
        None \<Rightarrow> do {
          e \<leftarrow> api (apply_nil P);
          ret (case e of None \<Rightarrow> None | Some err \<Rightarrow> Some nil_object)
        }
      | Some u \<Rightarrow> do {
          e \<leftarrow> api (apply_object (pc P) u);
          case e of
            None \<Rightarrow> ret None
          | Some err \<Rightarrow> do {
              SetDegraded (st (pc P)) OperatorConfig ''ApplyOperatorConfig''
                (''Failed to apply operator configuration: '' @ err_text err);
              ret (Some err)
            }
        })"

definition recreateNsxNcpResourceIfDeleted ::
  "'w pod_api \<Rightarrow> adaptor \<Rightarrow> string \<Rightarrow> ('w operator, go_error option) state" where
  "recreateNsxNcpResourceIfDeleted P A resName = do {
     r \<leftarrow> CheckIfNCPK8sResourceExists (st (pc P)) resName;
     case r of
       Inl err \<Rightarrow> ret (Some err)
     | Inr doesResExist \<Rightarrow>
         if doesResExist then ret None
         else do {
           k8sObj \<leftarrow> gets (\<lambda>s. identifyAndGetK8SObjToCreate (sharedInfo s) resName);
           r \<leftarrow> setControllerReference_pod P A k8sObj;
           case r of
             (Some err, _) \<Rightarrow> ret (Some err)
           | (None, k8sObj) \<Rightarrow> createK8sObject P k8sObj
         }
   }"

section \<open>Restarting node agents with a broken resolv.conf\<close>

text \<open>
  The logs of a container, over the Kubernetes client library: the last 50 lines of its previous
  run. The container that the code asks for is always the node agent's, whatever its argument.
\<close>

record pod_log_options =
  lo_Container :: string
  lo_Previous :: bool
  lo_TailLines :: int

record ('w, 'l) log_client =
  lc_config :: "'w \<Rightarrow> go_error option \<times> 'w"
  lc_clientset :: "'w \<Rightarrow> go_error option \<times> 'w"
  lc_stream :: "nsname \<Rightarrow> pod_log_options \<Rightarrow> 'w \<Rightarrow> (go_error + 'l) \<times> 'w"
  lc_copy :: "'l \<Rightarrow> 'w \<Rightarrow> (go_error + string) \<times> 'w"
  lc_close :: "'l \<Rightarrow> 'w \<Rightarrow> unit \<times> 'w"

definition agent_log_options :: pod_log_options where
  "agent_log_options = \<lparr>lo_Container = NsxNodeAgentContainerName, lo_Previous = True, lo_TailLines = 50\<rparr>"

definition getContainerLogsInPod ::
  "('w, 'l) log_client \<Rightarrow> pod \<Rightarrow> string \<Rightarrow> ('w, go_error + string) state" where
  "getContainerLogsInPod K p containerName = do {
     e \<leftarrow> State (lc_config K);
     case e of
       Some err \<Rightarrow> ret (Inl err)
     | None \<Rightarrow> do {
         e \<leftarrow> State (lc_clientset K);
         case e of
           Some err \<Rightarrow> ret (Inl err)
         | None \<Rightarrow> do {
             r \<leftarrow> State (lc_stream K (nsn (p_namespace p) (p_name p)) agent_log_options);
             case r of
               Inl err \<Rightarrow> ret (Inl err)
             | Inr podLogs \<Rightarrow> do {
                 r \<leftarrow> State (lc_copy K podLogs);
                 u \<leftarrow> State (lc_close K podLogs);
                 ret r
               }
           }
       }
   }"

text \<open>The cluster as the pod controller calls it, with its own way to read logs.\<close>

definition with_pod_logs :: "('w, 'l) log_client \<Rightarrow> 'w cluster_api \<Rightarrow> 'w cluster_api" where
  "with_pod_logs K E = E\<lparr>container_logs := (\<lambda>p name. run_state (getContainerLogsInPod K p name))\<rparr>"

text \<open>Reading logs changes nothing that the calls of the client library leave alone.\<close>

lemma pod_logs_view:
  assumes "\<And>w. V (snd (lc_config K w)) = V w" "\<And>w. V (snd (lc_clientset K w)) = V w"
    "\<And>k opts w. V (snd (lc_stream K k opts w)) = V w" "\<And>l w. V (snd (lc_copy K l w)) = V w"
    "\<And>l w. V (snd (lc_close K l w)) = V w"
  shows "V (snd (container_logs (with_pod_logs K E) p name w)) = V w"
proof -
  have "keeps V (getContainerLogsInPod K p name)"
    unfolding getContainerLogsInPod_def
    by (intro keeps_rules; simp add: keeps_def assms)
  from keeps_run [OF this] show ?thesis by (simp add: with_pod_logs_def)
qed

definition isNodeAgentContainerInCLB :: "pod \<Rightarrow> bool" where
  "isNodeAgentContainerInCLB p \<longleftrightarrow>
     (\<exists>cs \<in> set (p_containerStatuses p). cs_name cs = NsxNodeAgentContainerName
        \<and> (case cs_waiting cs of None \<Rightarrow> False | Some w \<Rightarrow> cr_reason w = ''CrashLoopBackOff''))"

definition unresolved :: string where
  "unresolved = ''Failed to establish a new connection: [Errno -2] Name or service not known''"

fun clb_loop ::
  "'w cluster_api \<Rightarrow> pod list \<Rightarrow> pod list \<Rightarrow> ('w operator, go_error + pod list) state" where
  "clb_loop E [] podsInCLB = ret (Inr podsInCLB)"
| "clb_loop E (p # ps) podsInCLB =
     (if isNodeAgentContainerInCLB p then do {
        r \<leftarrow> api (container_logs E p NsxNodeAgentContainerName);
        case r of
          Inl err \<Rightarrow> ret (Inl err)
        | Inr nodeAgentLogs \<Rightarrow>
            clb_loop E ps (if Contains nodeAgentLogs unresolved then podsInCLB @ [p] else podsInCLB)
      }
      else clb_loop E ps podsInCLB)"

definition identifyPodsInCLBDueToInvalidResolvConf ::
  "'w cluster_api \<Rightarrow> ('w operator, go_error + pod list) state" where
  "identifyPodsInCLBDueToInvalidResolvConf E = do {
     r \<leftarrow> api (list_pods (st E) (''component'', NsxNodeAgentDsName));
     case r of
       Inl err \<Rightarrow> ret (Inl err)
     | Inr pods \<Rightarrow> clb_loop E pods []
   }"

fun delete_loop :: "'w cluster_api \<Rightarrow> pod list \<Rightarrow> bool \<Rightarrow> ('w operator, bool) state" where
  "delete_loop E [] allPodsDeleted = ret allPodsDeleted"
| "delete_loop E (p # ps) allPodsDeleted = do {
     e \<leftarrow> api (delete_pod E p);
     delete_loop E ps (if e \<noteq> None then False else allPodsDeleted)
   }"

definition deletePods :: "'w cluster_api \<Rightarrow> pod list \<Rightarrow> ('w operator, bool) state" where
  "deletePods E pods = delete_loop E pods True"

definition recreateNodeAgentPodsIfInvalidResolvConf ::
  "'w cluster_api \<Rightarrow> ('w operator, go_error option) state" where
  "recreateNodeAgentPodsIfInvalidResolvConf E = do {
     r \<leftarrow> identifyPodsInCLBDueToInvalidResolvConf E;
     case r of
       Inl err \<Rightarrow> ret (Some err)
     | Inr podsInCLB \<Rightarrow>
         if length podsInCLB > 0 then do {
           deleted \<leftarrow> deletePods E podsInCLB;
           ret (if \<not> deleted then Some (GoError
             ''Error occured while trying to restart pods in CLB because of invalid resolv.conf'')
                else None)
         }
         else ret None
   }"

section \<open>The handler\<close>

definition Reconcile_pod ::
  "'w pod_api \<Rightarrow> nsname list \<Rightarrow> adaptor \<Rightarrow> request \<Rightarrow> ('w operator, outcome) state" where
  "Reconcile_pod P nsxNcpResources A req = do {
     r \<leftarrow> CheckExistingAgentPods (st (pc P));
     if fst r \<noteq> emptyResult \<or> snd r \<noteq> None then ret r
     else if \<not> isForNcpDeployOrNodeAgentDS nsxNcpResources req then
       (if isForNsxNodeAgentPod req
        then SetNodeConditionFromPod (st (pc P)) (nsn (req_namespace req) (req_name req)) None
        else ret (emptyResult, None))
     else do {
       SetFromPodsForOverall (st (pc P));
       err \<leftarrow> recreateNsxNcpResourceIfDeleted P A (req_name req);
       case err of
         Some e \<Rightarrow> ret (retry_with e)
       | None \<Rightarrow>
           if req_name req = NsxNodeAgentDsName then do {
             err \<leftarrow> recreateNodeAgentPodsIfInvalidResolvConf (pc P);
             case err of
               Some e \<Rightarrow> ret (retry_with e)
             | None \<Rightarrow> ret (requeueAfter DefaultResyncPeriod, None)
           }
           else ret (requeueAfter DefaultResyncPeriod, None)
     }
   }"

end
