(* ===== verification/Pod_Facts.thy ===== *)
theory Pod_Facts
  imports Pod_Controller ConfigMap_Outcomes
begin

text \<open>
  What the pod controller applies and deletes. \<open>pod_calls\<close> adds to \<open>apply_log\<close> that applying a
  nil object changes nothing; \<open>delete_log\<close> gives every confirmed deletion of a pod to a log.
\<close>

section \<open>The shared specifications\<close>

text \<open>The status manager leaves the shared specifications and the network alone.\<close>

definition specs_of :: "'w operator \<Rightarrow> (string \<Rightarrow> unstructured option) \<times> network option" where
  "specs_of s = (identifyAndGetK8SObjToCreate (sharedInfo s), si_NetworkConfig (sharedInfo s))"

lemma specs_world [simp]: "specs_of (s\<lparr>world := w\<rparr>) = specs_of s"
  and specs_boot [simp]: "specs_of (s\<lparr>firstBoot := b\<rparr>) = specs_of s"
  and specs_status [simp]: "specs_of (s\<lparr>status := m\<rparr>) = specs_of s"
  by (simp_all add: specs_of_def)

lemma specs_start [simp]:
  "specs_of (s\<lparr>sharedInfo := (sharedInfo s)\<lparr>si_LastNodeAgentStartTime := t\<rparr>\<rparr>) = specs_of s"
  by (simp add: specs_of_def identifyAndGetK8SObjToCreate_def fun_eq_iff)

lemma specs_local: "local_state s' = local_state s \<Longrightarrow> specs_of s' = specs_of s"
  by (simp add: local_state_def specs_of_def)

lemma keeps_specs_local: "keeps local_state m \<Longrightarrow> keeps specs_of m"
  by (auto simp: keeps_def intro: specs_local)

lemma keeps_specs_reports:
  "keeps specs_of (setDegraded S l r m)" "keeps specs_of (setNotDegraded S l)"
  "keeps specs_of (SetDegraded S l r m)" "keeps specs_of (SetNotDegraded S l)"
  unfolding SetDegraded_def SetNotDegraded_def setDegraded_def setNotDegraded_def
  by (intro keeps_rules keeps_specs_local frame; simp)+

lemma keeps_specs_node_condition: "keeps specs_of (setNodeConditionFromPod S k pd)"
  unfolding setNodeConditionFromPod_def node_condition_of_pod_def setNodeNetworkUnavailable_def
    update_and_assert_def updateNodeStatus_def combineNode_def assertNodeStatus_def Let_def
  by (intro keeps_rules; simp)

lemma keeps_specs_agent_pods: "keeps specs_of (CheckExistingAgentPods S)"
  unfolding CheckExistingAgentPods_def setNodeNetworkUnavailable_def
    update_and_assert_def updateNodeStatus_def combineNode_def assertNodeStatus_def Let_def
  by (intro keeps_rules keeps_specs_node_condition; simp)

lemma keeps_specs_overall: "keeps specs_of (SetFromPodsForOverall S)"
proof -
  have loops: "keeps specs_of (fold_state f xs acc)" if "\<And>x a. keeps specs_of (f x a)"
    for f :: "'x \<Rightarrow> 'b \<Rightarrow> ('a operator, 'b) state" and xs acc
    using that by (induction xs arbitrary: acc) (auto intro!: keeps_rules)
  have "keeps specs_of (ds_step S x a)" "keeps specs_of (dep_step S x b)" for x a b
    unfolding ds_step_def dep_step_def Let_def by (intro keeps_rules; simp)+
  then have survey: "keeps specs_of (survey_rollouts S)"
    unfolding survey_rollouts_def
    by (intro keeps_rules loops keeps_specs_local [OF keeps_getLastPodState]; simp)
  show ?thesis
    unfolding SetFromPodsForOverall_def
    by (intro keeps_rules survey keeps_specs_reports keeps_specs_local [OF keeps_setLastPodState]
        keeps_specs_local [OF keeps_setConditions])
qed

lemma keeps_specs_exists: "keeps specs_of (CheckIfNCPK8sResourceExists S name)"
  unfolding CheckIfNCPK8sResourceExists_def Let_def
  by (auto split: sum.splits res_kind.splits intro!: keeps_rules)

text \<open>What the ConfigMap controller shared last is the last rendered object of that name.\<close>

definition workloads :: "string list" where
  "workloads = [NsxNodeAgentDsName, NsxNcpBootstrapDsName, NsxNcpDeploymentName]"

lemma identify_noted:
  assumes "name \<in> set workloads"
  shows "identifyAndGetK8SObjToCreate (foldl note_resource si objs) name =
    (case find (\<lambda>u. u_name u = name) (rev objs) of None \<Rightarrow> identifyAndGetK8SObjToCreate si name
     | Some u \<Rightarrow> Some u)"
proof (induction objs rule: rev_induct)
  case (snoc u objs)
  have "identifyAndGetK8SObjToCreate (note_resource x u) name =
      (if u_name u = name then Some u else identifyAndGetK8SObjToCreate x name)" for x
    using assms by (auto simp: workloads_def note_resource_def identifyAndGetK8SObjToCreate_def names)
  with snoc show ?case by simp
qed simp

lemma identify_shared:
  assumes "name \<in> set workloads" "find (\<lambda>u. u_name u = name) (rev (ci_objs ci)) = Some u"
  shows "identifyAndGetK8SObjToCreate (sharedInfo (snd (run_state (share_inputs ci) s))) name = Some u"
proof -
  have "identifyAndGetK8SObjToCreate (si\<lparr>si_NetworkConfig := a, si_OperatorConfigMap := b,
      si_OperatorNsxSecret := c\<rparr>) name = identifyAndGetK8SObjToCreate si name" for si a b c
    by (simp add: identifyAndGetK8SObjToCreate_def)
  with identify_noted [OF assms(1), of _ "ci_objs ci"] assms(2) show ?thesis
    by (simp add: share_inputs_def updateSharedInfoWithNsxNcpResources_def)
qed

section \<open>What is applied\<close>

locale pod_calls = apply_log "pc P" V for P :: "'w pod_api" and V :: "'w \<Rightarrow> unstructured list" +
  assumes nil_apply: "V (snd (apply_nil P w)) = V w"
begin

lemma owner_run:
  assumes "run_state (setControllerReference_pod P A obj) s = ((err, obj'), s')"
  shows "V (world s') = V (world s)"
    "map_option ident obj' = map_option ident obj" "A = AdaptorK8s \<Longrightarrow> obj' = obj"
  using assms
  by (auto simp: setControllerReference_pod_def Let_def dest: owner_ident keepsD [OF quiet_SetDegraded]
      split: adaptor.splits option.splits prod.splits)

lemma create_run:
  assumes "run_state (createK8sObject P obj) s = (r, s')"
  shows "V (world s') = (case obj of None \<Rightarrow> V (world s)
    | Some u \<Rightarrow> if r = None then V (world s) @ [u] else V (world s))"
proof (cases obj)
  case None
  with assms nil_apply show ?thesis by (auto simp: createK8sObject_def split: prod.splits) (metis snd_conv)+
next
  case (Some u)
  obtain e w where a: "apply_object (pc P) u (world s) = (e, w)" by force
  from assms Some a log_apply [OF a] show ?thesis
    by (cases e) (auto simp: createK8sObject_def dest: keepsD [OF quiet_SetDegraded] split: prod.splits)
qed

text \<open>The log grows exactly by the shared specification of a workload that was found absent.\<close>

lemma recreate_run:
  assumes "run_state (recreateNsxNcpResourceIfDeleted P A name) s = (r, s')"
  obtains (same) "V (world s') = V (world s)"
      "r = None \<Longrightarrow> fst (run_state (CheckIfNCPK8sResourceExists (st (pc P)) name) s) = Inr True
         \<or> fst (specs_of s) name = None"
    | (created) u u' where "r = None"
      "fst (run_state (CheckIfNCPK8sResourceExists (st (pc P)) name) s) = Inr False"
      "fst (specs_of s) name = Some u" "ident u' = ident u" "A = AdaptorK8s \<Longrightarrow> u' = u"
      "V (world s') = V (world s) @ [u']"
proof -
  obtain x s1 where c: "run_state (CheckIfNCPK8sResourceExists (st (pc P)) name) s = (x, s1)"
    by (metis surj_pair)
  have C: "V (world s1) = V (world s)" "specs_of s1 = specs_of s"
    using keepsD [OF quiet_CheckIfExists c] keepsD [OF keeps_specs_exists c] by simp_all
  show ?thesis
  proof (cases "x = Inr False")
    case False
    with assms c C show ?thesis
      by (intro same) (auto simp: recreateNsxNcpResourceIfDeleted_def split: sum.splits if_splits)
  next
    case True
    let ?obj = "fst (specs_of s) name"
    have obj: "identifyAndGetK8SObjToCreate (sharedInfo s1) name = ?obj"
      using C(2) by (simp add: specs_of_def)
    obtain err obj' s2 where o: "run_state (setControllerReference_pod P A ?obj) s1 = ((err, obj'), s2)"
      by (metis surj_pair)
    note O = owner_run [OF o]
    show ?thesis
    proof (cases err)
      case (Some e)
      with assms c True obj o O C show ?thesis
        by (intro same) (auto simp: recreateNsxNcpResourceIfDeleted_def)
    next
      case None
      with assms c True obj o have cr: "run_state (createK8sObject P obj') s2 = (r, s')"
        by (simp add: recreateNsxNcpResourceIfDeleted_def)
      note run = create_run [OF cr]
      show ?thesis
      proof (cases obj')
        case None
        with run O C show ?thesis by (intro same) auto
      next
        case (Some u')
        with O(2) obtain u where u: "?obj = Some u" "ident u' = ident u" by (cases ?obj) auto
        show ?thesis
        proof (cases "r = None")
          case True
          with run O C Some u c \<open>x = Inr False\<close> show ?thesis by (intro created [of u u']) auto
        qed (use run O C Some in \<open>auto intro: same\<close>)
      qed
    qed
  qed
qed

lemma quiet_restart: "keeps (view_of V) (recreateNodeAgentPodsIfInvalidResolvConf (pc P))"
proof -
  have "keeps (view_of V) (clb_loop (pc P) ps acc)" for ps acc
    by (induction ps arbitrary: acc) (auto intro!: keeps_rules quiet_reads)
  moreover have "keeps (view_of V) (delete_loop (pc P) ps ok)" for ps ok
    by (induction ps arbitrary: ok) (auto intro!: keeps_rules quiet_reads)
  ultimately show ?thesis
    unfolding recreateNodeAgentPodsIfInvalidResolvConf_def deletePods_def
      identifyPodsInCLBDueToInvalidResolvConf_def
    by (intro keeps_rules quiet_ops)
qed

lemma reconcile_pod_run:
  assumes "run_state (Reconcile_pod P res A req) s = (out, s')"
  shows "V (world s') = V (world s) \<or>
    (\<exists>u u'. isForNcpDeployOrNodeAgentDS res req \<and> fst (specs_of s) (req_name req) = Some u
       \<and> ident u' = ident u \<and> (A = AdaptorK8s \<longrightarrow> u' = u) \<and> V (world s') = V (world s) @ [u'])"
proof -
  obtain r s1 where c: "run_state (CheckExistingAgentPods (st (pc P))) s = (r, s1)" by (metis surj_pair)
  note C = keepsD [OF quiet_CheckExistingAgentPods c] keepsD [OF keeps_specs_agent_pods c]
  show ?thesis
  proof (cases "fst r \<noteq> emptyResult \<or> snd r \<noteq> None \<or> \<not> isForNcpDeployOrNodeAgentDS res req")
    case True
    with assms c C show ?thesis
      by (auto simp: Reconcile_pod_def SetNodeConditionFromPod_def
          dest: keepsD [OF quiet_setNodeConditionFromPod] split: if_splits)
  next
    case watched: False
    obtain s2 where o: "run_state (SetFromPodsForOverall (st (pc P))) s1 = ((), s2)"
      by (metis surj_pair old.unit.exhaust)
    note O = keepsD [OF quiet_SetFromPodsForOverall o] keepsD [OF keeps_specs_overall o]
    obtain e s3 where g: "run_state (recreateNsxNcpResourceIfDeleted P A (req_name req)) s2 = (e, s3)"
      by (metis surj_pair)
    have "V (world s') = V (world s3)"
      using assms c watched o g
      by (auto simp: Reconcile_pod_def dest: keepsD [OF quiet_restart]
          split: option.splits prod.splits if_splits)
    moreover from g have "V (world s3) = V (world s2) \<or> (\<exists>u u'. fst (specs_of s2) (req_name req) = Some u
       \<and> ident u' = ident u \<and> (A = AdaptorK8s \<longrightarrow> u' = u) \<and> V (world s3) = V (world s2) @ [u'])"
      by (cases rule: recreate_run) auto
    ultimately show ?thesis using watched C O by auto
  qed
qed

end

section \<open>What is deleted\<close>

text \<open>A crash loop that the logs blame on name resolution.\<close>

definition broken_pod :: "'w cluster_api \<Rightarrow> pod \<Rightarrow> bool" where
  "broken_pod E p \<longleftrightarrow> isNodeAgentContainerInCLB p
     \<and> (\<exists>log. returned (container_logs E p NsxNodeAgentContainerName) log \<and> Contains log unresolved)"

text \<open>What the scan finds when lists and logs do not change: all such pods of the list, in order.\<close>

lemma clb_loop_stable:
  assumes "I (world s)"
    and "\<And>p. p \<in> set ps \<Longrightarrow> isNodeAgentContainerInCLB p \<Longrightarrow>
      answers I (container_logs E p NsxNodeAgentContainerName) (Inr (logs p))"
  shows "\<exists>s'. I (world s') \<and> run_state (clb_loop E ps acc) s
    = (Inr (acc @ filter (\<lambda>p. isNodeAgentContainerInCLB p \<and> Contains (logs p) unresolved) ps), s')"
  using assms
proof (induction ps arbitrary: acc s)
  case (Cons p ps)
  show ?case
  proof (cases "isNodeAgentContainerInCLB p")
    case True
    then have "answers I (container_logs E p NsxNodeAgentContainerName) (Inr (logs p))"
      using Cons.prems(2) by simp
    from answersD [OF this Cons.prems(1)] obtain w where
      "container_logs E p NsxNodeAgentContainerName (world s) = (Inr (logs p), w)" "I w" by blast
    with True Cons.prems(2) Cons.IH [of "s\<lparr>world := w\<rparr>" "if Contains (logs p) unresolved then acc @ [p] else acc"]
    show ?thesis by (simp split: if_splits)
  qed (use Cons in simp)
qed simp

lemma identify_stable:
  assumes "I (world s)" "answers I (list_pods (st E) (''component'', NsxNodeAgentDsName)) (Inr pods)"
    and "\<And>p. p \<in> set pods \<Longrightarrow> isNodeAgentContainerInCLB p \<Longrightarrow>
      answers I (container_logs E p NsxNodeAgentContainerName) (Inr (logs p))"
  shows "\<exists>s'. I (world s') \<and> run_state (identifyPodsInCLBDueToInvalidResolvConf E) s
    = (Inr (filter (\<lambda>p. isNodeAgentContainerInCLB p \<and> Contains (logs p) unresolved) pods), s')"
proof -
  from answersD [OF assms(2,1)] obtain w where
    "list_pods (st E) (''component'', NsxNodeAgentDsName) (world s) = (Inr pods, w)" "I w" by blast
  with clb_loop_stable [of I "s\<lparr>world := w\<rparr>" pods E logs "[]"] assms(3) show ?thesis
    by (simp add: identifyPodsInCLBDueToInvalidResolvConf_def)
qed

locale delete_log =
  fixes E :: "'w cluster_api" and D :: "'w \<Rightarrow> pod list"
  assumes log_delete: "delete_pod E p w = (r, w') \<Longrightarrow> D w' = (if r = None then D w @ [p] else D w)"
    and logs_delete_nothing: "D (snd (container_logs E p c w)) = D w"
    and list_deletes_nothing: "D (snd (list_pods (st E) l w)) = D w"
begin

lemma clb_loop_run:
  assumes "run_state (clb_loop E ps acc) s = (r, s')" "\<forall>p \<in> set acc. broken_pod E p"
  shows "D (world s') = D (world s) \<and> (\<forall>qs. r = Inr qs \<longrightarrow> (\<forall>p \<in> set qs. broken_pod E p) \<and> prefix acc qs)"
  using assms
proof (induction ps arbitrary: acc s)
  case (Cons p ps)
  obtain x w where l: "container_logs E p NsxNodeAgentContainerName (world s) = (x, w)" by force
  then have D: "D w = D (world s)" using logs_delete_nothing by (metis snd_conv)
  show ?case
  proof (cases "isNodeAgentContainerInCLB p")
    case True
    show ?thesis
    proof (cases x)
      case (Inl e)
      with Cons.prems True l D show ?thesis by auto
    next
      case (Inr log)
      let ?acc = "if Contains log unresolved then acc @ [p] else acc"
      have "returned (container_logs E p NsxNodeAgentContainerName) log"
        using l Inr by (auto simp: returned_def)
      then have "\<forall>q \<in> set ?acc. broken_pod E q" using Cons.prems(2) True by (auto simp: broken_pod_def)
      moreover have "run_state (clb_loop E ps ?acc) (s\<lparr>world := w\<rparr>) = (r, s')"
        using Cons.prems(1) True l Inr by simp
      ultimately have "D (world s') = D w \<and>
          (\<forall>qs. r = Inr qs \<longrightarrow> (\<forall>p \<in> set qs. broken_pod E p) \<and> prefix ?acc qs)"
        using Cons.IH [of ?acc "s\<lparr>world := w\<rparr>"] by simp
      then show ?thesis using D by (auto split: if_splits dest: append_prefixD)
    qed
  qed (use Cons in auto)
qed auto

lemma delete_loop_run:
  assumes "run_state (delete_loop E ps ok) s = (b, s')"
  shows "\<exists>gone. D (world s') = D (world s) @ gone \<and> subseq gone ps \<and> (b \<longrightarrow> ok \<and> gone = ps)"
  using assms
proof (induction ps arbitrary: ok s)
  case (Cons p ps)
  obtain e w where d: "delete_pod E p (world s) = (e, w)" by force
  with Cons.prems have "run_state (delete_loop E ps (if e \<noteq> None then False else ok)) (s\<lparr>world := w\<rparr>) = (b, s')"
    by simp
  from Cons.IH [OF this] obtain gone where
    g: "D (world s') = D w @ gone" "subseq gone ps" "b \<longrightarrow> e = None \<and> ok \<and> gone = ps"
    by (auto split: if_splits)
  show ?case
  proof (cases e)
    case None
    with g log_delete [OF d] show ?thesis by (intro exI [of _ "p # gone"]) auto
  next
    case (Some x)
    with g log_delete [OF d] show ?thesis by (intro exI [of _ gone]) auto
  qed
qed simp

lemma restart_run:
  assumes "run_state (recreateNodeAgentPodsIfInvalidResolvConf E) s = (r, s')"
  shows "\<exists>gone. D (world s') = D (world s) @ gone \<and> (\<forall>p \<in> set gone. broken_pod E p)
    \<and> (\<forall>ps. fst (run_state (identifyPodsInCLBDueToInvalidResolvConf E) s) = Inr ps \<longrightarrow> subseq gone ps)
    \<and> (r = None \<longrightarrow> fst (run_state (identifyPodsInCLBDueToInvalidResolvConf E) s) = Inr gone)"
proof -
  obtain x s1 where i: "run_state (identifyPodsInCLBDueToInvalidResolvConf E) s = (x, s1)"
    by (metis surj_pair)
  have I: "D (world s1) = D (world s) \<and> (\<forall>ps. x = Inr ps \<longrightarrow> (\<forall>p \<in> set ps. broken_pod E p))"
    using i list_deletes_nothing [of "(''component'', NsxNodeAgentDsName)" "world s"]
    by (auto simp: identifyPodsInCLBDueToInvalidResolvConf_def split: prod.splits sum.splits
        dest!: clb_loop_run)
  show ?thesis
  proof (cases "\<exists>ps. x = Inr ps \<and> ps \<noteq> []")
    case False
    with assms i I show ?thesis
      by (auto simp: recreateNodeAgentPodsIfInvalidResolvConf_def split: sum.splits intro!: exI [of _ "[]"])
  next
    case True
    then obtain ps where ps: "x = Inr ps" "ps \<noteq> []" by blast
    obtain b where d: "run_state (delete_loop E ps True) s1 = (b, s')"
        "r = (if \<not> b then Some (GoError
             ''Error occured while trying to restart pods in CLB because of invalid resolv.conf'') else None)"
      using assms i ps by (auto simp: recreateNodeAgentPodsIfInvalidResolvConf_def deletePods_def
          split: prod.splits)
    from delete_loop_run [OF d(1)] obtain gone where
      "D (world s') = D (world s1) @ gone" "subseq gone ps" "b \<longrightarrow> gone = ps" by blast
    with I i ps d(2) show ?thesis
      by (intro exI [of _ gone]) (auto dest: list_emb_set)
  qed
qed

end

end
