(* ===== verification/Mem_Cluster.thy ===== *)
theory Mem_Cluster
  imports Pod_Facts Mem_Api
begin

text \<open>
  The cluster in memory of \<open>Mem_Api\<close> with the further stores of the controllers: ConfigMaps,
  Secrets, the network configuration, files, container logs, and the logs of applied objects and
  deleted pods. It provides the interfaces \<open>quiet_calls\<close>, \<open>apply_log\<close>, \<open>pod_calls\<close> and
  \<open>delete_log\<close>. What the manifests decode to is an
  argument; templates are rendered to themselves, and the helpers on JSON objects are small
  concrete ones.
\<close>

record mem_cluster = mem_world +
  c_configmaps :: "nsname \<rightharpoonup> configmap"
  c_secrets :: "nsname \<rightharpoonup> secret"
  c_network :: "network option"
  c_files :: "string \<rightharpoonup> string"
  c_dirs :: "string \<rightharpoonup> string list"
  c_logs :: "string \<rightharpoonup> string"
  c_applied :: "unstructured list"
  c_deleted :: "pod list"

section \<open>JSON helpers\<close>

fun json_path :: "string list \<Rightarrow> json \<Rightarrow> json option" where
  "json_path [] j = Some j"
| "json_path (k # ks) (JObj kvs) =
     (case map_of kvs k of None \<Rightarrow> None | Some j \<Rightarrow> json_path ks j)"
| "json_path (k # ks) _ = None"

fun json_put :: "string list \<Rightarrow> json \<Rightarrow> json \<Rightarrow> json" where
  "json_put [] v j = v"
| "json_put (k # ks) v (JObj kvs) =
     JObj (AList.update k
       (json_put ks v (case map_of kvs k of None \<Rightarrow> JObj [] | Some j \<Rightarrow> j)) kvs)"
| "json_put (k # ks) v _ = JObj [(k, json_put ks v (JObj []))]"

definition stamp_path :: "string list" where
  "stamp_path = [''metadata'', ''annotations'', ''updateTimeStamp'']"

definition mem_merge :: "json \<Rightarrow> json \<Rightarrow> go_error option \<times> json" where
  "mem_merge dst src =
     (None, case json_path stamp_path dst of
              Some _ \<Rightarrow> dst
            | None \<Rightarrow> (case json_path stamp_path src of
                         None \<Rightarrow> dst | Some v \<Rightarrow> json_put stamp_path v dst))"

definition add_owner :: "network \<Rightarrow> unstructured \<Rightarrow> go_error option \<times> unstructured" where
  "add_owner net u =
     (None, u\<lparr>u_body := json_put [''metadata'', ''ownerReferences''] (JStr ''Network'') (u_body u)\<rparr>)"

definition network_object :: unstructured where
  "network_object = \<lparr>u_kind = ''Network'', u_name = ''cluster'', u_namespace = [], u_body = JObj []\<rparr>"

section \<open>The calls\<close>

definition mem_apply :: "unstructured \<Rightarrow> 'a mem_cluster_scheme \<Rightarrow> go_error option \<times> 'a mem_cluster_scheme" where
  "mem_apply u = writing (\<lambda>w. (None, w\<lparr>c_applied := c_applied w @ [u]\<rparr>))"

definition mem_cluster_api ::
  "(string \<Rightarrow> string) \<Rightarrow> (string \<Rightarrow> (go_error + unstructured) list)
   \<Rightarrow> (pod_state \<Rightarrow> go_error + string) \<Rightarrow> (string \<Rightarrow> go_error + pod_state)
   \<Rightarrow> 'a mem_cluster_scheme cluster_api" where
  "mem_cluster_api env docs mar unmar =
     \<lparr>st = mem_api mar unmar,
      get_configmap = (\<lambda>k. reading (\<lambda>w. found ''configmap'' (c_configmaps w k))),
      get_secret = (\<lambda>k. reading (\<lambda>w. found ''secret'' (c_secrets w k))),
      get_network = (\<lambda>n. reading (\<lambda>w. found ''network'' (c_network w))),
      apply_object = mem_apply,
      delete_pod = (\<lambda>p. writing (\<lambda>w. (None, w\<lparr>m_pods := filter (\<lambda>q. snd q \<noteq> p) (m_pods w), c_deleted := c_deleted w @ [p]\<rparr>))),
      delete_all_pods = (\<lambda>ns l. writing (\<lambda>w.
        (None, w\<lparr>m_pods := filter (\<lambda>q. \<not> (p_namespace (snd q) = ns \<and> fst q = l)) (m_pods w)\<rparr>))),
      container_logs = (\<lambda>p c. reading (\<lambda>w. found ''log'' (c_logs w (p_name p)))),
      getenv = env,
      read_file = (\<lambda>p. reading (\<lambda>w. found ''file'' (c_files w p))),
      open_and_read = (\<lambda>p. reading (\<lambda>w. case found ''file'' (c_files w p) of
                          Inl e \<Rightarrow> Inl e | Inr t \<Rightarrow> Inr (t, None))),
      walk_dir = (\<lambda>d w. (case c_dirs w d of
          None \<Rightarrow> [\<lparr>we_path = d, we_dir = False, we_err = Some (NotFound ''no such directory'')\<rparr>]
        | Some fs \<Rightarrow> map (\<lambda>f. \<lparr>we_path = f, we_dir = False, we_err = None\<rparr>) fs, w)),
      parse_template = (\<lambda>path source. None),
      exec_template = (\<lambda>ind source d. Inr source),
      decode_docs = docs,
      marshal_selector = (\<lambda>m. Inr (case m of None \<Rightarrow> ''null'' | Some _ \<Rightarrow> ''{}'')),
      marshal_tolerations = (\<lambda>t. Inr (case t of None \<Rightarrow> ''null'' | Some _ \<Rightarrow> ''[]'')),
      marshal_network = (\<lambda>net. Inr ''{}''),
      unmarshal_object = (\<lambda>b. Inr network_object),
      set_owner = add_owner,
      nested_map = (\<lambda>j path. Inr (json_path path j)),
      set_nested_field = (\<lambda>j v path. (None, json_put path v j)),
      remove_nested_field = (\<lambda>j path. j),
      mergo_merge = mem_merge,
      clear_managed_fields = id,
      set_resource_version = (\<lambda>u v. u),
      set_uid = (\<lambda>u v. u),
      fmt_gvk = u_kind,
      fmt_rfc3339 = (\<lambda>t. Itoa (t div second))\<rparr>"

section \<open>Evaluation\<close>

text \<open>The calls, and what they do when no fault is pending.\<close>

lemma cluster_sel [simp]:
  "st (mem_cluster_api env docs mar unmar) = mem_api mar unmar"
  "get_configmap (mem_cluster_api env docs mar unmar) k = reading (\<lambda>w. found ''configmap'' (c_configmaps w k))"
  "get_secret (mem_cluster_api env docs mar unmar) k = reading (\<lambda>w. found ''secret'' (c_secrets w k))"
  "get_network (mem_cluster_api env docs mar unmar) n = reading (\<lambda>w. found ''network'' (c_network w))"
  "apply_object (mem_cluster_api env docs mar unmar) = mem_apply"
  "open_and_read (mem_cluster_api env docs mar unmar) p = reading (\<lambda>w. case found ''file'' (c_files w p) of
                          Inl e \<Rightarrow> Inl e | Inr t \<Rightarrow> Inr (t, None))"
  "read_file (mem_cluster_api env docs mar unmar) p = reading (\<lambda>w. found ''file'' (c_files w p))"
  "walk_dir (mem_cluster_api env docs mar unmar) = (\<lambda>d w. (case c_dirs w d of
          None \<Rightarrow> [\<lparr>we_path = d, we_dir = False, we_err = Some (NotFound ''no such directory'')\<rparr>]
        | Some fs \<Rightarrow> map (\<lambda>f. \<lparr>we_path = f, we_dir = False, we_err = None\<rparr>) fs, w))"
  "decode_docs (mem_cluster_api env docs mar unmar) = docs"
  "getenv (mem_cluster_api env docs mar unmar) = env"
  "parse_template (mem_cluster_api env docs mar unmar) p x = None"
  "exec_template (mem_cluster_api env docs mar unmar) ind source d = Inr source"
  "marshal_selector (mem_cluster_api env docs mar unmar) m = Inr (case m of None \<Rightarrow> ''null'' | Some _ \<Rightarrow> ''{}'')"
  "marshal_tolerations (mem_cluster_api env docs mar unmar) = (\<lambda>t. Inr (case t of None \<Rightarrow> ''null'' | Some _ \<Rightarrow> ''[]''))"
  "set_owner (mem_cluster_api env docs mar unmar) = add_owner"
  "marshal_network (mem_cluster_api env docs mar unmar) net = Inr ''{}''"
  "unmarshal_object (mem_cluster_api env docs mar unmar) x = Inr network_object"
  by (simp_all add: mem_cluster_api_def)

lemma next_fault_idle: "m_faults w = [] \<Longrightarrow> next_fault w = (None, w)"
  by (simp add: next_fault_def)

lemma reading_idle [simp]: "m_faults w = [] \<Longrightarrow> reading f w = (f w, w)"
  by (simp add: reading_def next_fault_idle)

lemma mem_apply_idle [simp]:
  "m_faults w = [] \<Longrightarrow> mem_apply u w = (None, w\<lparr>c_applied := c_applied w @ [u]\<rparr>)"
  by (simp add: mem_apply_def writing_def next_fault_idle)

section \<open>It meets the interfaces\<close>

text \<open>A view that the writes of the status manager and the deletion of a pod leave alone.\<close>

lemma mem_quiet_calls:
  assumes V: "faultless V" and
    writes: "\<And>c w. V (snd (mem_update_co c w)) = V w" "\<And>c w. V (snd (mem_create_co c w)) = V w"
      "\<And>c d w. V (snd (mem_patch_co c d w)) = V w" "\<And>n w. V (snd (mem_update_ni n w)) = V w"
      "\<And>nd w. V (snd (mem_update_node nd w)) = V w" "\<And>w. V (snd (mem_clock w)) = V w"
      "\<And>p w. V (w\<lparr>m_pods := filter (\<lambda>q. snd q \<noteq> p) (m_pods w), c_deleted := c_deleted w @ [p]\<rparr>) = V w"
  shows "quiet_calls (mem_cluster_api env docs mar unmar) V"
proof
  show "(\<And>w. V (snd (f w)) = V w) \<Longrightarrow>
      V (snd (retry_on_conflict (st (mem_cluster_api env docs mar unmar)) f w)) = V w" for f w
    by (simp add: mem_cluster_api_def mem_api_def attempts_view)
qed (simp_all add: mem_cluster_api_def mem_api_def reading_view [OF V] writing_view [OF V] writes)

lemma faultless_logs: "faultless c_applied" "faultless c_deleted"
  by (auto simp: faultless_def next_fault_def split: list.splits)

lemma applied_mem_writes:
  "c_applied (snd (mem_update_co c w)) = c_applied w" "c_applied (snd (mem_create_co c w)) = c_applied w"
  "c_applied (snd (mem_patch_co c d w)) = c_applied w" "c_applied (snd (mem_update_ni n w)) = c_applied w"
  "c_applied (snd (mem_update_node nd w)) = c_applied w" "c_applied (snd (mem_clock w)) = c_applied w"
  by (auto simp: mem_update_co_def mem_create_co_def mem_patch_co_def mem_update_ni_def
      mem_update_node_def mem_clock_def Let_def split: option.splits)

lemma mem_apply_law:
  "mem_apply u w = (r, w') \<Longrightarrow> c_applied w' = (if r = None then c_applied w @ [u] else c_applied w)"
  by (auto simp: mem_apply_def writing_def dest: faultlessD [OF faultless_logs(1)]
      split: prod.splits option.splits)

lemma add_owner_ident: "add_owner net u = (err, u') \<Longrightarrow> ident u' = ident u"
  by (auto simp: add_owner_def)

interpretation cluster: apply_log "mem_cluster_api env docs mar unmar" c_applied
  for env docs mar unmar
proof (intro apply_log.intro apply_log_axioms.intro mem_quiet_calls applied_mem_writes faultless_logs)
  show "apply_object (mem_cluster_api env docs mar unmar) obj w = (r, w') \<Longrightarrow>
      c_applied w' = (if r = None then c_applied w @ [obj] else c_applied w)" for obj w r w'
    by (simp add: mem_cluster_api_def mem_apply_law)
  show "set_owner (mem_cluster_api env docs mar unmar) net obj = (err, obj') \<Longrightarrow> ident obj' = ident obj"
    for net obj err obj' by (auto simp: mem_cluster_api_def intro: add_owner_ident)
qed simp

interpretation cluster_deletes: delete_log "mem_cluster_api env docs mar unmar" c_deleted
  for env docs mar unmar
proof
  show "delete_pod (mem_cluster_api env docs mar unmar) p w = (r, w') \<Longrightarrow>
      c_deleted w' = (if r = None then c_deleted w @ [p] else c_deleted w)" for p w r w'
    by (auto simp: mem_cluster_api_def writing_def dest: faultlessD [OF faultless_logs(2)]
        split: prod.splits option.splits)
qed (simp_all add: mem_cluster_api_def mem_api_def reading_view [OF faultless_logs(2)])

text \<open>Here a nil object is refused with a panic.\<close>

definition mem_pod_api ::
  "(string \<Rightarrow> string) \<Rightarrow> (string \<Rightarrow> (go_error + unstructured) list)
   \<Rightarrow> (pod_state \<Rightarrow> go_error + string) \<Rightarrow> (string \<Rightarrow> go_error + pod_state) \<Rightarrow> 'a mem_cluster_scheme pod_api" where
  "mem_pod_api env docs mar unmar =
     \<lparr>pc = mem_cluster_api env docs mar unmar, set_owner_nil = (\<lambda>net. Some nil_object),
      apply_nil = (\<lambda>w. (Some nil_object, w))\<rparr>"

interpretation cluster_pods: pod_calls "mem_pod_api env docs mar unmar" c_applied
  for env docs mar unmar
proof -
  have pc: "pc (mem_pod_api env docs mar unmar) = mem_cluster_api env docs mar unmar"
    by (simp add: mem_pod_api_def)
  show "pod_calls (mem_pod_api env docs mar unmar) c_applied"
    unfolding pod_calls_def pod_calls_axioms_def pc
    by (simp add: mem_pod_api_def cluster.apply_log_axioms)
qed

end
