(* ===== verification/Demo_Cluster.thy ===== *)
theory Demo_Cluster
  imports Config_Completion Mem_Cluster Status_Properties
begin

text \<open>
  A concrete cluster in memory, and a complete reconciliation of the ConfigMap controller on
  it, step by step: the steps that go through the INI library are evaluated with its laws, the
  others by simplification.
\<close>

section \<open>The cluster\<close>

definition demo_workload :: "string \<Rightarrow> string \<Rightarrow> unstructured" where
  "demo_workload kind name = \<lparr>u_kind = kind, u_name = name, u_namespace = NsxNamespace,
     u_body = JObj [(''spec'', JObj [(''template'', JObj [])])]\<rparr>"

definition demo_docs :: "string \<Rightarrow> (go_error + unstructured) list" where
  "demo_docs s =
     [Inr (demo_workload ''PodSecurityPolicy'' ''psp''), Inr (demo_workload ''Deployment'' ''nsx-ncp''),
      Inr (demo_workload ''DaemonSet'' ''nsx-node-agent'')]"

definition demo_env :: "string \<Rightarrow> string" where
  "demo_env k = ''ncp:1''"

abbreviation demo_cluster_api :: "mem_cluster cluster_api" where
  "demo_cluster_api \<equiv> mem_cluster_api demo_env demo_docs demo_marshal demo_unmarshal"

definition demo_cluster :: mem_cluster where
  "demo_cluster = mem_world.extend demo_world
     \<lparr>c_configmaps = [nsn ''nsx-system-operator'' ''nsx-ncp-operator-config'' \<mapsto> demo_cm],
      c_secrets = Map.empty, c_network = Some demo_network,
      c_files = [''/host/etc/os-release'' \<mapsto> ''ID=Ubuntu'', ''m.yaml'' \<mapsto> ''x''],
      c_dirs = [''./manifest/kubernetes/ubuntu'' \<mapsto> [''m.yaml'']], c_logs = Map.empty,
      c_applied = [], c_deleted = []\<rparr>"

definition demo_operator :: "mem_cluster operator" where
  "demo_operator = \<lparr>world = demo_cluster,
     status = New_StatusManager ''nsx-ncp'' ''nsx-system-operator'' demo_info,
     sharedInfo = demo_info, firstBoot = True, cachedNodeSet = [], appliedConfigMap = None\<rparr>"

definition demo_request :: request where
  "demo_request = \<lparr>req_namespace = ''nsx-system-operator'', req_name = ''nsx-ncp-operator-config''\<rparr>"

section \<open>The run\<close>

lemma demo_faults [simp]: "m_faults demo_cluster = []"
  by (simp add: demo_cluster_def demo_world_def mem_world.defs)

lemma demo_watched: "watched_namespace (sm_OperatorNamespace (status demo_operator)) = ''nsx-system-operator''"
  by (simp add: demo_operator_def New_StatusManager_def watched_namespace_def)

lemma demo_accepts: "accepts_request ''nsx-system-operator'' demo_request"
  by (simp add: accepts_request_def demo_request_def names)


definition demo_objs :: "unstructured list" where
  "demo_objs = [demo_workload ''PodSecurityPolicy'' ''psp'', demo_workload ''Deployment'' ''nsx-ncp'',
      demo_workload ''DaemonSet'' ''nsx-node-agent'']"

abbreviation demo_ci :: "int \<Rightarrow> configmap \<Rightarrow> cm_inputs" where
  "demo_ci n cm \<equiv> \<lparr>ci_replicas = n, ci_nodeSelector = None, ci_ncpTolerations = None,
     ci_agentTolerations = None, ci_network = zero_network, ci_instance = cm, ci_nsxSecret = None,
     ci_lbSecret = None, ci_objs = demo_objs\<rparr>"

lemma demo_complete:
  obtains cm f where
    "run_state (complete_config demo_cluster_api mini_ini id AdaptorK8s demo_cm
      zero_network) s = (Inr cm, s)"
    "Load mini_ini (cm_get cm ConfigMapDataKey) = Inr f" "m_wf f"
    "m_val f = drop_unsupported (defaulted AdaptorK8s zero_network (m_val demo_file))"
proof -
  have secs: "{''nsx_v3'', ''ha'', ''nsx_node_agent''} \<subseteq> m_secs demo_file" by (simp add: demo_secs)
  have blocks: "ini_text (clusterNetworkBlocks zero_network)" by code_simp
  have ok: "acceptable AdaptorK8s zero_network (m_val demo_file)"
    by code_simp
  obtain r s1 where run: "run_state (complete_config demo_cluster_api mini_ini id AdaptorK8s demo_cm
      zero_network) s = (r, s1)"
    by force
  from mini.complete_config_run [OF demo_load demo_wf secs blocks _ run] ok that show ?thesis
    by (auto simp: run mini.stored_def)
qed

lemma demo_render:
  assumes cm: "Load mini_ini (cm_get cm ConfigMapDataKey) = Inr f" "m_wf f"
    and v: "m_val f ''ha'' ''enable'' = Some ''True''" and s: "world s = demo_cluster"
  shows "\<exists>n. run_state (Render demo_cluster_api mini_ini cm 1 (Some sel) (Some nt) (Some at)
      None None) s = ((Inr demo_objs, n, cm_init cm), s)"
proof -
  have "list_all ini_name NcpSections" "list_all ini_name AgentSections" by code_simp+
  then obtain ncp agent where gen: "generateConfigMap mini_ini f NcpSections = Inr ncp"
      "generateConfigMap mini_ini f AgentSections = Inr agent"
    using mini.generateConfigMap_view [OF cm(2)] by blast
  obtain h f1 where h: "sec_has_key mini_ini f ''ha'' ''enable'' = (h, f1)" by force
  obtain x f2 where x: "sec_key_value mini_ini f1 ''ha'' ''enable'' = (x, f2)" by force
  have "h" "x = ''True''" using mini.sec_has_key_run [OF h] mini.sec_key_value_run [OF x] v
    by (auto simp: get_or_empty_def)
  moreover have "ParseBool ''True'' = Inr True" by code_simp
  ultimately have "render_replicas mini_ini f 1 = (Inr 1, f2)"
    using h x by (simp add: render_replicas_def Let_def)
  with gen obtain d where vals: "render_values demo_cluster_api mini_ini f (demo_env NcpImageEnv) 1
      (Some sel) (Some nt) (Some at) None None = (Inr d, 1)"
    by (simp add: render_values_def render_json_def)
  have dir: "run_state (GetManifestDir demo_cluster_api) s = ((''./manifest/kubernetes/ubuntu'', None), s)"
    using s by (cases s) (simp add: GetManifestDir_def demo_cluster_def mem_world.defs
        demo_world_def found_def names        Contains_def)
  have "TrimSpace ''x'' = ''x''" "is_manifest ''m.yaml''" by code_simp+
  then have "run_state (RenderDir demo_cluster_api ''./manifest/kubernetes/ubuntu'' d) s = (Inr demo_objs, s)"
    using s by (cases s) (simp add: RenderDir_def RenderDirs_def demo_cluster_def
        mem_world.defs found_def names demo_world_def
        sort_by_def RenderTemplate_def demo_docs_def demo_objs_def)
  with vals dir cm(1) show ?thesis by (simp add: Render_def Let_def)
qed

lemma demo_cluster_sel:
  "c_configmaps demo_cluster = [nsn ''nsx-system-operator'' ''nsx-ncp-operator-config'' \<mapsto> demo_cm]"
  "c_secrets demo_cluster = Map.empty" "m_dss demo_cluster = Map.empty"
  "m_deps demo_cluster = Map.empty" "c_applied demo_cluster = []"
  "mem_ni demo_cluster (nsn ''nsx-system-operator'' ''ncp-install'') = Some demo_ncpinstall"
  by (simp_all add: demo_cluster_def mem_world.defs demo_world_def mem_ni_def demo_ncpinstall_def)

lemma demo_inputs:
  "\<exists>n cm. run_state (read_inputs demo_cluster_api mini_ini id AdaptorK8s
       ''nsx-system-operator'') demo_operator = (Inr (demo_ci n cm), demo_operator)"
proof -
  have w: "world demo_operator = demo_cluster" and info: "sharedInfo demo_operator = demo_info"
    by (simp_all add: demo_operator_def)
  have id: "demo_operator\<lparr>world := demo_cluster\<rparr> = demo_operator" by (simp add: demo_operator_def)
  obtain cm f where c: "run_state (complete_config demo_cluster_api mini_ini id AdaptorK8s demo_cm zero_network)
      demo_operator = (Inr cm, demo_operator)"
    "Load mini_ini (cm_get cm ConfigMapDataKey) = Inr f" "m_wf f"
    "m_val f = drop_unsupported (defaulted AdaptorK8s zero_network (m_val demo_file))"
    using demo_complete by blast
  have "drop_unsupported (defaulted AdaptorK8s zero_network (m_val demo_file)) ''ha''
       ''enable'' = Some ''True''"
    by code_simp
  with c obtain n where r: "run_state (Render demo_cluster_api mini_ini cm 1 (Some None) (Some None)
      (Some None) None None)
     demo_operator = ((Inr demo_objs, n, cm_init cm), demo_operator)"
    using demo_render [OF c(2,3) _ w, of "None" None None] by auto
  have ni: "run_state (fetch_ncpinstall demo_cluster_api ''nsx-system-operator'') demo_operator
      = (Inr demo_ncpinstall, demo_operator)"
    by (simp add: fetch_ncpinstall_def w id names demo_cluster_sel found_def)
  have tag: "run_state (sync_add_node_tag demo_cluster_api True) demo_operator = ((), demo_operator)"
    by (simp add: sync_add_node_tag_def info demo_info_def)
  have inst: "run_state (fetch_instance demo_cluster_api ''nsx-system-operator'') demo_operator
      = (Inr demo_cm, demo_operator)"
    by (simp add: fetch_instance_def w id names demo_cluster_sel found_def)
  have net: "run_state (fetch_network demo_cluster_api AdaptorK8s) demo_operator
      = (Inr zero_network, demo_operator)"
    by (simp add: fetch_network_def)
  have sec: "run_state (fetch_secret demo_cluster_api ''nsx-system-operator'' name fill cm) demo_operator
      = (Inr (None, cm), demo_operator)"
    for name fill cm
    by (simp add: fetch_secret_def get_secret_or_nil_def w id demo_cluster_sel found_def)
  show ?thesis
    by (intro exI) (simp add: read_inputs_def run_and_then ni tag inst net c(1) sec
        render_step_def r demo_ncpinstall_def)
qed

text \<open>Nothing is patched on the first application.\<close>

lemma no_patch: "patch_all E False need obj = go_on obj"
  by (rule State_Monad.state.expand) (simp add: patch_all_def patch_if_def fun_eq_iff run_and_then)

lemma demo_apply:
  assumes s: "world s = demo_cluster" "appliedConfigMap s = None" "\<not> si_PodSecurityPolicySupport (sharedInfo s)"
  shows "run_state (apply_objects demo_cluster_api AdaptorK8s net need demo_objs) s =
    (None, s\<lparr>world := demo_cluster\<lparr>c_applied := tl demo_objs\<rparr>\<rparr>)"
  using s by (cases s) (simp add: apply_objects_def demo_objs_def apply_one_def demo_workload_def no_patch
     demo_cluster_sel)

lemma demo_decide:
  assumes s: "world s = demo_cluster" "appliedConfigMap s = None"
  shows "\<exists>nc. run_state (decide demo_cluster_api mini_ini AdaptorK8s ci) s =
    (Inr (pod_need_change True True True, nc), s)"
  using s by (cases s) (simp add: decide_def Let_def NeedApplyChange_def isNsxNodeAgentDsChanged_def
    run_and_then demo_cluster_sel found_def mem_api_def )

lemma demo_reconcile:
  "\<exists>s' nets. run_state (Reconcile_configmap demo_cluster_api mini_ini id AdaptorK8s demo_request) demo_operator
      = (done_with None, s') \<and> c_applied (world s') = tl demo_objs @ nets"
proof -
  obtain n cm where i: "run_state (read_inputs demo_cluster_api mini_ini id AdaptorK8s
       ''nsx-system-operator'') demo_operator = (Inr (demo_ci n cm), demo_operator)" using demo_inputs by blast
  let ?ci = "demo_ci n cm"
  define s1 where "s1 = snd (run_state (share_inputs ?ci) demo_operator)"
  have s1: "world s1 = demo_cluster" "appliedConfigMap s1 = None" "\<not> si_PodSecurityPolicySupport (sharedInfo s1)"
    by (simp_all add: s1_def share_inputs_def updateSharedInfoWithNsxNcpResources_def demo_operator_def
       demo_objs_def note_resource_def names demo_workload_def demo_info_def)
  have sh: "run_state (share_inputs ?ci) demo_operator = ((), s1)" by (simp add: s1_def prod_eq_iff)
  have ia: "run_state (init_applied demo_cluster_api mini_ini) s1 = (Inr (), s1)"
    using s1 by (cases s1) (simp add: init_applied_def get_configmap_or_nil_def demo_cluster_sel found_def names)
  obtain nc where d: "run_state (decide demo_cluster_api mini_ini AdaptorK8s ?ci) s1 =
      (Inr (pod_need_change True True True, nc), s1)"
    using demo_decide [OF s1(1,2)] by blast
  let ?s2 = "s1\<lparr>world := demo_cluster\<lparr>c_applied := tl demo_objs\<rparr>\<rparr>"
  let ?s3 = "?s2\<lparr>appliedConfigMap := Some cm\<rparr>"
  have "\<exists>s'. run_state (finish demo_cluster_api mini_ini ?ci nc) ?s3 = (done_with None, s')"
    by (simp add: finish_def updateNetworkStatus_def ToUnstructured_def Let_def split: prod.splits)
  then obtain s' where fin: "run_state (finish demo_cluster_api mini_ini ?ci nc) ?s3 = (done_with None, s')" by blast
  from yieldsD [OF cluster.finish_log fin refl] have "\<exists>nets. c_applied (world s') = tl demo_objs @ nets"
    by (auto simp: cluster.ended_def)
  with fin show ?thesis
    using demo_apply [OF s1, of zero_network "pod_need_change True True True"]
    by (auto simp add: Reconcile_configmap_def demo_watched demo_accepts run_or_return
        i sh ia d apply_and_finish_def)
qed
end
