(* ===== verification/Manifests.thy ===== *)
theory Manifests
  imports Config_Render
begin

text \<open>
  The manifests that the operator renders and the data they are rendered with: the actions of
  the three files under \<open>manifest/\<close> as trees, their execution by Go's \<open>text/template\<close> with the
  option \<open>missingkey=error\<close> and the function \<open>indent\<close> of \<open>pkg/util/render/render.go\<close>, and a type
  system for it. A manifest that is well typed for the keys of the data renders without an error.
\<close>

section \<open>Templates\<close>

text \<open>
  What the manifests use of the template language: text, \<open>{{.Key}}\<close>, \<open>{{.Key | indent n}}\<close> and
  \<open>{{if .Key}} ... {{end}}\<close>.
\<close>

datatype template_node =
    Literal string
  | Field string
  | Indented int string
  | Guarded string "template_node list"

text \<open>The text of a value, and whether it counts as true.\<close>

fun print_value :: "render_value \<Rightarrow> string" where
  "print_value (RStr s) = s"
| "print_value (RInt n) = Itoa n"
| "print_value (RBool b) = (if b then ''true'' else ''false'')"

fun truth :: "render_value \<Rightarrow> bool" where
  "truth (RStr s) = (s \<noteq> [])"
| "truth (RInt n) = (n \<noteq> 0)"
| "truth (RBool b) = b"

definition no_entry :: "string \<Rightarrow> go_error" where
  "no_entry k = GoError (''map has no entry for key '' @ k)"

definition field_value :: "render_data \<Rightarrow> string \<Rightarrow> go_error + render_value" where
  "field_value d k = (case d k of None \<Rightarrow> Inl (no_entry k) | Some v \<Rightarrow> Inr v)"

fun exec_node :: "render_data \<Rightarrow> template_node \<Rightarrow> go_error + string"
  and exec_nodes :: "render_data \<Rightarrow> template_node list \<Rightarrow> go_error + string" where
  "exec_node d (Literal s) = Inr s"
| "exec_node d (Field k) =
     (case field_value d k of Inl e \<Rightarrow> Inl e | Inr v \<Rightarrow> Inr (print_value v))"
| "exec_node d (Indented n k) =
     (case field_value d k of
        Inl e \<Rightarrow> Inl e
      | Inr (RStr s) \<Rightarrow> indent n s
      | Inr v \<Rightarrow> Inl (GoError (''wrong type for value; expected string'')))"
| "exec_node d (Guarded k ns) =
     (case field_value d k of
        Inl e \<Rightarrow> Inl e
      | Inr v \<Rightarrow> if truth v then exec_nodes d ns else Inr [])"
| "exec_nodes d [] = Inr []"
| "exec_nodes d (n # ns) =
     (case exec_node d n of
        Inl e \<Rightarrow> Inl e
      | Inr s \<Rightarrow> (case exec_nodes d ns of Inl e \<Rightarrow> Inl e | Inr t \<Rightarrow> Inr (s @ t)))"

section \<open>Types\<close>

datatype value_type = StrType | IntType | BoolType

fun type_of :: "render_value \<Rightarrow> value_type" where
  "type_of (RStr s) = StrType"
| "type_of (RInt n) = IntType"
| "type_of (RBool b) = BoolType"

text \<open>The data have exactly the keys of the signature, with values of their types.\<close>

definition typed_data :: "(string \<rightharpoonup> value_type) \<Rightarrow> render_data \<Rightarrow> bool" where
  "typed_data sig d \<longleftrightarrow> map_option type_of \<circ> d = sig"

fun typed_node :: "(string \<rightharpoonup> value_type) \<Rightarrow> template_node \<Rightarrow> bool" where
  "typed_node sig (Literal s) \<longleftrightarrow> True"
| "typed_node sig (Field k) \<longleftrightarrow> sig k \<noteq> None"
| "typed_node sig (Indented n k) \<longleftrightarrow> 0 \<le> n \<and> sig k = Some StrType"
| "typed_node sig (Guarded k ns) \<longleftrightarrow> sig k \<noteq> None \<and> list_all (typed_node sig) ns"

text \<open>The actions of a template: what is left without its text.\<close>

fun action_of :: "template_node \<Rightarrow> template_node list"
  and actions_of :: "template_node list \<Rightarrow> template_node list" where
  "action_of (Literal s) = []"
| "action_of (Field k) = [Field k]"
| "action_of (Indented n k) = [Indented n k]"
| "action_of (Guarded k ns) = [Guarded k (actions_of ns)]"
| "actions_of [] = []"
| "actions_of (n # ns) = action_of n @ actions_of ns"

fun keys_of :: "template_node \<Rightarrow> string list" where
  "keys_of (Literal s) = []"
| "keys_of (Field k) = [k]"
| "keys_of (Indented n k) = [k]"
| "keys_of (Guarded k ns) = k # concat (map keys_of ns)"

lemma typed_dom: "typed_data sig d \<Longrightarrow> dom d = dom sig"
  unfolding typed_data_def by (auto simp: dom_def)

lemma data_value:
  assumes "typed_data sig d" and "sig k = Some t"
  shows "\<exists>v. field_value d k = Inr v \<and> type_of v = t"
proof -
  from assms have "map_option type_of (d k) = Some t"
    unfolding typed_data_def by (metis comp_apply)
  then show ?thesis by (auto simp: field_value_def)
qed

lemma exec_Cons:
  "exec_node d n = Inr s \<Longrightarrow> exec_nodes d ns = Inr t \<Longrightarrow> exec_nodes d (n # ns) = Inr (s @ t)"
  by simp

text \<open>Well-typed templates do not fail.\<close>

lemma typed_progress:
  assumes d: "typed_data sig d"
  shows "typed_node sig n \<Longrightarrow> \<exists>t. exec_node d n = Inr t"
    and "list_all (typed_node sig) ns \<Longrightarrow> \<exists>t. exec_nodes d ns = Inr t"
proof (induction n and ns rule: action_of_actions_of.induct)
  case (2 k)
  with data_value [OF d] show ?case by fastforce
next
  case (3 n k)
  with data_value [OF d, of k StrType] obtain v where "field_value d k = Inr v" "type_of v = StrType" by auto
  then obtain x where "field_value d k = Inr (RStr x)" by (cases v) auto
  with indent_lines [of n x] 3 show ?case by auto
next
  case (4 k ns)
  with data_value [OF d] show ?case by (fastforce split: if_splits)
next
  case (6 n ns)
  then show ?case using exec_Cons by fastforce
qed simp_all

text \<open>Types depend on the actions only.\<close>

lemma typed_actions:
  "list_all (typed_node sig) (action_of n) = typed_node sig n"
  "list_all (typed_node sig) (actions_of ns) = list_all (typed_node sig) ns"
  by (induction n and ns rule: action_of_actions_of.induct) auto

text \<open>An execution without an error reads the key of every action outside the guarded parts.\<close>

lemma needed_keys:
  shows "exec_node d n = Inr t \<Longrightarrow> a \<in> set (action_of n) \<Longrightarrow> hd (keys_of a) \<in> dom d"
    and "exec_nodes d ns = Inr t \<Longrightarrow> a \<in> set (actions_of ns) \<Longrightarrow> hd (keys_of a) \<in> dom d"
  by (induction n and ns arbitrary: t and t rule: action_of_actions_of.induct)
     (auto simp: field_value_def split: option.splits sum.splits)

section \<open>The manifests of the repository\<close>

text \<open>
  The actions of \<open>ncp-ubuntu.yaml\<close>, in the order of the file. Those of \<open>ncp-rhel.yaml\<close> and
  \<open>ncp-openshift4.yaml\<close> are the same.
\<close>

definition manifest_actions :: "template_node list" where
  "manifest_actions =
     [Field ''NsxCert'', Field ''NsxKey'', Field ''NsxCA'', Field ''LbCert'', Field ''LbKey'',
      Indented 4 ''NSXNCPConfig'', Field ''NcpReplicas'', Field ''NcpNodeSelector'',
      Field ''NcpTolerations'', Field ''NcpImage'', Guarded ''NsxCA'' [],
      Indented 4 ''NSXNodeAgentConfig'', Field ''NsxNodeAgentTolerations'', Field ''NcpImage'',
      Guarded ''UseNsxOvsKmod'' [], Guarded ''UseNsxOvsKmod'' [], Field ''NcpImage'',
      Guarded ''UseNsxOvsKmod'' [], Guarded ''UseNsxOvsKmod'' [], Field ''NsxNodeAgentTolerations'',
      Field ''NcpImage'', Field ''NcpImage'', Field ''NcpImage'']"

text \<open>The types of the values that \<open>Render\<close> sets.\<close>

definition render_signature :: "string \<rightharpoonup> value_type" where
  "render_signature = map_of
     [(NcpConfigMapRenderKey, StrType), (NodeAgentConfigMapRenderKey, StrType),
      (NcpImageKey, StrType), (NcpReplicasKey, IntType), (NcpNodeSelectorRenderKey, StrType),
      (NcpTolerationsRenderKey, StrType), (NsxNodeTolerationsRenderKey, StrType),
      (LbCertRenderKey, StrType), (LbKeyRenderKey, StrType), (NsxCertRenderKey, StrType),
      (NsxKeyRenderKey, StrType), (NsxCARenderKey, StrType), (NsxOvsKmodRenderKey, BoolType)]"

lemma manifest_typed: "list_all (typed_node render_signature) manifest_actions"
  by code_simp

lemma manifest_single: "\<forall>a \<in> set manifest_actions. set (keys_of a) = {hd (keys_of a)}"
  by (simp add: manifest_actions_def)

lemma manifest_keys: "dom render_signature = set (concat (map keys_of manifest_actions))"
proof -
  have "dom render_signature = set (map fst
     [(NcpConfigMapRenderKey, StrType), (NodeAgentConfigMapRenderKey, StrType),
      (NcpImageKey, StrType), (NcpReplicasKey, IntType), (NcpNodeSelectorRenderKey, StrType),
      (NcpTolerationsRenderKey, StrType), (NsxNodeTolerationsRenderKey, StrType),
      (LbCertRenderKey, StrType), (LbKeyRenderKey, StrType), (NsxCertRenderKey, StrType),
      (NsxKeyRenderKey, StrType), (NsxCARenderKey, StrType), (NsxOvsKmodRenderKey, BoolType)])"
    unfolding render_signature_def dom_map_of_conv_image_fst by simp
  then show ?thesis by (simp add: manifest_actions_def names insert_commute)
qed

lemma typed_values:
  "typed_data render_signature (map_of
     ([(NcpConfigMapRenderKey, RStr ncp), (NodeAgentConfigMapRenderKey, RStr agent),
       (NcpImageKey, RStr img), (NcpReplicasKey, RInt n), (NcpNodeSelectorRenderKey, RStr sel),
       (NcpTolerationsRenderKey, RStr nt), (NsxNodeTolerationsRenderKey, RStr at)] @
      render_secrets ns ls @ [(NsxOvsKmodRenderKey, RBool b)]))"
  by (simp add: typed_data_def render_signature_def render_secrets_def Let_def fun_eq_iff)

lemma rendered_signature:
  "render_values E L cfg img n sel nt at ns ls = (Inr d, m) \<Longrightarrow> typed_data render_signature d"
  using typed_values [of _ _ _ _ _ _ _ ns ls]
  by (auto simp: render_values_def simp del: map_of.simps append_Cons append_Nil map_of_append
      split: sum.splits prod.splits)

end
