(* ===== verification/ConfigMap_Properties.thy ===== *)
theory ConfigMap_Properties
  imports Demo_Cluster Manifests
begin

text \<open>
  The properties of the ConfigMap controller and of rendering, over every API that meets
  \<open>apply_log\<close> and every INI library that meets \<open>ini_laws\<close>, with runs on the cluster in memory
  as witnesses.
\<close>

section \<open>Completion\<close>

text \<open>
  C26. The handler goes on with a ConfigMap exactly when its options, with the defaults of the
  adaptor applied, are acceptable; then it goes on with a text that reads back as those
  options without the unsupported ones, and has touched nothing else. Otherwise it ends with
  an error and the operator configuration is degraded.
\<close>

theorem complete_config_spec:
  assumes "ini_laws L val secs ok"
    and "Load L (cm_get cm ConfigMapDataKey) = Inr f" "ok f"
    and "{''nsx_v3'', ''ha'', ''nsx_node_agent''} \<subseteq> secs f"
    and "ini_text (clusterNetworkBlocks net)"
    and "\<And>t. mset (order t) = mset t"
    and "run_state (complete_config E L order A cm net) s = (r, s')"
  shows "if acceptable A net (val f)
    then s' = s \<and> (\<exists>cm' f'. r = Inr cm' \<and> Load L (cm_get cm' ConfigMapDataKey) = Inr f'
           \<and> val f' = drop_unsupported (defaulted A net (val f)))
    else (\<exists>e. r = Inl (done_with (Some e))) \<and> sm_failing (status s') OperatorConfig \<noteq> None"
  using ini_laws.complete_config_run [OF assms] by (auto simp: ini_laws.stored_def [OF assms(1)])

theorem complete_config_spec_witness:
  "\<exists>cm' f'. run_state (complete_config demo_cluster_api mini_ini id AdaptorOc demo_cm demo_network)
       demo_operator = (Inr cm', demo_operator)
     \<and> Load mini_ini (cm_get cm' ConfigMapDataKey) = Inr f'
     \<and> m_val f' ''nsx_v3'' ''container_ip_blocks'' = Some ''10.4.0.0/16''
     \<and> m_val f' ''nsx_v3'' ''multi_t0'' = None"
proof -
  have pre: "{''nsx_v3'', ''ha'', ''nsx_node_agent''} \<subseteq> m_secs demo_file"
      "ini_text (clusterNetworkBlocks demo_network)" by (simp add: demo_secs, code_simp)
  have ok: "acceptable AdaptorOc demo_network (m_val demo_file)" by code_simp
  obtain r s' where run: "run_state (complete_config demo_cluster_api mini_ini id AdaptorOc demo_cm
      demo_network) demo_operator = (r, s')" by force
  from complete_config_spec [OF mini.ini_laws_axioms demo_load demo_wf pre _ run] ok obtain cm' f' where
    "s' = demo_operator" "r = Inr cm'" "Load mini_ini (cm_get cm' ConfigMapDataKey) = Inr f'"
    "m_val f' = drop_unsupported (defaulted AdaptorOc demo_network (m_val demo_file))" by auto
  moreover have "drop_unsupported (defaulted AdaptorOc demo_network (m_val demo_file)) ''nsx_v3''
      ''container_ip_blocks'' = Some ''10.4.0.0/16''"
    "drop_unsupported (defaulted AdaptorOc demo_network (m_val demo_file)) ''nsx_v3'' ''multi_t0'' = None"
    by code_simp+
  ultimately show ?thesis using run by auto
qed

text \<open>
  C14. \<open>FillDefaults\<close>, on either adaptor. On a ConfigMap with the sections it needs it succeeds,
  and the stored text reads back as the old options with the defaults applied: forced ones
  always, the others over missing or empty values, every other option as it was. Applying
  the defaults again would change nothing.
\<close>

theorem adaptor_defaults_stored:
  assumes "ini_laws L val secs ok"
    and "Load L (cm_get cm ConfigMapDataKey) = Inr f" "ok f"
    and "{''nsx_v3'', ''ha'', ''nsx_node_agent''} \<subseteq> secs f"
    and "A = AdaptorOc \<longrightarrow> ini_text (clusterNetworkBlocks net)"
    and "FillDefaults A L cm net = (r, cm')"
  shows "r = None \<and>
    (\<exists>f'. Load L (cm_get cm' ConfigMapDataKey) = Inr f' \<and> val f' = defaulted A net (val f)
       \<and> defaulted A net (val f') = val f')"
proof -
  obtain what where run: "fill_defaults L (defaults_of A net) what cm = (r, cm')"
    using FillDefaults_eq [of A L cm net] assms(6) by auto
  have plain: "plain_defaults (defaults_of A net)"
    using assms(5) by (cases A) (simp_all add: defaults_of_def plain_defaults_K8s plain_defaults_Oc)
  have "\<forall>d \<in> set (defaults_of A net). fst d \<in> insert ''coe'' (secs f)"
    using sections_defaults_of [OF assms(4)] by blast
  from ini_laws.fill_defaults_stored [OF assms(1-3) this plain run] show ?thesis
    by (auto simp: ini_laws.stored_def [OF assms(1)] defaulted_def
        fold_apply_default [OF distinct_defaults_of] after_defaults_idem)
qed

theorem adaptor_defaults_stored_witness:
  "(\<exists>f'. Load mini_ini (cm_get (snd (FillDefaults AdaptorK8s mini_ini demo_cm demo_network)) ConfigMapDataKey)
      = Inr f' \<and> m_val f' ''coe'' ''adaptor'' = Some ''kubernetes'')
   \<and> (\<exists>f'. Load mini_ini (cm_get (snd (FillDefaults AdaptorOc mini_ini demo_cm demo_network)) ConfigMapDataKey)
      = Inr f' \<and> m_val f' ''coe'' ''adaptor'' = Some ''openshift4'')"
proof -
  have blocks: "ini_text (clusterNetworkBlocks demo_network)"
    and adaptors: "defaulted AdaptorK8s demo_network (m_val demo_file) ''coe'' ''adaptor'' = Some ''kubernetes''"
      "defaulted AdaptorOc demo_network (m_val demo_file) ''coe'' ''adaptor'' = Some ''openshift4''"
    by code_simp+
  have stored: "\<exists>f'. Load mini_ini (cm_get (snd (FillDefaults A mini_ini demo_cm demo_network)) ConfigMapDataKey)
      = Inr f' \<and> m_val f' = defaulted A demo_network (m_val demo_file)" for A
  proof -
    have run: "FillDefaults A mini_ini demo_cm demo_network
      = (fst (FillDefaults A mini_ini demo_cm demo_network), snd (FillDefaults A mini_ini demo_cm demo_network))"
      by simp
    from adaptor_defaults_stored [OF mini.ini_laws_axioms demo_load demo_wf _ _ run] blocks demo_secs
    show ?thesis by auto
  qed
  from stored [of AdaptorK8s] stored [of AdaptorOc] adaptors show ?thesis by auto
qed

section \<open>Rendering\<close>

definition ha_enabled :: "ini_view \<Rightarrow> bool" where
  "ha_enabled v = (case v ''ha'' ''enable'' of None \<Rightarrow> False | Some x \<Rightarrow> ParseBool x = Inr True)"

definition rendered_secret :: "render_data \<Rightarrow> string \<Rightarrow> secret option \<Rightarrow> string \<Rightarrow> bool" where
  "rendered_secret d name sec key \<longleftrightarrow>
     (\<exists>t. d name = Some (RStr t) \<and> b64_decode t = map of_char (case sec of None \<Rightarrow> []
        | Some s \<Rightarrow> secret_value s key))"

lemma decode_encoded: "b64_decode (EncodeToString s) = map of_char s"
  unfolding EncodeToString_def by (rule b64_roundtrip) auto

lemma rendered_secrets:
  assumes "\<forall>kv \<in> set (render_secrets ns ls). d (fst kv) = Some (snd kv)"
  shows "rendered_secret d LbCertRenderKey ls ''tls.crt'' \<and> rendered_secret d LbKeyRenderKey ls ''tls.key''
    \<and> rendered_secret d NsxCertRenderKey ns ''tls.crt'' \<and> rendered_secret d NsxKeyRenderKey ns ''tls.key''
    \<and> rendered_secret d NsxCARenderKey ns ''tls.ca''"
  using assms by (auto simp: render_secrets_def rendered_secret_def decode_encoded split: option.splits)

context ini_laws
begin

lemma render_replicas_run:
  assumes "render_replicas L f n = (Inr m, f')"
  shows "m = (if \<not> ha_enabled (val f) \<and> n > 1 then 1 else n)"
proof -
  obtain h f1 where h: "sec_has_key L f ''ha'' ''enable'' = (h, f1)" by force
  obtain x f2 where x: "sec_key_value L f1 ''ha'' ''enable'' = (x, f2)" by force
  from assms h x sec_has_key_run [OF h] sec_key_value_run [OF x] show ?thesis
    by (auto simp: render_replicas_def ha_enabled_def get_or_empty_def Let_def
        split: if_splits option.splits sum.splits)
qed

end

text \<open>
  C27. Round trip of what the manifests are rendered with: the two configuration texts read
  back as the sections of nsx-ncp and of nsx-node-agent, every secret decodes to its bytes,
  and more than one replica is rendered only with high availability on.
\<close>

theorem rendered_values:
  assumes "ini_laws L val secs ok" "ok f"
    and "render_values E L f img n sel nt at ns ls = (Inr d, m)"
  shows "(\<exists>txt g. d NcpConfigMapRenderKey = Some (RStr txt) \<and> Load L txt = Inr g
             \<and> val g = (\<lambda>s. if s \<in> set NcpSections then val f s else Map.empty))
    \<and> (\<exists>txt g. d NodeAgentConfigMapRenderKey = Some (RStr txt) \<and> Load L txt = Inr g
             \<and> val g = (\<lambda>s. if s \<in> set AgentSections then val f s else Map.empty))
    \<and> rendered_secret d LbCertRenderKey ls ''tls.crt'' \<and> rendered_secret d LbKeyRenderKey ls ''tls.key''
    \<and> rendered_secret d NsxCertRenderKey ns ''tls.crt'' \<and> rendered_secret d NsxKeyRenderKey ns ''tls.key''
    \<and> rendered_secret d NsxCARenderKey ns ''tls.ca''
    \<and> d NcpReplicasKey = Some (RInt m) \<and> m = (if \<not> ha_enabled (val f) \<and> n > 1 then 1 else n)"
proof -
  have names: "list_all ini_name NcpSections" "list_all ini_name AgentSections" by code_simp+
  note view = ini_laws.generateConfigMap_view [OF assms(1,2)]
  from assms(3) show ?thesis
  proof (rule render_values_Inr)
    fix ncp agent f'
    assume r: "generateConfigMap L f NcpSections = Inr ncp" "generateConfigMap L f AgentSections = Inr agent"
      "render_replicas L f n = (Inr m, f')" "d NcpConfigMapRenderKey = Some (RStr ncp)"
      "d NodeAgentConfigMapRenderKey = Some (RStr agent)" "d NcpReplicasKey = Some (RInt m)"
      "\<forall>kv \<in> set (render_secrets ns ls). d (fst kv) = Some (snd kv)"
    from r view [OF names(1)] view [OF names(2)] rendered_secrets [OF r(7)]
      ini_laws.render_replicas_run [OF assms(1) r(3)]
    show ?thesis by simp
  qed
qed

definition demo_secret :: secret where
  "demo_secret = \<lparr>sec_data = Some [''tls.crt'' \<mapsto> ''crt'', ''tls.key'' \<mapsto> ''key'']\<rparr>"

lemma demo_values:
  "\<exists>d. render_values demo_cluster_api mini_ini demo_file [] 3 None None None (Some demo_secret) None
       = (Inr d, 1)"
proof -
  have "list_all ini_name NcpSections" "list_all ini_name AgentSections" by code_simp+
  then obtain ncp agent where gen: "generateConfigMap mini_ini demo_file NcpSections = Inr ncp"
      "generateConfigMap mini_ini demo_file AgentSections = Inr agent"
    using mini.generateConfigMap_view [OF demo_wf] by blast
  have "fst (render_replicas mini_ini demo_file 3) = Inr 1" by code_simp
  then obtain f' where reps: "render_replicas mini_ini demo_file 3 = (Inr 1, f')"
    by (metis prod.collapse)
  with gen show ?thesis by (simp add: render_values_def render_json_def)
qed

theorem rendered_values_witness:
  "\<exists>d. render_values demo_cluster_api mini_ini demo_file [] 3 None None None (Some demo_secret) None
       = (Inr d, 1)
     \<and> d NcpReplicasKey = Some (RInt 1) \<and> rendered_secret d NsxKeyRenderKey (Some demo_secret) ''tls.key''"
  using demo_values rendered_values [OF mini.ini_laws_axioms demo_wf, of demo_cluster_api "[]" 3]
  by fastforce

text \<open>
  C15. The values that \<open>Render\<close> computes have the types that the manifests use them with: a
  template with the actions of the manifests, around any text, is executed without an error,
  although missing keys are errors. And each value is needed: no data with fewer keys would do.
\<close>

theorem rendered_data_typed:
  assumes "render_values E L cfg img n sel nt at ns ls = (Inr d, m)"
    and "actions_of template = manifest_actions"
  shows "(\<exists>t. exec_nodes d template = Inr t)
    \<and> (\<forall>d' t. exec_nodes d' template = Inr t \<longrightarrow> dom d \<subseteq> dom d')"
proof -
  note typed = rendered_signature [OF assms(1)]
  have "list_all (typed_node render_signature) template"
    using manifest_typed unfolding assms(2) [symmetric] typed_actions .
  from typed_progress(2) [OF typed this] have "\<exists>t. exec_nodes d template = Inr t" .
  moreover have "dom d \<subseteq> dom d'" if "exec_nodes d' template = Inr t" for d' t
  proof
    fix k assume "k \<in> dom d"
    then obtain a where a: "a \<in> set manifest_actions" "k \<in> set (keys_of a)"
      unfolding typed_dom [OF typed] manifest_keys by auto
    from needed_keys(2) [OF that] a(1) assms(2) have "hd (keys_of a) \<in> dom d'" by simp
    with a manifest_single show "k \<in> dom d'" by auto
  qed
  ultimately show ?thesis by blast
qed

definition demo_template :: "template_node list" where
  "demo_template = Literal ''apiVersion: v1'' # map (\<lambda>a. case a of
     Guarded k ns \<Rightarrow> Guarded k [Literal ''optional: false''] | _ \<Rightarrow> a) manifest_actions"

theorem rendered_data_typed_witness:
  "\<exists>d t. render_values demo_cluster_api mini_ini demo_file [] 3 None None None (Some demo_secret) None
       = (Inr d, 1) \<and> exec_nodes d demo_template = Inr t"
proof -
  have "actions_of demo_template = manifest_actions" by code_simp
  moreover obtain d where d: "render_values demo_cluster_api mini_ini demo_file [] 3 None None None
      (Some demo_secret) None = (Inr d, 1)" using demo_values by blast
  ultimately show ?thesis using rendered_data_typed [OF d] d by auto
qed

text \<open>
  \<open>indent\<close>, the function that manifests call on embedded texts, puts the padding before
  every line, keeps the lines, and is the only text that does; a negative width is a panic.
\<close>

theorem indent_spec:
  "indent n v = Inr t \<longleftrightarrow>
     0 \<le> n \<and> Split t [newline] = map (\<lambda>l. replicate (nat n) (CHR '' '') @ l) (Split v [newline])"
proof (cases "0 \<le> n")
  case True
  obtain u where u: "indent n v = Inr u"
    "Split u [newline] = map (\<lambda>l. replicate (nat n) (CHR '' '') @ l) (Split v [newline])"
    using indent_lines [OF True] by blast
  moreover have "u = t" if "Split u [newline] = Split t [newline]"
    using that by (metis Join_Split list.distinct(1))
  ultimately show ?thesis using True by (metis sum.inject(2))
qed (simp add: indent_def)

section \<open>What a reconciliation applies\<close>

text \<open>
  C28. Whatever the cluster answers, a reconciliation applies objects only for an accepted
  request and after the configuration was read, completed, validated and rendered: the log
  grows by objects that are, in order, a prefix of the wanted rendered ones, and by nothing
  further but, at most once, the object that writes the status of the network that was read.
\<close>

theorem reconcile_applies_rendered:
  assumes "apply_log E V" and "watched = watched_namespace (sm_OperatorNamespace (status s))"
    and "run_state (Reconcile_configmap E L order A req) s = (out, s')"
  shows "V (world s') = V (world s)
    \<or> (\<exists>ci s1 cm new nets. accepts_request watched req
        \<and> run_state (read_inputs E L order A watched) s = (Inr ci, s1)
        \<and> returned (get_configmap E (nsn watched ConfigMapName)) cm
        \<and> completed L order A cm (ci_network ci) (ci_nsxSecret ci) (ci_lbSecret ci) (ci_instance ci)
        \<and> V (world s') = V (world s) @ new @ nets
        \<and> prefix (map ident new) (map ident (filter (wanted (psp_of s)) (ci_objs ci)))
        \<and> at_most (network_status E L (ci_network ci) (ci_instance ci)) nets)"
proof (cases rule: apply_log.reconcile_log [OF assms(1,3), case_names ignored missing rendered])
  case (rendered ci s1)
  from apply_log.handled_log [OF assms(1) rendered(3)] obtain new nets where
    "V (world s') = V (world s) @ new @ nets" "at_most (network_status E L (ci_network ci) (ci_instance ci)) nets"
    "prefix (map ident new) (map ident (filter (wanted (psp_of s)) (ci_objs ci)))" by metis
  with rendered(1,2) read_inputs_completed [OF rendered(2)] show ?thesis
    unfolding assms(2) by blast
qed simp_all

lemma demo_wanted: "filter (wanted (psp_of demo_operator)) demo_objs = tl demo_objs"
  by (simp add: demo_objs_def demo_operator_def demo_info_def demo_workload_def wanted_def)

theorem reconcile_applies_rendered_witness:
  "\<exists>new nets cm. c_applied (world (snd (run_state
       (Reconcile_configmap demo_cluster_api mini_ini id AdaptorK8s demo_request) demo_operator)))
     = new @ nets \<and> new \<noteq> [] \<and> prefix (map ident new) (map ident (tl demo_objs))
     \<and> at_most (network_status demo_cluster_api mini_ini zero_network cm) nets"
proof -
  obtain s' rest where run: "run_state (Reconcile_configmap demo_cluster_api mini_ini id AdaptorK8s
      demo_request) demo_operator = (done_with None, s')" and log: "c_applied (world s') = tl demo_objs @ rest"
    using demo_reconcile by blast
  obtain n cm where inputs: "run_state (read_inputs demo_cluster_api mini_ini id AdaptorK8s
      ''nsx-system-operator'') demo_operator = (Inr (demo_ci n cm), demo_operator)"
    using demo_inputs by blast
  have start: "c_applied (world demo_operator) = []" by (simp add: demo_operator_def demo_cluster_sel)
  have two: "length (tl demo_objs) = 2" by (simp add: demo_objs_def)
  from reconcile_applies_rendered [OF cluster.apply_log_axioms demo_watched [symmetric] run] inputs start log two
  obtain new nets where new: "c_applied (world s') = new @ nets"
    "prefix (map ident new) (map ident (tl demo_objs))"
    "at_most (network_status demo_cluster_api mini_ini zero_network cm) nets"
    by (auto simp: demo_wanted)
  have "2 \<le> length (new @ nets)" unfolding new(1) [symmetric] log using two by simp
  with at_most_length [OF new(3)] have "new \<noteq> []" by auto
  with run new show ?thesis by auto
qed

text \<open>
  C29. A reconciliation that ends without an error has ignored a request that is not its own;
  or it found an input missing, and then applied nothing and leaves one of the configuration
  levels degraded; or it has read all inputs, leaves both levels healthy, and either applied
  nothing it rendered or applied every wanted object in order and remembers the configuration
  they come from. Then it may write the network status, and on OpenShift it always does,
  whether the network changed or not.
\<close>

theorem reconcile_success:
  assumes "apply_log E V" and "watched = watched_namespace (sm_OperatorNamespace (status s))"
    and "run_state (Reconcile_configmap E L order A req) s = ((res, None), s')"
  shows "\<not> accepts_request watched req \<and> s' = s
    \<or> accepts_request watched req \<and> (\<exists>r. run_state (read_inputs E L order A watched) s = (Inl r, s'))
        \<and> V (world s') = V (world s) \<and> \<not> config_healthy (status s')
    \<or> accepts_request watched req \<and> config_healthy (status s') \<and> (\<exists>ci s1 new nets.
        run_state (read_inputs E L order A watched) s = (Inr ci, s1)
        \<and> V (world s') = V (world s) @ new @ nets
        \<and> at_most (network_status E L (ci_network ci) (ci_instance ci)) nets
        \<and> (nets = [] \<longrightarrow> A = AdaptorK8s)
        \<and> (new = [] \<or> map ident new = map ident (filter (wanted (psp_of s)) (ci_objs ci))
             \<and> appliedConfigMap s' = Some (ci_instance ci)))"
proof (cases rule: apply_log.reconcile_log [OF assms(1,3), case_names ignored missing rendered])
  case (rendered ci s1)
  from apply_log.handled_log [OF assms(1) rendered(3)] obtain new nets where log:
    "V (world s') = V (world s) @ new @ nets" "at_most (network_status E L (ci_network ci) (ci_instance ci)) nets"
    "config_healthy (status s') \<and> (A = AdaptorOc \<longrightarrow> length nets = 1)
       \<and> (new = [] \<or> map ident new = map ident (filter (wanted (psp_of s)) (ci_objs ci))
            \<and> appliedConfigMap s' = Some (ci_instance ci))" by (metis snd_conv)
  from log(3) have "nets = [] \<longrightarrow> A = AdaptorK8s" by (cases A) auto
  with rendered(1,2) log show ?thesis unfolding assms(2) by blast
next
  case missing
  then show ?thesis unfolding assms(2) by auto
qed (simp_all add: assms(2))

theorem reconcile_success_witness:
  "config_healthy (status (snd (run_state
     (Reconcile_configmap demo_cluster_api mini_ini id AdaptorK8s demo_request) demo_operator)))"
proof -
  obtain n cm where inputs: "run_state (read_inputs demo_cluster_api mini_ini id AdaptorK8s
      ''nsx-system-operator'') demo_operator = (Inr (demo_ci n cm), demo_operator)"
    using demo_inputs by blast
  obtain s' where run: "run_state (Reconcile_configmap demo_cluster_api mini_ini id AdaptorK8s
      demo_request) demo_operator = ((emptyResult, None), s')"
    using demo_reconcile by (auto simp: done_with_def)
  have "config_healthy (status s')"
    using reconcile_success [OF cluster.apply_log_axioms demo_watched [symmetric] run] demo_accepts inputs
    by auto
  with run show ?thesis by simp
qed

section \<open>The steady state\<close>

text \<open>
  C30. When the text is the one applied last, apart from space around it, and the cluster
  agrees with the rendered inputs, the decision ends the handler: nothing rendered is applied,
  nothing but at most the network status is written, and without an error both levels are
  healthy.
\<close>

theorem steady_state_quiet:
  assumes "apply_log E V" "agrees I E ci" "I (world s)" "appliedConfigMap s = Some pm"
    and "TrimSpace (cm_get (ci_instance ci) ConfigMapDataKey) = TrimSpace (cm_get pm ConfigMapDataKey)"
  shows "\<exists>out s' nets. run_state (decide E L A ci) s = (Inl out, s')
    \<and> V (world s') = V (world s) @ nets
    \<and> at_most (network_status E L (ci_network ci) (ci_instance ci)) nets
    \<and> (snd out \<noteq> None \<or> config_healthy (status s'))"
proof -
  from steady_decide [OF assms(2-5), of L A] obtain out s' where
    run: "run_state (decide E L A ci) s = (Inl out, s')" unfolding Let_def by blast
  from yieldsD [OF apply_log.decide_log [OF assms(1)] run, of "V (world s)" "ctrl s"]
  show ?thesis using run by (auto simp: Let_def apply_log.ended_def [OF assms(1)])
qed

definition steady_ds :: daemonset where
  "steady_ds = \<lparr>ds_generation = 1, ds_status = \<lparr>dss_updatedNumberScheduled = 1,
     dss_desiredNumberScheduled = 1, dss_numberUnavailable = 0, dss_numberAvailable = 1,
     dss_observedGeneration = 1, dss_other = []\<rparr>, ds_tolerations = None\<rparr>"

definition steady_deployment :: deployment where
  "steady_deployment = \<lparr>dep_generation = 1, dep_status = \<lparr>deps_unavailableReplicas = 0,
     deps_availableReplicas = 1, deps_observedGeneration = 1, deps_other = []\<rparr>, dep_replicas = Some 1,
     dep_images = [''ncp:1''], dep_nodeSelector = None, dep_tolerations = None\<rparr>"

definition steady_cluster :: mem_cluster where
  "steady_cluster = demo_cluster
     \<lparr>c_secrets := \<lambda>k. Some \<lparr>sec_data = None\<rparr>, m_dss := \<lambda>k. Some steady_ds,
      m_deps := \<lambda>k. Some steady_deployment\<rparr>"

lemma steady_idle: "m_faults steady_cluster = []" "c_applied steady_cluster = []"
  by (simp_all add: steady_cluster_def demo_cluster_sel)

lemma steady_agrees:
  "agrees (\<lambda>w. w = steady_cluster) demo_cluster_api (demo_ci 1 demo_cm)"
proof -
  have "answers (\<lambda>w. w = steady_cluster) (get_secret demo_cluster_api k) (Inr \<lparr>sec_data = None\<rparr>)"
    "answers (\<lambda>w. w = steady_cluster) (get_daemonset (st demo_cluster_api) k) (Inr steady_ds)"
    "answers (\<lambda>w. w = steady_cluster) (get_deployment (st demo_cluster_api) k) (Inr steady_deployment)"
    for k
    by (simp_all add: answers_def mem_api_def steady_idle) (simp_all add: steady_cluster_def found_def)
  moreover have "\<not> secretNotEqual None (Some \<lparr>sec_data = None\<rparr>)"
    by (simp add: secretNotEqual_def compareKey_def secret_value_def)
  ultimately show ?thesis
    unfolding agrees_def
    by (intro exI [of _ "\<lparr>sec_data = None\<rparr>"] exI [of _ steady_ds] exI [of _ steady_deployment]
        exI [of _ "''ncp:1''"] exI [of _ "[]"] conjI)
       (simp_all add: steady_ds_def steady_deployment_def demo_env_def)
qed

theorem steady_state_quiet_witness:
  "\<exists>out s'. run_state (decide demo_cluster_api mini_ini AdaptorK8s (demo_ci 1 demo_cm))
      (demo_operator\<lparr>world := steady_cluster, appliedConfigMap := Some demo_cm\<rparr>) = (Inl out, s')
    \<and> length (c_applied (world s')) \<le> 1"
  using steady_state_quiet [OF cluster.apply_log_axioms steady_agrees,
      of "demo_operator\<lparr>world := steady_cluster, appliedConfigMap := Some demo_cm\<rparr>" demo_cm mini_ini
        AdaptorK8s]
  by (auto simp: steady_idle dest: at_most_length)

section \<open>A failed recall\<close>

text \<open>
  C31. After a start whose recall of the applied configuration failed, the empty configuration
  stays as the applied one: the next reconciliation recalls nothing, takes the cluster's name
  for changed, and ends with an error that no condition reports, although the operator's
  configuration may be acceptable.
\<close>

theorem failed_recall_blocks:
  assumes "ini_laws L val secs ok"
    and "run_state (init_applied E L) s = (Inl out, s1)"
    and "appliedConfigMap s2 = appliedConfigMap s1"
    and "Load L [] = Inr g" "val g = (\<lambda>_. Map.empty)"
    and "Load L (cm_get (ci_instance ci) ConfigMapDataKey) = Inr f" "no_references (val f)"
    and "get_or_empty (val f) ''coe'' ''cluster'' \<noteq> []"
    and "TrimSpace (cm_get (ci_instance ci) ConfigMapDataKey) \<noteq> []"
  shows "run_state (init_applied E L) s2 = (Inr (), s2)
    \<and> (\<exists>e. run_state (decide E L A ci) s2 = (Inl (done_with (Some e)), s2))"
proof -
  from init_failure_leaves_empty [OF assms(2)] assms(3) obtain pm where
    pm: "appliedConfigMap s2 = Some pm" "cm_get pm ConfigMapDataKey = []" by metis
  then have "run_state (init_applied E L) s2 = (Inr (), s2)" by (simp add: init_applied_def)
  moreover obtain e where
    "NeedApplyChange L (ci_instance ci) (Some pm) = (pod_need_change False False False, Some e)"
    using ini_laws.empty_applied_blocks [OF assms(1) pm(2) assms(4-9)] by blast
  then have "\<exists>e. run_state (decide E L A ci) s2 = (Inl (done_with (Some e)), s2)"
    by (auto simp: decide_def pm Let_def)
  ultimately show ?thesis by blast
qed

definition broken_cluster :: mem_cluster where
  "broken_cluster = demo_cluster\<lparr>c_configmaps := \<lambda>k. Some \<lparr>cm_data = Some [ConfigMapDataKey \<mapsto> ''x'']\<rparr>\<rparr>"

theorem failed_recall_blocks_witness:
  "\<exists>s e. run_state (decide demo_cluster_api mini_ini AdaptorK8s (demo_ci 1 demo_cm)) s
     = (Inl (done_with (Some e)), s)"
proof -
  let ?s = "demo_operator\<lparr>world := broken_cluster\<rparr>"
  have bad: "Load mini_ini ''x'' = Inl (GoError ''key-value delimiter not found: x'')" by code_simp
  have idle: "m_faults broken_cluster = []" by (simp add: broken_cluster_def)
  have "c_configmaps broken_cluster k = Some \<lparr>cm_data = Some [ConfigMapDataKey \<mapsto> ''x'']\<rparr>" for k
    by (simp add: broken_cluster_def)
  then have "\<exists>out s1. run_state (init_applied demo_cluster_api mini_ini) ?s = (Inl out, s1)"
    by (simp add: init_applied_def get_configmap_or_nil_def idle found_def demo_operator_def
        GenerateOperatorConfigMap_def cm_text_def cm_get_def bad split: prod.splits)
  then obtain out s1 where init: "run_state (init_applied demo_cluster_api mini_ini) ?s = (Inl out, s1)"
    by blast
  have load: "Load mini_ini [] = Inr [(''DEFAULT'', [])]" by code_simp
  have none: "m_val [(''DEFAULT'', [])] = (\<lambda>_. Map.empty)" by (simp add: m_val_def m_keys_def fun_eq_iff)
  let ?ci = "demo_ci 1 demo_cm"
  have refs: "no_references (m_val demo_file)" "get_or_empty (m_val demo_file) ''coe'' ''cluster'' \<noteq> []"
    by code_simp+
  have nonblank: "TrimSpace (cm_get demo_cm ConfigMapDataKey) \<noteq> []" by code_simp
  have "run_state (init_applied demo_cluster_api mini_ini) s1 = (Inr (), s1)
    \<and> (\<exists>e. run_state (decide demo_cluster_api mini_ini AdaptorK8s ?ci) s1
          = (Inl (done_with (Some e)), s1))"
    by (rule failed_recall_blocks [where val = m_val, OF mini.ini_laws_axioms init refl load none _ refs])
       (simp_all add: demo_load nonblank)
  then show ?thesis by blast
qed

end
