(* ===== verification/Pod_Properties.thy ===== *)
theory Pod_Properties
  imports Demo_Cluster
begin

text \<open>
  The properties of the pod controller, over every API that meets \<open>pod_calls\<close> or
  \<open>delete_log\<close>, and its composition with the ConfigMap controller through the shared state.
\<close>

abbreviation demo_pod_api :: "mem_cluster pod_api" where
  "demo_pod_api \<equiv> mem_pod_api demo_env demo_docs demo_marshal demo_unmarshal"

text \<open>The operator after the ConfigMap controller shared its inputs, and a request for nsx-ncp.\<close>

definition shared_operator :: "mem_cluster operator" where
  "shared_operator = snd (run_state (share_inputs (demo_ci 1 demo_cm)) demo_operator)"

definition ncp_request :: request where
  "ncp_request = \<lparr>req_namespace = ''nsx-system'', req_name = ''nsx-ncp''\<rparr>"

definition ncp_resources :: "nsname list" where
  "ncp_resources = fst (fst (run_state newReconciler_pod demo_operator))"

lemma shared_sel:
  "world shared_operator = demo_cluster"
  "fst (specs_of shared_operator) ''nsx-ncp'' = Some (demo_workload ''Deployment'' ''nsx-ncp'')"
  by (simp_all add: shared_operator_def share_inputs_def updateSharedInfoWithNsxNcpResources_def
      specs_of_def demo_operator_def demo_objs_def note_resource_def demo_workload_def names
      identifyAndGetK8SObjToCreate_def)

lemma ncp_absent:
  "run_state (CheckIfNCPK8sResourceExists (mem_api mar unmar) ''nsx-ncp'') shared_operator
     = (Inr False, shared_operator)"
proof -
  have "identifyAndGetInstance ''nsx-ncp'' = Inr DeploymentKind" by code_simp
  moreover have "shared_operator\<lparr>world := demo_cluster\<rparr> = shared_operator"
    using shared_sel(1) by (cases shared_operator) simp
  ultimately show ?thesis
    by (simp add: CheckIfNCPK8sResourceExists_def shared_sel Let_def mem_api_def demo_cluster_sel found_def)
qed

text \<open>
  C33. Whatever the cluster answers, one reconciliation of the pod controller applies at most one
  object, and only for a request that names one of the watched workloads: the specification
  that was shared for it, which on Kubernetes goes to the server unchanged.
\<close>

theorem pod_reconcile_applies:
  assumes "pod_calls P V"
    and "run_state (Reconcile_pod P res A req) s = (out, s')"
  shows "V (world s') = V (world s) \<or>
    (\<exists>u u'. isForNcpDeployOrNodeAgentDS res req
       \<and> identifyAndGetK8SObjToCreate (sharedInfo s) (req_name req) = Some u
       \<and> ident u' = ident u \<and> (A = AdaptorK8s \<longrightarrow> u' = u) \<and> V (world s') = V (world s) @ [u'])"
  using pod_calls.reconcile_pod_run [OF assms] by (simp add: specs_of_def)

theorem pod_reconcile_applies_witness:
  "length (c_applied (world (snd (run_state
     (Reconcile_pod demo_pod_api ncp_resources AdaptorK8s ncp_request) shared_operator)))) \<le> 1"
proof -
  obtain out s' where run: "run_state (Reconcile_pod demo_pod_api ncp_resources AdaptorK8s ncp_request)
      shared_operator = (out, s')" by (metis surj_pair)
  from pod_reconcile_applies [OF cluster_pods.pod_calls_axioms run] run
  show ?thesis by (auto simp: shared_sel demo_cluster_sel)
qed

text \<open>
  C34. Composition of the two controllers: after the ConfigMap controller shared its rendered
  objects, a workload that is found absent and recreated without an error is the last
  rendered object of that name, and it is applied exactly once.
\<close>

theorem pod_recreates_rendered:
  assumes "pod_calls P V"
    and "sharedInfo s = sharedInfo (snd (run_state (share_inputs ci) before))"
    and "name \<in> set workloads" "find (\<lambda>u. u_name u = name) (rev (ci_objs ci)) = Some u"
    and "fst (run_state (CheckIfNCPK8sResourceExists (st (pc P)) name) s) = Inr False"
    and "run_state (recreateNsxNcpResourceIfDeleted P A name) s = (None, s')"
  shows "\<exists>u'. V (world s') = V (world s) @ [u'] \<and> ident u' = ident u \<and> (A = AdaptorK8s \<longrightarrow> u' = u)"
proof -
  have spec: "fst (specs_of s) name = Some u"
    using identify_shared [OF assms(3,4)] assms(2) by (simp add: specs_of_def)
  show ?thesis
    by (rule pod_calls.recreate_run [OF assms(1,6)]) (use spec assms(5) in auto)
qed

theorem pod_recreates_rendered_witness:
  "\<exists>s'. run_state (recreateNsxNcpResourceIfDeleted demo_pod_api AdaptorK8s ''nsx-ncp'') shared_operator
       = (None, s')
     \<and> c_applied (world s') = [demo_workload ''Deployment'' ''nsx-ncp'']"
proof -
  let ?u = "demo_workload ''Deployment'' ''nsx-ncp''"
  have spec: "identifyAndGetK8SObjToCreate (sharedInfo shared_operator) ''nsx-ncp'' = Some ?u"
    using shared_sel(2) by (simp add: specs_of_def)
  have pc: "pc demo_pod_api = demo_cluster_api" by (simp add: mem_pod_api_def)
  obtain s' where run: "run_state (recreateNsxNcpResourceIfDeleted demo_pod_api AdaptorK8s ''nsx-ncp'')
      shared_operator = (None, s')"
    by (simp add: recreateNsxNcpResourceIfDeleted_def pc ncp_absent spec setControllerReference_pod_def
        createK8sObject_def shared_sel)
  have "\<exists>u'. c_applied (world s') = c_applied (world shared_operator) @ [u'] \<and> ident u' = ident ?u
      \<and> (AdaptorK8s = AdaptorK8s \<longrightarrow> u' = ?u)"
    by (rule pod_recreates_rendered [OF cluster_pods.pod_calls_axioms
          arg_cong [OF shared_operator_def, of sharedInfo] _ _ _ run])
       (simp_all add: workloads_def names demo_objs_def demo_workload_def pc ncp_absent)
  with run show ?thesis by (auto simp: shared_sel demo_cluster_sel)
qed

text \<open>
  C35. Node agent pods are deleted only when their container is in a crash loop and its logs
  blame name resolution. While the list of the pods with the label of the node agent and the
  logs of those in a crash loop stay the same, the deleted pods are, in order, some of the
  listed pods of this kind, and without an error all of them.
\<close>

theorem broken_pods_deleted:
  assumes "delete_log E D"
    and "run_state (recreateNodeAgentPodsIfInvalidResolvConf E) s = (r, s')"
  shows "\<exists>gone. D (world s') = D (world s) @ gone \<and> (\<forall>p \<in> set gone. broken_pod E p)
    \<and> (\<forall>I pods logs. I (world s)
         \<and> answers I (list_pods (st E) (''component'', ''nsx-node-agent'')) (Inr pods)
         \<and> (\<forall>p \<in> set pods. isNodeAgentContainerInCLB p \<longrightarrow>
              answers I (container_logs E p ''nsx-node-agent'') (Inr (logs p)))
       \<longrightarrow> (let broken = filter (\<lambda>p. isNodeAgentContainerInCLB p \<and> Contains (logs p) unresolved) pods
            in subseq gone broken \<and> (r = None \<longrightarrow> gone = broken)))"
proof -
  from delete_log.restart_run [OF assms] obtain gone where
    gone: "D (world s') = D (world s) @ gone" "\<forall>p \<in> set gone. broken_pod E p" and
    some: "\<And>ps. fst (run_state (identifyPodsInCLBDueToInvalidResolvConf E) s) = Inr ps \<Longrightarrow> subseq gone ps" and
    all: "r = None \<Longrightarrow> fst (run_state (identifyPodsInCLBDueToInvalidResolvConf E) s) = Inr gone" by blast
  note found = identify_stable [unfolded names]
  show ?thesis
  proof (intro exI [of _ gone] conjI allI impI gone, elim conjE)
    fix I pods logs
    assume "I (world s)" "answers I (list_pods (st E) (''component'', ''nsx-node-agent'')) (Inr pods)"
      "\<forall>p \<in> set pods. isNodeAgentContainerInCLB p \<longrightarrow>
         answers I (container_logs E p ''nsx-node-agent'') (Inr (logs p))"
    from found [OF this(1,2)] this(3) have
      "fst (run_state (identifyPodsInCLBDueToInvalidResolvConf E) s)
        = Inr (filter (\<lambda>p. isNodeAgentContainerInCLB p \<and> Contains (logs p) unresolved) pods)" by fastforce
    with some all show "let broken = filter (\<lambda>p. isNodeAgentContainerInCLB p \<and> Contains (logs p) unresolved) pods
        in subseq gone broken \<and> (r = None \<longrightarrow> gone = broken)" by (simp add: Let_def)
  qed
qed

definition agent_pod :: "string \<Rightarrow> container_reason option \<Rightarrow> pod" where
  "agent_pod n waiting = \<lparr>p_name = n, p_namespace = ''nsx-system'', p_nodeName = ''node-1'',
     p_phase = ''Running'', p_startTime = None,
     p_containerStatuses = [\<lparr>cs_name = ''nsx-node-agent'', cs_running = None,
       cs_waiting = waiting, cs_terminated = None\<rparr>]\<rparr>"

definition crash_loop :: container_reason where
  "crash_loop = \<lparr>cr_reason = ''CrashLoopBackOff'', cr_message = []\<rparr>"

text \<open>Two of four pods are broken; one runs, and one crashes for another reason.\<close>

definition looping_cluster :: mem_cluster where
  "looping_cluster = demo_cluster
     \<lparr>m_pods := map (Pair (''component'', ''nsx-node-agent''))
        [agent_pod ''agent-1'' (Some crash_loop), agent_pod ''agent-2'' None,
         agent_pod ''agent-3'' (Some crash_loop), agent_pod ''agent-4'' (Some crash_loop)],
      c_logs := [''agent-1'' \<mapsto> ''x: '' @ unresolved, ''agent-3'' \<mapsto> ''out of memory'',
        ''agent-4'' \<mapsto> unresolved]\<rparr>"

definition looping_operator :: "mem_cluster operator" where
  "looping_operator = demo_operator\<lparr>world := looping_cluster\<rparr>"

theorem broken_pods_deleted_witness:
  "c_deleted (world (snd (run_state (recreateNodeAgentPodsIfInvalidResolvConf demo_cluster_api)
     looping_operator))) = [agent_pod ''agent-1'' (Some crash_loop), agent_pod ''agent-4'' (Some crash_loop)]"
proof -
  let ?run = "run_state (recreateNodeAgentPodsIfInvalidResolvConf demo_cluster_api) looping_operator"
  let ?pods = "map snd (m_pods looping_cluster)"
  define logs :: "pod \<Rightarrow> string" where "logs = (\<lambda>p. the (c_logs looping_cluster (p_name p)))"
  have clb: "isNodeAgentContainerInCLB (agent_pod n c) \<longleftrightarrow> c = Some crash_loop" if "c \<in> {None, Some crash_loop}" for n c
    using that by (auto simp: isNodeAgentContainerInCLB_def agent_pod_def crash_loop_def names)
  have texts: "Contains (''x: '' @ unresolved) unresolved" "Contains unresolved unresolved"
    "\<not> Contains ''out of memory'' unresolved" by code_simp+
  have sel: "c_deleted looping_cluster = []" "m_faults looping_cluster = []" "world looping_operator = looping_cluster"
    by (simp_all add: looping_cluster_def looping_operator_def demo_cluster_def demo_world_def mem_world.defs)
  have name: "p_name (agent_pod n c) = n" for n c by (simp add: agent_pod_def)
  have list: "answers (\<lambda>w. w = looping_cluster)
      (list_pods (st demo_cluster_api) (''component'', ''nsx-node-agent'')) (Inr ?pods)"
    by (simp add: answers_def mem_api_def sel) (simp add: looping_cluster_def)
  have read: "\<forall>p \<in> set ?pods. isNodeAgentContainerInCLB p \<longrightarrow>
      answers (\<lambda>w. w = looping_cluster) (container_logs demo_cluster_api p ''nsx-node-agent'') (Inr (logs p))"
    by (simp add: answers_def mem_cluster_api_def sel)
       (simp add: looping_cluster_def clb name found_def logs_def)
  note texts = texts texts(1) [simplified]
  have broken: "filter (\<lambda>p. isNodeAgentContainerInCLB p \<and> Contains (logs p) unresolved) ?pods
      = [agent_pod ''agent-1'' (Some crash_loop), agent_pod ''agent-4'' (Some crash_loop)]"
    by (simp add: logs_def looping_cluster_def clb name texts)
  have del: "delete_pod demo_cluster_api p w =
      (None, w\<lparr>m_pods := filter (\<lambda>q. snd q \<noteq> p) (m_pods w), c_deleted := c_deleted w @ [p]\<rparr>)"
    if "m_faults w = []" for p w
    using that by (simp add: mem_cluster_api_def writing_def next_fault_def)
  have all: "fst (run_state (delete_loop demo_cluster_api ps True) s) = True" if "m_faults (world s) = []"
    for ps s using that by (induction ps arbitrary: s) (simp_all add: del)
  obtain r s' where run: "?run = (r, s')" by (metis surj_pair)
  from identify_stable [unfolded names, of "\<lambda>w. w = looping_cluster", OF sel(3) list read [rule_format], unfolded broken] obtain s1 where
    i: "run_state (identifyPodsInCLBDueToInvalidResolvConf demo_cluster_api) looping_operator
      = (Inr [agent_pod ''agent-1'' (Some crash_loop), agent_pod ''agent-4'' (Some crash_loop)], s1)"
    "world s1 = looping_cluster" by blast
  have "r = None"
    using run i(1) all [of s1] i(2) sel(2)
    by (auto simp: recreateNodeAgentPodsIfInvalidResolvConf_def deletePods_def prod_eq_iff case_prod_beta
        simp del: delete_loop.simps)
  from broken_pods_deleted [OF cluster_deletes.delete_log_axioms run] obtain gone where
    "c_deleted (world s') = gone" "gone = [agent_pod ''agent-1'' (Some crash_loop), agent_pod ''agent-4'' (Some crash_loop)]"
    using list read sel broken \<open>r = None\<close> by (fastforce simp: Let_def)
  with run show ?thesis by simp
qed

end
