(* ===== verification/Canary_Workaround.thy ===== *)
theory Canary_Workaround
  imports Objects Go_Net Go_Encoding
begin

text \<open>
  The canary workaround controller:
  \<open>pkg/controller/canaryworkaround/canaryworkaround_controller.go\<close>. Its only state is the
  cluster, so its operations run on the world. A network policy holds what the controller
  reads of the upstream policy; the apply configuration of the companion policy holds every
  field the code sets.
\<close>

section \<open>Objects and calls\<close>

record canary_policy =
  cp_name :: string
  cp_UID :: string
  cp_ingress :: "(string \<rightharpoonup> string) option list list"
    \<comment> \<open>per rule, per peer: the match labels of its namespace selector, if it has one\<close>

record service_port =
  sp_Protocol :: string
  sp_Port :: int
  sp_TargetPort :: int  \<comment> \<open>\<open>IntVal\<close>; 0 for a named port\<close>

record owner_reference =
  or_apiVersion :: string
  or_kind :: string
  or_name :: string
  or_uid :: string

record workaround_policy =
  wp_name :: string
  wp_namespace :: string
  wp_labels :: "(string \<times> string) list"
  wp_owner :: owner_reference
  wp_podSelector :: "(string \<times> string) list"
  wp_policyTypes :: "string list"
  wp_from :: "string list"  \<comment> \<open>the CIDRs of the IP blocks\<close>
  wp_ports :: "(string \<times> int) list"

record 'w canary_api =
  get_netpol :: "nsname \<Rightarrow> 'w \<Rightarrow> (go_error + canary_policy) \<times> 'w"
  list_all_nodes :: "'w \<Rightarrow> (go_error + node list) \<times> 'w"
  get_service :: "nsname \<Rightarrow> 'w \<Rightarrow> (go_error + service_port list) \<times> 'w"
  delete_netpol :: "nsname \<Rightarrow> 'w \<Rightarrow> go_error option \<times> 'w"
  apply_netpol :: "workaround_policy \<Rightarrow> 'w \<Rightarrow> go_error option \<times> 'w"

section \<open>Node addresses\<close>

fun node_ips_loop :: "(string \<times> string) list \<Rightarrow> string set \<Rightarrow> string list \<Rightarrow> string list" where
  "node_ips_loop [] seen ips = ips"
| "node_ips_loop ((type, address) # addrs) seen ips =
     (if type \<noteq> ''InternalIP'' \<and> type \<noteq> ''ExternalIP'' then node_ips_loop addrs seen ips
      else if address \<in> seen then node_ips_loop addrs seen ips
      else node_ips_loop addrs (insert address seen) (ips @ [address]))"

definition nodeIPs :: "node \<Rightarrow> string list" where
  "nodeIPs nd = node_ips_loop (n_addresses nd) {} []"

definition sameNodeIPs :: "string list \<Rightarrow> string list \<Rightarrow> bool" where
  "sameNodeIPs a b =
     (if length a \<noteq> length b then False
      else let aSet = set a in list_all (\<lambda>ip. ip \<in> aSet) b)"

text \<open>The filter of update events of nodes; other events pass.\<close>

definition nodeAddressChangedPredicate :: "node \<Rightarrow> node \<Rightarrow> bool" where
  "nodeAddressChangedPredicate objectOld objectNew =
     (\<not> sameNodeIPs (nodeIPs objectOld) (nodeIPs objectNew))"

fun merge_ips :: "string list \<Rightarrow> string set \<times> string list \<Rightarrow> string set \<times> string list" where
  "merge_ips [] acc = acc"
| "merge_ips (ip # xs) (seen, ips) =
     (if ip \<in> seen then merge_ips xs (seen, ips) else merge_ips xs (insert ip seen, ips @ [ip]))"

definition node_list_ips :: "node list \<Rightarrow> string list" where
  "node_list_ips nodes = sort_Strings (snd (foldl (\<lambda>acc nd. merge_ips (nodeIPs nd) acc) ({}, []) nodes))"

definition listNodeIPs :: "'w canary_api \<Rightarrow> ('w, go_error + string list) state" where
  "listNodeIPs K = do {
     r \<leftarrow> State (list_all_nodes K);
     ret (case r of Inl err \<Rightarrow> Inl (wrapf err ''failed to list nodes'') | Inr nodes \<Rightarrow> Inr (node_list_ips nodes))
   }"

section \<open>The upstream policy and the service\<close>

definition hostNetworkLabel :: string where
  "hostNetworkLabel = ''policy-group.network.openshift.io/host-network''"

definition hasHostNetworkNamespaceSelector :: "canary_policy \<Rightarrow> bool" where
  "hasHostNetworkNamespaceSelector netpol =
     list_ex (list_ex (\<lambda>peer. case peer of None \<Rightarrow> False
                              | Some labels \<Rightarrow> labels hostNetworkLabel = Some [])) (cp_ingress netpol)"

fun tcp_ports :: "service_port list \<Rightarrow> int list \<Rightarrow> int list" where
  "tcp_ports [] ports = ports"
| "tcp_ports (p # ps) ports =
     (if sp_Protocol p \<noteq> [] \<and> sp_Protocol p \<noteq> ''TCP'' then tcp_ports ps ports
      else tcp_ports ps (ports @ [if sp_TargetPort p \<noteq> 0 then sp_TargetPort p else sp_Port p]))"

definition canaryServiceName :: string where
  "canaryServiceName = IngressCanaryNetworkPolicy"

definition canaryServicePorts :: "'w canary_api \<Rightarrow> ('w, go_error + int list) state" where
  "canaryServicePorts K = do {
     r \<leftarrow> State (get_service K (nsn IngressCanaryNamespace canaryServiceName));
     ret (case r of
            Inl err \<Rightarrow> if is_not_found err then Inr []
                       else Inl (wrapf err ''failed to get ingress-canary Service'')
          | Inr ports \<Rightarrow> Inr (tcp_ports ports []))
   }"

section \<open>The companion policy\<close>

definition deleteWorkaroundPolicy :: "'w canary_api \<Rightarrow> ('w, go_error option) state" where
  "deleteWorkaroundPolicy K = do {
     e \<leftarrow> State (delete_netpol K (nsn IngressCanaryNamespace CanaryWorkaroundNetworkPolicy));
     ret (case e of
            None \<Rightarrow> None
          | Some err \<Rightarrow> if \<not> is_not_found err
                        then Some (wrapf err ''failed to delete canary workaround NetworkPolicy'')
                        else None)
   }"

fun ip_blocks :: "string list \<Rightarrow> string list \<Rightarrow> string list" where
  "ip_blocks [] peers = peers"
| "ip_blocks (ip # ips) peers =
     (case ParseIP ip of
        None \<Rightarrow> ip_blocks ips peers
      | Some parsedIP \<Rightarrow>
          if \<not> is_To4 parsedIP then ip_blocks ips peers
          else ip_blocks ips (peers @ [ip @ ''/32'']))"

definition canaryPodSelectorLabel :: string where
  "canaryPodSelectorLabel = ''ingresscanary.operator.openshift.io/daemonset-ingresscanary''"

definition canaryPodSelectorValue :: string where
  "canaryPodSelectorValue = ''canary_controller''"

definition buildWorkaroundPolicy :: "canary_policy \<Rightarrow> string list \<Rightarrow> int list \<Rightarrow> workaround_policy" where
  "buildWorkaroundPolicy canaryNetPol ips ports =
     \<lparr>wp_name = CanaryWorkaroundNetworkPolicy, wp_namespace = IngressCanaryNamespace,
      wp_labels = [(CanaryWorkaroundManagedByLabel, CanaryWorkaroundManagedByValue)],
      wp_owner = \<lparr>or_apiVersion = ''networking.k8s.io/v1'', or_kind = ''NetworkPolicy'',
        or_name = cp_name canaryNetPol, or_uid = cp_UID canaryNetPol\<rparr>,
      wp_podSelector = [(canaryPodSelectorLabel, canaryPodSelectorValue)],
      wp_policyTypes = [''Ingress''], wp_from = ip_blocks ips [],
      wp_ports = map (\<lambda>p. (''TCP'', p)) ports\<rparr>"

section \<open>The handler\<close>

text \<open>The request is not used.\<close>

definition Reconcile_canary :: "'w canary_api \<Rightarrow> ('w, outcome) state" where
  "Reconcile_canary K = do {
     r \<leftarrow> State (get_netpol K (nsn IngressCanaryNamespace IngressCanaryNetworkPolicy));
     case r of
       Inl err \<Rightarrow>
         if \<not> is_not_found err then ret (emptyResult, Some err)
         else do { e \<leftarrow> deleteWorkaroundPolicy K; ret (emptyResult, e) }
     | Inr canaryNetPol \<Rightarrow>
         if \<not> hasHostNetworkNamespaceSelector canaryNetPol
         then do { e \<leftarrow> deleteWorkaroundPolicy K; ret (emptyResult, e) }
         else do {
           r \<leftarrow> listNodeIPs K;
           case r of
             Inl err \<Rightarrow> ret (emptyResult, Some err)
           | Inr ips \<Rightarrow>
               if length ips = 0 then ret (emptyResult, None)
               else do {
                 r \<leftarrow> canaryServicePorts K;
                 case r of
                   Inl err \<Rightarrow> ret (emptyResult, Some err)
                 | Inr ports \<Rightarrow>
                     if length ports = 0 then ret (emptyResult, None)
                     else do {
                       e \<leftarrow> State (apply_netpol K (buildWorkaroundPolicy canaryNetPol ips ports));
                       ret (emptyResult, map_option
                         (\<lambda>err. wrapf err ''failed to apply canary workaround NetworkPolicy'') e)
                     }
               }
         }
   }"

end
