(* ===== verification/Canary_Facts.thy ===== *)
theory Canary_Facts
  imports Canary_Workaround Config_Validation
begin

text \<open>
  What the companion policy is to be, as a function of the cluster (\<open>canary_target\<close>), the
  interface of a server that keeps network policies (\<open>canary_server\<close>), and the proof that the
  handler implements the one on the other. Then the facts on node addresses: what an update
  event that the filter drops could have changed.
\<close>

section \<open>Node addresses\<close>

definition relevant_ips :: "node \<Rightarrow> string set" where
  "relevant_ips nd = {a. \<exists>t \<in> {''InternalIP'', ''ExternalIP''}. (t, a) \<in> set (n_addresses nd)}"

lemma node_ips_loop_run:
  assumes "seen = set ips" "distinct ips"
  shows "set (node_ips_loop addrs seen ips) = set ips \<union>
      {a. \<exists>t \<in> {''InternalIP'', ''ExternalIP''}. (t, a) \<in> set addrs}
    \<and> distinct (node_ips_loop addrs seen ips)"
  using assms by (induction addrs seen ips rule: node_ips_loop.induct) auto

lemma nodeIPs_set: "set (nodeIPs nd) = relevant_ips nd" "distinct (nodeIPs nd)"
  using node_ips_loop_run [of "{}" "[]" "n_addresses nd"]
  by (simp_all add: nodeIPs_def relevant_ips_def)

lemma sameNodeIPs_iff:
  assumes "distinct a" "distinct b"
  shows "sameNodeIPs a b \<longleftrightarrow> set a = set b"
proof
  assume "sameNodeIPs a b"
  then have "length a = length b" "set b \<subseteq> set a"
    by (auto simp: sameNodeIPs_def list_all_iff split: if_splits)
  with assms show "set a = set b"
    by (metis card_subset_eq distinct_card List.finite_set)
next
  assume "set a = set b"
  with assms show "sameNodeIPs a b"
    by (metis distinct_card list_all_iff sameNodeIPs_def)
qed

lemma merge_ips_run:
  assumes "seen = set ips" "distinct ips"
  shows "\<exists>new. merge_ips xs (seen, ips) = (set new, new) \<and> distinct new \<and> set new = set ips \<union> set xs"
  using assms by (induction xs "(seen, ips)" arbitrary: seen ips rule: merge_ips.induct) auto

lemma merged_nodes:
  "\<exists>new. foldl (\<lambda>acc nd. merge_ips (nodeIPs nd) acc) ({}, []) nodes = (set new, new) \<and> distinct new
     \<and> set new = (\<Union>nd \<in> set nodes. relevant_ips nd)"
proof (induction nodes rule: rev_induct)
  case (snoc nd nodes)
  then obtain new where
    "foldl (\<lambda>acc nd. merge_ips (nodeIPs nd) acc) ({}, []) nodes = (set new, new)" "distinct new"
    "set new = (\<Union>nd \<in> set nodes. relevant_ips nd)" by blast
  with merge_ips_run [of "set new" new "nodeIPs nd"] nodeIPs_set(1) [of nd] show ?case by auto
qed simp

text \<open>The listed addresses: strictly increasing, and those of the nodes.\<close>

lemma node_list_ips_facts:
  "set (node_list_ips nodes) = (\<Union>nd \<in> set nodes. relevant_ips nd)"
  "sorted_wrt str_less (node_list_ips nodes)"
proof -
  from merged_nodes [of nodes] obtain new where
    "foldl (\<lambda>acc nd. merge_ips (nodeIPs nd) acc) ({}, []) nodes = (set new, new)" "distinct new"
    "set new = (\<Union>nd \<in> set nodes. relevant_ips nd)" by blast
  then show "set (node_list_ips nodes) = (\<Union>nd \<in> set nodes. relevant_ips nd)"
    "sorted_wrt str_less (node_list_ips nodes)"
    by (auto simp: node_list_ips_def sort_Strings_def sorted_sort_Strings [unfolded sort_Strings_def])
qed

lemma increasing_unique:
  assumes "sorted_wrt str_less xs" "sorted_wrt str_less ys" "set xs = set ys"
  shows "xs = ys"
  using assms
proof (induction xs arbitrary: ys)
  case (Cons x xs)
  then obtain y zs where ys: "ys = y # zs" by (cases ys) auto
  have "x = y"
  proof (rule ccontr)
    assume "x \<noteq> y"
    with Cons.prems ys have "str_less x y" "str_less y x" by auto
    then show False using str_less_asym by blast
  qed
  have "x \<notin> set xs" "y \<notin> set zs" using Cons.prems ys by auto
  with \<open>x = y\<close> Cons.prems(3) ys have "set xs = set zs" by (simp add: insert_ident)
  with Cons.IH [of zs] Cons.prems ys \<open>x = y\<close> show ?case by simp
qed simp

lemma node_list_ips_cong:
  "(\<Union>nd \<in> set ns. relevant_ips nd) = (\<Union>nd \<in> set ms. relevant_ips nd) \<Longrightarrow>
   node_list_ips ns = node_list_ips ms"
  by (rule increasing_unique) (simp_all add: node_list_ips_facts)

text \<open>An update that the filter drops does not change the list.\<close>

lemma dropped_update:
  assumes "\<not> nodeAddressChangedPredicate (nodes ! i) nd" "i < length nodes"
  shows "node_list_ips (nodes[i := nd]) = node_list_ips nodes"
proof (rule node_list_ips_cong)
  have eq: "relevant_ips nd = relevant_ips (nodes ! i)"
    using assms(1) nodeIPs_set by (simp add: nodeAddressChangedPredicate_def sameNodeIPs_iff)
  have "map relevant_ips (nodes[i := nd]) = map relevant_ips nodes"
    using eq assms(2) by (metis list_update_id map_update)
  then have "relevant_ips ` set (nodes[i := nd]) = relevant_ips ` set nodes"
    by (metis set_map)
  then show "(\<Union>nd \<in> set (nodes[i := nd]). relevant_ips nd) = (\<Union>nd \<in> set nodes. relevant_ips nd)"
    by simp
qed

section \<open>The blocks\<close>

definition host_ip :: "string \<Rightarrow> bool" where
  "host_ip ip \<longleftrightarrow> (\<exists>a. ParseIP ip = Some a \<and> is_To4 a)"

lemma ip_blocks_eq: "ip_blocks ips peers = peers @ map (\<lambda>ip. ip @ ''/32'') (filter host_ip ips)"
  by (induction ips peers rule: ip_blocks.induct) (auto simp: host_ip_def split: option.splits)

lemma Index_char: "c \<notin> set s \<Longrightarrow> Index (s @ c # t) [c] = Some (length s)"
  by (induction s) auto

lemma set_Join: "set (Join xs sep) \<subseteq> (\<Union>x \<in> set xs. set x) \<union> set sep"
  by (induction xs sep rule: Join.induct) auto

lemma ipv4_no_slash:
  assumes "parse_ipv4 s = Some v"
  shows "CHR ''/'' \<notin> set s"
proof -
  have "None \<notin> parse_octet ` set (Split s ''.'')"
    using assms by (auto simp: parse_ipv4_def Let_def split: if_splits)
  then have "parse_octet f \<noteq> None" if "f \<in> set (Split s ''.'')" for f
    using that by (metis imageI)
  then have "CHR ''/'' \<notin> set f" if "f \<in> set (Split s ''.'')" for f
    using that by (fastforce simp: parse_octet_def dest: uint_loop_digits split: if_splits sum.splits)
  moreover have "s = Join (Split s ''.'') ''.''" using Join_Split [of "''.''" s] by simp
  ultimately show ?thesis using set_Join [of "Split s ''.''" "''.''"] by fastforce
qed

lemma hex_group_slash: "hex_group s acc = (v, n, r) \<Longrightarrow> CHR ''/'' \<in> set s \<Longrightarrow> CHR ''/'' \<in> set r"
proof (induction s arbitrary: acc v n r)
  case (Cons c s)
  have "hex_val (CHR ''/'') = None" by code_simp
  with Cons show ?case by (auto split: option.splits prod.splits)
qed simp

lemma v6_loop_slash: "v6_loop s bs ell = Some (out, e, rest) \<Longrightarrow> CHR ''/'' \<in> set s \<Longrightarrow> CHR ''/'' \<in> set rest"
proof (induction s bs ell arbitrary: out e rest rule: v6_loop.induct)
  case (1 s bs ell)
  show ?case
  proof (cases "length bs \<ge> 16")
    case True
    with 1(3,4) show ?thesis by (simp add: v6_loop.simps [of s])
  next
    case False
    obtain v off r where g: "hex_group s 0 = (v, off, r)" by (metis prod_cases3)
    note r = hex_group_slash [OF g 1(4)]
    then obtain c t where ct: "r = c # t" by (cases r) auto
    show ?thesis
    proof (cases "c = CHR ''.''")
      case True
      with 1(3,4) False g ct show ?thesis
        by (auto simp: v6_loop.simps [of s] dest: ipv4_no_slash split: if_splits option.splits)
    next
      case dot: False
      with 1(3) False g ct have c: "c = CHR '':''" "t \<noteq> []" "\<not> (off = 0 \<or> off > 4)"
        by (auto simp: v6_loop.simps [of s] Let_def split: if_splits)
      with r ct have t: "CHR ''/'' \<in> set t" by simp
      let ?bs = "bs @ [v div 256, v mod 256]"
      show ?thesis
      proof (cases "hd t = CHR '':''")
        case True
        with t have "CHR ''/'' \<in> set (tl t)" "tl t \<noteq> []" by (cases t; auto)+
        with 1(3) False g ct c dot True have
          "v6_loop (tl t) ?bs (Some (length ?bs)) = Some (out, e, rest)"
          by (simp add: v6_loop.simps [of s] Let_def split: if_splits)
        with 1(1) [OF False g [symmetric] refl _ _ refl] False g ct c dot True show ?thesis
          using \<open>CHR ''/'' \<in> set (tl t)\<close> \<open>tl t \<noteq> []\<close> 1(3)
          by (auto simp: v6_loop.simps [of s] Let_def split: if_splits)
      next
        case one: False
        with 1(3) False g ct c dot have "v6_loop t ?bs ell = Some (out, e, rest)"
          by (simp add: v6_loop.simps [of s] Let_def)
        with 1(2) [OF False g [symmetric] refl _ _ refl] False g ct c dot one t show ?thesis by auto
      qed
    qed
  qed
qed

lemma ipv6_no_slash:
  assumes "parse_ipv6 s = Some v"
  shows "CHR ''/'' \<notin> set s"
proof
  assume slash: "CHR ''/'' \<in> set s"
  define t where "t = (if prefix ''::'' s then drop 2 s else s)"
  have "CHR ''/'' \<in> set t" using slash by (auto simp: t_def prefix_def)
  moreover have "t = [] \<or> (\<exists>bs e out. v6_loop t [] bs = Some (out, e, []))"
    using assms by (auto simp: parse_ipv6_def Let_def t_def split: if_splits option.splits) blast+
  ultimately show False using v6_loop_slash [of t "[]"] by fastforce
qed

text \<open>
  The block of an address keeps the first 32 bits of the address. So that of an IPv4 address is
  that one host, and that of an IPv4-mapped one, of 128 bits, is not.
\<close>

lemma address_block:
  assumes "ParseIP ip = Some a"
  shows "ParseCIDR (ip @ ''/32'') = Some (a, 32)"
proof -
  have "CHR ''/'' \<notin> set ip"
    using assms ipv4_no_slash ipv6_no_slash by (auto simp: ParseAddr_def split: option.splits if_splits)
  then have "Index (ip @ ''/32'') ''/'' = Some (length ip)" by (rule Index_char)
  moreover have "uint_loop 16777214 ''32'' 0 = Inr 32" by code_simp
  ultimately show ?thesis using assms by (cases a) (simp_all add: ParseCIDR_def)
qed

definition single_host :: "string \<Rightarrow> bool" where
  "single_host cidr \<longleftrightarrow> (case ParseCIDR cidr of None \<Rightarrow> False | Some (a, n) \<Rightarrow> n = BitLen a)"

lemma block_single_host:
  "ParseIP ip = Some a \<Longrightarrow> single_host (ip @ ''/32'') \<longleftrightarrow> (\<exists>bs. a = IP4 bs)"
  by (cases a) (simp_all add: single_host_def address_block)

section \<open>The abstract specification\<close>

definition canary_target ::
  "canary_policy option \<Rightarrow> node list \<Rightarrow> service_port list option \<Rightarrow> workaround_policy option
   \<Rightarrow> workaround_policy option" where
  "canary_target upstream nodes service companion =
     (case upstream of
        None \<Rightarrow> None
      | Some p \<Rightarrow>
          if \<not> hasHostNetworkNamespaceSelector p then None
          else let ips = node_list_ips nodes;
                   ports = (case service of None \<Rightarrow> [] | Some ps \<Rightarrow> tcp_ports ps [])
               in if ips = [] \<or> ports = [] then companion
                  else Some (buildWorkaroundPolicy p ips ports))"

text \<open>
  A server: reads answer what is stored or fail, a deletion or an application that is
  confirmed is carried out, one that fails changes nothing.
\<close>

definition reads_as :: "('w \<Rightarrow> 'r option) \<Rightarrow> 'w \<Rightarrow> go_error + 'r \<Rightarrow> bool" where
  "reads_as view w r \<longleftrightarrow>
     (case r of Inr x \<Rightarrow> view w = Some x | Inl e \<Rightarrow> is_not_found e \<longrightarrow> view w = None)"

locale canary_server =
  fixes K :: "'w canary_api"
    and upstream :: "'w \<Rightarrow> canary_policy option"
    and cluster_nodes :: "'w \<Rightarrow> node list"
    and service :: "'w \<Rightarrow> service_port list option"
    and companion :: "'w \<Rightarrow> workaround_policy option"
  assumes get_law: "get_netpol K (nsn IngressCanaryNamespace IngressCanaryNetworkPolicy) w = (r, w') \<Longrightarrow>
      reads_as upstream w r \<and> upstream w' = upstream w \<and> cluster_nodes w' = cluster_nodes w
      \<and> service w' = service w \<and> companion w' = companion w"
    and list_law: "list_all_nodes K w = (rn, w') \<Longrightarrow>
      (\<forall>ns. rn = Inr ns \<longrightarrow> ns = cluster_nodes w) \<and> upstream w' = upstream w
      \<and> cluster_nodes w' = cluster_nodes w \<and> service w' = service w \<and> companion w' = companion w"
    and service_law: "get_service K (nsn IngressCanaryNamespace canaryServiceName) w = (rs, w') \<Longrightarrow>
      reads_as service w rs \<and> upstream w' = upstream w \<and> cluster_nodes w' = cluster_nodes w
      \<and> service w' = service w \<and> companion w' = companion w"
    and delete_law: "delete_netpol K (nsn IngressCanaryNamespace CanaryWorkaroundNetworkPolicy) w = (e, w') \<Longrightarrow>
      (case e of None \<Rightarrow> companion w' = None
       | Some err \<Rightarrow> companion w' = companion w \<and> (is_not_found err \<longrightarrow> companion w = None))
      \<and> upstream w' = upstream w \<and> cluster_nodes w' = cluster_nodes w \<and> service w' = service w"
    and apply_law: "apply_netpol K d w = (e, w') \<Longrightarrow>
      companion w' = (if e = None then Some d else companion w)
      \<and> upstream w' = upstream w \<and> cluster_nodes w' = cluster_nodes w \<and> service w' = service w"
begin

definition target :: "'w \<Rightarrow> workaround_policy option" where
  "target w = canary_target (upstream w) (cluster_nodes w) (service w) (companion w)"

lemma delete_run:
  assumes "run_state (deleteWorkaroundPolicy K) w = (e, w')"
  shows "companion w' = (if e = None then None else companion w) \<and> upstream w' = upstream w
    \<and> cluster_nodes w' = cluster_nodes w \<and> service w' = service w"
  using assms
  by (auto simp: deleteWorkaroundPolicy_def dest!: delete_law split: prod.splits option.splits if_splits)

lemma list_run:
  assumes "run_state (listNodeIPs K) w = (r, w')"
  shows "(\<forall>ips. r = Inr ips \<longrightarrow> ips = node_list_ips (cluster_nodes w)) \<and> upstream w' = upstream w
    \<and> cluster_nodes w' = cluster_nodes w \<and> service w' = service w \<and> companion w' = companion w"
  using assms by (auto simp: listNodeIPs_def dest!: list_law split: prod.splits sum.splits)

lemma ports_run:
  assumes "run_state (canaryServicePorts K) w = (r, w')"
  shows "(\<forall>ps. r = Inr ps \<longrightarrow> ps = (case service w of None \<Rightarrow> [] | Some ps \<Rightarrow> tcp_ports ps []))
    \<and> upstream w' = upstream w \<and> cluster_nodes w' = cluster_nodes w \<and> service w' = service w
    \<and> companion w' = companion w"
  using assms
  by (auto simp: canaryServicePorts_def reads_as_def dest!: service_law
      split: prod.splits sum.splits if_splits)

theorem reconcile_implements:
  assumes run: "run_state (Reconcile_canary K) w = (out, w')"
  shows "companion w' = (if snd out = None then target w else companion w)
    \<and> upstream w' = upstream w \<and> cluster_nodes w' = cluster_nodes w \<and> service w' = service w"
proof -
  obtain r w1 where g: "get_netpol K (nsn IngressCanaryNamespace IngressCanaryNetworkPolicy) w = (r, w1)"
    by force
  note G = get_law [OF g]
  show ?thesis
  proof (cases "\<exists>p. r = Inr p \<and> hasHostNetworkNamespaceSelector p")
    case False
    show ?thesis
    proof (cases "\<exists>err. r = Inl err \<and> \<not> is_not_found err")
      case True
      with run g G show ?thesis by (auto simp: Reconcile_canary_def)
    next
      case no_error: False
      obtain e where d: "run_state (deleteWorkaroundPolicy K) w1 = (e, w')" "out = (emptyResult, e)"
        using run g False no_error
        by (cases r) (auto simp: Reconcile_canary_def split: prod.splits)
      have "target w = None"
        using G False no_error by (cases r) (auto simp: target_def canary_target_def reads_as_def)
      with delete_run [OF d(1)] d(2) G show ?thesis by simp
    qed
  next
    case True
    then obtain p where p: "r = Inr p" "hasHostNetworkNamespaceSelector p" by blast
    obtain x w2 where l: "run_state (listNodeIPs K) w1 = (x, w2)" by (metis surj_pair)
    obtain y w3 where s: "run_state (canaryServicePorts K) w2 = (y, w3)" by (metis surj_pair)
    note steps = G list_run [OF l] ports_run [OF s]
    show ?thesis
    proof (cases "\<exists>ips ports. x = Inr ips \<and> ips \<noteq> [] \<and> y = Inr ports \<and> ports \<noteq> []")
      case False
      with run g p l s steps show ?thesis
        by (cases x; cases y)
           (auto simp: Reconcile_canary_def target_def canary_target_def reads_as_def split: if_splits)
    next
      case True
      then obtain ips ports where ok: "x = Inr ips" "ips \<noteq> []" "y = Inr ports" "ports \<noteq> []" by blast
      obtain e w4 where a: "apply_netpol K (buildWorkaroundPolicy p ips ports) w3 = (e, w4)" by force
      with run g p l s ok have "w' = w4" "snd out = None \<longleftrightarrow> e = None"
        by (auto simp: Reconcile_canary_def)
      with apply_law [OF a] steps p ok show ?thesis
        by (auto simp: target_def canary_target_def reads_as_def)
    qed
  qed
qed

end

end
