(* ===== verification/Canary_Properties.thy ===== *)
theory Canary_Properties
  imports Canary_Facts
begin

text \<open>
  A server in memory that keeps the two network policies, the nodes and the service, with a
  list of faults; it meets \<open>canary_server\<close>. Then the properties of the controller.
\<close>

section \<open>A server in memory\<close>

record mem_canary =
  k_upstream :: "canary_policy option"
  k_nodes :: "node list"
  k_service :: "service_port list option"
  k_companion :: "workaround_policy option"
  k_faults :: "go_error option list"

definition next_failure :: "mem_canary \<Rightarrow> go_error option \<times> mem_canary" where
  "next_failure w = (case k_faults w of [] \<Rightarrow> (None, w) | f # fs \<Rightarrow> (f, w\<lparr>k_faults := fs\<rparr>))"

text \<open>A fault is never read as the absence of an object.\<close>

definition failing :: "go_error \<Rightarrow> go_error" where
  "failing e = (if is_not_found e then GoError (err_text e) else e)"

definition k_read :: "(mem_canary \<Rightarrow> 'r option) \<Rightarrow> mem_canary \<Rightarrow> (go_error + 'r) \<times> mem_canary" where
  "k_read f w = (case next_failure w of
     (Some e, w') \<Rightarrow> (Inl (failing e), w')
   | (None, w') \<Rightarrow> (case f w' of None \<Rightarrow> Inl (NotFound ''not found'') | Some x \<Rightarrow> Inr x, w'))"

definition k_write :: "(mem_canary \<Rightarrow> go_error option \<times> mem_canary) \<Rightarrow> mem_canary
    \<Rightarrow> go_error option \<times> mem_canary" where
  "k_write f w = (case next_failure w of
     (Some e, w') \<Rightarrow> (Some (failing e), w') | (None, w') \<Rightarrow> f w')"

definition mem_canary_api :: "mem_canary canary_api" where
  "mem_canary_api =
     \<lparr>get_netpol = (\<lambda>k. k_read k_upstream),
      list_all_nodes = k_read (\<lambda>w. Some (k_nodes w)),
      get_service = (\<lambda>k. k_read k_service),
      delete_netpol = (\<lambda>k. k_write (\<lambda>w. case k_companion w of
          None \<Rightarrow> (Some (NotFound ''not found''), w)
        | Some _ \<Rightarrow> (None, w\<lparr>k_companion := None\<rparr>))),
      apply_netpol = (\<lambda>d. k_write (\<lambda>w. (None, w\<lparr>k_companion := Some d\<rparr>)))\<rparr>"

lemma failing_not_found [simp]: "\<not> is_not_found (failing e)"
  by (cases e) (auto simp: failing_def)

lemma next_failure_views:
  "next_failure w = (f, w') \<Longrightarrow> k_upstream w' = k_upstream w \<and> k_nodes w' = k_nodes w
     \<and> k_service w' = k_service w \<and> k_companion w' = k_companion w"
  by (auto simp: next_failure_def split: list.splits)

interpretation mem_canary: canary_server mem_canary_api k_upstream k_nodes k_service k_companion
  by unfold_locales
     (auto simp: mem_canary_api_def k_read_def k_write_def reads_as_def dest!: next_failure_views
        split: prod.splits option.splits)

section \<open>A concrete cluster\<close>

definition canary_nodes :: "node list" where
  "canary_nodes = [\<lparr>n_name = ''b'', n_addresses = [(''InternalIP'', ''10.0.0.2''), (''Hostname'', ''b''),
        (''ExternalIP'', ''10.0.0.3'')], n_conditions = [], n_providerID = []\<rparr>,
     \<lparr>n_name = ''a'', n_addresses = [(''InternalIP'', ''10.0.0.1''), (''ExternalIP'', ''10.0.0.2'')],
        n_conditions = [], n_providerID = []\<rparr>]"

definition canary_upstream :: canary_policy where
  "canary_upstream = \<lparr>cp_name = ''ingress-canary'', cp_UID = ''u'',
     cp_ingress = [[None, Some [hostNetworkLabel \<mapsto> []]]]\<rparr>"

definition canary_cluster :: mem_canary where
  "canary_cluster = \<lparr>k_upstream = Some canary_upstream, k_nodes = canary_nodes,
     k_service = Some [\<lparr>sp_Protocol = [], sp_Port = 8080, sp_TargetPort = 8888\<rparr>,
       \<lparr>sp_Protocol = ''UDP'', sp_Port = 53, sp_TargetPort = 0\<rparr>],
     k_companion = None, k_faults = []\<rparr>"

section \<open>Properties\<close>

text \<open>
  C36. Refinement. On every server, a reconciliation that ends without an error leaves the
  companion policy that \<open>canary_target\<close> computes from the cluster: none when the upstream
  policy is absent or selects no host-network namespace, the one there was while no address or
  no port is known, else the one built from all node addresses and TCP ports. With an error
  the companion policy is as before.
\<close>

theorem canary_reconcile_implements:
  assumes "canary_server K upstream cluster_nodes service companion"
    and "run_state (Reconcile_canary K) w = (out, w')"
  shows "companion w' = (if snd out = None
      then canary_target (upstream w) (cluster_nodes w) (service w) (companion w) else companion w)"
  using canary_server.reconcile_implements [OF assms] by (simp add: canary_server.target_def [OF assms(1)])

theorem canary_reconcile_implements_witness:
  "map_option (\<lambda>p. (wp_from p, wp_ports p))
     (k_companion (snd (run_state (Reconcile_canary mem_canary_api) canary_cluster)))
   = Some ([''10.0.0.1/32'', ''10.0.0.2/32'', ''10.0.0.3/32''], [(''TCP'', 8888)])"
proof -
  obtain out w' where run: "run_state (Reconcile_canary mem_canary_api) canary_cluster = (out, w')"
    by (metis surj_pair)
  have "fst (run_state (Reconcile_canary mem_canary_api) canary_cluster) = (emptyResult, None)"
    by code_simp
  with run have ok: "snd out = None" by simp
  have "map_option (\<lambda>p. (wp_from p, wp_ports p))
      (canary_target (k_upstream canary_cluster) (k_nodes canary_cluster) (k_service canary_cluster)
        (k_companion canary_cluster)) = Some ([''10.0.0.1/32'', ''10.0.0.2/32'', ''10.0.0.3/32''], [(''TCP'', 8888)])"
    by code_simp
  with canary_reconcile_implements [OF mem_canary.canary_server_axioms run] ok run show ?thesis by simp
qed

text \<open>
  C37. The filter of node updates loses nothing: an update it drops leaves the sorted list of
  node addresses, and with it the companion policy, as it was.
\<close>

theorem dropped_node_update:
  assumes "i < length nodes" "\<not> nodeAddressChangedPredicate (nodes ! i) nd"
  shows "canary_target upstream (nodes[i := nd]) service companion
    = canary_target upstream nodes service companion"
  by (simp only: canary_target_def dropped_update [OF assms(2,1)])

theorem dropped_node_update_witness:
  "canary_target (Some canary_upstream) (canary_nodes[0 := (canary_nodes ! 0)
       \<lparr>n_addresses := [(''ExternalIP'', ''10.0.0.3''), (''InternalIP'', ''10.0.0.2'')]\<rparr>]) None None
   = canary_target (Some canary_upstream) canary_nodes None None"
proof -
  have "\<not> nodeAddressChangedPredicate (canary_nodes ! 0)
      ((canary_nodes ! 0)\<lparr>n_addresses := [(''ExternalIP'', ''10.0.0.3''), (''InternalIP'', ''10.0.0.2'')]\<rparr>)"
    by code_simp
  then show ?thesis by (intro dropped_node_update) (simp_all add: canary_nodes_def)
qed

text \<open>An IPv4-mapped address passes the test for IPv4.\<close>

lemma mapped_address:
  "ParseIP ''::ffff:10.0.0.1'' = Some (IP6 (replicate 10 0 @ [255, 255, 10, 0, 0, 1]))"
proof -
  have groups: "hex_group ''ffff:10.0.0.1'' 0 = (65535, 4, '':10.0.0.1'')"
      "hex_group ''10.0.0.1'' 0 = (16, 2, ''.0.0.1'')" by (simp_all add: hex_val_def Let_def)
  have v4: "parse_ipv4 ''10.0.0.1'' = Some [10, 0, 0, 1]" by code_simp
  have "v6_loop ''10.0.0.1'' [255, 255] (Some 0) = Some ([255, 255, 10, 0, 0, 1], Some 0, [])"
    by (subst v6_loop.simps) (simp add: groups v4 del: hex_group.simps)
  then have "v6_loop ''ffff:10.0.0.1'' [] (Some 0) = Some ([255, 255, 10, 0, 0, 1], Some 0, [])"
    by (subst v6_loop.simps) (simp add: groups del: hex_group.simps)
  then show ?thesis by (simp add: ParseAddr_def parse_ipv6_def)
qed

text \<open>
  C38. The sources the companion policy allows: the addresses of nodes that are IPv4 or
  IPv4-mapped IPv6, and no others, each once and in increasing order, whatever the order of the
  nodes. The block of an IPv4 address is that one host. The block of a mapped address is not:
  it fixes 32 of 128 bits.
\<close>

theorem allowed_sources:
  "\<exists>ips. wp_from (buildWorkaroundPolicy p (node_list_ips nodes) ports) = map (\<lambda>ip. ip @ ''/32'') ips
    \<and> sorted_wrt str_less ips
    \<and> set ips = {ip. (\<exists>nd \<in> set nodes. ip \<in> relevant_ips nd)
         \<and> ((\<exists>bs. ParseIP ip = Some (IP4 bs))
            \<or> (\<exists>bs. ParseIP ip = Some (IP6 bs) \<and> take 12 bs = replicate 10 0 @ [255, 255]))}
    \<and> (\<forall>ip \<in> set ips. ParseCIDR (ip @ ''/32'') = Some (the (ParseIP ip), 32)
         \<and> (single_host (ip @ ''/32'') \<longleftrightarrow> (\<exists>bs. ParseIP ip = Some (IP4 bs))))"
proof -
  have host: "host_ip ip \<longleftrightarrow> (\<exists>bs. ParseIP ip = Some (IP4 bs))
      \<or> (\<exists>bs. ParseIP ip = Some (IP6 bs) \<and> take 12 bs = replicate 10 0 @ [255, 255])" for ip
  proof -
    have "is_To4 a \<longleftrightarrow> (\<exists>bs. a = IP4 bs) \<or> (\<exists>bs. a = IP6 bs \<and> take 12 bs = replicate 10 0 @ [255, 255])" for a
      by (cases a) simp_all
    then show ?thesis by (auto simp: host_ip_def)
  qed
  have block: "ParseCIDR (ip @ ''/32'') = Some (the (ParseIP ip), 32)
      \<and> (single_host (ip @ ''/32'') \<longleftrightarrow> (\<exists>bs. ParseIP ip = Some (IP4 bs)))" if "host_ip ip" for ip
  proof -
    from that obtain a where "ParseIP ip = Some a" by (auto simp: host_ip_def)
    with address_block [OF this] block_single_host [OF this] show ?thesis by simp
  qed
  show ?thesis
    by (rule exI [of _ "filter host_ip (node_list_ips nodes)"])
       (use block in \<open>auto simp: buildWorkaroundPolicy_def ip_blocks_eq node_list_ips_facts host [symmetric]
          intro!: sorted_wrt_filter\<close>)
qed

theorem allowed_sources_witness:
  "set (wp_from (buildWorkaroundPolicy canary_upstream (node_list_ips [\<lparr>n_name = ''a'',
       n_addresses = [(''InternalIP'', ''::ffff:10.0.0.1''), (''ExternalIP'', ''10.0.0.2'')],
       n_conditions = [], n_providerID = []\<rparr>]) [8888])) = {''10.0.0.2/32'', ''::ffff:10.0.0.1/32''}
   \<and> single_host ''10.0.0.2/32'' \<and> \<not> single_host ''::ffff:10.0.0.1/32''"
proof -
  have v4: "ParseIP ''10.0.0.2'' = Some (IP4 [10, 0, 0, 2])" by code_simp
  let ?nodes = "[\<lparr>n_name = ''a'',
       n_addresses = [(''InternalIP'', ''::ffff:10.0.0.1''), (''ExternalIP'', ''10.0.0.2'')],
       n_conditions = [], n_providerID = []\<rparr>]"
  from allowed_sources [of canary_upstream ?nodes "[8888]"] obtain ips where
    from_ips: "wp_from (buildWorkaroundPolicy canary_upstream (node_list_ips ?nodes) [8888]) = map (\<lambda>ip. ip @ ''/32'') ips"
    and ips: "set ips = {ip. (\<exists>nd \<in> set ?nodes. ip \<in> relevant_ips nd)
         \<and> ((\<exists>bs. ParseIP ip = Some (IP4 bs))
            \<or> (\<exists>bs. ParseIP ip = Some (IP6 bs) \<and> take 12 bs = replicate 10 0 @ [255, 255]))}"
    and hosts: "\<forall>ip \<in> set ips. ParseCIDR (ip @ ''/32'') = Some (the (ParseIP ip), 32)
         \<and> (single_host (ip @ ''/32'') \<longleftrightarrow> (\<exists>bs. ParseIP ip = Some (IP4 bs)))" by blast
  have two: "set ips = {''::ffff:10.0.0.1'', ''10.0.0.2''}"
    unfolding ips using v4 mapped_address by (auto simp: relevant_ips_def)
  have "single_host (''10.0.0.2'' @ ''/32'')" "\<not> single_host (''::ffff:10.0.0.1'' @ ''/32'')"
    using hosts v4 mapped_address unfolding two by (simp_all del: append.simps)
  then show ?thesis unfolding from_ips set_map two by auto
qed

end
