(* ===== verification/Node_Controller.thy ===== *)
theory Node_Controller
  imports Config_Render
begin

text \<open>
  The node controller: \<open>pkg/controller/node/node_controller.go\<close>. The NSX manager, its client
  libraries and the files are parameters, collected in \<open>nsx_api\<close>; a client is the
  configuration it was made from. The search for the virtual machine follows the cursors of
  the answers for as long as there are any, so it is a partial function on the world and the
  handler yields \<open>None\<close> when it does not return. A pointer is an option; dereferencing nil is
  the outcome \<open>nil_pointer\<close>. Sets and maps are lists; the order in which the runtime
  iterates over a set is asked from the world.
\<close>

section \<open>Objects and calls\<close>

record nsx_vm =
  vm_ComputeIds :: "string list"
  vm_ExternalId :: string

record vm_page =
  vms_Results :: "nsx_vm list"
  vms_Cursor :: string

record nsx_tag =
  tag_Scope :: "string option"
  tag_Tag :: "string option"

record segment_port =
  port_Id :: "string option"
  port_ParentPath :: "string option"
  port_Path :: "string option"
  port_Tags :: "nsx_tag list"
  port_other :: string  \<comment> \<open>the fields the code only sends back\<close>

record tls_config =
  tls_InsecureSkipVerify :: bool
  tls_Certificate :: "string option"
  tls_RootCAs :: "string option"

record connector =
  con_url :: string
  con_tls :: tls_config
  con_security :: "(string \<times> string) option"  \<comment> \<open>user and password\<close>

record nsxt_config =
  nx_Host :: string
  nx_BasePath :: string
  nx_UserName :: string
  nx_Password :: string
  nx_ClientAuthCertFile :: string
  nx_ClientAuthKeyFile :: string
  nx_CAFile :: string
  nx_Insecure :: bool
  nx_MaxRetries :: int
  nx_RetryMinDelay :: int
  nx_RetryMaxDelay :: int

record NsxClients =
  ManagerClient :: nsxt_config
  PolicyConnector :: connector
  Cluster :: string

text \<open>
  In \<open>port_state\<close> a realized binding is the IP address of its binding, both behind pointers.
  \<open>convert_port\<close> and \<open>as_port\<close> are the converter of the SDK and the type assertion of
  \<open>CastToBindingType\<close>, with the text of a failed one.
\<close>

record ('w, 'd, 'o) nsx_api =
  nc :: "'w cluster_api"
  list_vms :: "nsxt_config \<Rightarrow> string option \<Rightarrow> 'w \<Rightarrow> (go_error + vm_page) \<times> 'w"
  list_vifs :: "nsxt_config \<Rightarrow> string \<Rightarrow> 'w \<Rightarrow> (go_error + string list) \<times> 'w"
  search_ports :: "connector \<Rightarrow> string \<Rightarrow> 'w \<Rightarrow> (go_error + 'd list) \<times> 'w"
  convert_port :: "'d \<Rightarrow> 'o \<times> go_error list"
  as_port :: "'o \<Rightarrow> segment_port option"
  not_port :: "'o \<Rightarrow> string"
  port_state :: "connector \<Rightarrow> string \<Rightarrow> string \<Rightarrow> 'w \<Rightarrow> (go_error + string option option list) \<times> 'w"
  update_port :: "connector \<Rightarrow> string \<Rightarrow> string \<Rightarrow> segment_port \<Rightarrow> 'w \<Rightarrow> go_error option \<times> 'w"
  load_key_pair :: "string \<Rightarrow> string \<Rightarrow> 'w \<Rightarrow> (go_error + string) \<times> 'w"
  write_file :: "string \<Rightarrow> string \<Rightarrow> 'w \<Rightarrow> go_error option \<times> 'w"
  new_api_client :: "nsxt_config \<Rightarrow> 'w \<Rightarrow> go_error option \<times> 'w"
  fmt_pointer :: "string \<Rightarrow> string"  \<comment> \<open>\<open>%v\<close> of a \<open>*string\<close>\<close>

definition nil_pointer :: go_error where
  "nil_pointer = GoPanic ''invalid memory address or nil pointer dereference''"

text \<open>Reading through a pointer.\<close>

definition deref :: "'a option \<Rightarrow> ('s, go_error + 'a) state" where
  "deref p = ret (case p of None \<Rightarrow> Inl nil_pointer | Some x \<Rightarrow> Inr x)"

text \<open>\<open>%v\<close> of a slice and of a set of strings.\<close>

definition fmt_slice :: "string list \<Rightarrow> string" where
  "fmt_slice xs = ''['' @ Join xs '' '' @ '']''"

definition fmt_set :: "string list \<Rightarrow> string" where
  "fmt_set xs = ''map['' @ Join (map (\<lambda>x. x @ '':{}'') (sort_Strings xs)) '' '' @ '']''"

section \<open>The virtual machine of a node\<close>

definition vspherePrefix :: string where "vspherePrefix = ''vsphere://''"
definition biosUuidPrefix :: string where "biosUuidPrefix = ''biosUuid:''"

definition vm_matches :: "string \<Rightarrow> nsx_vm \<Rightarrow> bool" where
  "vm_matches providerUuid vm =
     list_ex (\<lambda>computeId. prefix biosUuidPrefix computeId
       \<and> providerUuid = TrimPrefix computeId biosUuidPrefix) (vm_ComputeIds vm)"

text \<open>The loop over the pages; \<open>None\<close> as its value when there are always more.\<close>

partial_function (option) vm_loop ::
  "(string option \<Rightarrow> 'w \<Rightarrow> (go_error + vm_page) \<times> 'w) \<Rightarrow> string \<Rightarrow> string option \<Rightarrow> 'w
   \<Rightarrow> ((go_error + string option) \<times> 'w) option" where
  "vm_loop pages providerUuid cursor w =
     (case pages cursor w of
        (Inl err, w) \<Rightarrow> Some (Inl err, w)
      | (Inr vms, w) \<Rightarrow>
          (case find (vm_matches providerUuid) (vms_Results vms) of
             Some vm \<Rightarrow> Some (Inr (Some (vm_ExternalId vm)), w)
           | None \<Rightarrow>
               if vms_Cursor vms = [] then Some (Inr None, w)
               else vm_loop pages providerUuid (Some (vms_Cursor vms)) w))"

definition getNodeExternalIdByProviderId ::
  "('w, 'd, 'o) nsx_api \<Rightarrow> NsxClients \<Rightarrow> string \<Rightarrow> string \<Rightarrow> 'w
   \<Rightarrow> ((go_error + string) \<times> 'w) option" where
  "getNodeExternalIdByProviderId N nsxClients nodeName providerId w =
     (if length providerId \<noteq> 46 \<or> \<not> prefix vspherePrefix providerId
      then Some (Inl (GoError (''invalid provider ID '' @ providerId @ '' of node '' @ nodeName)), w)
      else map_option (\<lambda>(r, w).
        (case r of
           Inl err \<Rightarrow> Inl err
         | Inr (Some externalId) \<Rightarrow> Inr externalId
         | Inr None \<Rightarrow> Inl (GoError (''no virtual machine matches provider ID '' @ providerId
                         @ '' and hostname '' @ nodeName)), w))
        (vm_loop (list_vms N (ManagerClient nsxClients)) (TrimPrefix providerId vspherePrefix) None w))"

section \<open>The ports of a virtual machine\<close>

text \<open>The attachment identifiers of the interfaces, each once.\<close>

definition attachment_set :: "string list \<Rightarrow> string list" where
  "attachment_set vifs = remdups (filter (\<lambda>a. a \<noteq> []) vifs)"

definition listAttachmentsByNodeExternalId ::
  "('w, 'd, 'o) nsx_api \<Rightarrow> NsxClients \<Rightarrow> string \<Rightarrow> ('w operator, go_error + string list) state" where
  "listAttachmentsByNodeExternalId N nsxClients vmExternalId = do {
     r \<leftarrow> api (list_vifs N (ManagerClient nsxClients) vmExternalId);
     ret (case r of
            Inl err \<Rightarrow> Inl err
          | Inr vifs \<Rightarrow>
              if length vifs = 0
              then Inl (GoError (''VIF for VM '' @ vmExternalId @ '' not found''))
              else if length (attachment_set vifs) = 0
              then Inl (GoError (''VIF attachment for VM '' @ vmExternalId @ '' not found''))
              else Inr (attachment_set vifs))
   }"

fun cast_ports ::
  "('w, 'd, 'o) nsx_api \<Rightarrow> 'd list \<Rightarrow> segment_port list \<Rightarrow> go_error + segment_port list" where
  "cast_ports N [] portList = Inr portList"
| "cast_ports N (obj # objs) portList =
     (case CastToBindingType (convert_port N) (as_port N) (not_port N) obj of
        Inl err \<Rightarrow> Inl err
      | Inr segPort \<Rightarrow> cast_ports N objs (portList @ [segPort]))"

fun search_loop ::
  "('w, 'd, 'o) nsx_api \<Rightarrow> connector \<Rightarrow> string list \<Rightarrow> segment_port list
   \<Rightarrow> ('w operator, go_error + segment_port list) state" where
  "search_loop N con [] portList = ret (Inr portList)"
| "search_loop N con (attachmentId # ids) portList = do {
     r \<leftarrow> api (search_ports N con
           (''resource_type:SegmentPort AND attachment.id:'' @ attachmentId));
     case r of
       Inl err \<Rightarrow> ret (Inl err)
     | Inr objs \<Rightarrow>
         (case cast_ports N objs portList of
            Inl err \<Rightarrow> ret (Inl err)
          | Inr portList \<Rightarrow> search_loop N con ids portList)
   }"

definition listPortsByAttachmentIds ::
  "('w, 'd, 'o) nsx_api \<Rightarrow> NsxClients \<Rightarrow> string list
   \<Rightarrow> ('w operator, go_error + segment_port list) state" where
  "listPortsByAttachmentIds N nsxClients attachmentIds = do {
     ids \<leftarrow> api (range_keys (st (nc N)) attachmentIds);
     r \<leftarrow> search_loop N (PolicyConnector nsxClients) ids [];
     ret (case r of
            Inl err \<Rightarrow> Inl err
          | Inr portList \<Rightarrow>
              if length portList = 0
              then Inl (GoError (''LSP for attachments '' @ fmt_set attachmentIds @ '' not found''))
              else Inr portList)
   }"

section \<open>The port with a node's address\<close>

definition inSlice_node :: "string \<Rightarrow> string list \<Rightarrow> bool" where
  "inSlice_node str s = list_ex (\<lambda>v. str = v) s"

text \<open>The loop over the bindings of a port: how often the port is appended to the filtered ones.\<close>

fun match_bindings ::
  "string option option list \<Rightarrow> string list \<Rightarrow> string list \<Rightarrow> nat \<Rightarrow> go_error + nat" where
  "match_bindings [] nodeAddresses collectedAddresses n = Inr n"
| "match_bindings (b # bs) nodeAddresses collectedAddresses n =
     (case b of
        None \<Rightarrow> Inl nil_pointer
      | Some None \<Rightarrow> Inl nil_pointer
      | Some (Some address) \<Rightarrow>
          if inSlice_node address nodeAddresses \<and> \<not> inSlice_node address collectedAddresses
          then match_bindings bs nodeAddresses (collectedAddresses @ [address]) (Suc n)
          else match_bindings bs nodeAddresses collectedAddresses n)"

fun filter_loop ::
  "('w, 'd, 'o) nsx_api \<Rightarrow> connector \<Rightarrow> string list \<Rightarrow> segment_port list
   \<Rightarrow> segment_port list \<Rightarrow> string list
   \<Rightarrow> ('w operator, go_error + segment_port list \<times> string list) state" where
  "filter_loop N con nodeAddresses [] filteredPorts erroneousPorts =
     ret (Inr (filteredPorts, erroneousPorts))"
| "filter_loop N con nodeAddresses (port # ports) filteredPorts erroneousPorts =
     (case port_ParentPath port of
        None \<Rightarrow> ret (Inl nil_pointer)
      | Some parentPath \<Rightarrow>
     (case port_Id port of
        None \<Rightarrow> ret (Inl nil_pointer)
      | Some portId \<Rightarrow>
     (case ExtractSegmentIdFromPath parentPath of
        Inl err \<Rightarrow> filter_loop N con nodeAddresses ports filteredPorts (erroneousPorts @ [portId])
      | Inr segId \<Rightarrow> do {
          r \<leftarrow> api (port_state N con segId portId);
          case r of
            Inl err \<Rightarrow>
              filter_loop N con nodeAddresses ports filteredPorts (erroneousPorts @ [portId])
          | Inr bindings \<Rightarrow>
              (case match_bindings bindings nodeAddresses [] 0 of
                 Inl p \<Rightarrow> ret (Inl p)
               | Inr n \<Rightarrow> filter_loop N con nodeAddresses ports
                            (filteredPorts @ replicate n port) erroneousPorts)
        })))"

definition filterPortsByNodeAddresses ::
  "('w, 'd, 'o) nsx_api \<Rightarrow> NsxClients \<Rightarrow> segment_port list \<Rightarrow> string list
   \<Rightarrow> ('w operator, go_error + segment_port list) state" where
  "filterPortsByNodeAddresses N nsxClients ports nodeAddresses = do {
     r \<leftarrow> filter_loop N (PolicyConnector nsxClients) nodeAddresses ports [] [];
     ret (case r of
            Inl p \<Rightarrow> Inl p
          | Inr (filteredPorts, erroneousPorts) \<Rightarrow>
              if length erroneousPorts > 0
              then Inl (GoError (''Encountered issues while reading node Segment Ports ''
                     @ fmt_slice erroneousPorts))
              else (let lspCount = length filteredPorts in
                if lspCount = 0
                then Inl (GoError (''no port matches addresses '' @ fmt_slice nodeAddresses))
                else if lspCount > 1
                then Inl (GoError (''error while search logical port for addresses ''
                       @ fmt_slice nodeAddresses @ '', expecting 1, got '' @ Itoa (int lspCount)))
                else Inr filteredPorts))
   }"

section \<open>The clients of NSX\<close>

definition getConnectorTLSConfig ::
  "('w, 'd, 'o) nsx_api \<Rightarrow> bool \<Rightarrow> string \<Rightarrow> string \<Rightarrow> string
   \<Rightarrow> ('w operator, go_error + tls_config) state" where
  "getConnectorTLSConfig N insecure clientCertFile clientKeyFile caFile = or_return
     (if length clientCertFile > 0 then
        if length clientKeyFile = 0
        then stop (Inl (GoError ''Please provide key file for client certificate''))
        else do {
          r \<leftarrow> api (load_key_pair N clientCertFile clientKeyFile);
          case r of
            Inl err \<Rightarrow> stop (Inl (GoError (''Failed to load client cert/key pair: '' @ err_text err)))
          | Inr cert \<Rightarrow> go_on (Some cert)
        }
      else go_on None)
     (\<lambda>certificate.
        if length caFile > 0 then do {
          r \<leftarrow> api (read_file (nc N) caFile);
          case r of
            Inl err \<Rightarrow> ret (Inl err)
          | Inr caCert \<Rightarrow> ret (Inr \<lparr>tls_InsecureSkipVerify = insecure,
              tls_Certificate = certificate, tls_RootCAs = Some caCert\<rparr>)
        }
        else ret (Inr \<lparr>tls_InsecureSkipVerify = insecure,
              tls_Certificate = certificate, tls_RootCAs = None\<rparr>))"

definition writeToFile ::
  "('w, 'd, 'o) nsx_api \<Rightarrow> string \<Rightarrow> string \<Rightarrow> string \<Rightarrow> string \<Rightarrow> string \<Rightarrow> string
   \<Rightarrow> ('w operator, go_error option) state" where
  "writeToFile N certPath certData keyPath keyData caPath caData = do {
     e \<leftarrow> api (write_file N certPath certData);
     case e of
       Some err \<Rightarrow> ret (Some (GoError (''Failed to write cert file '' @ certPath @ '': '' @ err_text err)))
     | None \<Rightarrow> do {
         e \<leftarrow> api (write_file N keyPath keyData);
         case e of
           Some err \<Rightarrow> ret (Some (GoError (''Failed to write private key file '' @ keyPath
                         @ '': '' @ err_text err)))
         | None \<Rightarrow> do {
             e \<leftarrow> api (write_file N caPath caData);
             ret (map_option (\<lambda>err. GoError (''Failed to write CA file '' @ caPath @ '': ''
                    @ err_text err)) e)
           }
       }
   }"

text \<open>The ConfigMap and the secret: the shared ones, or those of the cluster.\<close>

definition operator_configmap ::
  "('w, 'd, 'o) nsx_api \<Rightarrow> ('w operator, go_error + configmap) state" where
  "operator_configmap N = do {
     s \<leftarrow> State_Monad.get;
     case si_OperatorConfigMap (sharedInfo s) of
       Some cm \<Rightarrow> ret (Inr cm)
     | None \<Rightarrow> api (get_configmap (nc N)
         (nsn (watched_namespace (sm_OperatorNamespace (status s))) ConfigMapName))
   }"

definition operator_nsx_secret :: "('w, 'd, 'o) nsx_api \<Rightarrow> ('w operator, secret) state" where
  "operator_nsx_secret N = do {
     s \<leftarrow> State_Monad.get;
     case si_OperatorNsxSecret (sharedInfo s) of
       Some sec \<Rightarrow> ret sec
     | None \<Rightarrow> do {
         r \<leftarrow> api (get_secret (nc N)
           (nsn (watched_namespace (sm_OperatorNamespace (status s))) NsxSecret));
         ret (case r of Inl err \<Rightarrow> \<lparr>sec_data = None\<rparr> | Inr sec \<Rightarrow> sec)
       }
   }"

record nsx_options =
  no_cluster :: string
  no_managerHost :: string
  no_user :: string
  no_password :: string
  no_insecure :: bool

text \<open>\<open>cfg.Section(..).Key(..).Value()\<close> in the order of the code.\<close>

definition read_options :: "'f ini_lib \<Rightarrow> 'f \<Rightarrow> nsx_options" where
  "read_options L cfg =
     (case sec_key_value L cfg ''coe'' ''cluster'' of (cluster, cfg) \<Rightarrow>
      case sec_key_value L cfg ''nsx_v3'' ''nsx_api_managers'' of (managers, cfg) \<Rightarrow>
      case sec_key_value L cfg ''nsx_v3'' ''nsx_api_user'' of (user, cfg) \<Rightarrow>
      case sec_key_value L cfg ''nsx_v3'' ''nsx_api_password'' of (password, cfg) \<Rightarrow>
      case sec_key_value L cfg ''nsx_v3'' ''insecure'' of (insecure, cfg) \<Rightarrow>
        \<lparr>no_cluster = cluster, no_managerHost = hd (Split managers '',''), no_user = user,
         no_password = password, no_insecure = (ToLower insecure = ''true'')\<rparr>)"

text \<open>
  How to authenticate: the paths of certificate, key and CA file, empty without a certificate,
  and the security context. A certificate is preferred.
\<close>

definition authentication ::
  "('w, 'd, 'o) nsx_api \<Rightarrow> nsx_options \<Rightarrow> secret
   \<Rightarrow> ('w operator, go_error + (string \<times> string \<times> string) \<times> (string \<times> string) option) state" where
  "authentication N opts nsxSecret =
     (let certData = secret_value nsxSecret ''tls.crt'';
          keyData = secret_value nsxSecret ''tls.key'';
          caData = secret_value nsxSecret ''tls.ca''
      in if length certData > 0 then do {
           e \<leftarrow> writeToFile N NsxCertTempPath certData NsxKeyTempPath keyData NsxCATempPath caData;
           case e of
             Some err \<Rightarrow> ret (Inl err)
           | None \<Rightarrow> ret (Inr ((NsxCertTempPath, NsxKeyTempPath, NsxCATempPath), None))
         }
         else if length (no_user opts) = 0
         then ret (Inl (GoError ''no credentials for NSX authentication supplied''))
         else ret (Inr (([], [], []), Some (no_user opts, no_password opts))))"

definition api_client_config :: "nsx_options \<Rightarrow> string \<times> string \<times> string \<Rightarrow> nsxt_config" where
  "api_client_config opts paths =
     (case paths of (tmpCertPath, tmpKeyPath, tmpCAPath) \<Rightarrow>
        \<lparr>nx_Host = no_managerHost opts,
         nx_BasePath = ''https://'' @ no_managerHost opts @ ''/api/v1'',
         nx_UserName = no_user opts, nx_Password = no_password opts,
         nx_ClientAuthCertFile = tmpCertPath, nx_ClientAuthKeyFile = tmpKeyPath,
         nx_CAFile = tmpCAPath, nx_Insecure = no_insecure opts,
         nx_MaxRetries = 1, nx_RetryMinDelay = 100, nx_RetryMaxDelay = 500\<rparr>)"

definition make_clients ::
  "('w, 'd, 'o) nsx_api \<Rightarrow> nsx_options \<Rightarrow> string \<times> string \<times> string \<Rightarrow> (string \<times> string) option
   \<Rightarrow> ('w operator, go_error + NsxClients) state" where
  "make_clients N opts paths security = do {
     r \<leftarrow> getConnectorTLSConfig N (no_insecure opts) (fst paths) (fst (snd paths)) (snd (snd paths));
     case r of
       Inl err \<Rightarrow> ret (Inl (GoError (''error while achieving tls config: '' @ err_text err)))
     | Inr tlsConfig \<Rightarrow> do {
         e \<leftarrow> api (new_api_client N (api_client_config opts paths));
         ret (case e of
                Some err \<Rightarrow> Inl err
              | None \<Rightarrow> Inr \<lparr>ManagerClient = api_client_config opts paths,
                  PolicyConnector = \<lparr>con_url = ''https://'' @ no_managerHost opts,
                    con_tls = tlsConfig, con_security = security\<rparr>,
                  Cluster = no_cluster opts\<rparr>)
       }
   }"

text \<open>\<open>L\<close> is the INI library whose \<open>Load\<close> has the option \<open>SpaceBeforeInlineComment\<close>.\<close>

definition createNsxClients ::
  "('w, 'd, 'o) nsx_api \<Rightarrow> 'f ini_lib \<Rightarrow> ('w operator, go_error + NsxClients) state" where
  "createNsxClients N L = do {
     r \<leftarrow> operator_configmap N;
     case r of
       Inl err \<Rightarrow> ret (Inl err)
     | Inr configMap \<Rightarrow>
         (case Load L (cm_get configMap ConfigMapDataKey) of
            Inl err \<Rightarrow> ret (Inl err)
          | Inr cfg \<Rightarrow>
              let opts = read_options L cfg in do {
                nsxSecret \<leftarrow> operator_nsx_secret N;
                r \<leftarrow> authentication N opts nsxSecret;
                case r of
                  Inl err \<Rightarrow> ret (Inl err)
                | Inr (paths, security) \<Rightarrow> make_clients N opts paths security
              })
   }"

section \<open>Tagging\<close>

definition nodeNameScope :: string where "nodeNameScope = ''ncp/node_name''"
definition clusterScope :: string where "clusterScope = ''ncp/cluster''"

text \<open>\<open>foundNodeTag\<close> and \<open>foundClusterTag\<close>.\<close>

fun find_tags :: "string \<Rightarrow> string \<Rightarrow> nsx_tag list \<Rightarrow> bool \<times> bool \<Rightarrow> go_error + bool \<times> bool" where
  "find_tags name cluster [] found = Inr found"
| "find_tags name cluster (tag # tags) (foundNodeTag, foundClusterTag) =
     (case tag_Scope tag of
        None \<Rightarrow> Inl nil_pointer
      | Some scope \<Rightarrow>
          if scope = nodeNameScope \<and> tag_Tag tag = None then Inl nil_pointer
          else if scope = nodeNameScope \<and> tag_Tag tag = Some name
          then find_tags name cluster tags (True, foundClusterTag)
          else if scope = clusterScope \<and> tag_Tag tag = None then Inl nil_pointer
          else if scope = clusterScope \<and> tag_Tag tag = Some cluster
          then find_tags name cluster tags (foundNodeTag, True)
          else find_tags name cluster tags (foundNodeTag, foundClusterTag))"

definition missing_tags :: "string \<Rightarrow> string \<Rightarrow> bool \<times> bool \<Rightarrow> nsx_tag list" where
  "missing_tags name cluster found =
     (if fst found then [] else [\<lparr>tag_Scope = Some nodeNameScope, tag_Tag = Some name\<rparr>])
     @ (if snd found then [] else [\<lparr>tag_Scope = Some clusterScope, tag_Tag = Some cluster\<rparr>])"

section \<open>The handler\<close>

definition cache_node :: "string \<Rightarrow> node_status \<Rightarrow> ('w operator, unit) state" where
  "cache_node nodeName nst =
     modify (\<lambda>s. s\<lparr>cachedNodeSet := AList.update nodeName nst (cachedNodeSet s)\<rparr>)"

text \<open>\<open>r.status.SetFromNodes(cachedNodeSet)\<close>\<close>

definition report_nodes :: "('w, 'd, 'o) nsx_api \<Rightarrow> ('w operator, unit) state" where
  "report_nodes N = do {
     cache \<leftarrow> gets cachedNodeSet;
     SetFromNodes (st (nc N)) cache
   }"

text \<open>The early returns of the handler: the node is cached with a reason and the error returned.\<close>

definition node_failed ::
  "('w, 'd, 'o) nsx_api \<Rightarrow> string \<Rightarrow> string list \<Rightarrow> string \<Rightarrow> go_error \<Rightarrow> ('w operator, outcome) state"
where
  "node_failed N nodeName nodeAddresses reason err = do {
     cache_node nodeName \<lparr>nst_addresses = nodeAddresses, nst_success = False, nst_reason = reason\<rparr>;
     report_nodes N;
     ret (emptyResult, Some err)
   }"

text \<open>A failed call; a panic unwinds the handler before anything is cached.\<close>

definition node_error ::
  "('w, 'd, 'o) nsx_api \<Rightarrow> string \<Rightarrow> string list \<Rightarrow> string \<Rightarrow> go_error \<Rightarrow> ('w operator, outcome) state"
where
  "node_error N nodeName nodeAddresses reason err =
     (if is_panic err then ret (emptyResult, Some err)
      else node_failed N nodeName nodeAddresses (reason @ '': '' @ err_text err) err)"

fun address_loop :: "(string \<times> string) list \<Rightarrow> string list \<Rightarrow> string list" where
  "address_loop [] nodeAddresses = nodeAddresses"
| "address_loop ((type, address) # addrs) nodeAddresses =
     (if type \<noteq> ''Hostname'' \<and> \<not> inSlice_node address nodeAddresses
      then address_loop addrs (nodeAddresses @ [address])
      else address_loop addrs nodeAddresses)"

definition node_addresses :: "node \<Rightarrow> string list" where
  "node_addresses nd = address_loop (n_addresses nd) []"

text \<open>An empty cache is filled with all nodes of the cluster, as not processed.\<close>

definition unprocessed :: "node \<Rightarrow> string \<times> node_status" where
  "unprocessed nd = (n_name nd, \<lparr>nst_addresses = [], nst_success = False,
     nst_reason = ''Node '' @ n_name nd @ '' has not yet been processed''\<rparr>)"

definition fill_cache :: "('w, 'd, 'o) nsx_api \<Rightarrow> ('w operator, go_error option) state" where
  "fill_cache N = do {
     cache \<leftarrow> gets cachedNodeSet;
     if length cache = 0 then do {
       r \<leftarrow> api (list_nodes (st (nc N)));
       case r of
         Inl err \<Rightarrow> ret (Some err)
       | Inr nodes \<Rightarrow> do {
           modify (\<lambda>s. s\<lparr>cachedNodeSet :=
             foldl (\<lambda>c nd. AList.update (fst (unprocessed nd)) (snd (unprocessed nd)) c)
               (cachedNodeSet s) nodes\<rparr>);
           ret None
         }
     }
     else ret None
   }"

definition was_processed :: "(string \<times> node_status) list \<Rightarrow> string \<Rightarrow> string list \<Rightarrow> bool" where
  "was_processed cache nodeName nodeAddresses \<longleftrightarrow>
     (case map_of cache nodeName of
        None \<Rightarrow> False
      | Some nst \<Rightarrow> nst_addresses nst = nodeAddresses \<and> nst_success nst)"

text \<open>Up to the clients: the node, its addresses and the clients, or an early return.\<close>

definition begin_node ::
  "('w, 'd, 'o) nsx_api \<Rightarrow> 'f ini_lib \<Rightarrow> request
   \<Rightarrow> ('w operator, outcome + node \<times> string list \<times> NsxClients) state" where
  "begin_node N L req = do {
     addNodeTag \<leftarrow> gets (\<lambda>s. si_AddNodeTag (sharedInfo s));
     if addNodeTag = False then stop (emptyResult, None)
     else do {
       e \<leftarrow> fill_cache N;
       case e of
         Some err \<Rightarrow> stop (emptyResult, Some err)
       | None \<Rightarrow> do {
           r \<leftarrow> api (get_node (st (nc N)) (req_name req));
           case r of
             Inl err \<Rightarrow>
               if is_not_found err then do {
                 modify (\<lambda>s. s\<lparr>cachedNodeSet := AList.delete (req_name req) (cachedNodeSet s)\<rparr>);
                 report_nodes N;
                 stop (emptyResult, None)
               }
               else do {
                 r \<leftarrow> node_error N (req_name req) []
                       (''Failed to get the node '' @ req_name req) err;
                 stop r
               }
           | Inr instance \<Rightarrow>
               let nodeAddresses = node_addresses instance in do {
                 cache \<leftarrow> gets cachedNodeSet;
                 if was_processed cache (req_name req) nodeAddresses then stop (emptyResult, None)
                 else do {
                   r \<leftarrow> createNsxClients N L;
                   case r of
                     Inl err \<Rightarrow> do {
                       r \<leftarrow> node_error N (req_name req) nodeAddresses
                             (''Failed to create NSX config for node '' @ req_name req) err;
                       stop r
                     }
                   | Inr nsxClients \<Rightarrow> go_on (instance, nodeAddresses, nsxClients)
                 }
               }
         }
     }
   }"

text \<open>
  The ports to tag: all of one, or those with an address of the node. With a single port the
  handler prints its path.
\<close>

definition select_ports ::
  "('w, 'd, 'o) nsx_api \<Rightarrow> string \<Rightarrow> string list \<Rightarrow> NsxClients \<Rightarrow> segment_port list
   \<Rightarrow> ('w operator, outcome + segment_port list) state" where
  "select_ports N nodeName nodeAddresses nsxClients portList =
     (if length portList > 1 then do {
        r \<leftarrow> filterPortsByNodeAddresses N nsxClients portList nodeAddresses;
        case r of
          Inl err \<Rightarrow> do {
            r \<leftarrow> node_error N nodeName nodeAddresses
                  (''Unable to get Segment Port matching IP address of node '' @ nodeName) err;
            stop r
          }
        | Inr segPorts \<Rightarrow> go_on segPorts
      }
      else if list_ex (\<lambda>port. port_Path port = None) (take 1 portList)
      then stop (emptyResult, Some nil_pointer)
      else go_on portList)"

definition tag_port ::
  "('w, 'd, 'o) nsx_api \<Rightarrow> string \<Rightarrow> string list \<Rightarrow> NsxClients \<Rightarrow> segment_port
   \<Rightarrow> ('w operator, outcome option) state" where
  "tag_port N nodeName nodeAddresses nsxClients segPort =
     (case find_tags nodeName (Cluster nsxClients) (port_Tags segPort) (False, False) of
        Inl p \<Rightarrow> ret (Some (emptyResult, Some p))
      | Inr found \<Rightarrow>
          if found = (True, True) then ret None
          else (let segPort = segPort\<lparr>port_Tags := port_Tags segPort
                      @ missing_tags nodeName (Cluster nsxClients) found\<rparr> in
            case port_ParentPath segPort of
              None \<Rightarrow> ret (Some (emptyResult, Some nil_pointer))
            | Some parentPath \<Rightarrow>
                (case ExtractSegmentIdFromPath parentPath of
                   Inl err \<Rightarrow> do {
                     r \<leftarrow> node_failed N nodeName nodeAddresses
                           (''Failed to find Segment ID for node '' @ nodeName @ '': '' @ err_text err) err;
                     ret (Some r)
                   }
                 | Inr segId \<Rightarrow>
                     (case port_Id segPort of
                        None \<Rightarrow> ret (Some (emptyResult, Some nil_pointer))
                      | Some portId \<Rightarrow> do {
                          e \<leftarrow> api (update_port N (PolicyConnector nsxClients) segId portId segPort);
                          case e of
                            None \<Rightarrow> ret None
                          | Some err \<Rightarrow> do {
                              r \<leftarrow> node_failed N nodeName nodeAddresses
                                    (''Failed to update Segment Port '' @ fmt_pointer N portId
                                     @ '' for node '' @ nodeName @ '': '' @ err_text err) err;
                              ret (Some r)
                            }
                        }))))"

text \<open>From the external identifier of the virtual machine on.\<close>

definition finish_node ::
  "('w, 'd, 'o) nsx_api \<Rightarrow> string \<Rightarrow> string list \<Rightarrow> NsxClients \<Rightarrow> go_error + string
   \<Rightarrow> ('w operator, outcome) state" where
  "finish_node N nodeName nodeAddresses nsxClients nodeExternalId =
     (case nodeExternalId of
        Inl err \<Rightarrow> node_error N nodeName nodeAddresses
          (''Unable to get NSX External ID for node '' @ nodeName) err
      | Inr externalId \<Rightarrow> do {
          r \<leftarrow> listAttachmentsByNodeExternalId N nsxClients externalId;
          case r of
            Inl err \<Rightarrow> node_error N nodeName nodeAddresses
              (''Error while achieving attachment ids for node '' @ nodeName) err
          | Inr attachment_ids \<Rightarrow> do {
              r \<leftarrow> listPortsByAttachmentIds N nsxClients attachment_ids;
              case r of
                Inl err \<Rightarrow> node_error N nodeName nodeAddresses
                  (''Unable to get any Segment Port for node '' @ nodeName) err
              | Inr portList \<Rightarrow>
                  or_return (select_ports N nodeName nodeAddresses nsxClients portList)
                    (\<lambda>segPorts. do {
                       r \<leftarrow> for_each (tag_port N nodeName nodeAddresses nsxClients) segPorts;
                       case r of
                         Some r \<Rightarrow> ret r
                       | None \<Rightarrow> do {
                           cache_node nodeName \<lparr>nst_addresses = nodeAddresses,
                             nst_success = True, nst_reason = []\<rparr>;
                           report_nodes N;
                           ret (emptyResult, None)
                         }
                     })
            }
        })"

definition Reconcile_node ::
  "('w, 'd, 'o) nsx_api \<Rightarrow> 'f ini_lib \<Rightarrow> request \<Rightarrow> 'w operator
   \<Rightarrow> (outcome \<times> 'w operator) option" where
  "Reconcile_node N L req s =
     (case run_state (begin_node N L req) s of
        (Inl r, s) \<Rightarrow> Some (r, s)
      | (Inr (instance, nodeAddresses, nsxClients), s) \<Rightarrow>
          (case getNodeExternalIdByProviderId N nsxClients (req_name req) (n_providerID instance)
                  (world s) of
             None \<Rightarrow> None
           | Some (nodeExternalId, w) \<Rightarrow>
               Some (run_state (finish_node N (req_name req) nodeAddresses nsxClients nodeExternalId)
                       (s\<lparr>world := w\<rparr>))))"

end
