(* ===== verification/Node_Facts.thy ===== *)
theory Node_Facts
  imports Node_Controller Quiet_Calls
begin

text \<open>
  Lemmas on the node controller: when the search for the virtual machine returns and what it
  finds, the cache of nodes and its report to the status manager, the tags, and, in the locale
  \<open>nsx_server\<close>, what a reconciliation does to the ports that NSX stores.
\<close>

section \<open>The search over the pages\<close>

text \<open>Within \<open>n\<close> requests the search meets an error, a match or the last page.\<close>

fun ends_within ::
  "nat \<Rightarrow> (string option \<Rightarrow> 'w \<Rightarrow> (go_error + vm_page) \<times> 'w) \<Rightarrow> string \<Rightarrow> string option \<Rightarrow> 'w \<Rightarrow> bool"
where
  "ends_within 0 pages uuid cursor w = False"
| "ends_within (Suc n) pages uuid cursor w =
     (case pages cursor w of
        (Inl err, w) \<Rightarrow> True
      | (Inr p, w) \<Rightarrow> find (vm_matches uuid) (vms_Results p) \<noteq> None \<or> vms_Cursor p = []
          \<or> ends_within n pages uuid (Some (vms_Cursor p)) w)"

lemma ends_returns: "ends_within n pages uuid cursor w \<Longrightarrow> \<exists>r. vm_loop pages uuid cursor w = Some r"
proof (induction n arbitrary: cursor w)
  case (Suc n)
  then show ?case
    by (subst vm_loop.simps)
       (fastforce split: prod.splits sum.splits option.splits)
qed simp

lemma returns_ends:
  assumes "vm_loop pages uuid cursor w = Some r"
  shows "\<exists>n. ends_within n pages uuid cursor w"
proof (induction rule: vm_loop.raw_induct [OF _ assms])
  case (1 loop pages uuid cursor w r)
  obtain a w1 where run: "pages cursor w = (a, w1)" by force
  show ?case
  proof (cases a)
    case (Inl e)
    with run have "ends_within 1 pages uuid cursor w" by simp
    then show ?thesis ..
  next
    case (Inr p)
    show ?thesis
    proof (cases "find (vm_matches uuid) (vms_Results p) \<noteq> None \<or> vms_Cursor p = []")
      case True
      with run Inr have "ends_within 1 pages uuid cursor w" by auto
      then show ?thesis ..
    next
      case False
      with 1(2) run Inr have "loop pages uuid (Some (vms_Cursor p)) w1 = Some r" by simp
      with 1(1) obtain n where "ends_within n pages uuid (Some (vms_Cursor p)) w1" by blast
      with run Inr False have "ends_within (Suc n) pages uuid cursor w" by simp
      then show ?thesis ..
    qed
  qed
qed

text \<open>The server answers with these pages, the last of them without a cursor.\<close>

fun serves ::
  "(string option \<Rightarrow> 'w \<Rightarrow> (go_error + vm_page) \<times> 'w) \<Rightarrow> string option \<Rightarrow> 'w \<Rightarrow> vm_page list \<Rightarrow> bool"
where
  "serves pages cursor w [] = False"
| "serves pages cursor w (p # ps) =
     (case pages cursor w of
        (Inl err, w) \<Rightarrow> False
      | (Inr q, w) \<Rightarrow> q = p \<and> (if vms_Cursor p = [] then ps = []
                            else serves pages (Some (vms_Cursor p)) w ps))"

lemma find_append: "find P (xs @ ys) = (case find P xs of None \<Rightarrow> find P ys | Some x \<Rightarrow> Some x)"
  by (induction xs) auto

lemma served_result:
  "serves pages cursor w ps \<Longrightarrow>
   \<exists>w'. vm_loop pages uuid cursor w =
      Some (Inr (map_option vm_ExternalId (find (vm_matches uuid) (concat (map vms_Results ps)))), w')"
proof (induction ps arbitrary: cursor w)
  case (Cons p ps)
  then show ?case
    by (subst vm_loop.simps)
       (fastforce simp: find_append split: prod.splits sum.splits option.splits if_splits)
qed simp

lemma vm_loop_keeps:
  assumes quiet: "\<And>c w. V (snd (pages c w)) = V w"
    and "vm_loop pages uuid cursor w = Some (r, w')"
  shows "V w' = V w"
proof -
  have "(\<forall>c w. V (snd (pages c w)) = V w) \<longrightarrow> V (snd x) = V w"
    if "vm_loop pages uuid cursor w = Some x" for x
  proof (induction rule: vm_loop.raw_induct [OF _ that])
    case (1 loop pages uuid cursor w x)
    obtain a w1 where run: "pages cursor w = (a, w1)" by force
    then have "V w1 = V w" if "\<forall>c w. V (snd (pages c w)) = V w" using that by (metis snd_conv)
    with 1 run show ?case by (auto split: sum.splits option.splits if_splits)
  qed
  from this [OF assms(2)] quiet show ?thesis by simp
qed

text \<open>A run of the handler ends before the search, or after it.\<close>

lemma reconcile_cases [consumes 1, case_names early late]:
  assumes "Reconcile_node N L req s = Some (r, s')"
  obtains (early) "run_state (begin_node N L req) s = (Inl r, s')"
  | (late) nd addrs C s1 vm w where
      "run_state (begin_node N L req) s = (Inr (nd, addrs, C), s1)"
      "getNodeExternalIdByProviderId N C (req_name req) (n_providerID nd) (world s1) = Some (vm, w)"
      "run_state (finish_node N (req_name req) addrs C vm) (s1\<lparr>world := w\<rparr>) = (r, s')"
proof -
  obtain x s1 where b: "run_state (begin_node N L req) s = (x, s1)" by force
  show thesis
  proof (cases x)
    case (Inl o1)
    with assms b early show ?thesis by (simp add: Reconcile_node_def)
  next
    case (Inr y)
    obtain nd addrs C where y: "y = (nd, addrs, C)" by (metis surj_pair)
    from assms b Inr y obtain vm w where
      "getNodeExternalIdByProviderId N C (req_name req) (n_providerID nd) (world s1) = Some (vm, w)"
      "run_state (finish_node N (req_name req) addrs C vm) (s1\<lparr>world := w\<rparr>) = (r, s')"
      by (auto simp: Reconcile_node_def split: option.splits)
    with b Inr y late show ?thesis by blast
  qed
qed

section \<open>Addresses and tags\<close>

lemma inSlice_node_iff [simp]: "inSlice_node x xs \<longleftrightarrow> x \<in> set xs"
  by (auto simp: inSlice_node_def list_ex_iff)

lemma address_loop_facts:
  "distinct acc \<Longrightarrow> distinct (address_loop addrs acc)"
  "set (address_loop addrs acc) = set acc \<union> {a. \<exists>t. (t, a) \<in> set addrs \<and> t \<noteq> ''Hostname''}"
  by (induction addrs acc rule: address_loop.induct) auto

definition node_tag :: "string \<Rightarrow> nsx_tag" where
  "node_tag name = \<lparr>tag_Scope = Some nodeNameScope, tag_Tag = Some name\<rparr>"

definition cluster_tag :: "string \<Rightarrow> nsx_tag" where
  "cluster_tag cluster = \<lparr>tag_Scope = Some clusterScope, tag_Tag = Some cluster\<rparr>"

text \<open>The port with the two tags added, each where it is missing.\<close>

definition tagged :: "string \<Rightarrow> string \<Rightarrow> segment_port \<Rightarrow> segment_port" where
  "tagged name cluster p = p\<lparr>port_Tags := port_Tags p
     @ filter (\<lambda>t. t \<notin> set (port_Tags p)) [node_tag name, cluster_tag cluster]\<rparr>"

lemma tagged_sel [simp]:
  "port_Id (tagged name cluster p) = port_Id p" "port_Path (tagged name cluster p) = port_Path p"
  "port_ParentPath (tagged name cluster p) = port_ParentPath p"
  "port_other (tagged name cluster p) = port_other p"
  by (simp_all add: tagged_def)

lemma find_tags_found:
  "find_tags name cluster tags (a, b) = Inr (x, y) \<Longrightarrow>
   x = (a \<or> node_tag name \<in> set tags) \<and> y = (b \<or> cluster_tag cluster \<in> set tags)"
proof (induction tags arbitrary: a b)
  case (Cons t tags)
  have scopes: "nodeNameScope \<noteq> clusterScope" by (simp add: nodeNameScope_def clusterScope_def)
  have eqs: "t = node_tag name \<longleftrightarrow> tag_Scope t = Some nodeNameScope \<and> tag_Tag t = Some name"
    "t = cluster_tag cluster \<longleftrightarrow> tag_Scope t = Some clusterScope \<and> tag_Tag t = Some cluster"
    by (cases t; simp add: node_tag_def cluster_tag_def)+
  from Cons.prems have *: "x = (a \<or> t = node_tag name \<or> node_tag name \<in> set tags)
      \<and> y = (b \<or> t = cluster_tag cluster \<or> cluster_tag cluster \<in> set tags)"
    using Cons.IH scopes by (auto simp: eqs split: option.splits if_splits)
  then show ?case by auto
qed simp

lemma tagged_missing:
  assumes "find_tags name cluster (port_Tags p) (False, False) = Inr found"
  shows "p\<lparr>port_Tags := port_Tags p @ missing_tags name cluster found\<rparr> = tagged name cluster p"
proof -
  obtain x y where found: "found = (x, y)" by force
  from find_tags_found [OF assms [unfolded found]] show ?thesis
    by (simp add: found missing_tags_def tagged_def node_tag_def [symmetric] cluster_tag_def [symmetric])
qed

lemma tagged_present:
  "find_tags name cluster (port_Tags p) (False, False) = Inr (True, True) \<Longrightarrow> tagged name cluster p = p"
  using find_tags_found [of name cluster "port_Tags p" False False True True] by (simp add: tagged_def)

lemma tagged_has:
  "node_tag name \<in> set (port_Tags (tagged name cluster p))"
  "cluster_tag cluster \<in> set (port_Tags (tagged name cluster p))"
  "set (port_Tags p) \<subseteq> set (port_Tags (tagged name cluster p))"
  by (auto simp: tagged_def)

section \<open>The calls before a report\<close>

text \<open>A view of the state that the calls to NSX and to the files leave alone.\<close>

locale node_view =
  fixes N :: "('w, 'd, 'o) nsx_api" and I :: "'w operator \<Rightarrow> 'v"
  assumes v_configmap: "keeps I (api (get_configmap (nc N) k))"
    and v_secret: "keeps I (api (get_secret (nc N) k))"
    and v_read_file: "keeps I (api (read_file (nc N) f))"
    and v_range_keys: "keeps I (api (range_keys (st (nc N)) ks))"
    and v_write_file: "keeps I (api (write_file N f x))"
    and v_load_key: "keeps I (api (load_key_pair N f f'))"
    and v_client: "keeps I (api (new_api_client N cfg))"
    and v_vifs: "keeps I (api (list_vifs N cfg vm))"
    and v_search: "keeps I (api (search_ports N con q))"
    and v_state: "keeps I (api (port_state N con seg port))"
begin

lemmas view_calls = v_configmap v_secret v_read_file v_range_keys v_write_file v_load_key v_client
  v_vifs v_search v_state

lemma view_createNsxClients: "keeps I (createNsxClients N L)"
  unfolding createNsxClients_def operator_configmap_def operator_nsx_secret_def authentication_def
    writeToFile_def make_clients_def getConnectorTLSConfig_def Let_def
  by (intro keeps_rules view_calls)

lemma view_attachments: "keeps I (listAttachmentsByNodeExternalId N C vm)"
  unfolding listAttachmentsByNodeExternalId_def by (intro keeps_rules view_calls)

lemma view_search_loop: "keeps I (search_loop N con ids ports)"
  by (induction ids arbitrary: ports) (auto intro!: keeps_rules view_calls)

lemma view_listPorts: "keeps I (listPortsByAttachmentIds N C ids)"
  unfolding listPortsByAttachmentIds_def by (intro keeps_rules view_calls view_search_loop)

lemma view_filter_loop: "keeps I (filter_loop N con addrs ports acc errs)"
  by (induction ports arbitrary: acc errs)
     (auto intro!: keeps_rules view_calls split: option.splits sum.splits)

lemma view_filterPorts: "keeps I (filterPortsByNodeAddresses N C ports addrs)"
  unfolding filterPortsByNodeAddresses_def by (intro keeps_rules view_filter_loop)

end

interpretation node_local: node_view N local_state for N
  by unfold_locales (intro keeps_api local_state_world)+

lemma find_tags_panic: "find_tags name c tags f = Inl e \<Longrightarrow> e = nil_pointer"
  by (induction name c tags f rule: find_tags.induct) (auto split: option.splits if_splits)

section \<open>The cache and its report\<close>

definition node_failing :: "(string \<times> node_status) list \<Rightarrow> string \<Rightarrow> bool" where
  "node_failing cache k = (case map_of cache k of None \<Rightarrow> False | Some n \<Rightarrow> \<not> nst_success n)"

text \<open>
  What the ClusterNode level says of a cache: nothing when no node fails, and otherwise the
  reasons of the failing nodes, in some order.
\<close>

definition cache_reported :: "(string \<times> node_status) list \<Rightarrow> condition option \<Rightarrow> bool" where
  "cache_reported cache c \<longleftrightarrow> (\<exists>names. mset names = mset (filter (node_failing cache) (map fst cache))
     \<and> c = (if names = [] then None
            else Some (make_condition OperatorDegraded ConditionTrue ''ProcessClusterNodeError''
              (Join (map (\<lambda>k. nst_reason (the (map_of cache k))) names) [CHR 0x0A]))))"

abbreviation distinct_cache :: "'w operator \<Rightarrow> bool" where
  "distinct_cache s \<equiv> distinct (map fst (cachedNodeSet s))"

definition node_inv :: "'w operator \<Rightarrow> bool" where
  "node_inv s \<longleftrightarrow> distinct_cache s
     \<and> cache_reported (cachedNodeSet s) (sm_failing (status s) ClusterNode)"

lemma nodes_loop_result:
  "nodes_loop cache ks messages done_all =
     (messages @ map (\<lambda>k. nst_reason (the (map_of cache k))) (filter (node_failing cache) ks),
      done_all \<and> filter (node_failing cache) ks = [])"
  by (induction ks arbitrary: messages done_all) (auto simp: node_failing_def split: option.splits)

lemma cache_reportedI:
  assumes "mset ks = mset (map fst cache)" and "names = filter (node_failing cache) ks"
  shows "cache_reported cache (if names = [] then None
            else Some (make_condition OperatorDegraded ConditionTrue ''ProcessClusterNodeError''
              (Join (map (\<lambda>k. nst_reason (the (map_of cache k))) names) [CHR 0x0A])))"
proof -
  have "mset names = mset (filter (node_failing cache) (map fst cache))"
    unfolding assms(2) by (simp only: mset_filter assms(1))
  then show ?thesis unfolding cache_reported_def by blast
qed

lemma SetFromNodes_local:
  assumes "run_state (SetFromNodes E cache) s = (u, s')"
  shows "\<exists>ks w. range_keys E (map fst cache) (world s) = (ks, w) \<and>
     local_state s' = local_state (s\<lparr>status := set_failing ClusterNode
       (let names = filter (node_failing cache) ks
        in if names = [] then None
           else Some (make_condition OperatorDegraded ConditionTrue ''ProcessClusterNodeError''
              (Join (map (\<lambda>k. nst_reason (the (map_of cache k))) names) [CHR 0x0A]))) (status s)\<rparr>)"
proof -
  obtain ks w where keys: "range_keys E (map fst cache) (world s) = (ks, w)" by force
  let ?s = "s\<lparr>world := w\<rparr>"
  have world_local: "local_state (?s\<lparr>status := x\<rparr>) = local_state (s\<lparr>status := x\<rparr>)" for x
    by (simp add: local_state_def)
  have "s' = snd (run_state (SetFromNodes E cache) s)" using assms by simp
  then show ?thesis
    using keys local_setDegraded [of E ClusterNode "''ProcessClusterNodeError''" _ ?s]
      local_setNotDegraded [of E ClusterNode ?s]
    by (simp add: SetFromNodes_def snd_run_bind nodes_loop_result world_local Let_def)
qed

text \<open>An outcome after which the cache is reported, unless the handler panicked.\<close>

definition reports :: "outcome \<Rightarrow> 'w operator \<Rightarrow> bool" where
  "reports r s \<longleftrightarrow> (case snd r of Some e \<Rightarrow> is_panic e | None \<Rightarrow> False) \<or> node_inv s"

lemma unprocessed_cache:
  assumes "distinct (map fst c)" and "\<forall>x \<in> set c. \<not> nst_success (snd x)"
  shows "distinct (map fst (foldl (\<lambda>c nd. AList.update (fst (unprocessed nd)) (snd (unprocessed nd)) c) c nodes))
    \<and> (\<forall>x \<in> set (foldl (\<lambda>c nd. AList.update (fst (unprocessed nd)) (snd (unprocessed nd)) c) c nodes).
         \<not> nst_success (snd x))"
  using assms
proof (induction nodes arbitrary: c)
  case (Cons nd nodes)
  have "\<forall>x \<in> set (AList.update (fst (unprocessed nd)) (snd (unprocessed nd)) c). \<not> nst_success (snd x)"
    using Cons.prems(2) by (induction c) (auto simp: unprocessed_def)
  with Cons.IH [of "AList.update (fst (unprocessed nd)) (snd (unprocessed nd)) c"] Cons.prems(1)
  show ?case by (simp add: distinct_update)
qed simp

lemma not_processed:
  "\<forall>x \<in> set c. \<not> nst_success (snd x) \<Longrightarrow> \<not> was_processed c k a"
  by (auto simp: was_processed_def split: option.splits dest!: map_of_SomeD)

lemma local_parts:
  assumes "local_state s' = local_state s"
  shows "cachedNodeSet s' = cachedNodeSet s" "status s' = status s" "node_inv s' = node_inv s"
  using assms by (simp_all add: local_state_def node_inv_def)

locale node_reports =
  fixes N :: "('w, 'd, 'o) nsx_api"
  assumes range_all: "mset (fst (range_keys (st (nc N)) ks w)) = mset ks"
begin

lemma report_nodes_inv: "yields distinct_cache (report_nodes N) (\<lambda>u. node_inv)"
proof (rule yieldsI)
  fix s u s' assume run: "run_state (report_nodes N) s = (u, s')" and d: "distinct_cache s"
  let ?cache = "cachedNodeSet s"
  have "run_state (SetFromNodes (st (nc N)) ?cache) s = (u, s')"
    using run by (simp add: report_nodes_def)
  from SetFromNodes_local [OF this] obtain ks w where
    keys: "range_keys (st (nc N)) (map fst ?cache) (world s) = (ks, w)" and
    loc: "local_state s' = local_state (s\<lparr>status := set_failing ClusterNode
       (let names = filter (node_failing ?cache) ks
        in if names = [] then None
           else Some (make_condition OperatorDegraded ConditionTrue ''ProcessClusterNodeError''
              (Join (map (\<lambda>k. nst_reason (the (map_of ?cache k))) names) [CHR 0x0A]))) (status s)\<rparr>)"
    by blast
  from range_all [of "map fst ?cache" "world s"] keys have "mset ks = mset (map fst ?cache)" by simp
  from cache_reportedI [OF this refl] loc d show "node_inv s'"
    by (simp add: node_inv_def local_state_def Let_def)
qed

lemma node_failed_inv: "yields distinct_cache (node_failed N name addrs reason err) (\<lambda>r. node_inv)"
  unfolding node_failed_def cache_node_def
  by (intro yields_rules yields_call [OF report_nodes_inv]) (auto simp: distinct_update)

lemma node_error_inv: "yields distinct_cache (node_error N name addrs reason err) reports"
  unfolding node_error_def
  by (intro yields_rules yields_conseq [OF node_failed_inv]) (auto simp: reports_def)

lemma fill_cache_inv:
  "yields node_inv (fill_cache N) (\<lambda>e s. (e \<noteq> None \<longrightarrow> node_inv s) \<and> distinct_cache s
     \<and> (\<forall>k a. was_processed (cachedNodeSet s) k a \<longrightarrow> node_inv s))"
proof -
  have "distinct_cache (s\<lparr>cachedNodeSet :=
          foldl (\<lambda>c nd. AList.update (fst (unprocessed nd)) (snd (unprocessed nd)) c) [] nodes\<rparr>)
      \<and> \<not> was_processed (foldl (\<lambda>c nd. AList.update (fst (unprocessed nd)) (snd (unprocessed nd)) c) [] nodes) k a"
    for s :: "'w operator" and nodes k a
    using unprocessed_cache [of "[]" nodes] not_processed by simp
  then show ?thesis
    by (auto simp: fill_cache_def yields_def node_inv_def split: sum.splits prod.splits)
qed

lemmas node_calls =
  yields_call [OF fill_cache_inv] yields_call [OF node_error_inv] yields_call [OF report_nodes_inv]
  yields_call [OF node_failed_inv] yields_api
  yields_keep [OF node_local.view_createNsxClients] yields_keep [OF node_local.view_filterPorts]
  yields_keep [OF node_local.view_attachments] yields_keep [OF node_local.view_listPorts]

lemma begin_node_inv:
  "yields node_inv (begin_node N L req)
     (\<lambda>x s. case x of Inl r \<Rightarrow> reports r s | Inr y \<Rightarrow> distinct_cache s)"
  unfolding begin_node_def Let_def
  by (intro yields_rules node_calls)
     (auto simp: reports_def node_inv_def distinct_delete dest: local_parts)

lemma select_ports_inv:
  "yields distinct_cache (select_ports N name addrs C ports)
     (\<lambda>x s. case x of Inl r \<Rightarrow> reports r s | Inr ps \<Rightarrow> distinct_cache s)"
  unfolding select_ports_def
  by (intro yields_rules node_calls) (auto simp: reports_def nil_pointer_def dest: local_parts)

lemma tag_port_inv:
  "yields distinct_cache (tag_port N name addrs C p)
     (\<lambda>out s. case out of None \<Rightarrow> distinct_cache s | Some r \<Rightarrow> reports r s)"
  unfolding tag_port_def Let_def
  by (intro yields_rules node_calls) 
     (auto simp: reports_def nil_pointer_def dest: local_parts find_tags_panic)

lemma tag_ports_inv:
  "yields distinct_cache (for_each (tag_port N name addrs C) ps)
     (\<lambda>out s. case out of None \<Rightarrow> distinct_cache s | Some r \<Rightarrow> reports r s)"
  by (rule yields_for_each) (rule tag_port_inv)

lemma finish_node_inv: "yields distinct_cache (finish_node N name addrs C vm) reports"
  unfolding finish_node_def or_return_def cache_node_def
  by (intro yields_rules node_calls node_error_inv yields_call [OF select_ports_inv]
       yields_call [OF tag_ports_inv])
     (auto simp: reports_def distinct_update dest: local_parts)

lemma reconcile_inv:
  assumes run: "Reconcile_node N L req s = Some (r, s')" and inv: "node_inv s"
  shows "reports r s'"
  using run
proof (cases rule: reconcile_cases)
  case early
  from yieldsD [OF begin_node_inv this inv] show ?thesis by simp
next
  case (late nd addrs C s1 vm w)
  from yieldsD [OF begin_node_inv late(1) inv] yieldsD [OF finish_node_inv late(3)] show ?thesis by simp
qed

end

section \<open>What a reconciliation leaves alone\<close>

definition rest_of :: "'w operator \<Rightarrow> shared_info \<times> bool \<times> configmap option \<times> status_manager" where
  "rest_of s = (sharedInfo s, firstBoot s, appliedConfigMap s, set_failing ClusterNode None (status s))"

lemma rest_of_world [simp]: "rest_of (s\<lparr>world := w\<rparr>) = rest_of s"
  by (simp add: rest_of_def)

lemma rest_of_cache [simp]: "rest_of (s\<lparr>cachedNodeSet := c\<rparr>) = rest_of s"
  by (simp add: rest_of_def)

lemma rest_of_failing [simp]: "rest_of (s\<lparr>status := set_failing ClusterNode c (status s)\<rparr>) = rest_of s"
  by (simp add: rest_of_def set_failing_def)

interpretation node_rest: node_view N rest_of for N
  by unfold_locales (intro keeps_api rest_of_world)+

lemma rest_reports: "keeps rest_of (report_nodes N)"
proof -
  have "keeps rest_of (SetFromNodes E cache)" for E :: "'w status_api" and cache
  proof (rule keepsI)
    fix s :: "'w operator" and u s'
    assume "run_state (SetFromNodes E cache) s = (u, s')"
    from SetFromNodes_local [OF this] obtain c where
      "local_state s' = local_state (s\<lparr>status := set_failing ClusterNode c (status s)\<rparr>)" by blast
    then have "rest_of s' = rest_of (s\<lparr>status := set_failing ClusterNode c (status s)\<rparr>)"
      by (simp add: local_state_def rest_of_def)
    then show "rest_of s' = rest_of s" by simp
  qed
  then show ?thesis unfolding report_nodes_def by (intro keeps_rules)
qed

lemma rest_errors:
  "keeps rest_of (node_failed N name addrs reason err)"
  "keeps rest_of (node_error N name addrs reason err)"
  unfolding node_error_def node_failed_def cache_node_def
  by (intro keeps_rules rest_reports rest_of_cache)+

lemma rest_api: "keeps rest_of (api f)"
  by (intro keeps_api rest_of_world)

lemma rest_begin: "keeps rest_of (begin_node N L req)"
  unfolding begin_node_def fill_cache_def Let_def
  by (intro keeps_rules rest_reports rest_errors rest_api rest_of_cache node_rest.view_createNsxClients)

lemma rest_finish: "keeps rest_of (finish_node N name addrs C vm)"
  unfolding finish_node_def select_ports_def tag_port_def cache_node_def Let_def
  by (intro keeps_rules rest_reports rest_errors rest_api rest_of_cache node_rest.view_attachments
      node_rest.view_listPorts node_rest.view_filterPorts)

lemma reconcile_rest:
  assumes "Reconcile_node N L req s = Some (r, s')"
  shows "rest_of s' = rest_of s"
  using assms
proof (cases rule: reconcile_cases)
  case early
  from keepsD [OF rest_begin this] show ?thesis .
next
  case (late nd addrs C s1 vm w)
  from keepsD [OF rest_begin late(1)] keepsD [OF rest_finish late(3)] show ?thesis by simp
qed

end
