(* ===== verification/Node_Ports.thy ===== *)
theory Node_Ports
  imports Node_Facts
begin

text \<open>
  What the node controller does to the ports that NSX stores. The locale \<open>nsx_server\<close> states
  what it relies on: a search yields stored ports, an accepted update of the tags stores them,
  no other call changes a port, and the pages of virtual machines end. The view is \<open>None\<close> for a
  server whose store is not in order.
\<close>

section \<open>Outcomes\<close>

definition node_done :: "(string \<times> node_status) list \<Rightarrow> string \<Rightarrow> bool" where
  "node_done cache k = (case map_of cache k of None \<Rightarrow> False | Some n \<Rightarrow> nst_success n)"

lemma cache_report_nodes: "keeps cachedNodeSet (report_nodes N)"
proof -
  have "keeps cachedNodeSet (SetFromNodes E cache)" for E :: "'w status_api" and cache
  proof (rule keepsI)
    fix s :: "'w operator" and u s'
    assume "run_state (SetFromNodes E cache) s = (u, s')"
    from SetFromNodes_local [OF this] show "cachedNodeSet s' = cachedNodeSet s"
      by (auto simp: local_state_def)
  qed
  then show ?thesis unfolding report_nodes_def by (intro keeps_rules)
qed

lemma node_failed_outcome:
  "yields P (node_failed N name addrs reason err) (\<lambda>r s. snd r = Some err)"
  by (simp add: node_failed_def yields_def split: prod.splits)

lemma node_error_outcome: "yields P (node_error N name addrs reason err) (\<lambda>r s. snd r = Some err)"
  unfolding node_error_def by (intro yields_rules node_failed_outcome) simp

lemma unprocessed_not_done:
  "\<not> node_done (foldl (\<lambda>c nd. AList.update (fst (unprocessed nd)) (snd (unprocessed nd)) c) [] nodes) k"
  using unprocessed_cache [of "[]" nodes]
  by (auto simp: node_done_def split: option.splits dest!: map_of_SomeD)

text \<open>A run that ends without the search does not make its node a done one.\<close>

lemma fill_cache_done:
  "yields (\<lambda>s. cachedNodeSet s = c) (fill_cache N)
     (\<lambda>e s. \<forall>k. node_done (cachedNodeSet s) k \<longrightarrow> cachedNodeSet s = c)"
  by (auto simp: fill_cache_def yields_def unprocessed_not_done split: sum.splits prod.splits)

lemma report_not_done:
  "yields (\<lambda>s. \<not> node_done (cachedNodeSet s) k) (report_nodes N) (\<lambda>u s. \<not> node_done (cachedNodeSet s) k)"
  by (rule yields_view [OF cache_report_nodes, where P = "\<lambda>c. \<not> node_done c k"])

lemma begin_node_done:
  "yields (\<lambda>s. cachedNodeSet s = c) (begin_node N L req)
     (\<lambda>x s. \<forall>r. x = Inl r \<longrightarrow> snd r = None \<longrightarrow> node_done (cachedNodeSet s) (req_name req)
        \<longrightarrow> cachedNodeSet s = c)"
  unfolding begin_node_def Let_def
  by (intro yields_rules yields_call [OF fill_cache_done] yields_bind [OF node_error_outcome]
        yields_api yields_call [OF report_not_done] yields_keep [OF node_local.view_createNsxClients])
     (auto simp: node_done_def delete_conv dest: local_parts)

section \<open>The name of the cluster\<close>

lemma clients_cluster:
  assumes run: "run_state (createNsxClients N L) s = (Inr C, s')"
    and cm: "si_OperatorConfigMap (sharedInfo s) = Some cm" "Load L (cm_get cm ConfigMapDataKey) = Inr f"
  shows "Cluster C = no_cluster (read_options L f)"
proof -
  have make: "Cluster C = no_cluster opts"
    if "run_state (make_clients N opts paths sec) s1 = (Inr C, s2)" for opts paths sec s1 s2
    using that by (auto simp: make_clients_def split: prod.splits sum.splits option.splits)
  show ?thesis
    using run cm by (auto simp: createNsxClients_def operator_configmap_def Let_def make
        split: prod.splits sum.splits)
qed

text \<open>The clients of a run come from the shared information it started with.\<close>

lemma begin_node_clients:
  assumes "run_state (begin_node N L req) s = (Inr (nd, addrs, C), s')"
  shows "\<exists>s1 s2 w. sharedInfo s1 = sharedInfo s \<and> run_state (createNsxClients N L) s1 = (Inr C, s')
    \<and> run_state (fill_cache N) s = (None, s2)
    \<and> get_node (st (nc N)) (req_name req) (world s2) = (Inr nd, w)"
proof -
  obtain e s1 where fill: "run_state (fill_cache N) s = (e, s1)" by force
  have "keeps rest_of (fill_cache N)"
    unfolding fill_cache_def by (intro keeps_rules rest_api rest_of_cache)
  from keepsD [OF this fill] have same: "sharedInfo s1 = sharedInfo s" by (simp add: rest_of_def)
  obtain g w where get: "get_node (st (nc N)) (req_name req) (world s1) = (g, w)" by force
  have "sharedInfo (s1\<lparr>world := w\<rparr>) = sharedInfo s
      \<and> run_state (createNsxClients N L) (s1\<lparr>world := w\<rparr>) = (Inr C, s') \<and> e = None \<and> g = Inr nd"
    using assms fill get same
    by (auto simp: begin_node_def Let_def split: if_splits option.splits sum.splits prod.splits)
  with fill get show ?thesis by blast
qed

context ini_laws
begin

lemma read_cluster: "no_cluster (read_options L f) = get_or_empty (val f) ''coe'' ''cluster''"
  by (auto simp: read_options_def split: prod.splits dest: sec_key_value_run(1))

end

section \<open>The server\<close>

definition is_invalid :: "string \<Rightarrow> bool" where
  "is_invalid providerId \<longleftrightarrow> length providerId \<noteq> 46 \<or> \<not> prefix vspherePrefix providerId"

lemma search_outcome:
  assumes "getNodeExternalIdByProviderId N C name pid w = Some (vm, w')"
  shows "is_invalid pid \<and> w' = w \<and> (\<exists>e. vm = Inl e)
    \<or> \<not> is_invalid pid \<and> (\<exists>x. vm_loop (list_vms N (ManagerClient C)) (TrimPrefix pid vspherePrefix) None w
          = Some (x, w') \<and> (\<forall>ext. vm = Inr ext \<longrightarrow> x = Inr (Some ext)))"
proof (cases "is_invalid pid")
  case True
  with assms show ?thesis by (auto simp: getNodeExternalIdByProviderId_def is_invalid_def)
next
  case False
  with assms obtain x where "vm_loop (list_vms N (ManagerClient C)) (TrimPrefix pid vspherePrefix) None w
      = Some (x, w')"
    and "vm = (case x of Inl err \<Rightarrow> Inl err | Inr (Some externalId) \<Rightarrow> Inr externalId
           | Inr None \<Rightarrow> Inl (GoError (''no virtual machine matches provider ID '' @ pid
                         @ '' and hostname '' @ name)))"
    by (auto simp: getNodeExternalIdByProviderId_def is_invalid_def)
  with False show ?thesis by (auto split: sum.splits option.splits)
qed

text \<open>The store changes by the tags of one port, and that is a port of the node.\<close>

definition tags_one ::
  "(string \<Rightarrow> string \<Rightarrow> bool) \<Rightarrow> (string \<Rightarrow> string \<Rightarrow> bool) \<Rightarrow> string \<Rightarrow> string
   \<Rightarrow> (string \<rightharpoonup> segment_port) \<Rightarrow> (string \<rightharpoonup> segment_port) \<Rightarrow> bool" where
  "tags_one node_of port_of name cluster m m' \<longleftrightarrow>
     (\<exists>u pid p. node_of name u \<and> port_of u pid \<and> m pid = Some p \<and> m' = m(pid \<mapsto> tagged name cluster p))"

text \<open>
  \<open>node_of\<close> relates a node to its BIOS identifier, \<open>vm_of\<close>, \<open>att_of\<close> and \<open>port_of\<close> that to the external identifiers of its
  virtual machines, to the attachments of their interfaces and to the ports of those.
\<close>

locale nsx_server = quiet_calls "nc N" V + node_reports N
  for N :: "('w, 'd, 'o) nsx_api" and V :: "'w \<Rightarrow> (string \<rightharpoonup> segment_port) option" +
  fixes node_of vm_of att_of port_of :: "string \<Rightarrow> string \<Rightarrow> bool"
  assumes s_vms: "V (snd (list_vms N cfg cur w)) = V w"
    and s_vifs: "V (snd (list_vifs N cfg ext w)) = V w"
    and s_state: "V (snd (port_state N con seg port w)) = V w"
    and s_load: "V (snd (load_key_pair N f f' w)) = V w"
    and s_write: "V (snd (write_file N f bytes w)) = V w"
    and s_client: "V (snd (new_api_client N cfg w)) = V w"
    and s_search: "V (snd (search_ports N con query w)) = V w"
    and s_node: "get_node (st (nc N)) n w = (Inr nd, w') \<Longrightarrow> V w = Some m \<Longrightarrow>
          prefix vspherePrefix (n_providerID nd) \<Longrightarrow>
          node_of n (TrimPrefix (n_providerID nd) vspherePrefix)"
    and s_vm_of: "list_vms N cfg cur w = (Inr pg, w') \<Longrightarrow> V w = Some m \<Longrightarrow>
          vm \<in> set (vms_Results pg) \<Longrightarrow> vm_matches u vm \<Longrightarrow> vm_of u (vm_ExternalId vm)"
    and s_att_of: "list_vifs N cfg ext w = (Inr vifs, w') \<Longrightarrow> V w = Some m \<Longrightarrow> vm_of u ext \<Longrightarrow>
          a \<in> set vifs \<Longrightarrow> a \<noteq> [] \<Longrightarrow> att_of u a"
    and s_found: "search_ports N con (''resource_type:SegmentPort AND attachment.id:'' @ a) w
            = (Inr ds, w') \<Longrightarrow> V w = Some m \<Longrightarrow> att_of u a \<Longrightarrow> d \<in> set ds \<Longrightarrow>
          convert_port N d = (x, []) \<Longrightarrow> as_port N x = Some p \<Longrightarrow>
          \<exists>pid. port_Id p = Some pid \<and> m pid = Some p \<and> port_of u pid"
    and s_update: "update_port N con seg pid p w = (e, w') \<Longrightarrow> V w = Some m \<Longrightarrow>
          m pid = Some q \<Longrightarrow> port_Id q = Some pid \<Longrightarrow> p = q\<lparr>port_Tags := port_Tags p\<rparr> \<Longrightarrow>
          port_ParentPath q = Some pp \<Longrightarrow> ExtractSegmentIdFromPath pp = Inr seg \<Longrightarrow>
          V w' = Some (m(pid \<mapsto> p)) \<or> e \<noteq> None \<and> V w' = Some m"
    and s_pages: "V w = Some m \<Longrightarrow> \<exists>n. ends_within n (list_vms N cfg) uuid None w"

sublocale nsx_server \<subseteq> view: node_view N "view_of V"
  by unfold_locales
     (intro keeps_api_view q_get_configmap q_get_secret q_read_file q_range_keys s_write s_load
        s_client s_vifs s_search s_state)+

context nsx_server
begin

lemma quiet_report: "keeps (view_of V) (report_nodes N)"
  unfolding report_nodes_def by (intro keeps_rules quiet_SetFromNodes)

lemma quiet_errors:
  "keeps (view_of V) (node_failed N name addrs reason err)"
  "keeps (view_of V) (node_error N name addrs reason err)"
  unfolding node_error_def node_failed_def cache_node_def
  by (intro keeps_rules quiet_report; simp)+

lemma quiet_fill: "keeps (view_of V) (fill_cache N)"
  unfolding fill_cache_def by (intro keeps_rules quiet_api) simp

lemma quiet_begin: "keeps (view_of V) (begin_node N L req)"
  unfolding begin_node_def Let_def
  by (intro keeps_rules quiet_fill quiet_report quiet_errors quiet_api view.view_createNsxClients) simp_all

lemma cast_ports_from:
  "cast_ports N ds acc = Inr ps \<Longrightarrow> p \<in> set ps \<Longrightarrow>
   p \<in> set acc \<or> (\<exists>d \<in> set ds. \<exists>x. convert_port N d = (x, []) \<and> as_port N x = Some p)"
proof (induction ds arbitrary: acc)
  case (Cons d ds)
  then show ?case
    by (fastforce simp: CastToBindingType_def split: sum.splits prod.splits option.splits if_splits)
qed simp

lemma search_loop_found:
  assumes "run_state (search_loop N con ids acc) s = (Inr ps, s')" and "V (world s) = Some m"
    and "\<forall>a \<in> set ids. att_of u a" and "p \<in> set ps" and "p \<notin> set acc"
  shows "\<exists>pid. port_Id p = Some pid \<and> m pid = Some p \<and> port_of u pid"
  using assms
proof (induction ids arbitrary: acc s)
  case (Cons i ids)
  obtain r w where r: "search_ports N con (''resource_type:SegmentPort AND attachment.id:'' @ i) (world s)
      = (r, w)" by force
  from s_search [of con _ "world s"] r Cons.prems(2) have v: "V w = Some m" by (metis snd_conv)
  from r Cons.prems(1) obtain ds acc' where ds: "r = Inr ds" "cast_ports N ds acc = Inr acc'"
    and rest: "run_state (search_loop N con ids acc') (s\<lparr>world := w\<rparr>) = (Inr ps, s')"
    by (auto split: sum.splits)
  show ?case
  proof (cases "p \<in> set acc'")
    case True
    with cast_ports_from [OF ds(2) this] Cons.prems(5) obtain d x where
      d: "d \<in> set ds" "convert_port N d = (x, [])" "as_port N x = Some p" by blast
    have "att_of u i" using Cons.prems(3) by simp
    from s_found [OF r [unfolded ds(1)] Cons.prems(2) this d] show ?thesis .
  next
    case False
    with Cons.IH [OF rest] v Cons.prems(3,4) show ?thesis by simp
  qed
qed simp

text \<open>The port is a stored one, and one of the node.\<close>

definition listed :: "string \<Rightarrow> (string \<rightharpoonup> segment_port) \<Rightarrow> segment_port \<Rightarrow> bool" where
  "listed u m p \<longleftrightarrow> (\<exists>pid. port_Id p = Some pid \<and> m pid = Some p \<and> port_of u pid)"

lemma listPorts_found:
  "yields (\<lambda>s. V (world s) = Some m \<and> (\<forall>a \<in> set ids. att_of u a)) (listPortsByAttachmentIds N C ids)
     (\<lambda>r s. V (world s) = Some m \<and> (\<forall>ps. r = Inr ps \<longrightarrow> ps \<noteq> [] \<and> (\<forall>p \<in> set ps. listed u m p)))"
proof (rule yieldsI)
  fix s r s' assume run: "run_state (listPortsByAttachmentIds N C ids) s = (r, s')"
    and pre: "V (world s) = Some m \<and> (\<forall>a \<in> set ids. att_of u a)"
  obtain ks w where ks: "range_keys (st (nc N)) ids (world s) = (ks, w)" by force
  with q_range_keys [of ids "world s"] pre have v: "V (world (s\<lparr>world := w\<rparr>)) = Some m" by simp
  have "set ks = set ids" using range_all [of ids "world s"] ks by (metis fst_conv mset_eq_setD)
  with pre have att: "\<forall>a \<in> set ks. att_of u a" by simp
  have "ps \<noteq> [] \<and> (\<forall>p \<in> set ps. listed u m p)" if "r = Inr ps" for ps
  proof -
    from run ks that have "run_state (search_loop N (PolicyConnector C) ks []) (s\<lparr>world := w\<rparr>) = (Inr ps, s')"
      and "ps \<noteq> []"
      by (auto simp: listPortsByAttachmentIds_def split: prod.splits sum.splits if_splits)
    from search_loop_found [OF this(1) v att] this(2) show ?thesis by (simp add: listed_def)
  qed
  with keepsD [OF view.view_listPorts run] pre
  show "V (world s') = Some m \<and> (\<forall>ps. r = Inr ps \<longrightarrow> ps \<noteq> [] \<and> (\<forall>p \<in> set ps. listed u m p))" by simp
qed

lemma vifs_of:
  assumes "vm_of u ext"
  shows "yields (\<lambda>s. V (world s) = Some m) (api (list_vifs N cfg ext))
    (\<lambda>r s. V (world s) = Some m \<and> (\<forall>vs. r = Inr vs \<longrightarrow> (\<forall>a \<in> set vs. a \<noteq> [] \<longrightarrow> att_of u a)))"
proof (rule yieldsI)
  fix s r s' assume run: "run_state (api (list_vifs N cfg ext)) s = (r, s')" and v: "V (world s) = Some m"
  have "list_vifs N cfg ext (world s) = (r, world s')" using run by (auto split: prod.splits)
  with s_att_of [OF _ v assms] keepsD [OF view.v_vifs run] v
  show "V (world s') = Some m \<and> (\<forall>vs. r = Inr vs \<longrightarrow> (\<forall>a \<in> set vs. a \<noteq> [] \<longrightarrow> att_of u a))" by auto
qed

lemma attachments_of:
  "vm_of u ext \<Longrightarrow> yields (\<lambda>s. V (world s) = Some m) (listAttachmentsByNodeExternalId N C ext)
    (\<lambda>r s. V (world s) = Some m \<and> (\<forall>ids. r = Inr ids \<longrightarrow> (\<forall>a \<in> set ids. att_of u a)))"
  unfolding listAttachmentsByNodeExternalId_def
  by (intro yields_rules yields_bind [OF vifs_of]) (auto simp: attachment_set_def split: sum.splits if_splits)

lemma search_vm_of:
  assumes "vm_loop (list_vms N cfg) u cur w = Some (Inr (Some ext), w')" and "V w = Some m"
  shows "vm_of u ext"
proof -
  have "\<forall>ext. pages = list_vms N cfg \<longrightarrow> V w = Some m \<longrightarrow> fst x = Inr (Some ext) \<longrightarrow> vm_of u ext"
    if "vm_loop pages u cur w = Some x" for pages x
  proof (induction rule: vm_loop.raw_induct [OF _ that])
    case (1 loop pages u cur w x)
    obtain a w1 where run: "pages cur w = (a, w1)" by force
    show ?case
    proof (intro allI impI)
      fix ext assume p: "pages = list_vms N cfg" and v: "V w = Some m" and x: "fst x = Inr (Some ext)"
      from s_vms [of cfg cur w] run p v have v1: "V w1 = Some m" by simp
      from 1(2) run x obtain pg where a: "a = Inr pg" by (cases a) auto
      show "vm_of u ext"
      proof (cases "find (vm_matches u) (vms_Results pg)")
        case None
        with 1 run a x p v1 show ?thesis by (auto split: if_splits)
      next
        case (Some vm)
        with 1(2) run a x have "ext = vm_ExternalId vm" by auto
        moreover from Some have "vm \<in> set (vms_Results pg)" "vm_matches u vm"
          by (auto simp: find_Some_iff)
        ultimately show ?thesis using s_vm_of run a p v by metis
      qed
    qed
  qed
  from this [OF assms(1)] assms(2) show ?thesis by simp
qed

lemma filter_loop_subset:
  "run_state (filter_loop N con addrs ports acc errs) s = (Inr (ps, es), s') \<Longrightarrow>
   set ps \<subseteq> set acc \<union> set ports"
proof (induction ports arbitrary: acc errs s)
  case (Cons p ports)
  from Cons.prems show ?case
    by (auto split: option.splits sum.splits prod.splits dest!: Cons.IH)
qed simp

text \<open>Exactly one port is tagged.\<close>

lemma select_one:
  assumes run: "run_state (select_ports N name addrs C ports) s = (Inr ps, s')" and "ports \<noteq> []"
  shows "\<exists>p \<in> set ports. ps = [p]"
proof (cases "length ports > 1")
  case True
  with run obtain r s1 where
    "run_state (filter_loop N (PolicyConnector C) addrs ports [] []) s = (Inr (ps, r), s1)"
    and "ps \<noteq> [] \<and> \<not> 1 < length ps"
    by (auto simp: select_ports_def filterPortsByNodeAddresses_def Let_def
        split: prod.splits sum.splits if_splits)
  with filter_loop_subset [OF this(1)] show ?thesis by (cases ps) auto
next
  case False
  with run assms(2) show ?thesis
    by (cases ports) (auto simp: select_ports_def split: if_splits)
qed

lemma node_error_quiet:
  "yields (\<lambda>s. V (world s) = Some m) (node_error N name addrs reason err)
     (\<lambda>r s. snd r = Some err \<and> V (world s) = Some m)"
  by (rule yields_conj [OF node_error_outcome
      yields_view [OF quiet_errors(2), where P = "\<lambda>v. v = Some m"]])

lemma select_ports_found:
  "yields (\<lambda>s. V (world s) = Some m \<and> ps \<noteq> [] \<and> (\<forall>p \<in> set ps. listed u m p)) (select_ports N name addrs C ps)
     (\<lambda>x s. V (world s) = Some m \<and> (case x of Inl r \<Rightarrow> snd r \<noteq> None | Inr qs \<Rightarrow> \<exists>p. listed u m p \<and> qs = [p]))"
proof -
  have "yields (\<lambda>s. V (world s) = Some m) (select_ports N name addrs C ps)
      (\<lambda>x s. V (world s) = Some m \<and> (\<forall>r. x = Inl r \<longrightarrow> snd r \<noteq> None))"
    unfolding select_ports_def
    by (intro yields_rules yields_call [OF node_error_quiet] yields_keep [OF view.view_filterPorts])
       auto
  from yieldsD [OF this] select_one show ?thesis
    by (fastforce intro!: yieldsI split: sum.splits)
qed

text \<open>Tagging a stored port leaves the store or adds the two tags.\<close>

lemma update_stored:
  assumes "port_ParentPath p = Some pp" and "ExtractSegmentIdFromPath pp = Inr seg"
    and "port_Id p = Some pid"
  shows "yields (\<lambda>s. V (world s) = Some m \<and> m pid = Some p)
    (api (update_port N con seg pid (p\<lparr>port_Tags := ts\<rparr>)))
    (\<lambda>e s. V (world s) = Some (m(pid \<mapsto> p\<lparr>port_Tags := ts\<rparr>)) \<or> e \<noteq> None \<and> V (world s) = Some m)"
  using s_update [of con seg pid "p\<lparr>port_Tags := ts\<rparr>" _ _ _ m p pp] assms
  by (auto simp: yields_def split: prod.splits)

lemma tag_port_stored:
  assumes "listed u m p"
  shows "yields (\<lambda>s. V (world s) = Some m) (tag_port N name addrs C p)
    (\<lambda>out s. (\<exists>r. out = Some r \<and> snd r \<noteq> None) \<and> V (world s) = Some m
       \<or> (\<forall>r. out = Some r \<longrightarrow> snd r \<noteq> None)
         \<and> (\<exists>pid. m pid = Some p \<and> port_of u pid \<and> V (world s) = Some (m(pid \<mapsto> tagged name (Cluster C) p))))"
proof -
  from assms obtain pid where pid: "port_Id p = Some pid" "m pid = Some p" "port_of u pid"
    by (auto simp: listed_def)
  have done1: "m = m(pid \<mapsto> tagged name (Cluster C) p)"
    if "find_tags name (Cluster C) (port_Tags p) (False, False) = Inr (True, True)"
    using tagged_present [OF that] pid(2) by (simp add: fun_upd_idem)
  show ?thesis
    unfolding tag_port_def Let_def
    by (intro yields_rules yields_call [OF update_stored] yields_result [OF quiet_errors(1) node_failed_outcome])
       (use pid tagged_missing done1 in \<open>auto\<close>)
qed
lemma finish_ports:
  assumes "\<forall>ext. vm = Inr ext \<longrightarrow> vm_of u ext"
  shows "yields (\<lambda>s. V (world s) = Some m) (finish_node N name addrs C vm)
    (\<lambda>r s. snd r \<noteq> None \<and> V (world s) = Some m
       \<or> (\<exists>pid p. m pid = Some p \<and> port_of u pid \<and> V (world s) = Some (m(pid \<mapsto> tagged name (Cluster C) p))))"
  (is "yields _ _ ?out")
proof -
  let ?tagged = "\<lambda>v. \<exists>pid p. m pid = Some p \<and> port_of u pid
    \<and> v = Some (m(pid \<mapsto> tagged name (Cluster C) p))"
  have tags: "yields (\<lambda>s. V (world s) = Some m \<and> (\<exists>p. listed u m p \<and> qs = [p]))
      (for_each (tag_port N name addrs C) qs)
      (\<lambda>t s. case t of None \<Rightarrow> ?tagged (V (world s)) | Some r \<Rightarrow> ?out r s)" for qs
  proof (cases "\<exists>p. listed u m p \<and> qs = [p]")
    case True
    then obtain p where p: "listed u m p" "qs = [p]" by blast
    show ?thesis
      unfolding p(2) for_each.simps
      by (intro yields_rules yields_call [OF tag_port_stored [OF p(1)]]) auto
  qed (auto simp: yields_def)
  have last: "yields (\<lambda>s. ?tagged (V (world s))) (do { cache_node name n; report_nodes N; ret (emptyResult, None) }) ?out"
    for n
    unfolding cache_node_def
    by (intro yields_skip [OF preserves_modify] yields_keep [OF quiet_report] yields_ret) simp_all
  show ?thesis
    unfolding finish_node_def or_return_def
    by (intro yields_rules yields_conseq [OF node_error_quiet] yields_conseq [OF last]
          yields_call [OF attachments_of] yields_call [OF listPorts_found]
          yields_call [OF select_ports_found] yields_call [OF tags])
       (use assms in auto)
qed

lemma reconcile_returns:
  assumes "V (world s) = Some m"
  shows "\<exists>r s'. Reconcile_node N L req s = Some (r, s')"
proof -
  obtain x s1 where b: "run_state (begin_node N L req) s = (x, s1)" by force
  from keepsD [OF quiet_begin b] assms have v: "V (world s1) = Some m" by simp
  have ret: "getNodeExternalIdByProviderId N C name pid (world s1) \<noteq> None" for C name pid
    using s_pages [OF v] ends_returns by (fastforce simp: getNodeExternalIdByProviderId_def)
  obtain r s2 where "Reconcile_node N L req s = Some (r, s2)"
  proof (cases x)
    case (Inl o1)
    with b that show ?thesis by (simp add: Reconcile_node_def)
  next
    case (Inr y)
    obtain nd addrs C where "y = (nd, addrs, C)" by (metis surj_pair)
    moreover obtain vm w where
      "getNodeExternalIdByProviderId N C (req_name req) (n_providerID nd) (world s1) = Some (vm, w)"
      using ret by fast
    moreover obtain r s2 where
      "run_state (finish_node N (req_name req) addrs C vm) (s1\<lparr>world := w\<rparr>) = (r, s2)"
      by (metis surj_pair)
    ultimately show ?thesis using b Inr that by (simp add: Reconcile_node_def)
  qed
  then show ?thesis by blast
qed

lemma reconcile_ports:
  assumes run: "Reconcile_node N L req s = Some (r, s')" and v: "V (world s) = Some m"
    and cm: "si_OperatorConfigMap (sharedInfo s) = Some cm" "Load L (cm_get cm ConfigMapDataKey) = Inr f"
  shows "\<exists>m'. V (world s') = Some m'
    \<and> (m' = m \<or> tags_one node_of port_of (req_name req) (no_cluster (read_options L f)) m m')
    \<and> (snd r = None \<and> \<not> node_done (cachedNodeSet s) (req_name req)
         \<and> node_done (cachedNodeSet s') (req_name req)
       \<longrightarrow> tags_one node_of port_of (req_name req) (no_cluster (read_options L f)) m m')"
  using run
proof (cases rule: reconcile_cases)
  case early
  with keepsD [OF quiet_begin early] yieldsD [OF begin_node_done early refl] v show ?thesis by auto
next
  case (late nd addrs C s1 vm w)
  let ?u = "TrimPrefix (n_providerID nd) vspherePrefix"
  from keepsD [OF quiet_begin late(1)] v have v0: "V (world s1) = Some m" by simp
  from late(2) have vm: "is_invalid (n_providerID nd) \<and> w = world s1 \<and> (\<exists>e. vm = Inl e)
      \<or> \<not> is_invalid (n_providerID nd) \<and> (\<exists>x. vm_loop (list_vms N (ManagerClient C)) ?u None (world s1)
          = Some (x, w) \<and> (\<forall>ext. vm = Inr ext \<longrightarrow> x = Inr (Some ext)))"
    by (rule search_outcome)
  then have "V w = V (world s1)"
    using vm_loop_keeps [of V "list_vms N (ManagerClient C)", OF s_vms] by auto
  with v0 have v1: "V (world (s1\<lparr>world := w\<rparr>)) = Some m" by simp
  from begin_node_clients [OF late(1)] obtain s2 s3 w3 where
    cl: "sharedInfo s2 = sharedInfo s" "run_state (createNsxClients N L) s2 = (Inr C, s1)" and
    nd: "run_state (fill_cache N) s = (None, s3)"
      "get_node (st (nc N)) (req_name req) (world s3) = (Inr nd, w3)" by blast
  have "V (world s3) = Some m" using keepsD [OF quiet_fill nd(1)] v by simp
  from s_node [OF nd(2) this] have node: "node_of (req_name req) ?u" if "\<not> is_invalid (n_providerID nd)"
    using that by (simp add: is_invalid_def)
  have cluster: "Cluster C = no_cluster (read_options L f)"
    using clients_cluster [OF cl(2)] cl(1) cm by simp
  have ext: "\<forall>ext. vm = Inr ext \<longrightarrow> vm_of ?u ext"
    using vm search_vm_of [OF _ v0] by blast
  show ?thesis
  proof (cases vm)
    case (Inl e)
    with yieldsD [OF node_error_quiet _ v1] late(3) show ?thesis by (fastforce simp: finish_node_def)
  next
    case (Inr e)
    with vm have "node_of (req_name req) ?u" using node by blast
    with yieldsD [OF finish_ports [OF ext] late(3) v1] show ?thesis
      unfolding tags_one_def cluster by metis
  qed
qed

end

end
