(* ===== verification/Nsx_Mock.thy ===== *)
theory Nsx_Mock
  imports Node_Controller
begin

text \<open>
  The NSX mock service of the end-to-end tests: \<open>cmd/nsx-mock/main.go\<close>. A handler takes a
  request to a response and changes the server's map of ports; the lock makes each access to
  the map atomic and leaves no trace. The Kubernetes client and the decoding of request
  bodies, of any type \<open>'b\<close>, are parameters. A response is the value that the JSON encoder gets.
  The certificate and \<open>main\<close> are in theory \<open>Main_Programs\<close>.
\<close>

section \<open>Requests, responses and the server\<close>

record 'b http_request =
  hr_Method :: string
  hr_Path :: string
  hr_Query :: "string \<Rightarrow> string"  \<comment> \<open>\<open>URL.Query().Get\<close>\<close>
  hr_Body :: 'b

record mock_port =
  mp_ID :: string
  mp_ParentPath :: string
  mp_Path :: string
  mp_Tags :: "nsx_tag list"

datatype mock_json =
    VMResponse "(string \<times> string list) list"  \<comment> \<open>external id, compute ids\<close>
  | VIFResponse "string list"
  | SearchResponse "mock_port list"
  | PortStateResponse "string list"
  | PortResponse mock_port
  | StoreResponse "string \<rightharpoonup> mock_port"

datatype http_response =
    HttpError string int
  | HttpJson mock_json
  | HttpStatus int

record ('w, 'b) mock_env =
  k8sClient :: "'w status_api option"
  read_body :: "'b \<Rightarrow> go_error + string"
  decode_port :: "'b \<Rightarrow> go_error + mock_port"

record 'w mock_server =
  segmentPorts :: "string \<rightharpoonup> mock_port"
  k8s_world :: 'w

type_synonym 'w mock_handler = "('w mock_server, http_response) state"

definition k8s_call :: "('w \<Rightarrow> 'r \<times> 'w) \<Rightarrow> ('w mock_server, 'r) state" where
  "k8s_call f = State (\<lambda>s. case f (k8s_world s) of (r, w) \<Rightarrow> (r, s\<lparr>k8s_world := w\<rparr>))"

lemma run_k8s_call [simp, run_rules]:
  "run_state (k8s_call f) s = (case f (k8s_world s) of (r, w) \<Rightarrow> (r, s\<lparr>k8s_world := w\<rparr>))"
  by (simp add: k8s_call_def)

definition no_client :: http_response where
  "no_client = HttpError ''Kubernetes client not initialized'' 500"

section \<open>The fabric\<close>

text \<open>The provider ID without its prefix.\<close>

definition strip_provider :: "string \<Rightarrow> string" where
  "strip_provider providerID =
     (case Index providerID ''://'' of None \<Rightarrow> providerID | Some idx \<Rightarrow> drop (idx + 3) providerID)"

fun vm_results :: "node list \<Rightarrow> (string \<times> string list) list \<Rightarrow> (string \<times> string list) list" where
  "vm_results [] results = results"
| "vm_results (nd # nodes) results =
     (if n_providerID nd = [] then vm_results nodes results
      else vm_results nodes
        (results @ [(''vm-'' @ n_name nd, [''biosUuid:'' @ strip_provider (n_providerID nd)])]))"

definition handleVirtualMachines :: "('w, 'b) mock_env \<Rightarrow> 'b http_request \<Rightarrow> 'w mock_handler" where
  "handleVirtualMachines M r =
     (case k8sClient M of
        None \<Rightarrow> ret no_client
      | Some K \<Rightarrow> do {
          nodes \<leftarrow> k8s_call (list_nodes K);
          ret (case nodes of
                 Inl err \<Rightarrow> HttpError (err_text err) 500
               | Inr nodes \<Rightarrow> HttpJson (VMResponse (vm_results nodes [])))
        })"

definition handleVifs :: "('w, 'b) mock_env \<Rightarrow> 'b http_request \<Rightarrow> 'w mock_handler" where
  "handleVifs M r =
     (let ownerVmID = hr_Query r ''owner_vm_id'';
          ownerVmID = (if ownerVmID = [] then hr_Query r ''ownerVmId'' else ownerVmID)
      in if ownerVmID = [] then ret (HttpError ''Missing owner_vm_id query parameter'' 400)
         else (let nodeName = TrimPrefix ownerVmID ''vm-''
               in ret (HttpJson (VIFResponse [''attachment-'' @ nodeName]))))"

section \<open>The search\<close>

definition delimiters :: "char list" where
  "delimiters = [CHR '' '', CHR 0x22, CHR 0x27, CHR 0x0A, CHR 0x0D, CHR 0x09, CHR ''}'']"

definition attachment_of_query :: "string \<Rightarrow> string" where
  "attachment_of_query queryStr =
     (case Index queryStr ''attachment.id:'' of
        None \<Rightarrow> []
      | Some idx \<Rightarrow>
          (let sub = drop (idx + 14) queryStr
           in case IndexAny sub delimiters of Some endIdx \<Rightarrow> take endIdx sub | None \<Rightarrow> sub))"

definition new_port :: "string \<Rightarrow> mock_port" where
  "new_port portID =
     \<lparr>mp_ID = portID, mp_ParentPath = ''/infra/segments/mock-segment'',
      mp_Path = ''/infra/segments/mock-segment/ports/'' @ portID, mp_Tags = []\<rparr>"

definition handleSearchQuery :: "('w, 'b) mock_env \<Rightarrow> 'b http_request \<Rightarrow> 'w mock_handler" where
  "handleSearchQuery M r =
     (let queryStr = (if hr_Method r = ''POST''
            then (case read_body M (hr_Body r) of Inl err \<Rightarrow> [] | Inr body \<Rightarrow> body)
            else hr_Query r ''query'');
          attachmentID = attachment_of_query queryStr
      in if attachmentID = []
         then ret (HttpError ''Could not parse attachment.id from search query'' 400)
         else (let portID = ''port-'' @ TrimPrefix attachmentID ''attachment-'' in do {
           ports \<leftarrow> gets segmentPorts;
           case ports portID of
             Some port \<Rightarrow> ret (HttpJson (SearchResponse [port]))
           | None \<Rightarrow> do {
               modify (\<lambda>s. s\<lparr>segmentPorts := (segmentPorts s)(portID \<mapsto> new_port portID)\<rparr>);
               ret (HttpJson (SearchResponse [new_port portID]))
             }
         }))"

section \<open>Segment ports\<close>

fun node_ips :: "(string \<times> string) list \<Rightarrow> string list \<Rightarrow> string list" where
  "node_ips [] nodeIPs = nodeIPs"
| "node_ips ((type, address) # addrs) nodeIPs =
     (if type \<noteq> ''Hostname'' then node_ips addrs (nodeIPs @ [address]) else node_ips addrs nodeIPs)"

definition handleGetPortState ::
  "('w, 'b) mock_env \<Rightarrow> 'b http_request \<Rightarrow> string \<Rightarrow> 'w mock_handler" where
  "handleGetPortState M r portID =
     (case k8sClient M of
        None \<Rightarrow> ret no_client
      | Some K \<Rightarrow> do {
          nd \<leftarrow> k8s_call (get_node K (TrimPrefix portID ''port-''));
          ret (case nd of
                 Inl err \<Rightarrow> HttpError (err_text err) 404
               | Inr nd \<Rightarrow> HttpJson (PortStateResponse (node_ips (n_addresses nd) [])))
        })"

definition handlePutPort ::
  "('w, 'b) mock_env \<Rightarrow> 'b http_request \<Rightarrow> string \<Rightarrow> 'w mock_handler" where
  "handlePutPort M r portID =
     (case decode_port M (hr_Body r) of
        Inl err \<Rightarrow> ret (HttpError ''Failed to decode request body'' 400)
      | Inr port \<Rightarrow> do {
          modify (\<lambda>s. s\<lparr>segmentPorts := (segmentPorts s)(portID \<mapsto> port)\<rparr>);
          ret (HttpJson (PortResponse port))
        })"

definition handleSegmentPorts :: "('w, 'b) mock_env \<Rightarrow> 'b http_request \<Rightarrow> 'w mock_handler" where
  "handleSegmentPorts M r =
     (let path = hr_Path r; parts = Split path ''/'' in
      if length parts < 9 then ret (HttpError ''Invalid path'' 404)
      else (let portID = parts ! 8 in
        if HasSuffix path ''/state'' then handleGetPortState M r portID
        else if hr_Method r = ''PUT'' then handlePutPort M r portID
        else ret (HttpError ''Method not allowed'' 405)))"

section \<open>Debugging\<close>

definition handleDebugTaggedPorts :: "('w, 'b) mock_env \<Rightarrow> 'b http_request \<Rightarrow> 'w mock_handler" where
  "handleDebugTaggedPorts M r = do {
     ports \<leftarrow> gets segmentPorts;
     ret (HttpJson (StoreResponse ports))
   }"

definition handleDebugDeleteTags :: "('w, 'b) mock_env \<Rightarrow> 'b http_request \<Rightarrow> 'w mock_handler" where
  "handleDebugDeleteTags M r =
     (let parts = Split (hr_Path r) ''/'' in
      if length parts < 5 \<or> parts ! 4 \<noteq> ''tags'' then ret (HttpError ''Invalid debug path'' 400)
      else (let portID = ''port-'' @ parts ! 3 in do {
        ports \<leftarrow> gets segmentPorts;
        case ports portID of
          Some port \<Rightarrow> do {
            modify (\<lambda>s. s\<lparr>segmentPorts := (segmentPorts s)(portID \<mapsto> port\<lparr>mp_Tags := []\<rparr>)\<rparr>);
            ret (HttpStatus 204)
          }
        | None \<Rightarrow> ret (HttpError ''Port not found'' 404)
      }))"

section \<open>The multiplexer\<close>

text \<open>The patterns that \<open>main\<close> registers; one that ends in a slash matches a prefix.\<close>

definition mock_mux :: "('w, 'b) mock_env \<Rightarrow> 'b http_request \<Rightarrow> 'w mock_handler" where
  "mock_mux M r =
     (if hr_Path r = ''/api/v1/fabric/virtual-machines'' then handleVirtualMachines M r
      else if hr_Path r = ''/api/v1/fabric/vifs'' then handleVifs M r
      else if hr_Path r = ''/policy/api/v1/search/query'' then handleSearchQuery M r
      else if prefix ''/policy/api/v1/infra/segments/'' (hr_Path r) then handleSegmentPorts M r
      else if hr_Path r = ''/debug/tagged-ports'' then handleDebugTaggedPorts M r
      else if prefix ''/debug/tagged-ports/'' (hr_Path r) then handleDebugDeleteTags M r
      else ret (HttpError ''404 page not found'' 404))"

end
