(* ===== verification/Mock_Cluster.thy ===== *)
theory Mock_Cluster
  imports Node_Ports Nsx_Mock Mem_Cluster
begin

text \<open>
  A cluster in memory whose NSX manager is the mock service: the NSX client libraries send
  the requests of the node controller to \<open>mock_mux\<close> and read its responses. A request body is
  the port itself. The provider meets the interface \<open>nsx_server\<close> for every inventory of nodes
  with proper names.
\<close>

record mock_cluster = mem_cluster +
  c_ports :: "string \<rightharpoonup> mock_port"

section \<open>The client libraries\<close>

text \<open>Absent strings are left out of the JSON document and decoded as empty.\<close>

definition mock_port_of :: "segment_port \<Rightarrow> mock_port" where
  "mock_port_of p = (let txt = (\<lambda>x. case x of None \<Rightarrow> [] | Some s \<Rightarrow> s) in
     \<lparr>mp_ID = txt (port_Id p), mp_ParentPath = txt (port_ParentPath p), mp_Path = txt (port_Path p),
      mp_Tags = port_Tags p\<rparr>)"

definition sdk_port :: "mock_port \<Rightarrow> segment_port" where
  "sdk_port p = \<lparr>port_Id = Some (mp_ID p), port_ParentPath = Some (mp_ParentPath p),
     port_Path = Some (mp_Path p), port_Tags = mp_Tags p, port_other = []\<rparr>"

definition mock_request ::
  "string \<Rightarrow> string \<Rightarrow> (string \<times> string) list \<Rightarrow> segment_port option \<Rightarrow> segment_port option http_request"
where
  "mock_request method path query body =
     \<lparr>hr_Method = method, hr_Path = path,
      hr_Query = (\<lambda>k. case map_of query k of None \<Rightarrow> [] | Some v \<Rightarrow> v), hr_Body = body\<rparr>"

definition mock_env_of :: "'w status_api \<Rightarrow> ('w, segment_port option) mock_env" where
  "mock_env_of K = \<lparr>k8sClient = Some K, read_body = (\<lambda>b. Inr []),
     decode_port = (\<lambda>b. case b of None \<Rightarrow> Inl (GoError ''EOF'') | Some p \<Rightarrow> Inr (mock_port_of p))\<rparr>"

definition send ::
  "mock_cluster status_api \<Rightarrow> segment_port option http_request \<Rightarrow> mock_cluster
   \<Rightarrow> (go_error + mock_json) \<times> mock_cluster" where
  "send K r w =
     (case run_state (mock_mux (mock_env_of K) r) \<lparr>segmentPorts = c_ports w, k8s_world = w\<rparr> of
        (resp, s) \<Rightarrow>
          (case resp of
             HttpJson j \<Rightarrow> Inr j
           | HttpError msg code \<Rightarrow> Inl (GoError (Itoa code @ '': '' @ msg))
           | HttpStatus code \<Rightarrow> Inl (GoError (Itoa code)),
           (k8s_world s)\<lparr>c_ports := segmentPorts s\<rparr>))"

definition wrong_answer :: go_error where
  "wrong_answer = GoError ''unexpected response''"

definition mock_list_vms ::
  "mock_cluster status_api \<Rightarrow> nsxt_config \<Rightarrow> string option \<Rightarrow> mock_cluster
   \<Rightarrow> (go_error + vm_page) \<times> mock_cluster" where
  "mock_list_vms K cfg cursor w =
     (case send K (mock_request ''GET'' ''/api/v1/fabric/virtual-machines''
             (case cursor of None \<Rightarrow> [] | Some c \<Rightarrow> [(''cursor'', c)]) None) w of
        (Inr (VMResponse rs), w) \<Rightarrow>
          (Inr \<lparr>vms_Results = map (\<lambda>(ext, ids). \<lparr>vm_ComputeIds = ids, vm_ExternalId = ext\<rparr>) rs,
                vms_Cursor = []\<rparr>, w)
      | (Inl e, w) \<Rightarrow> (Inl e, w)
      | (_, w) \<Rightarrow> (Inl wrong_answer, w))"

definition mock_list_vifs ::
  "mock_cluster status_api \<Rightarrow> nsxt_config \<Rightarrow> string \<Rightarrow> mock_cluster
   \<Rightarrow> (go_error + string list) \<times> mock_cluster" where
  "mock_list_vifs K cfg vm w =
     (case send K (mock_request ''GET'' ''/api/v1/fabric/vifs'' [(''owner_vm_id'', vm)] None) w of
        (Inr (VIFResponse vs), w) \<Rightarrow> (Inr vs, w)
      | (Inl e, w) \<Rightarrow> (Inl e, w)
      | (_, w) \<Rightarrow> (Inl wrong_answer, w))"

definition mock_search ::
  "mock_cluster status_api \<Rightarrow> connector \<Rightarrow> string \<Rightarrow> mock_cluster
   \<Rightarrow> (go_error + mock_port list) \<times> mock_cluster" where
  "mock_search K con q w =
     (case send K (mock_request ''GET'' ''/policy/api/v1/search/query'' [(''query'', q)] None) w of
        (Inr (SearchResponse ps), w) \<Rightarrow> (Inr ps, w)
      | (Inl e, w) \<Rightarrow> (Inl e, w)
      | (_, w) \<Rightarrow> (Inl wrong_answer, w))"

definition port_path :: "string \<Rightarrow> string \<Rightarrow> string" where
  "port_path seg port = ''/policy/api/v1/infra/segments/'' @ seg @ ''/ports/'' @ port"

definition mock_port_state ::
  "mock_cluster status_api \<Rightarrow> connector \<Rightarrow> string \<Rightarrow> string \<Rightarrow> mock_cluster
   \<Rightarrow> (go_error + string option option list) \<times> mock_cluster" where
  "mock_port_state K con seg port w =
     (case send K (mock_request ''GET'' (port_path seg port @ ''/state'') [] None) w of
        (Inr (PortStateResponse ips), w) \<Rightarrow> (Inr (map (\<lambda>ip. Some (Some ip)) ips), w)
      | (Inl e, w) \<Rightarrow> (Inl e, w)
      | (_, w) \<Rightarrow> (Inl wrong_answer, w))"

definition mock_update_port ::
  "mock_cluster status_api \<Rightarrow> connector \<Rightarrow> string \<Rightarrow> string \<Rightarrow> segment_port \<Rightarrow> mock_cluster
   \<Rightarrow> go_error option \<times> mock_cluster" where
  "mock_update_port K con seg port p w =
     (case send K (mock_request ''PUT'' (port_path seg port) [] (Some p)) w of
        (Inr (PortResponse _), w) \<Rightarrow> (None, w)
      | (Inl e, w) \<Rightarrow> (Some e, w)
      | (_, w) \<Rightarrow> (Some wrong_answer, w))"

definition mock_nsx ::
  "(string \<Rightarrow> string) \<Rightarrow> (string \<Rightarrow> (go_error + unstructured) list)
   \<Rightarrow> (pod_state \<Rightarrow> go_error + string) \<Rightarrow> (string \<Rightarrow> go_error + pod_state)
   \<Rightarrow> (mock_cluster, mock_port, segment_port) nsx_api" where
  "mock_nsx env docs mar unmar =
     (let K = mem_api mar unmar in
      \<lparr>nc = mem_cluster_api env docs mar unmar,
       list_vms = mock_list_vms K, list_vifs = mock_list_vifs K, search_ports = mock_search K,
       convert_port = (\<lambda>d. (sdk_port d, [])), as_port = Some, not_port = (\<lambda>x. []),
       port_state = mock_port_state K, update_port = mock_update_port K,
       load_key_pair = (\<lambda>cert key. reading (\<lambda>w. found ''file'' (c_files w cert))),
       write_file = (\<lambda>f bytes. writing (\<lambda>w. (None, w\<lparr>c_files := (c_files w)(f \<mapsto> bytes)\<rparr>))),
       new_api_client = (\<lambda>cfg w. (None, w)), fmt_pointer = (\<lambda>x. ''0xc000010000'')\<rparr>)"

section \<open>What the calls leave alone\<close>

text \<open>The names and provider IDs of the nodes, and the ports of the mock.\<close>

definition fabric :: "mock_cluster \<Rightarrow> (string \<times> string) list \<times> (string \<rightharpoonup> mock_port)" where
  "fabric w = (map (\<lambda>nd. (n_name nd, n_providerID nd)) (m_nodes w), c_ports w)"

lemma fabric_faultless: "faultless fabric"
  by (auto simp: faultless_def next_fault_def fabric_def split: list.splits)

lemma update_first_names:
  "map (\<lambda>nd. (n_name nd, n_providerID nd)) (update_first P (\<lambda>nd. nd\<lparr>n_conditions := c\<rparr>) nds) =
   map (\<lambda>nd. (n_name nd, n_providerID nd)) nds"
  by (induction nds) auto

lemma fabric_mem_writes:
  "fabric (snd (mem_update_co c w)) = fabric w" "fabric (snd (mem_create_co c w)) = fabric w"
  "fabric (snd (mem_patch_co c d w)) = fabric w" "fabric (snd (mem_update_ni n w)) = fabric w"
  "fabric (snd (mem_update_node nd w)) = fabric w" "fabric (snd (mem_clock w)) = fabric w"
  by (auto simp: mem_update_co_def mem_create_co_def mem_patch_co_def mem_update_ni_def
      mem_update_node_def mem_clock_def Let_def fabric_def update_first_names split: option.splits)

interpretation mock_fabric: quiet_calls "mem_cluster_api env docs mar unmar" fabric
  for env docs mar unmar
  by (rule mem_quiet_calls, rule fabric_faultless, (rule fabric_mem_writes)+, simp add: fabric_def)

section \<open>Names and paths\<close>

lemma Index_none: "c \<notin> set s \<Longrightarrow> Index s [c] = None"
  by (induction s) auto

lemma Index_first: "c \<notin> set a \<Longrightarrow> Index (a @ c # b) [c] = Some (length a)"
  by (induction a) auto

lemma Split_last_part: "c \<notin> set s \<Longrightarrow> Split s [c] = [s]"
  by (subst Split.simps) (simp add: Index_none)

lemma Split_part: "c \<notin> set a \<Longrightarrow> Split (a @ c # b) [c] = a # Split b [c]"
  by (subst Split.simps) (simp add: Index_first)

lemma takeWhile_until: "c \<notin> set a \<Longrightarrow> takeWhile (\<lambda>d. d \<noteq> c) (a @ c # b) = a"
  by (induction a) auto

lemma suffix_part:
  assumes "suffix (c # a) (x @ c # b)" and "c \<notin> set a" and "c \<notin> set b"
  shows "a = b"
proof -
  from assms(1) obtain y where "x @ c # b = y @ c # a" by (auto simp: suffix_def)
  then have "takeWhile (\<lambda>d. d \<noteq> c) (rev (x @ c # b)) = takeWhile (\<lambda>d. d \<noteq> c) (rev (y @ c # a))"
    by simp
  moreover have "takeWhile (\<lambda>d. d \<noteq> c) (rev (x @ c # b)) = rev b"
    if "c \<notin> set b" for x b using that takeWhile_until [of c "rev b"] by simp
  ultimately show ?thesis using assms(2,3) by simp
qed

definition mock_segment :: string where "mock_segment = ''mock-segment''"

lemma port_path_parts:
  assumes "CHR ''/'' \<notin> set pid"
  shows "Split (port_path mock_segment pid) ''/'' =
    [[], ''policy'', ''api'', ''v1'', ''infra'', ''segments'', mock_segment, ''ports'', pid]"
proof -
  have path: "port_path mock_segment pid = [] @ CHR ''/'' # ''policy'' @ CHR ''/'' # ''api'' @ CHR ''/'' #
      ''v1'' @ CHR ''/'' # ''infra'' @ CHR ''/'' # ''segments'' @ CHR ''/'' # mock_segment
      @ CHR ''/'' # ''ports'' @ CHR ''/'' # pid"
    by (simp add: port_path_def mock_segment_def)
  have seg: "CHR ''/'' \<notin> set mock_segment" by (simp add: mock_segment_def)
  show ?thesis
    unfolding path by (subst Split_part, simp add: seg)+ (simp add: Split_last_part assms)
qed

lemma port_path_no_state:
  assumes "CHR ''/'' \<notin> set pid" and "prefix ''port-'' pid"
  shows "\<not> HasSuffix (port_path seg pid) ''/state''"
proof
  assume "HasSuffix (port_path seg pid) ''/state''"
  then have "suffix (CHR ''/'' # ''state'') ((''/policy/api/v1/infra/segments/'' @ seg @ ''/ports'') @ CHR ''/'' # pid)"
    by (simp add: HasSuffix_def port_path_def)
  from suffix_part [OF this] assms show False by (auto simp: prefix_def)
qed

lemma parent_segment: "ExtractSegmentIdFromPath ''/infra/segments/mock-segment'' = Inr mock_segment"
  by code_simp

text \<open>Names without a separator of paths or of the search language.\<close>

definition mock_name :: "string \<Rightarrow> bool" where
  "mock_name n \<longleftrightarrow> CHR ''/'' \<notin> set n \<and> set n \<inter> set delimiters = {}"

lemma IndexAny_none: "set s \<inter> set cs = {} \<Longrightarrow> IndexAny s cs = None"
  by (induction s cs rule: IndexAny.induct) auto

lemma attachment_found:
  assumes "mock_name n"
  shows "attachment_of_query (''resource_type:SegmentPort AND attachment.id:'' @ ''attachment-'' @ n)
    = ''attachment-'' @ n"
proof -
  have "Index (''resource_type:SegmentPort AND attachment.id:'' @ x) ''attachment.id:'' = Some 30" for x
    by (simp add: eval_nat_numeral)
  moreover have "IndexAny (''attachment-'' @ n) delimiters = None"
    using assms by (intro IndexAny_none) (auto simp: mock_name_def delimiters_def)
  ultimately show ?thesis by (simp add: attachment_of_query_def Let_def)
qed

section \<open>The store of the mock\<close>

definition store_ok :: "(string \<rightharpoonup> mock_port) \<Rightarrow> bool" where
  "store_ok ports \<longleftrightarrow> (\<forall>pid p. ports pid = Some p \<longrightarrow>
     mp_ID p = pid \<and> mp_ParentPath p = ''/infra/segments/mock-segment'')"

text \<open>Every port that a search can find, whether or not one has found it yet.\<close>

definition visible :: "(string \<rightharpoonup> mock_port) \<Rightarrow> string \<rightharpoonup> segment_port" where
  "visible ports pid =
     (if prefix ''port-'' pid \<and> CHR ''/'' \<notin> set pid
      then Some (sdk_port (case ports pid of None \<Rightarrow> new_port pid | Some p \<Rightarrow> p)) else None)"

definition mock_view :: "(string \<times> string) list \<Rightarrow> mock_cluster \<Rightarrow> (string \<rightharpoonup> segment_port) option" where
  "mock_view nodes w =
     (if (\<forall>x \<in> set nodes. mock_name (fst x)) \<and> fst (fabric w) = nodes \<and> store_ok (snd (fabric w))
      then Some (visible (snd (fabric w))) else None)"

lemma mock_view_fabric: "fabric w' = fabric w \<Longrightarrow> mock_view nodes w' = mock_view nodes w"
  by (simp add: mock_view_def)

lemma mock_view_SomeD:
  assumes "mock_view nodes w = Some m"
  shows "m = visible (c_ports w)" "store_ok (c_ports w)"
    "map (\<lambda>nd. (n_name nd, n_providerID nd)) (m_nodes w) = nodes" "(n, p) \<in> set nodes \<Longrightarrow> mock_name n"
  using assms by (auto simp: mock_view_def fabric_def split: if_splits)

lemma new_port_sel [simp]:
  "mp_ID (new_port pid) = pid" "mp_ParentPath (new_port pid) = ''/infra/segments/mock-segment''"
  by (simp_all add: new_port_def)

lemma all_new:
  assumes "m k = None" and "R k x"
  shows "(\<forall>k' y. (m(k \<mapsto> x)) k' = Some y \<longrightarrow> R k' y) \<longleftrightarrow> (\<forall>k' y. m k' = Some y \<longrightarrow> R k' y)"
  using assms by (metis fun_upd_apply option.distinct(1) option.inject)

lemma store_new: "ports pid = None \<Longrightarrow> store_ok (ports(pid \<mapsto> new_port pid)) = store_ok ports"
  unfolding store_ok_def by (rule all_new) simp_all

lemma visible_new: "ports pid = None \<Longrightarrow> visible (ports(pid \<mapsto> new_port pid)) = visible ports"
  by (auto simp: visible_def fun_eq_iff)

text \<open>Requests that change nothing of the fabric.\<close>

definition listing :: "mock_cluster status_api \<Rightarrow> bool" where
  "listing K \<longleftrightarrow> (\<forall>w. fabric (snd (list_nodes K w)) = fabric w) \<and> (\<forall>n w. fabric (snd (get_node K n w)) = fabric w)"

lemma fabric_ports [simp]: "fabric (w\<lparr>c_ports := x\<rparr>) = (fst (fabric w), x)"
  by (simp add: fabric_def)

lemma fabric_restore: "fabric w1 = fabric w \<Longrightarrow> fabric (w1\<lparr>c_ports := c_ports w\<rparr>) = fabric w"
  by (auto simp: fabric_def)

abbreviation server_view :: "mock_cluster mock_server \<Rightarrow> _" where
  "server_view s \<equiv> (segmentPorts s, fabric (k8s_world s))"

lemma keeps_k8s_call:
  "(\<And>w. fabric (snd (f w)) = fabric w) \<Longrightarrow> keeps server_view (k8s_call f)"
  by (auto simp: keeps_def split: prod.splits) (metis snd_conv)

lemma keeps_reading_handlers:
  assumes K: "listing K"
  shows "keeps server_view (handleVirtualMachines (mock_env_of K) r)"
    "keeps server_view (handleVifs (mock_env_of K) r)"
    "keeps server_view (handleGetPortState (mock_env_of K) r pid)"
    "hr_Method r \<noteq> ''PUT'' \<Longrightarrow> keeps server_view (handleSegmentPorts (mock_env_of K) r)"
    "keeps server_view (handleDebugTaggedPorts (mock_env_of K) r)"
proof -
  show vms: "keeps server_view (handleVirtualMachines (mock_env_of K) r)"
    and "keeps server_view (handleVifs (mock_env_of K) r)"
    and "keeps server_view (handleDebugTaggedPorts (mock_env_of K) r)"
    unfolding handleVirtualMachines_def handleVifs_def handleDebugTaggedPorts_def Let_def
    by (intro keeps_rules keeps_k8s_call; use K in \<open>auto simp: listing_def mock_env_of_def\<close>)+
  show st: "keeps server_view (handleGetPortState (mock_env_of K) r pid)" for pid
    unfolding handleGetPortState_def
    by (intro keeps_rules keeps_k8s_call; use K in \<open>auto simp: listing_def mock_env_of_def\<close>)
  show "hr_Method r \<noteq> ''PUT'' \<Longrightarrow> keeps server_view (handleSegmentPorts (mock_env_of K) r)"
    unfolding handleSegmentPorts_def Let_def by (intro keeps_rules st) simp
qed

lemma send_get:
  assumes K: "listing K" and path: "path \<noteq> ''/policy/api/v1/search/query''"
      "\<not> prefix ''/debug/'' path"
  shows "fabric (snd (send K (mock_request ''GET'' path q b) w)) = fabric w"
proof -
  let ?s = "\<lparr>segmentPorts = c_ports w, k8s_world = w\<rparr>"
  let ?r = "mock_request ''GET'' path q b"
  have sel: "hr_Path ?r = path" "hr_Method ?r = ''GET''" by (simp_all add: mock_request_def)
  have debug: "path \<noteq> ''/debug/tagged-ports''" "\<not> prefix ''/debug/tagged-ports/'' path"
    using path(2) by (auto simp: prefix_def)
  have "keeps server_view (mock_mux (mock_env_of K) ?r)"
    unfolding mock_mux_def sel
    by (intro keeps_rules keeps_reading_handlers K) (simp_all add: sel path debug)
  from keeps_run [OF this, of ?s] show ?thesis
    by (auto simp: send_def fabric_def split: prod.splits)
qed

lemma mock_search_run:
  "mock_search K con q w =
     (let a = attachment_of_query q; pid = ''port-'' @ TrimPrefix a ''attachment-'' in
      if a = [] then (Inl (GoError (Itoa 400 @ '': Could not parse attachment.id from search query'')), w)
      else case c_ports w pid of
             Some p \<Rightarrow> (Inr [p], w)
           | None \<Rightarrow> (Inr [new_port pid], w\<lparr>c_ports := (c_ports w)(pid \<mapsto> new_port pid)\<rparr>))"
  by (simp add: mock_search_def send_def mock_mux_def mock_request_def handleSearchQuery_def Let_def
      split: option.splits)

lemma mock_search_view: "mock_view nodes (snd (mock_search K con q w)) = mock_view nodes w"
  by (auto simp: mock_search_run Let_def mock_view_def store_new visible_new fabric_def split: option.splits)

lemma mock_search_found:
  assumes "mock_search K con q w = (Inr ps, w')" and "mock_view nodes w = Some m" and "mock_name n"
    and "p \<in> set ps" and query: "attachment_of_query q = ''attachment-'' @ n"
  shows "mp_ID p = ''port-'' @ n \<and> m (''port-'' @ n) = Some (sdk_port p)"
proof -
  have "TrimPrefix (''attachment-'' @ n) ''attachment-'' = n" by (simp add: TrimPrefix_def)
  with assms(1,4) query have "p = (case c_ports w (''port-'' @ n) of None \<Rightarrow> new_port (''port-'' @ n) | Some p \<Rightarrow> p)"
    by (auto simp: mock_search_run Let_def split: option.splits)
  moreover have "CHR ''/'' \<notin> set n" using assms(3) by (simp add: mock_name_def)
  moreover have "mp_ID p = ''port-'' @ n" if "c_ports w (''port-'' @ n) = Some p"
    using mock_view_SomeD(2) [OF assms(2)] that by (auto simp: store_ok_def)
  ultimately show ?thesis
    using mock_view_SomeD(1) [OF assms(2)] by (auto simp: visible_def split: option.splits)
qed

lemma mock_update_run:
  assumes "CHR ''/'' \<notin> set pid" and "prefix ''port-'' pid"
  shows "mock_update_port K con mock_segment pid p w =
    (None, w\<lparr>c_ports := (c_ports w)(pid \<mapsto> mock_port_of p)\<rparr>)"
proof -
  have path: "port_path mock_segment pid \<noteq> ''/api/v1/fabric/virtual-machines''"
    "port_path mock_segment pid \<noteq> ''/api/v1/fabric/vifs''"
    "port_path mock_segment pid \<noteq> ''/policy/api/v1/search/query''"
    "prefix ''/policy/api/v1/infra/segments/'' (port_path mock_segment pid)"
    by (simp_all add: port_path_def)
  show ?thesis
    using port_path_no_state [OF assms, of mock_segment] path
    by (simp add: mock_update_port_def send_def mock_mux_def mock_request_def handleSegmentPorts_def
        Let_def port_path_parts [OF assms(1)] handlePutPort_def mock_env_of_def)
qed

lemma mock_update_view:
  assumes run: "mock_update_port K con seg pid p w = (e, w')" and v: "mock_view nodes w = Some m"
    and q: "m pid = Some q" "p = q\<lparr>port_Tags := port_Tags p\<rparr>" "port_ParentPath q = Some pp"
      "ExtractSegmentIdFromPath pp = Inr seg"
  shows "mock_view nodes w' = Some (m(pid \<mapsto> p))"
proof -
  note view = mock_view_SomeD [OF v]
  from q(1) view(1) obtain mq where pid: "prefix ''port-'' pid" "CHR ''/'' \<notin> set pid"
    and q': "q = sdk_port mq" and mq: "mq = (case c_ports w pid of None \<Rightarrow> new_port pid | Some p \<Rightarrow> p)"
    by (auto simp: visible_def split: if_splits)
  have path: "mp_ID mq = pid" "mp_ParentPath mq = ''/infra/segments/mock-segment''"
    using view(2) by (auto simp: mq store_ok_def split: option.splits)
  from q(2) obtain T where T: "p = (sdk_port mq)\<lparr>port_Tags := T\<rparr>" unfolding q' by blast
  with q(3,4) q' path(2) have seg: "seg = mock_segment" using parent_segment by (simp add: sdk_port_def)
  have p: "sdk_port (mock_port_of p) = p" "mp_ID (mock_port_of p) = pid"
    "mp_ParentPath (mock_port_of p) = ''/infra/segments/mock-segment''"
    using path by (simp_all add: T sdk_port_def mock_port_of_def)
  have w': "w' = w\<lparr>c_ports := (c_ports w)(pid \<mapsto> mock_port_of p)\<rparr>"
    using run mock_update_run [OF pid(2,1)] by (simp add: seg)
  have "store_ok ((c_ports w)(pid \<mapsto> mock_port_of p))" using view(2) p by (auto simp: store_ok_def)
  moreover have "visible ((c_ports w)(pid \<mapsto> mock_port_of p)) = m(pid \<mapsto> p)"
    using p(1) pid by (auto simp: view(1) visible_def fun_eq_iff)
  ultimately show ?thesis using v by (auto simp: mock_view_def w' fabric_def split: if_splits)
qed

definition vm_result :: "node \<Rightarrow> string \<times> string list" where
  "vm_result nd = (''vm-'' @ n_name nd, [''biosUuid:'' @ strip_provider (n_providerID nd)])"

lemma vm_results_eq:
  "vm_results nds acc = acc @ map vm_result (filter (\<lambda>nd. n_providerID nd \<noteq> []) nds)"
  by (induction nds arbitrary: acc) (simp_all add: vm_result_def)

text \<open>The nodes with a BIOS identifier, and what the mock derives from their names.\<close>

definition mock_node :: "(string \<times> string) list \<Rightarrow> string \<Rightarrow> string \<Rightarrow> bool" where
  "mock_node nodes n u \<longleftrightarrow> (n, vspherePrefix @ u) \<in> set nodes"

definition mock_named :: "(string \<times> string) list \<Rightarrow> string \<Rightarrow> string \<Rightarrow> string \<Rightarrow> bool" where
  "mock_named nodes pre u x \<longleftrightarrow> (\<exists>n p. (n, p) \<in> set nodes \<and> p \<noteq> [] \<and> strip_provider p = u \<and> x = pre @ n)"

lemma mock_list_vms_run:
  "mock_list_vms K cfg cur w =
     (case list_nodes K w of
        (Inl e, w1) \<Rightarrow> (Inl (GoError (Itoa 500 @ '': '' @ err_text e)), w1\<lparr>c_ports := c_ports w\<rparr>)
      | (Inr nds, w1) \<Rightarrow>
          (Inr \<lparr>vms_Results = map (\<lambda>(ext, ids). \<lparr>vm_ComputeIds = ids, vm_ExternalId = ext\<rparr>) (vm_results nds []),
                vms_Cursor = []\<rparr>, w1\<lparr>c_ports := c_ports w\<rparr>))"
  by (simp add: mock_list_vms_def send_def mock_mux_def mock_request_def mock_env_of_def
      handleVirtualMachines_def Let_def split: prod.splits sum.splits)

lemma mock_list_vifs_run:
  "ext \<noteq> [] \<Longrightarrow> mock_list_vifs K cfg ext w = (Inr [''attachment-'' @ TrimPrefix ext ''vm-''], w)"
  by (simp add: mock_list_vifs_def send_def mock_mux_def mock_request_def mock_env_of_def
      handleVifs_def Let_def)

lemma mem_list_nodes:
  "list_nodes (mem_api mar unmar) w = (Inr nds, w') \<Longrightarrow> nds = m_nodes w"
  by (auto simp: mem_api_def reading_def next_fault_def split: prod.splits option.splits list.splits)

lemma mem_get_node:
  "get_node (mem_api mar unmar) n w = (Inr nd, w') \<Longrightarrow> nd \<in> set (m_nodes w) \<and> n_name nd = n"
  by (auto simp: mem_api_def reading_def next_fault_def found_def find_Some_iff
      split: prod.splits option.splits list.splits)

lemma mock_nsx_sel [simp]:
  "nc (mock_nsx env docs mar unmar) = mem_cluster_api env docs mar unmar"
  "list_vms (mock_nsx env docs mar unmar) = mock_list_vms (mem_api mar unmar)"
  "list_vifs (mock_nsx env docs mar unmar) = mock_list_vifs (mem_api mar unmar)"
  "search_ports (mock_nsx env docs mar unmar) = mock_search (mem_api mar unmar)"
  "convert_port (mock_nsx env docs mar unmar) = (\<lambda>d. (sdk_port d, []))"
  "as_port (mock_nsx env docs mar unmar) = Some"
  "port_state (mock_nsx env docs mar unmar) = mock_port_state (mem_api mar unmar)"
  "update_port (mock_nsx env docs mar unmar) = mock_update_port (mem_api mar unmar)"
  "load_key_pair (mock_nsx env docs mar unmar) =
     (\<lambda>cert key. reading (\<lambda>w. found ''file'' (c_files w cert)))"
  "write_file (mock_nsx env docs mar unmar) =
     (\<lambda>f bytes. writing (\<lambda>w. (None, w\<lparr>c_files := (c_files w)(f \<mapsto> bytes)\<rparr>)))"
  "new_api_client (mock_nsx env docs mar unmar) = (\<lambda>cfg w. (None, w))"
  by (simp_all add: mock_nsx_def Let_def)

section \<open>It meets the interface\<close>

interpretation mock: node_reports "mock_nsx env docs mar unmar" for env docs mar unmar
  by unfold_locales (simp add: mem_api_def)

lemma mock_view_faultless: "faultless (mock_view nodes)"
  using fabric_faultless unfolding faultless_def by (blast intro: mock_view_fabric)

lemma mock_quiet: "quiet_calls (mem_cluster_api env docs mar unmar) (mock_view nodes)"
  by (rule mem_quiet_calls, rule mock_view_faultless, (rule mock_view_fabric, rule fabric_mem_writes)+,
      rule mock_view_fabric, simp add: fabric_def)

lemma listing_mem: "listing (mem_api mar unmar)"
  using mock_fabric.q_list_nodes [of "\<lambda>x. []" "\<lambda>x. []" mar unmar]
    mock_fabric.q_get_node [of "\<lambda>x. []" "\<lambda>x. []" mar unmar]
  by (simp add: listing_def)

lemma mock_sends_view:
  "mock_view nodes (snd (mock_list_vms (mem_api mar unmar) cfg cur w)) = mock_view nodes w"
  "mock_view nodes (snd (mock_list_vifs (mem_api mar unmar) cfg ext w)) = mock_view nodes w"
  "mock_view nodes (snd (mock_port_state (mem_api mar unmar) con seg port w)) = mock_view nodes w"
proof -
  have get: "mock_view nodes w' = mock_view nodes w"
    if "send (mem_api mar unmar) (mock_request ''GET'' path q b) w = (r, w')"
      and "path \<noteq> ''/policy/api/v1/search/query''" "\<not> prefix ''/debug/'' path" for path q b r w'
    using send_get [OF listing_mem that(2,3)] that(1) by (metis mock_view_fabric snd_conv)
  show "mock_view nodes (snd (mock_list_vms (mem_api mar unmar) cfg cur w)) = mock_view nodes w"
    by (auto simp: mock_list_vms_def split: prod.splits sum.splits mock_json.splits dest!: get)
  show "mock_view nodes (snd (mock_list_vifs (mem_api mar unmar) cfg ext w)) = mock_view nodes w"
    by (auto simp: mock_list_vifs_def split: prod.splits sum.splits mock_json.splits dest!: get)
  show "mock_view nodes (snd (mock_port_state (mem_api mar unmar) con seg port w)) = mock_view nodes w"
    by (auto simp: mock_port_state_def port_path_def split: prod.splits sum.splits mock_json.splits dest!: get)
qed

lemma mock_vm_of:
  assumes "mock_list_vms (mem_api mar unmar) cfg cur w = (Inr pg, w')" and v: "mock_view nodes w = Some m"
    and vm: "vm \<in> set (vms_Results pg)" "vm_matches u vm"
  shows "mock_named nodes ''vm-'' u (vm_ExternalId vm)"
proof -
  from assms(1) have "vms_Results pg = map (\<lambda>(ext, ids). \<lparr>vm_ComputeIds = ids, vm_ExternalId = ext\<rparr>)
      (vm_results (m_nodes w) [])"
    by (auto simp: mock_list_vms_run split: prod.splits sum.splits dest: mem_list_nodes)
  with vm(1) obtain nd where nd: "nd \<in> set (m_nodes w)" "n_providerID nd \<noteq> []"
    and eq: "vm = \<lparr>vm_ComputeIds = [''biosUuid:'' @ strip_provider (n_providerID nd)],
      vm_ExternalId = ''vm-'' @ n_name nd\<rparr>"
    by (auto simp: vm_results_eq vm_result_def)
  have "(n_name nd, n_providerID nd) \<in> set nodes" using nd(1) mock_view_SomeD(3) [OF v] by auto
  moreover have "strip_provider (n_providerID nd) = u"
    using vm(2) by (simp add: eq vm_matches_def biosUuidPrefix_def TrimPrefix_def)
  ultimately show ?thesis using nd(2) by (auto simp: mock_named_def eq)
qed

interpretation mock_server: nsx_server "mock_nsx env docs mar unmar" "mock_view nodes"
    "mock_node nodes" "mock_named nodes ''vm-''" "mock_named nodes ''attachment-''" "mock_named nodes ''port-''"
  for env docs mar unmar nodes
proof (intro nsx_server.intro nsx_server_axioms.intro)
  let ?N = "mock_nsx env docs mar unmar" and ?V = "mock_view nodes"
  show "quiet_calls (nc ?N) ?V" by (simp add: mock_quiet)
  show "node_reports ?N" by (rule mock.node_reports_axioms)
  show "?V (snd (load_key_pair ?N f f' w)) = ?V w" for f f' w
    by (simp add: reading_view [OF mock_view_faultless])
  have files: "?V (w\<lparr>c_files := x\<rparr>) = ?V w" for w x by (rule mock_view_fabric) (simp add: fabric_def)
  show "?V (snd (write_file ?N f bytes w)) = ?V w" for f bytes w
    by (simp add: writing_view [OF mock_view_faultless] files)
  show "\<exists>n. ends_within n (list_vms ?N cfg) u None w" for cfg u w
    by (rule exI [of _ 1]) (auto simp: mock_list_vms_run split: prod.splits sum.splits)
  fix n w nd w' m assume "get_node (st (nc ?N)) n w = (Inr nd, w')" and v: "?V w = Some m"
    and "prefix vspherePrefix (n_providerID nd)"
  then have "nd \<in> set (m_nodes w)" "n_name nd = n"
    "n_providerID nd = vspherePrefix @ TrimPrefix (n_providerID nd) vspherePrefix"
    by (auto simp: TrimPrefix_def prefix_def dest: mem_get_node)
  with mock_view_SomeD(3) [OF v] show "mock_node nodes n (TrimPrefix (n_providerID nd) vspherePrefix)"
    unfolding mock_node_def by force
next
  let ?N = "mock_nsx env docs mar unmar" and ?V = "mock_view nodes"
  fix cfg ext w vifs w' m u a assume run: "list_vifs ?N cfg ext w = (Inr vifs, w')"
    and "mock_named nodes ''vm-'' u ext" "a \<in> set vifs"
  then show "mock_named nodes ''attachment-'' u a"
    by (auto simp: mock_list_vifs_run mock_named_def TrimPrefix_def) blast
next
  let ?N = "mock_nsx env docs mar unmar" and ?V = "mock_view nodes"
  fix con a w ds w' m u d x p
  assume run: "search_ports ?N con (''resource_type:SegmentPort AND attachment.id:'' @ a) w = (Inr ds, w')"
    and v: "?V w = Some m" and a: "mock_named nodes ''attachment-'' u a" and d: "d \<in> set ds"
    and p: "convert_port ?N d = (x, [])" "as_port ?N x = Some p"
  from a obtain n pid where n: "(n, pid) \<in> set nodes" "pid \<noteq> []" "strip_provider pid = u" "a = ''attachment-'' @ n"
    by (auto simp: mock_named_def)
  have name: "mock_name n" using mock_view_SomeD(4) [OF v n(1)] .
  from mock_search_found [OF _ v name d attachment_found [OF name]] run n(4) p
  have "mp_ID d = ''port-'' @ n" "m (''port-'' @ n) = Some p" "port_Id p = Some (mp_ID d)"
    by (auto simp: sdk_port_def)
  with n show "\<exists>pid. port_Id p = Some pid \<and> m pid = Some p \<and> mock_named nodes ''port-'' u pid"
    by (auto simp: mock_named_def)
qed (simp_all add: mock_sends_view mock_search_view mock_vm_of mock_update_view)

end
