(* ===== verification/Mock_Run.thy ===== *)
theory Mock_Run
  imports Mock_Cluster
begin

text \<open>
  A reconciliation of a node against the mock when no call fails, step by step.
\<close>

lemma find_member: "find P xs = Some x \<Longrightarrow> x \<in> set xs"
  by (induction xs) (auto split: if_splits)

lemma strip_vsphere: "strip_provider (vspherePrefix @ u) = u"
  by (simp add: strip_provider_def vspherePrefix_def)

lemma idle_list_nodes:
  "m_faults w = [] \<Longrightarrow> list_nodes (mem_api mar unmar) w = (Inr (m_nodes w), w)"
  by (simp add: mem_api_def)

lemma idle_get_node:
  "m_faults w = [] \<Longrightarrow> find (\<lambda>nd. n_name nd = n) (m_nodes w) = Some nd \<Longrightarrow>
   get_node (mem_api mar unmar) n w = (Inr nd, w)"
  by (simp add: mem_api_def found_def)

lemma mem_range_keys: "range_keys (mem_api mar unmar) ks w = (ks, w)"
  by (simp add: mem_api_def)

text \<open>
  A configuration with a user and without a certificate. It is the shared one or, when none is
  shared, that of the cluster; a secret that is not found counts as empty.
\<close>

definition with_user :: "'f ini_lib \<Rightarrow> configmap \<Rightarrow> secret \<Rightarrow> 'f \<Rightarrow> bool" where
  "with_user L cm sec f \<longleftrightarrow> Load L (cm_get cm ConfigMapDataKey) = Inr f
     \<and> secret_value sec ''tls.crt'' = [] \<and> no_user (read_options L f) \<noteq> []"

definition cluster_secret :: "mock_cluster \<Rightarrow> string \<Rightarrow> secret" where
  "cluster_secret w watched =
     (case c_secrets w (nsn watched NsxSecret) of None \<Rightarrow> \<lparr>sec_data = None\<rparr> | Some sec \<Rightarrow> sec)"

definition configmap_in_use :: "mock_cluster operator \<Rightarrow> configmap option" where
  "configmap_in_use s =
     (case si_OperatorConfigMap (sharedInfo s) of
        Some cm \<Rightarrow> Some cm
      | None \<Rightarrow> c_configmaps (world s) (nsn (watched_namespace (sm_OperatorNamespace (status s))) ConfigMapName))"

definition secret_in_use :: "mock_cluster operator \<Rightarrow> secret" where
  "secret_in_use s =
     (case si_OperatorNsxSecret (sharedInfo s) of
        Some sec \<Rightarrow> sec
      | None \<Rightarrow> cluster_secret (world s) (watched_namespace (sm_OperatorNamespace (status s))))"

lemma in_use_cache [simp]:
  "configmap_in_use (s\<lparr>cachedNodeSet := c\<rparr>) = configmap_in_use s"
  "secret_in_use (s\<lparr>cachedNodeSet := c\<rparr>) = secret_in_use s"
  by (simp_all add: configmap_in_use_def secret_in_use_def cong: option.case_cong)

text \<open>The tagging of nodes is on, with such a configuration.\<close>

definition user_config :: "'f ini_lib \<Rightarrow> mock_cluster operator \<Rightarrow> 'f \<Rightarrow> bool" where
  "user_config L s f \<longleftrightarrow> si_AddNodeTag (sharedInfo s)
     \<and> (case configmap_in_use s of None \<Rightarrow> False | Some cm \<Rightarrow> with_user L cm (secret_in_use s) f)"

lemma clients_of_user:
  assumes "user_config L s f" and idle: "m_faults (world s) = []"
  shows "\<exists>C. run_state (createNsxClients (mock_nsx env docs mar unmar) L) s = (Inr C, s)
    \<and> Cluster C = no_cluster (read_options L f)"
proof -
  let ?N = "mock_nsx env docs mar unmar"
  from assms(1) obtain cm where cm: "configmap_in_use s = Some cm" and user: "with_user L cm (secret_in_use s) f"
    by (auto simp: user_config_def split: option.splits)
  have same: "s\<lparr>world := world s\<rparr> = s" by simp
  from cm idle have "run_state (operator_configmap ?N) s = (Inr cm, s)"
    by (auto simp: configmap_in_use_def operator_configmap_def found_def split: option.splits)
  moreover from idle have "run_state (operator_nsx_secret ?N) s = (secret_in_use s, s)"
    by (auto simp: secret_in_use_def cluster_secret_def operator_nsx_secret_def found_def split: option.splits)
  ultimately show ?thesis using user
    by (simp add: with_user_def createNsxClients_def authentication_def make_clients_def
        getConnectorTLSConfig_def Let_def run_or_return)
qed

lemma idle_fill_cache:
  assumes "m_faults (world s) = []" and "\<not> was_processed (cachedNodeSet s) k a"
  shows "\<exists>c. run_state (fill_cache (mock_nsx env docs mar unmar)) s = (None, s\<lparr>cachedNodeSet := c\<rparr>)
    \<and> \<not> was_processed c k a"
proof (cases "cachedNodeSet s = []")
  case True
  let ?c = "foldl (\<lambda>c nd. AList.update (fst (unprocessed nd)) (snd (unprocessed nd)) c) [] (m_nodes (world s))"
  have "\<not> was_processed ?c k a" using unprocessed_cache [of "[]"] not_processed by simp
  moreover have "run_state (fill_cache (mock_nsx env docs mar unmar)) s = (None, s\<lparr>cachedNodeSet := ?c\<rparr>)"
    using assms(1) True by (simp add: fill_cache_def idle_list_nodes)
  ultimately show ?thesis by blast
next
  case False
  then have "run_state (fill_cache (mock_nsx env docs mar unmar)) s = (None, s\<lparr>cachedNodeSet := cachedNodeSet s\<rparr>)"
    by (simp add: fill_cache_def)
  with assms(2) show ?thesis by blast
qed

text \<open>The first virtual machine with the identifier is that of the node.\<close>

lemma idle_search:
  assumes "m_faults w = []" and node: "nd \<in> set (m_nodes w)" "n_name nd = n" "n_providerID nd = vspherePrefix @ u"
    and unique: "\<forall>x \<in> set (m_nodes w). strip_provider (n_providerID x) = u \<longrightarrow> n_name x = n"
    and "length u = 36"
  shows "getNodeExternalIdByProviderId (mock_nsx env docs mar unmar) C name (vspherePrefix @ u) w
    = Some (Inr (''vm-'' @ n), w)"
proof -
  let ?page = "map (\<lambda>(ext, ids). \<lparr>vm_ComputeIds = ids, vm_ExternalId = ext\<rparr>) (vm_results (m_nodes w) [])"
  have matches: "vm_matches u \<lparr>vm_ComputeIds = [''biosUuid:'' @ x], vm_ExternalId = e\<rparr> \<longleftrightarrow> x = u" for x e
    by (auto simp: vm_matches_def biosUuidPrefix_def TrimPrefix_def)
  have nd: "\<lparr>vm_ComputeIds = [''biosUuid:'' @ u], vm_ExternalId = ''vm-'' @ n\<rparr> \<in> set ?page"
    using node strip_vsphere [of u]
    by (auto simp: vm_results_eq vm_result_def vspherePrefix_def image_iff intro!: bexI [of _ nd])
  obtain vm where vm: "find (vm_matches u) ?page = Some vm"
    using nd matches by (cases "find (vm_matches u) ?page") (auto simp: find_None_iff)
  then have "vm \<in> set ?page" "vm_matches u vm" by (auto simp: find_Some_iff)
  then have "vm_ExternalId vm = ''vm-'' @ n"
    using unique matches by (auto simp: vm_results_eq vm_result_def)
  with vm assms(1,6) have "vm_loop (list_vms (mock_nsx env docs mar unmar) cfg) u None w = Some (Inr (Some (''vm-'' @ n)), w)"
    for cfg by (subst vm_loop.simps) (simp add: mock_list_vms_run idle_list_nodes)
  with assms(6) show ?thesis
    by (simp add: getNodeExternalIdByProviderId_def TrimPrefix_def vspherePrefix_def)
qed

text \<open>Tags whose pointers are set are read without a panic.\<close>

lemma find_tags_total:
  "\<forall>t \<in> set tags. tag_Scope t \<noteq> None \<and> tag_Tag t \<noteq> None \<Longrightarrow> \<exists>r. find_tags name c tags f = Inr r"
  by (induction name c tags f rule: find_tags.induct) auto

lemma idle_tag_port:
  assumes "CHR ''/'' \<notin> set pid" "prefix ''port-'' pid"
    and p: "port_Id p = Some pid" "port_ParentPath p = Some ''/infra/segments/mock-segment''"
    and tags: "\<forall>t \<in> set (port_Tags p). tag_Scope t \<noteq> None \<and> tag_Tag t \<noteq> None"
  shows "\<exists>s'. run_state (tag_port (mock_nsx env docs mar unmar) name addrs C p) s = (None, s')"
proof -
  obtain found where found: "find_tags name (Cluster C) (port_Tags p) (False, False) = Inr found"
    using find_tags_total [OF tags] by blast
  show ?thesis
  proof (cases "found = (True, True)")
    case True
    with found show ?thesis by (simp add: tag_port_def)
  next
    case False
    with found p show ?thesis
      by (simp add: tag_port_def Let_def parent_segment mock_update_run [OF assms(1,2)])
  qed
qed

lemma idle_ports:
  assumes v: "mock_view nodes (world s) = Some m" and name: "mock_name n"
    and p: "m (''port-'' @ n) = Some p"
  shows "\<exists>s'. run_state (listPortsByAttachmentIds (mock_nsx env docs mar unmar) C [''attachment-'' @ n]) s
    = (Inr [p], s')"
proof -
  let ?q = "''resource_type:SegmentPort AND attachment.id:'' @ ''attachment-'' @ n"
  obtain r w where run: "mock_search (mem_api mar unmar) (PolicyConnector C) ?q (world s) = (r, w)" by force
  have "attachment_of_query ?q \<noteq> []" using attachment_found [OF name] by simp
  with run obtain mp where r: "r = Inr [mp]"
    by (auto simp: mock_search_run Let_def simp del: append.simps split: option.splits if_splits)
  have "sdk_port mp = p"
    using mock_search_found [OF run [unfolded r] v name _ attachment_found [OF name]] p by auto
  with run r show ?thesis
    by (simp add: listPortsByAttachmentIds_def mem_range_keys CastToBindingType_def)
qed

lemma idle_finish:
  assumes v: "mock_view nodes (world s) = Some m" and name: "mock_name n"
    and p: "m (''port-'' @ n) = Some p" "\<forall>t \<in> set (port_Tags p). tag_Scope t \<noteq> None \<and> tag_Tag t \<noteq> None"
  shows "\<exists>s'. run_state (finish_node (mock_nsx env docs mar unmar) n addrs C (Inr (''vm-'' @ n))) s
    = ((emptyResult, None), s') \<and> node_done (cachedNodeSet s') n"
proof -
  let ?N = "mock_nsx env docs mar unmar"
  have att: "run_state (listAttachmentsByNodeExternalId ?N C (''vm-'' @ n)) s = (Inr [''attachment-'' @ n], s)"
    by (simp add: listAttachmentsByNodeExternalId_def mock_list_vifs_run attachment_set_def TrimPrefix_def)
  obtain s1 where ports: "run_state (listPortsByAttachmentIds ?N C [''attachment-'' @ n]) s = (Inr [p], s1)"
    using idle_ports [OF v name p(1)] by blast
  have pid: "CHR ''/'' \<notin> set (''port-'' @ n)" "prefix ''port-'' (''port-'' @ n)"
    using name by (auto simp: mock_name_def)
  have q: "port_Id p = Some (''port-'' @ n)" "port_ParentPath p = Some ''/infra/segments/mock-segment''"
      "port_Path p \<noteq> None"
    using p(1) mock_view_SomeD(1,2) [OF v]
    by (auto simp: visible_def sdk_port_def store_ok_def split: if_splits option.splits)
  have sel: "run_state (select_ports ?N n addrs C [p]) s1 = (Inr [p], s1)"
    using q(3) by (simp add: select_ports_def)
  obtain s2 where tag: "run_state (tag_port ?N n addrs C p) s1 = (None, s2)"
    using idle_tag_port [OF pid q(1,2) p(2)] by blast
  let ?s = "s2\<lparr>cachedNodeSet := AList.update n
    \<lparr>nst_addresses = addrs, nst_success = True, nst_reason = []\<rparr> (cachedNodeSet s2)\<rparr>"
  obtain u s3 where rep: "run_state (report_nodes ?N) ?s = (u, s3)" by (metis surj_pair)
  have "cachedNodeSet s3 = cachedNodeSet ?s" using keepsD [OF cache_report_nodes rep] .
  then have "node_done (cachedNodeSet s3) n" by (simp add: node_done_def update_conv)
  with att ports sel tag rep show ?thesis
    by (simp add: finish_node_def run_or_return cache_node_def)
qed

text \<open>The conditions under which a node of the mock's cluster is tagged.\<close>

definition taggable ::
  "(string \<times> string) list \<Rightarrow> node \<Rightarrow> mock_cluster \<Rightarrow> bool" where
  "taggable nodes nd w \<longleftrightarrow>
     m_faults w = [] \<and> mock_view nodes w \<noteq> None
     \<and> find (\<lambda>x. n_name x = n_name nd) (m_nodes w) = Some nd
     \<and> length (n_providerID nd) = 46 \<and> prefix vspherePrefix (n_providerID nd)
     \<and> (\<forall>x \<in> set (m_nodes w). strip_provider (n_providerID x) = strip_provider (n_providerID nd)
          \<longrightarrow> n_name x = n_name nd)
     \<and> (\<forall>t \<in> set (port_Tags (the (the (mock_view nodes w) (''port-'' @ n_name nd)))).
          tag_Scope t \<noteq> None \<and> tag_Tag t \<noteq> None)"

lemma idle_begin:
  assumes conf: "user_config L s f" and nd: "taggable nodes nd (world s)"
    and req: "req_name req = n_name nd"
    and fresh: "\<not> was_processed (cachedNodeSet s) (n_name nd) (node_addresses nd)"
  shows "\<exists>C s1. run_state (begin_node (mock_nsx env docs mar unmar) L req) s
    = (Inr (nd, node_addresses nd, C), s1) \<and> world s1 = world s
    \<and> Cluster C = no_cluster (read_options L f)"
proof -
  let ?N = "mock_nsx env docs mar unmar"
  from nd have idle: "m_faults (world s) = []" by (simp add: taggable_def)
  from idle_fill_cache [OF idle fresh] obtain c where
    fill: "run_state (fill_cache ?N) s = (None, s\<lparr>cachedNodeSet := c\<rparr>)"
    and c: "\<not> was_processed c (n_name nd) (node_addresses nd)" by blast
  let ?s = "s\<lparr>cachedNodeSet := c\<rparr>"
  have get: "get_node (st (nc ?N)) (req_name req) (world ?s) = (Inr nd, world ?s)"
    using idle_get_node [OF idle] nd req by (simp add: taggable_def)
  have "user_config L ?s f" using conf
    by (simp add: user_config_def cong: option.case_cong)
  with idle obtain C where "run_state (createNsxClients ?N L) ?s = (Inr C, ?s)"
      and "Cluster C = no_cluster (read_options L f)"
    using clients_of_user [of L ?s f env docs mar unmar] by auto
  with conf fill get c req show ?thesis
    by (auto simp: begin_node_def user_config_def Let_def)
qed

lemma idle_reconcile:
  assumes conf: "user_config L s f" and nd: "taggable nodes nd (world s)"
    and req: "req_name req = n_name nd"
    and fresh: "\<not> was_processed (cachedNodeSet s) (n_name nd) (node_addresses nd)"
  shows "\<exists>s' m p. Reconcile_node (mock_nsx env docs mar unmar) L req s = Some ((emptyResult, None), s')
    \<and> node_done (cachedNodeSet s') (n_name nd)
    \<and> mock_view nodes (world s) = Some m \<and> m (''port-'' @ n_name nd) = Some p
    \<and> mock_view nodes (world s')
      = Some (m(''port-'' @ n_name nd \<mapsto> tagged (n_name nd) (no_cluster (read_options L f)) p))"
proof -
  let ?N = "mock_nsx env docs mar unmar"
  from idle_begin [OF assms] obtain C s1 where
    b: "run_state (begin_node ?N L req) s = (Inr (nd, node_addresses nd, C), s1)" and
    w: "world s1 = world s" and cluster: "Cluster C = no_cluster (read_options L f)" by blast
  from nd obtain m where v: "mock_view nodes (world s1) = Some m" by (auto simp: taggable_def w)
  from nd obtain u where u: "n_providerID nd = vspherePrefix @ u" "length u = 36"
    by (auto simp: taggable_def prefix_def vspherePrefix_def)
  from nd have "find (\<lambda>x. n_name x = n_name nd) (m_nodes (world s1)) = Some nd" by (simp add: taggable_def w)
  then have member: "nd \<in> set (m_nodes (world s1))" using find_member by fast
  have idle: "m_faults (world s1) = []" using nd by (simp add: taggable_def w)
  have unique: "\<forall>x \<in> set (m_nodes (world s1)). strip_provider (n_providerID x) = u \<longrightarrow> n_name x = n_name nd"
    using nd unfolding taggable_def w u(1) strip_vsphere by (elim conjE)
  have search: "getNodeExternalIdByProviderId ?N C (req_name req) (n_providerID nd) (world s1)
      = Some (Inr (''vm-'' @ n_name nd), world s1)"
    using idle_search [OF idle member refl u(1) unique u(2)] u(1) by simp
  have "(n_name nd, n_providerID nd) \<in> set nodes"
    using mock_view_SomeD(3) [OF v] member by auto
  from mock_view_SomeD(4) [OF v this] have name: "mock_name (n_name nd)" .
  then obtain p where p: "m (''port-'' @ n_name nd) = Some p"
    using mock_view_SomeD(1) [OF v] by (auto simp: visible_def mock_name_def)
  have "\<forall>t \<in> set (port_Tags p). tag_Scope t \<noteq> None \<and> tag_Tag t \<noteq> None"
    using nd v p by (simp add: taggable_def w)
  from idle_finish [OF v name p this] obtain s' where
    fin: "run_state (finish_node ?N (n_name nd) (node_addresses nd) C (Inr (''vm-'' @ n_name nd))) s1
      = ((emptyResult, None), s')" and done1: "node_done (cachedNodeSet s') (n_name nd)" by blast
  have vm: "\<forall>ext. (Inr (''vm-'' @ n_name nd) :: go_error + string) = Inr ext \<longrightarrow> mock_named nodes ''vm-'' u ext"
    using u strip_vsphere \<open>(n_name nd, n_providerID nd) \<in> set nodes\<close>
    by (auto simp: mock_named_def vspherePrefix_def)
  from yieldsD [OF mock_server.finish_ports [OF vm] fin v] obtain pid q where
    q: "m pid = Some q" "mock_named nodes ''port-'' u pid"
      "mock_view nodes (world s') = Some (m(pid \<mapsto> tagged (n_name nd) (Cluster C) q))" by auto
  have "pid = ''port-'' @ n_name nd"
    using q(2) unique mock_view_SomeD(3) [OF v, symmetric] by (auto simp: mock_named_def)
  moreover have "Reconcile_node ?N L req s = Some ((emptyResult, None), s')"
    using b search fin req by (simp add: Reconcile_node_def)
  ultimately show ?thesis using q done1 v w cluster by auto
qed

end
