(* ===== verification/Demo_Mock.thy ===== *)
theory Demo_Mock
  imports Mock_Run Mini_Ini
begin

text \<open>
  Concrete states for the witnesses: pages of virtual machines, and a cluster with one node whose
  NSX is the mock.
\<close>

text \<open>Two pages of virtual machines, and a server that always offers a further page.\<close>

definition demo_pages :: "string option \<Rightarrow> mock_cluster \<Rightarrow> (go_error + vm_page) \<times> mock_cluster" where
  "demo_pages cursor w = (Inr
     (if cursor = None
      then \<lparr>vms_Results = [\<lparr>vm_ComputeIds = [''biosUuid:a''], vm_ExternalId = ''vm-a''\<rparr>], vms_Cursor = ''next''\<rparr>
      else \<lparr>vms_Results = [\<lparr>vm_ComputeIds = [''moId:1'', ''biosUuid:00000000-0000-0000-0000-000000000001''],
              vm_ExternalId = ''vm-b''\<rparr>], vms_Cursor = []\<rparr>), w)"

definition endless_pages :: "string option \<Rightarrow> mock_cluster \<Rightarrow> (go_error + vm_page) \<times> mock_cluster" where
  "endless_pages cursor w = (Inr \<lparr>vms_Results = [], vms_Cursor = ''again''\<rparr>, w)"

definition demo_uuid :: string where
  "demo_uuid = ''00000000-0000-0000-0000-000000000001''"

text \<open>A cluster with one node, whose NSX is the mock.\<close>

definition demo_node :: node where
  "demo_node = \<lparr>n_name = ''n1'', n_addresses = [(''Hostname'', ''n1''), (''InternalIP'', ''10.0.0.5'')],
     n_conditions = [], n_providerID = vspherePrefix @ demo_uuid\<rparr>"

definition mock_cluster_of :: "node list \<Rightarrow> mock_cluster" where
  "mock_cluster_of nds =
     \<lparr>m_cos = Map.empty, m_nis = Map.empty, m_pods = [], m_nodes = nds, m_dss = Map.empty,
      m_deps = Map.empty, m_clock = 0, m_faults = [], c_configmaps = Map.empty, c_secrets = Map.empty,
      c_network = None, c_files = Map.empty, c_dirs = Map.empty, c_logs = Map.empty, c_applied = [],
      c_deleted = [], c_ports = Map.empty\<rparr>"

definition node_text :: string where
  "node_text = unlines [''[coe]'', ''cluster = c1'', ''[nsx_v3]'', ''nsx_api_managers = 10.0.0.1'',
     ''nsx_api_user = admin'', ''nsx_api_password = pw'']"

definition node_file :: mini where
  "node_file = [(''DEFAULT'', []), (''coe'', [(''cluster'', ''c1'')]),
     (''nsx_v3'', [(''nsx_api_managers'', ''10.0.0.1''), (''nsx_api_user'', ''admin''),
        (''nsx_api_password'', ''pw'')])]"

definition node_cm :: configmap where
  "node_cm = \<lparr>cm_data = Some [ConfigMapDataKey \<mapsto> node_text]\<rparr>"

definition node_info :: shared_info where
  "node_info = \<lparr>si_AdaptorName = ''kubernetes'', si_AddNodeTag = True, si_PodSecurityPolicySupport = False,
     si_LastNodeAgentStartTime = None, si_NetworkConfig = None, si_OperatorConfigMap = Some node_cm,
     si_OperatorNsxSecret = Some \<lparr>sec_data = None\<rparr>, si_NsxNodeAgentDsSpec = None,
     si_NsxNcpBootstrapDsSpec = None, si_NsxNcpDeploymentSpec = None\<rparr>"

definition node_operator :: "mock_cluster operator" where
  "node_operator = \<lparr>world = mock_cluster_of [demo_node],
     status = New_StatusManager ''nsx-ncp'' ''nsx-system-operator'' node_info,
     sharedInfo = node_info, firstBoot = False, cachedNodeSet = [], appliedConfigMap = None\<rparr>"

definition node_request :: request where
  "node_request = \<lparr>req_namespace = [], req_name = ''n1''\<rparr>"

abbreviation demo_nsx :: "(mock_cluster, mock_port, segment_port) nsx_api" where
  "demo_nsx \<equiv> mock_nsx (\<lambda>x. []) (\<lambda>x. []) (\<lambda>x. Inr []) (\<lambda>x. Inl (GoError []))"

definition demo_inventory :: "(string \<times> string) list" where
  "demo_inventory = [(''n1'', vspherePrefix @ demo_uuid)]"

lemma node_load: "Load mini_ini (cm_get node_cm ConfigMapDataKey) = Inr node_file"
  by code_simp

lemma node_options:
  "no_user (read_options mini_ini node_file) \<noteq> []" "get_or_empty (m_val node_file) ''coe'' ''cluster'' = ''c1''"
  by code_simp+

lemma node_user: "with_user mini_ini node_cm \<lparr>sec_data = None\<rparr> node_file"
  using node_load node_options(1) by (simp add: with_user_def secret_value_def)

lemma node_config: "user_config mini_ini node_operator node_file"
  unfolding user_config_def configmap_in_use_def secret_in_use_def using node_user
  by (simp add: node_operator_def node_info_def)

lemma demo_view: "mock_view demo_inventory (mock_cluster_of [demo_node]) = Some (visible Map.empty)"
  by (simp add: mock_view_def fabric_def mock_cluster_of_def demo_inventory_def demo_node_def store_ok_def
      mock_name_def delimiters_def)

lemma demo_taggable: "taggable demo_inventory demo_node (mock_cluster_of [demo_node])"
  unfolding taggable_def demo_view
  by (simp add: mock_cluster_of_def demo_node_def vspherePrefix_def demo_uuid_def visible_def
      sdk_port_def new_port_def)

lemma demo_run:
  "user_config mini_ini node_operator node_file"
  "taggable demo_inventory demo_node (world node_operator)" "req_name node_request = n_name demo_node"
proof -
  show "user_config mini_ini node_operator node_file" by (rule node_config)
qed (use demo_taggable in \<open>simp_all add: node_operator_def node_request_def demo_node_def\<close>)

end
