(* ===== verification/Mock_Drift.thy ===== *)
theory Mock_Drift
  imports Mock_Run
begin

text \<open>
  Tags that are lost at NSX: the debug request of the mock that deletes the tags of a node's
  port, and what the node controller makes of it, while it runs and after a restart.
\<close>

text \<open>The request of the end-to-end tests, and the cluster after it.\<close>

definition delete_tags ::
  "mock_cluster status_api \<Rightarrow> string \<Rightarrow> mock_cluster \<Rightarrow> http_response \<times> mock_cluster" where
  "delete_tags K n w =
     (case run_state (mock_mux (mock_env_of K)
             (mock_request ''DELETE'' (''/debug/tagged-ports/'' @ n @ ''/tags'') [] None))
           \<lparr>segmentPorts = c_ports w, k8s_world = w\<rparr> of
        (resp, s) \<Rightarrow> (resp, (k8s_world s)\<lparr>c_ports := segmentPorts s\<rparr>))"

lemma debug_path_parts:
  assumes "CHR ''/'' \<notin> set n"
  shows "Split (''/debug/tagged-ports/'' @ n @ ''/tags'') ''/'' = [[], ''debug'', ''tagged-ports'', n, ''tags'']"
proof -
  have path: "''/debug/tagged-ports/'' @ n @ ''/tags'' = [] @ CHR ''/'' # ''debug'' @ CHR ''/'' #
      ''tagged-ports'' @ CHR ''/'' # n @ CHR ''/'' # ''tags''" by simp
  show ?thesis
    unfolding path by (subst Split_part, simp add: assms)+ (simp add: Split_last_part)
qed

lemma delete_tags_run:
  assumes "CHR ''/'' \<notin> set n"
  shows "delete_tags K n w =
    (case c_ports w (''port-'' @ n) of
       None \<Rightarrow> (HttpError ''Port not found'' 404, w)
     | Some p \<Rightarrow> (HttpStatus 204, w\<lparr>c_ports := (c_ports w)(''port-'' @ n \<mapsto> p\<lparr>mp_Tags := []\<rparr>)\<rparr>))"
  by (auto simp: delete_tags_def mock_mux_def mock_request_def handleDebugDeleteTags_def
      debug_path_parts [OF assms, simplified] Let_def split: option.splits)

lemma delete_tags_view:
  assumes view: "mock_view nodes w = Some m" and name: "mock_name n"
    and port: "c_ports w (''port-'' @ n) = Some p"
  shows "mock_view nodes (snd (delete_tags K n w))
    = Some (m(''port-'' @ n \<mapsto> (the (m (''port-'' @ n)))\<lparr>port_Tags := []\<rparr>))"
proof -
  let ?w = "snd (delete_tags K n w)" and ?ports = "(c_ports w)(''port-'' @ n \<mapsto> p\<lparr>mp_Tags := []\<rparr>)"
  have slash: "CHR ''/'' \<notin> set n" using name by (simp add: mock_name_def)
  have w: "?w = w\<lparr>c_ports := ?ports\<rparr>" using delete_tags_run [OF slash, of K w] port by simp
  have "store_ok ?ports"
    using mock_view_SomeD(2) [OF view] port by (auto simp: store_ok_def)
  then have "mock_view nodes ?w = Some (visible ?ports)"
    using view unfolding w by (simp add: mock_view_def split: if_splits)
  moreover have "visible ?ports = m(''port-'' @ n \<mapsto> (the (m (''port-'' @ n)))\<lparr>port_Tags := []\<rparr>)"
    using port slash unfolding mock_view_SomeD(1) [OF view]
    by (auto simp: visible_def fun_eq_iff sdk_port_def)
  ultimately show ?thesis by simp
qed

text \<open>A running controller does not look again at a node it has processed.\<close>

lemma processed_ignored:
  assumes conf: "si_AddNodeTag (sharedInfo s)" and cache: "cachedNodeSet s \<noteq> []"
    and idle: "m_faults (world s) = []"
    and nd: "find (\<lambda>x. n_name x = n_name nd) (m_nodes (world s)) = Some nd" "req_name req = n_name nd"
    and processed: "was_processed (cachedNodeSet s) (n_name nd) (node_addresses nd)"
  shows "Reconcile_node (mock_nsx env docs mar unmar) L req s = Some ((emptyResult, None), s)"
proof -
  let ?N = "mock_nsx env docs mar unmar"
  have "run_state (fill_cache ?N) s = (None, s)" using cache by (simp add: fill_cache_def)
  moreover have "get_node (st (nc ?N)) (req_name req) (world s) = (Inr nd, world s)"
    using idle_get_node [OF idle] nd by simp
  ultimately have "run_state (begin_node ?N L req) s = (Inl (emptyResult, None), s)"
    using conf processed nd(2) by (simp add: begin_node_def Let_def)
  then show ?thesis by (simp add: Reconcile_node_def)
qed

lemma taggable_deleted:
  assumes "taggable nodes nd w" and port: "c_ports w (''port-'' @ n_name nd) = Some p"
    and name: "mock_name (n_name nd)"
  shows "taggable nodes nd (snd (delete_tags K (n_name nd) w))"
proof -
  from assms(1) obtain m where view: "mock_view nodes w = Some m" by (auto simp: taggable_def)
  have slash: "CHR ''/'' \<notin> set (n_name nd)" using name by (simp add: mock_name_def)
  have w: "snd (delete_tags K (n_name nd) w)
      = w\<lparr>c_ports := (c_ports w)(''port-'' @ n_name nd \<mapsto> p\<lparr>mp_Tags := []\<rparr>)\<rparr>"
    using delete_tags_run [OF slash, of K w] port by simp
  have same: "m_faults (snd (delete_tags K (n_name nd) w)) = m_faults w"
    "m_nodes (snd (delete_tags K (n_name nd) w)) = m_nodes w" by (simp_all add: w)
  show ?thesis
    using assms(1) unfolding taggable_def same delete_tags_view [OF view name port] by simp
qed

lemma taggable_name:
  assumes "taggable nodes nd w"
  shows "mock_name (n_name nd)"
proof -
  from assms obtain m where view: "mock_view nodes w = Some m" by (auto simp: taggable_def)
  from assms have "nd \<in> set (m_nodes w)" by (auto simp: taggable_def dest: find_member)
  then have "(n_name nd, n_providerID nd) \<in> set nodes" using mock_view_SomeD(3) [OF view] by auto
  then show ?thesis by (rule mock_view_SomeD(4) [OF view])
qed

lemma processed_cached: "was_processed cache k a \<Longrightarrow> cache \<noteq> []"
  by (auto simp: was_processed_def)

lemma unprocessed_empty: "\<not> was_processed [] k a"
  by (simp add: was_processed_def)

lemma tagged_bare:
  "port_Tags p = [] \<Longrightarrow> tagged n c p = p\<lparr>port_Tags := [node_tag n, cluster_tag c]\<rparr>"
  by (simp add: tagged_def)

end
