(* ===== verification/Node_Properties.thy ===== *)
theory Node_Properties
  imports Demo_Mock Mock_Drift
begin

text \<open>
  The properties of the node controller, and of the controller together with the NSX mock.
\<close>

section \<open>Properties\<close>

text \<open>
  C24. The search for a node's virtual machine returns exactly when the provider ID is
  malformed, or the pages meet an error, a match or a last page after finitely many requests; a
  server that always offers another cursor is followed for ever. If the server serves finitely
  many pages, the result is the first virtual machine on any of them that carries the
  identifier, or the error that none does.
\<close>

theorem node_search_returns:
  "((\<exists>r. getNodeExternalIdByProviderId N C name pid w = Some r)
      \<longleftrightarrow> is_invalid pid
        \<or> (\<exists>n. ends_within n (list_vms N (ManagerClient C)) (TrimPrefix pid vspherePrefix) None w))
    \<and> (\<forall>ps. \<not> is_invalid pid \<longrightarrow> serves (list_vms N (ManagerClient C)) None w ps \<longrightarrow>
        (\<exists>w'. getNodeExternalIdByProviderId N C name pid w = Some
           (case find (vm_matches (TrimPrefix pid vspherePrefix)) (concat (map vms_Results ps)) of
              Some vm \<Rightarrow> Inr (vm_ExternalId vm)
            | None \<Rightarrow> Inl (GoError (''no virtual machine matches provider ID '' @ pid
                        @ '' and hostname '' @ name)), w')))"
proof -
  let ?pages = "list_vms N (ManagerClient C)" and ?u = "TrimPrefix pid vspherePrefix"
  have "(\<exists>r. vm_loop ?pages ?u None w = Some r) \<longleftrightarrow> (\<exists>n. ends_within n ?pages ?u None w)"
    using ends_returns returns_ends by metis
  moreover have "\<exists>w'. vm_loop ?pages ?u None w = Some (Inr (map_option vm_ExternalId
      (find (vm_matches ?u) (concat (map vms_Results ps)))), w')"
    if "serves ?pages None w ps" for ps using served_result [OF that] .
  ultimately show ?thesis
    unfolding getNodeExternalIdByProviderId_def is_invalid_def
    by (fastforce split: option.splits)
qed

theorem node_search_returns_witness:
  "\<forall>C. getNodeExternalIdByProviderId (demo_nsx\<lparr>list_vms := \<lambda>cfg. demo_pages\<rparr>) C ''n1''
      (vspherePrefix @ demo_uuid) (mock_cluster_of []) \<noteq> None
    \<and> getNodeExternalIdByProviderId (demo_nsx\<lparr>list_vms := \<lambda>cfg. endless_pages\<rparr>) C ''n1''
      (vspherePrefix @ demo_uuid) (mock_cluster_of []) = None"
proof
  fix C :: NsxClients
  let ?w = "mock_cluster_of []" and ?p = "vspherePrefix @ demo_uuid"
  have u: "TrimPrefix ?p vspherePrefix = demo_uuid" and ok: "\<not> is_invalid ?p"
    by code_simp+
  let ?N = "demo_nsx\<lparr>list_vms := \<lambda>cfg. demo_pages\<rparr>"
  let ?pages = "[projr (fst (demo_pages None ?w)), projr (fst (demo_pages (Some ''next'') ?w))]"
  have "serves (list_vms ?N (ManagerClient C)) None ?w ?pages"
    by (simp add: demo_pages_def)
  from node_search_returns [of ?N C "''n1''" ?p ?w, THEN conjunct2, rule_format, OF ok this]
  have "getNodeExternalIdByProviderId ?N C ''n1'' ?p ?w \<noteq> None" by blast
  moreover have "\<not> ends_within n endless_pages demo_uuid c ?w" for n c
    by (induction n arbitrary: c) (simp_all add: endless_pages_def)
  then have "\<not> (\<exists>r. getNodeExternalIdByProviderId (demo_nsx\<lparr>list_vms := \<lambda>cfg. endless_pages\<rparr>) C
      ''n1'' ?p ?w = Some r)"
    using ok u node_search_returns [of "demo_nsx\<lparr>list_vms := \<lambda>cfg. endless_pages\<rparr>" C "''n1''" ?p ?w,
        THEN conjunct1]
    by (simp del: split_paired_Ex)
  then have "getNodeExternalIdByProviderId (demo_nsx\<lparr>list_vms := \<lambda>cfg. endless_pages\<rparr>) C ''n1'' ?p ?w = None"
    by (rule contrapos_np) (simp only: not_None_eq)
  ultimately show "getNodeExternalIdByProviderId ?N C ''n1'' ?p ?w \<noteq> None
    \<and> getNodeExternalIdByProviderId (demo_nsx\<lparr>list_vms := \<lambda>cfg. endless_pages\<rparr>) C ''n1'' ?p ?w = None"
    by simp
qed

text \<open>
  C25. The cache of nodes and its report. A reconciliation that does not panic leaves no node
  twice in the cache, and the ClusterNode level of the status manager says exactly what the
  cache says: nothing when every node succeeded, otherwise the reasons of the failing nodes.
  Nothing else of the process changes.
\<close>

theorem node_cache_reported:
  assumes "node_reports N" and "node_inv s"
    and "Reconcile_node N L req s = Some ((r, err), s')"
    and "case err of None \<Rightarrow> True | Some e \<Rightarrow> \<not> is_panic e"
  shows "node_inv s' \<and> rest_of s' = rest_of s"
  using node_reports.reconcile_inv [OF assms(1,3,2)] reconcile_rest [OF assms(3)] assms(4)
  by (simp add: reports_def split: option.splits)

theorem node_cache_reported_witness:
  "\<exists>r s'. Reconcile_node demo_nsx mini_ini node_request node_operator = Some (r, s')
    \<and> node_inv s' \<and> node_done (cachedNodeSet s') ''n1''"
proof -
  have fresh: "\<not> was_processed (cachedNodeSet node_operator) (n_name demo_node) (node_addresses demo_node)"
    by (simp add: node_operator_def was_processed_def)
  from idle_reconcile [OF demo_run fresh, where env = "\<lambda>x. []" and docs = "\<lambda>x. []"
      and mar = "\<lambda>x. Inr []" and unmar = "\<lambda>x. Inl (GoError [])"] obtain s' where
    run: "Reconcile_node demo_nsx mini_ini node_request node_operator = Some ((emptyResult, None), s')"
    and done1: "node_done (cachedNodeSet s') ''n1''" by (auto simp: demo_node_def)
  have start: "node_inv node_operator"
    by (simp add: node_inv_def node_operator_def cache_reported_def New_StatusManager_def)
  from node_cache_reported [OF mock.node_reports_axioms start run] run done1 show ?thesis by auto
qed

text \<open>
  C39. Tags of the ports of NSX, for every server that meets the contract \<open>nsx_server\<close>. The
  reconciliation returns, whatever fails on the way. The ports are as before, or one port of
  the virtual machine with the node's identifier has gained the tags for the node's name and
  the configured cluster where it lacked them; no tag is lost and no other port changes. And a
  node that is newly recorded as done has such a port with both tags.
\<close>

theorem node_reconcile_tags:
  assumes server: "nsx_server N V node_of vm_of att_of port_of" and ini: "ini_laws L val secs ok"
    and cm: "si_OperatorConfigMap (sharedInfo s) = Some cm" "Load L (cm_get cm ConfigMapDataKey) = Inr f"
    and ports: "V (world s) = Some m"
  shows "\<exists>r err s' m'. Reconcile_node N L req s = Some ((r, err), s') \<and> V (world s') = Some m'
    \<and> (m' = m \<or> tags_one node_of port_of (req_name req) (get_or_empty (val f) ''coe'' ''cluster'') m m')
    \<and> (err = None \<and> \<not> node_done (cachedNodeSet s) (req_name req)
         \<and> node_done (cachedNodeSet s') (req_name req)
       \<longrightarrow> tags_one node_of port_of (req_name req) (get_or_empty (val f) ''coe'' ''cluster'') m m')"
proof -
  from nsx_server.reconcile_returns [OF server ports] obtain r err s' where
    run: "Reconcile_node N L req s = Some ((r, err), s')" by force
  from nsx_server.reconcile_ports [OF server run ports cm] ini_laws.read_cluster [OF ini]
  show ?thesis using run by auto
qed

theorem node_reconcile_tags_witness:
  "\<exists>r err s' m'. Reconcile_node demo_nsx mini_ini node_request node_operator = Some ((r, err), s')
    \<and> mock_view demo_inventory (world s') = Some m'
    \<and> (m' = visible Map.empty \<or> tags_one (mock_node demo_inventory) (mock_named demo_inventory ''port-'')
         ''n1'' ''c1'' (visible Map.empty) m')"
proof -
  have cm: "si_OperatorConfigMap (sharedInfo node_operator) = Some node_cm"
    and view: "mock_view demo_inventory (world node_operator) = Some (visible Map.empty)"
    using demo_view by (simp_all add: node_operator_def node_info_def)
  from node_reconcile_tags [where N = demo_nsx and req = node_request,
      OF mock_server.nsx_server_axioms mini.ini_laws_axioms cm node_load view]
  show ?thesis by (auto simp: node_options(2) node_request_def)
qed

text \<open>
  C40. The node controller and the NSX mock together. When no call fails, and the node's
  provider ID is well formed and its own, one reconciliation of a node that is not yet
  processed ends without an error, records the node as done, and its port at the mock carries
  the node's and the cluster's tag beside those it had.
\<close>

theorem mock_node_tagged:
  assumes ini: "ini_laws L val secs ok" and conf: "user_config L s f"
    and node: "taggable nodes nd (world s)" and req: "req_name req = n_name nd"
    and fresh: "\<not> node_done (cachedNodeSet s) (n_name nd)"
  shows "\<exists>s' m m' p. Reconcile_node (mock_nsx env docs mar unmar) L req s = Some ((emptyResult, None), s')
    \<and> node_done (cachedNodeSet s') (n_name nd)
    \<and> mock_view nodes (world s) = Some m \<and> mock_view nodes (world s') = Some m'
    \<and> m (''port-'' @ n_name nd) = Some p
    \<and> m' = m(''port-'' @ n_name nd \<mapsto> tagged (n_name nd) (get_or_empty (val f) ''coe'' ''cluster'') p)"
proof -
  have "\<not> was_processed (cachedNodeSet s) (n_name nd) (node_addresses nd)"
    using fresh by (auto simp: was_processed_def node_done_def split: option.splits)
  from idle_reconcile [OF conf node req this, where env = env and docs = docs and mar = mar
      and unmar = unmar] show ?thesis
    unfolding ini_laws.read_cluster [OF ini] by auto
qed

theorem mock_node_tagged_witness:
  "\<exists>s' m. Reconcile_node demo_nsx mini_ini node_request node_operator = Some ((emptyResult, None), s')
    \<and> mock_view demo_inventory (world s') = Some m
    \<and> (\<exists>p. m ''port-n1'' = Some p \<and> port_Tags p = [node_tag ''n1'', cluster_tag ''c1''])"
proof -
  have fresh: "\<not> node_done (cachedNodeSet node_operator) (n_name demo_node)"
    by (simp add: node_operator_def node_done_def)
  have start: "mock_view demo_inventory (world node_operator) = Some (visible Map.empty)"
    using demo_view by (simp add: node_operator_def)
  have new: "visible Map.empty ''port-n1'' = Some (sdk_port (new_port ''port-n1''))"
    by (simp add: visible_def)
  from mock_node_tagged [OF mini.ini_laws_axioms demo_run fresh, where env = "\<lambda>x. []"
      and docs = "\<lambda>x. []" and mar = "\<lambda>x. Inr []" and unmar = "\<lambda>x. Inl (GoError [])"] start new show ?thesis
    by (auto simp: node_options(2) demo_node_def tagged_def node_tag_def cluster_tag_def sdk_port_def
        new_port_def)
qed

end
