(* ===== verification/Startup.thy ===== *)
theory Startup
  imports Pod_Controller Canary_Workaround Node_Controller
begin

text \<open>
  How the process starts: \<open>pkg/controller/sharedinfo/shared_info.go\<close>,
  \<open>pkg/controller/controller.go\<close>, the \<open>add_*.go\<close> files, the \<open>Add\<close> and \<open>add\<close> functions of
  the four controllers, and the choice of the namespace in \<open>cmd/manager/main.go\<close>. The library
  of controllers is a parameter: creating a controller and starting a watch are calls that may
  fail; the controllers that the process has created, with their reconcilers, and the watches it
  has started are kept in lists.
\<close>

section \<open>Shared information\<close>

text \<open>
  \<open>load_ini_file\<close> is \<open>ini.Load\<close> of a path; \<open>read_ncpinstall\<close> the uncached read of the
  manager. \<open>parse_version\<close> and \<open>version_less\<close> are the version library of Kubernetes.
\<close>

record ('w, 'f, 'v) startup_api =
  load_ini_file :: "string \<Rightarrow> 'w \<Rightarrow> (go_error + 'f) \<times> 'w"
  read_ncpinstall :: "nsname \<Rightarrow> 'w \<Rightarrow> (go_error + ncpinstall) \<times> 'w"
  new_clientset :: "'w \<Rightarrow> go_error option \<times> 'w"
  server_version :: "'w \<Rightarrow> (go_error + string) \<times> 'w"
  parse_version :: "string \<Rightarrow> go_error + 'v"
  version_less :: "'v \<Rightarrow> 'v \<Rightarrow> bool"
  new_controller :: "string \<Rightarrow> 'w \<Rightarrow> go_error option \<times> 'w"
  start_watch :: "string \<Rightarrow> 'w \<Rightarrow> go_error option \<times> 'w"

definition os_is_openshift :: "'f ini_lib \<Rightarrow> 'f \<Rightarrow> bool" where
  "os_is_openshift L cfg =
     (case sec_key_string L cfg [] ''ID'' of (ID, cfg) \<Rightarrow>
        ID = ''rhcos'' \<or> fst (sec_has_key L cfg [] ''OPENSHIFT_VERSION''))"

definition getAdaptorName ::
  "('w, 'f, 'v) startup_api \<Rightarrow> 'f ini_lib \<Rightarrow> ('w, go_error + string) state" where
  "getAdaptorName U L = do {
     r \<leftarrow> State (load_ini_file U OsReleaseFile);
     ret (case r of
            Inl err \<Rightarrow> Inl err
          | Inr cfg \<Rightarrow> Inr (if os_is_openshift L cfg then ''openshift4'' else ''kubernetes''))
   }"

text \<open>The code drops the error of parsing its own constant; comparing with nil is a panic.\<close>

definition isPodSecurityPolicySupport ::
  "('w, 'f, 'v) startup_api \<Rightarrow> ('w, go_error + bool) state" where
  "isPodSecurityPolicySupport U = do {
     let version125 = parse_version U ''v1.25.0'';
     e \<leftarrow> State (new_clientset U);
     case e of
       Some err \<Rightarrow> ret (Inr False)
     | None \<Rightarrow> do {
         r \<leftarrow> State (server_version U);
         ret (case r of
                Inl err \<Rightarrow> Inr False
              | Inr serverVersion \<Rightarrow>
                  (case parse_version U serverVersion of
                     Inl err \<Rightarrow> Inr False
                   | Inr runningVersion \<Rightarrow>
                       (case version125 of
                          Inl err \<Rightarrow> Inl nil_pointer
                        | Inr v125 \<Rightarrow> Inr (version_less U runningVersion v125))))
       }
   }"

definition New_SharedInfo ::
  "('w, 'f, 'v) startup_api \<Rightarrow> 'f ini_lib \<Rightarrow> string \<Rightarrow> ('w, go_error + shared_info) state" where
  "New_SharedInfo U L operatorNamespace = do {
     let watchedNamespace = watched_namespace operatorNamespace;
     r \<leftarrow> getAdaptorName U L;
     case r of
       Inl err \<Rightarrow> ret (Inl err)
     | Inr adaptorName \<Rightarrow> do {
         r \<leftarrow> State (read_ncpinstall U (nsn watchedNamespace NcpInstallCRDName));
         case r of
           Inl err \<Rightarrow> ret (Inl err)
         | Inr ncpInstall \<Rightarrow> do {
             let addNodeTag = (if ni_addNodeTag ncpInstall = False then False else True);
             r \<leftarrow> isPodSecurityPolicySupport U;
             ret (case r of
                    Inl p \<Rightarrow> Inl p
                  | Inr podSecurityPolicySupport \<Rightarrow> Inr
                      \<lparr>si_AdaptorName = adaptorName, si_AddNodeTag = addNodeTag,
                       si_PodSecurityPolicySupport = podSecurityPolicySupport,
                       si_LastNodeAgentStartTime = None, si_NetworkConfig = None,
                       si_OperatorConfigMap = None, si_OperatorNsxSecret = None,
                       si_NsxNodeAgentDsSpec = None, si_NsxNcpBootstrapDsSpec = None,
                       si_NsxNcpDeploymentSpec = None\<rparr>)
           }
       }
   }"

section \<open>Events and watches\<close>

datatype object_kind =
    NcpInstalls | ConfigMaps | Networks | Secrets | ClusterRoles | DaemonSets | Deployments
  | Pods | Nodes | NetworkPolicies | Services

text \<open>An object as the filters of the watches see it.\<close>

datatype cluster_object = NodeObject node | NamedObject object_kind nsname

fun ob_kind :: "cluster_object \<Rightarrow> object_kind" where
  "ob_kind (NodeObject nd) = Nodes"
| "ob_kind (NamedObject k n) = k"

fun ob_name :: "cluster_object \<Rightarrow> nsname" where
  "ob_name (NodeObject nd) = nsn [] (n_name nd)"
| "ob_name (NamedObject k n) = n"

datatype event =
    CreateEvent cluster_object
  | UpdateEvent cluster_object cluster_object
  | DeleteEvent cluster_object
  | GenericEvent cluster_object

text \<open>The object an event is about; of an update, the new one.\<close>

fun event_object :: "event \<Rightarrow> cluster_object" where
  "event_object (CreateEvent ob) = ob"
| "event_object (UpdateEvent old new) = new"
| "event_object (DeleteEvent ob) = ob"
| "event_object (GenericEvent ob) = ob"

record watch =
  w_kind :: object_kind
  w_filter :: "event \<Rightarrow> bool"

definition all_events :: "object_kind \<Rightarrow> watch" where
  "all_events k = \<lparr>w_kind = k, w_filter = (\<lambda>e. True)\<rparr>"

definition namespaced_events :: "string \<Rightarrow> object_kind \<Rightarrow> watch" where
  "namespaced_events ns k =
     \<lparr>w_kind = k, w_filter = (\<lambda>e. byNameSpaceFilter ns (ns_namespace (ob_name (event_object e))))\<rparr>"

text \<open>Functions that a filter does not set let their events through.\<close>

fun address_events :: "event \<Rightarrow> bool" where
  "address_events (UpdateEvent (NodeObject old) (NodeObject new)) = nodeAddressChangedPredicate old new"
| "address_events e = True"

definition configmap_watches :: "shared_info \<Rightarrow> string \<Rightarrow> watch list" where
  "configmap_watches si operatorNamespace =
     (let watchedNamespace = watched_namespace operatorNamespace in
      [namespaced_events watchedNamespace NcpInstalls, namespaced_events watchedNamespace ConfigMaps]
      @ (if si_AdaptorName si = ''openshift4'' then [all_events Networks] else [])
      @ [namespaced_events watchedNamespace Secrets, all_events ClusterRoles])"

definition pod_watches :: "watch list" where
  "pod_watches = [all_events DaemonSets, all_events Deployments, all_events Pods]"

definition node_watches :: "watch list" where
  "node_watches = [all_events Nodes]"

definition canary_watches :: "watch list" where
  "canary_watches = [namespaced_events IngressCanaryNamespace NetworkPolicies,
     \<lparr>w_kind = Nodes, w_filter = address_events\<rparr>,
     namespaced_events IngressCanaryNamespace Services]"

text \<open>
  What a handler of events does with the queue of requests, of any type \<open>'q\<close>. The handler of the
  canary controller says in the log which event it passes on to the handler of the library.
\<close>

record 'q event_funcs =
  CreateFunc :: "cluster_object \<Rightarrow> 'q \<Rightarrow> 'q"
  UpdateFunc :: "cluster_object \<Rightarrow> cluster_object \<Rightarrow> 'q \<Rightarrow> 'q"
  DeleteFunc :: "cluster_object \<Rightarrow> 'q \<Rightarrow> 'q"
  GenericFunc :: "cluster_object \<Rightarrow> 'q \<Rightarrow> 'q"

fun handle_event :: "'q event_funcs \<Rightarrow> event \<Rightarrow> 'q \<Rightarrow> 'q" where
  "handle_event H (CreateEvent ob) = CreateFunc H ob"
| "handle_event H (UpdateEvent old new) = UpdateFunc H old new"
| "handle_event H (DeleteEvent ob) = DeleteFunc H ob"
| "handle_event H (GenericEvent ob) = GenericFunc H ob"

record trigger_log =
  tl_kind :: string
  tl_event :: string
  tl_object :: nsname

definition logTrigger ::
  "string \<Rightarrow> string \<Rightarrow> cluster_object \<Rightarrow> trigger_log list \<Rightarrow> trigger_log list" where
  "logTrigger kind eventType ob ls =
     ls @ [\<lparr>tl_kind = kind, tl_event = eventType, tl_object = ob_name ob\<rparr>]"

definition loggingEnqueueHandler ::
  "string \<Rightarrow> 'q event_funcs \<Rightarrow> (trigger_log list \<times> 'q) event_funcs" where
  "loggingEnqueueHandler kind inner =
     \<lparr>CreateFunc = (\<lambda>ob (ls, q). (logTrigger kind ''Create'' ob ls, CreateFunc inner ob q)),
      UpdateFunc = (\<lambda>old new (ls, q). (logTrigger kind ''Update'' new ls, UpdateFunc inner old new q)),
      DeleteFunc = (\<lambda>ob (ls, q). (logTrigger kind ''Delete'' ob ls, DeleteFunc inner ob q)),
      GenericFunc = (\<lambda>ob (ls, q). (logTrigger kind ''Generic'' ob ls, GenericFunc inner ob q))\<rparr>"

text \<open>The requests are those of the library's handler; the log gains one line about the object.\<close>

lemma logging_enqueues:
  "snd (handle_event (loggingEnqueueHandler kind inner) e (ls, q)) = handle_event inner e q"
  "\<exists>t. fst (handle_event (loggingEnqueueHandler kind inner) e (ls, q))
     = ls @ [\<lparr>tl_kind = kind, tl_event = t, tl_object = ob_name (event_object e)\<rparr>]"
  by (cases e; simp add: loggingEnqueueHandler_def logTrigger_def)+

section \<open>Adding the controllers\<close>

text \<open>
  The reconcilers that the controllers are created with: what each holds besides the clients and
  the state that all parts of the process share.
\<close>

datatype reconciler =
    CanaryReconciler
  | ConfigMapReconciler adaptor
  | NodeReconciler
  | PodReconciler "nsname list" adaptor

record 'w boot =
  bt_process :: "'w operator"
  bt_controllers :: "(string \<times> watch list) list"
  bt_reconcilers :: "(string \<times> reconciler) list"

definition empty_boot :: "'w operator \<Rightarrow> 'w boot" where
  "empty_boot s = \<lparr>bt_process = s, bt_controllers = [], bt_reconcilers = []\<rparr>"

lemma empty_boot_sel [simp]:
  "bt_process (empty_boot s) = s" "bt_controllers (empty_boot s) = []" "bt_reconcilers (empty_boot s) = []"
  by (simp_all add: empty_boot_def)

definition on_process :: "('w operator, 'a) state \<Rightarrow> ('w boot, 'a) state" where
  "on_process m = State (\<lambda>b. case run_state m (bt_process b) of
     (a, s) \<Rightarrow> (a, b\<lparr>bt_process := s\<rparr>))"

lemma run_on_process [simp, run_rules]:
  "run_state (on_process m) b = (case run_state m (bt_process b) of (a, s) \<Rightarrow> (a, b\<lparr>bt_process := s\<rparr>))"
  by (simp add: on_process_def)

text \<open>\<open>controller.New\<close> and then \<open>Watch\<close> for each watch in turn.\<close>

definition watch_one ::
  "('w, 'f, 'v) startup_api \<Rightarrow> string \<Rightarrow> watch \<Rightarrow> ('w boot, go_error option) state" where
  "watch_one U name w = do {
     e \<leftarrow> on_process (api (start_watch U name));
     case e of
       Some err \<Rightarrow> ret (Some err)
     | None \<Rightarrow> do {
         modify (\<lambda>b. b\<lparr>bt_controllers :=
           map (\<lambda>(n, ws). if n = name then (n, ws @ [w]) else (n, ws)) (bt_controllers b)\<rparr>);
         ret None
       }
   }"

definition add_controller ::
  "('w, 'f, 'v) startup_api \<Rightarrow> string \<Rightarrow> reconciler \<Rightarrow> watch list
   \<Rightarrow> ('w boot, go_error option) state" where
  "add_controller U name r ws = do {
     e \<leftarrow> on_process (api (new_controller U name));
     case e of
       Some err \<Rightarrow> ret (Some err)
     | None \<Rightarrow> do {
         modify (\<lambda>b. b\<lparr>bt_controllers := bt_controllers b @ [(name, [])],
           bt_reconcilers := bt_reconcilers b @ [(name, r)]\<rparr>);
         for_each (watch_one U name) ws
       }
   }"

definition Add_canary :: "('w, 'f, 'v) startup_api \<Rightarrow> ('w boot, go_error option) state" where
  "Add_canary U = do {
     si \<leftarrow> gets (\<lambda>b. sharedInfo (bt_process b));
     if si_AdaptorName si \<noteq> ''openshift4'' then ret None
     else add_controller U ''canaryworkaround-controller'' CanaryReconciler canary_watches
   }"

definition Add_configmap :: "('w, 'f, 'v) startup_api \<Rightarrow> ('w boot, go_error option) state" where
  "Add_configmap U = do {
     s \<leftarrow> gets bt_process;
     add_controller U ''configmap-controller''
       (ConfigMapReconciler (newReconciler_configmap (sharedInfo s)))
       (configmap_watches (sharedInfo s) (sm_OperatorNamespace (status s)))
   }"

definition Add_node :: "('w, 'f, 'v) startup_api \<Rightarrow> ('w boot, go_error option) state" where
  "Add_node U = add_controller U ''node-controller'' NodeReconciler node_watches"

definition Add_pod :: "('w, 'f, 'v) startup_api \<Rightarrow> ('w boot, go_error option) state" where
  "Add_pod U = do {
     r \<leftarrow> on_process newReconciler_pod;
     case r of (nsxNcpResources, A) \<Rightarrow>
       add_controller U ''pod-controller'' (PodReconciler nsxNcpResources A) pod_watches
   }"

text \<open>The list that the \<open>init\<close> functions fill, in the order of their files.\<close>

definition AddToManagerFuncs ::
  "(('w, 'f, 'v) startup_api \<Rightarrow> ('w boot, go_error option) state) list" where
  "AddToManagerFuncs = [Add_canary, Add_configmap, Add_node, Add_pod]"

definition initial_operator :: "string \<Rightarrow> shared_info \<Rightarrow> 'w \<Rightarrow> 'w operator" where
  "initial_operator operatorNamespace si w =
     \<lparr>world = w, status = New_StatusManager ''nsx-ncp'' operatorNamespace si, sharedInfo = si,
      firstBoot = True, cachedNodeSet = [], appliedConfigMap = None\<rparr>"

text \<open>\<open>Inl\<close> when there is no shared information, so that the process has not begun.\<close>

definition AddToManager ::
  "('w, 'f, 'v) startup_api \<Rightarrow> 'f ini_lib \<Rightarrow> string \<Rightarrow> 'w
   \<Rightarrow> go_error \<times> 'w + go_error option \<times> 'w boot" where
  "AddToManager U L operatorNamespace w =
     (case run_state (New_SharedInfo U L operatorNamespace) w of
        (Inl err, w) \<Rightarrow> Inl (err, w)
      | (Inr si, w) \<Rightarrow> Inr (run_state (for_each (\<lambda>f. f U) AddToManagerFuncs)
          (empty_boot (initial_operator operatorNamespace si w))))"

text \<open>The namespace of \<open>main\<close>: the variable \<open>WATCH_NAMESPACE\<close>, unless it lists several.\<close>

definition main_namespace :: "string \<Rightarrow> string" where
  "main_namespace watchNamespace = (if Contains watchNamespace '','' then [] else watchNamespace)"

definition start_operator ::
  "('w, 'f, 'v) startup_api \<Rightarrow> 'f ini_lib \<Rightarrow> string \<Rightarrow> 'w
   \<Rightarrow> go_error \<times> 'w + go_error option \<times> 'w boot" where
  "start_operator U L watchNamespace = AddToManager U L (main_namespace watchNamespace)"

end
