(* ===== verification/Startup_Facts.thy ===== *)
theory Startup_Facts
  imports Startup ConfigMap_Reconcile
begin

text \<open>
  What a start of the process leaves: the controllers with their watches, one adaptor for all
  parts, and a status manager that monitors the resources the pod controller recreates. And
  which events reach the handler of the ConfigMap controller.
\<close>

section \<open>The controllers and their watches\<close>

definition started_controllers :: "shared_info \<Rightarrow> string \<Rightarrow> (string \<times> watch list) list" where
  "started_controllers si ns =
     (if si_AdaptorName si = ''openshift4'' then [(''canaryworkaround-controller'', canary_watches)] else [])
     @ [(''configmap-controller'', configmap_watches si ns), (''node-controller'', node_watches),
        (''pod-controller'', pod_watches)]"

lemma keeps_on_process [keeps_rules]:
  "keeps I m \<Longrightarrow> keeps (\<lambda>b. I (bt_process b)) (on_process m)"
  by (auto simp: keeps_def split: prod.splits dest: spec) (metis snd_conv)

lemma keeps_add_controller: "keeps (\<lambda>b. local_state (bt_process b)) (add_controller U name r ws)"
  unfolding add_controller_def watch_one_def
  by (intro keeps_rules keeps_on_process keeps_api local_state_world) simp_all

lemma run_watch_one:
  "run_state (watch_one U n x) b =
     (case start_watch U n (world (bt_process b)) of (r, w) \<Rightarrow>
        (r, let b = b\<lparr>bt_process := (bt_process b)\<lparr>world := w\<rparr>\<rparr> in
            if r = None then b\<lparr>bt_controllers :=
              map (\<lambda>(k, ws). if k = n then (k, ws @ [x]) else (k, ws)) (bt_controllers b)\<rparr> else b))"
  by (auto simp: watch_one_def Let_def split: prod.splits option.splits)

lemma watch_loop:
  assumes "run_state (for_each (watch_one U n) ws) b = (e, b')"
    and "bt_controllers b = cs @ [(n, d)]" and "n \<notin> fst ` set cs"
  shows "\<exists>ws'. bt_controllers b' = cs @ [(n, d @ ws')] \<and> (e = None \<longrightarrow> ws' = ws)"
  using assms(1,2)
proof (induction ws arbitrary: b d)
  case Nil
  then show ?case by auto
next
  case (Cons x ws)
  obtain r w where call: "start_watch U n (world (bt_process b)) = (r, w)" by force
  have rest: "map (\<lambda>(k, ws). if k = n then (k, ws @ [x]) else (k, ws)) cs = cs"
    using assms(3) by (intro map_idI) force
  show ?case
  proof (cases r)
    case (Some err)
    with Cons.prems call show ?thesis by (auto simp: run_watch_one)
  next
    case None
    let ?b = "b\<lparr>bt_process := (bt_process b)\<lparr>world := w\<rparr>, bt_controllers := cs @ [(n, d @ [x])]\<rparr>"
    have "run_state (for_each (watch_one U n) ws) ?b = (e, b')"
      using Cons.prems call None rest by (simp add: run_watch_one)
    from Cons.IH [OF this, of "d @ [x]"] show ?thesis by auto
  qed
qed

lemma add_controller_run:
  assumes "run_state (add_controller U n r ws) b = (e, b')" and "n \<notin> fst ` set (bt_controllers b)"
  shows "\<exists>new. bt_controllers b' = bt_controllers b @ new \<and> prefix (map fst new) [n]
    \<and> (e = None \<longrightarrow> new = [(n, ws)])"
proof -
  obtain x w where call: "new_controller U n (world (bt_process b)) = (x, w)" by force
  show ?thesis
  proof (cases x)
    case (Some err)
    with assms call show ?thesis by (auto simp: add_controller_def)
  next
    case None
    let ?b = "b\<lparr>bt_process := (bt_process b)\<lparr>world := w\<rparr>, bt_controllers := bt_controllers b @ [(n, [])],
      bt_reconcilers := bt_reconcilers b @ [(n, r)]\<rparr>"
    have "run_state (for_each (watch_one U n) ws) ?b = (e, b')"
      using assms(1) call None by (simp add: add_controller_def)
    from watch_loop [OF this _ assms(2), of "[]"] show ?thesis by auto
  qed
qed

lemma keeps_watches: "keeps bt_reconcilers (for_each (watch_one U n) ws)"
  by (rule keeps_for_each) (auto simp: keeps_def run_watch_one Let_def split: prod.splits)

lemma add_controller_reconciler:
  assumes "run_state (add_controller U n r ws) b = (None, b')"
  shows "bt_reconcilers b' = bt_reconcilers b @ [(n, r)]"
  using assms by (auto simp: add_controller_def dest: keepsD [OF keeps_watches]
      split: prod.splits option.splits)

section \<open>The process after a start\<close>

text \<open>
  The views of the process that a start fixes and that later runs keep: who the manager is,
  what it monitors and which adaptor serves it.
\<close>

definition identity_of :: "'w operator \<Rightarrow> string \<times> nsname list \<times> nsname list \<times> string \<times> adaptor \<times> string" where
  "identity_of s = (sm_name (status s), sm_daemonSets (status s), sm_deployments (status s),
     sm_OperatorNamespace (status s), sm_Adaptor (status s), si_AdaptorName (sharedInfo s))"

definition started_identity :: "bool \<Rightarrow> string \<Rightarrow> string \<times> nsname list \<times> nsname list \<times> string \<times> adaptor \<times> string" where
  "started_identity openshift ns =
     (''nsx-ncp'', getNsxNcpDs NsxNamespace, getNsxNcpDeployments NsxNamespace, ns,
      (if openshift then AdaptorOc else AdaptorK8s), (if openshift then ''openshift4'' else ''kubernetes''))"

lemma New_SharedInfo_cases:
  assumes "run_state (New_SharedInfo U L ns) w = (r, w')"
  obtains (os) err where "fst (load_ini_file U OsReleaseFile w) = Inl err" "r = Inl err"
    | (crd) cfg w1 err where "load_ini_file U OsReleaseFile w = (Inr cfg, w1)"
        "fst (read_ncpinstall U (nsn (watched_namespace ns) NcpInstallCRDName) w1) = Inl err" "r = Inl err"
    | (panic) "r = Inl nil_pointer"
    | (made) cfg w1 crd si where "load_ini_file U OsReleaseFile w = (Inr cfg, w1)"
        "fst (read_ncpinstall U (nsn (watched_namespace ns) NcpInstallCRDName) w1) = Inr crd" "r = Inr si"
        "si_AdaptorName si = (if os_is_openshift L cfg then ''openshift4'' else ''kubernetes'')"
        "si_AddNodeTag si = ni_addNodeTag crd"
        "si_OperatorConfigMap si = None" "si_OperatorNsxSecret si = None" "si_NsxNodeAgentDsSpec si = None"
        "si_NsxNcpBootstrapDsSpec si = None" "si_NsxNcpDeploymentSpec si = None"
  using assms
  by (auto simp: New_SharedInfo_def getAdaptorName_def isPodSecurityPolicySupport_def
      split: prod.splits sum.splits option.splits)

text \<open>
  A function that adds the controllers \<open>cs\<close> to a process that shares \<open>si\<close>: all of them, or on
  an error some of the first.
\<close>

definition adds :: "shared_info \<Rightarrow> string \<Rightarrow> ('w boot, go_error option) state \<Rightarrow> (string \<times> watch list) list \<Rightarrow> bool" where
  "adds si ns m cs \<longleftrightarrow> (\<forall>b e b'. run_state m b = (e, b') \<longrightarrow> sharedInfo (bt_process b) = si
     \<longrightarrow> sm_OperatorNamespace (status (bt_process b)) = ns
     \<longrightarrow> fst ` set cs \<inter> fst ` set (bt_controllers b) = {}
     \<longrightarrow> sharedInfo (bt_process b') = si \<and> sm_OperatorNamespace (status (bt_process b')) = ns
       \<and> (\<exists>new. bt_controllers b' = bt_controllers b @ new \<and> prefix (map fst new) (map fst cs)
            \<and> (e = None \<longrightarrow> new = cs)))"

lemma for_each_cases:
  assumes "run_state (for_each f (x # xs)) s = (e, s')"
  obtains (failed) err where "run_state (f x) s = (Some err, s')" "e = Some err"
    | (next_one) s1 where "run_state (f x) s = (None, s1)" "run_state (for_each f xs) s1 = (e, s')"
  using assms by (auto split: prod.splits option.splits)

lemma adds_controller: "adds si ns (add_controller U n r ws) [(n, ws)]"
  unfolding adds_def
proof (intro allI impI)
  fix b b' :: "'a boot" and e
  assume run: "run_state (add_controller U n r ws) b = (e, b')" and si: "sharedInfo (bt_process b) = si"
    and ns: "sm_OperatorNamespace (status (bt_process b)) = ns"
    and new: "fst ` set [(n, ws)] \<inter> fst ` set (bt_controllers b) = {}"
  from new have "n \<notin> fst ` set (bt_controllers b)" by simp
  from add_controller_run [OF run this] keepsD [OF keeps_add_controller run] si ns
  show "sharedInfo (bt_process b') = si \<and> sm_OperatorNamespace (status (bt_process b')) = ns
     \<and> (\<exists>new. bt_controllers b' = bt_controllers b @ new
          \<and> prefix (map fst new) (map fst [(n, ws)]) \<and> (e = None \<longrightarrow> new = [(n, ws)]))"
    by (simp add: local_state_def)
qed

lemma adds_all:
  assumes "list_all2 (\<lambda>f cs. adds si ns (f U) cs) fs css" and "distinct (map fst (concat css))"
  shows "adds si ns (for_each (\<lambda>f. f U) fs) (concat css)"
  using assms
proof (induction fs css rule: list_all2_induct)
  case Nil
  then show ?case by (auto simp: adds_def)
next
  case (Cons f fs cs css)
  show ?case
    unfolding adds_def
  proof (intro allI impI)
    fix b b' e
    assume run: "run_state (for_each (\<lambda>f. f U) (f # fs)) b = (e, b')"
      and si: "sharedInfo (bt_process b) = si" and ns: "sm_OperatorNamespace (status (bt_process b)) = ns"
      and new: "fst ` set (concat (cs # css)) \<inter> fst ` set (bt_controllers b) = {}"
    have apart: "set (map fst cs) \<inter> set (map fst (concat css)) = {}"
      using Cons.prems by (simp only: concat.simps map_append distinct_append)
    from new have here: "fst ` set cs \<inter> fst ` set (bt_controllers b) = {}" by auto
    note first = Cons.hyps(1) [unfolded adds_def, rule_format, OF _ si ns here]
    from run show "sharedInfo (bt_process b') = si \<and> sm_OperatorNamespace (status (bt_process b')) = ns
     \<and> (\<exists>new. bt_controllers b' = bt_controllers b @ new
          \<and> prefix (map fst new) (map fst (concat (cs # css))) \<and> (e = None \<longrightarrow> new = concat (cs # css)))"
    proof (cases rule: for_each_cases)
      case (failed err)
      from first [OF failed(1)] failed(2) show ?thesis by auto
    next
      case (next_one b1)
      from first [OF next_one(1)] have b1: "sharedInfo (bt_process b1) = si"
        "sm_OperatorNamespace (status (bt_process b1)) = ns" "bt_controllers b1 = bt_controllers b @ cs"
        by auto
      have fresh: "fst ` set (concat css) \<inter> fst ` set (bt_controllers b1) = {}"
        unfolding b1(3) using new apart by (simp only: set_map concat.simps set_append image_Un) blast
      have "distinct (map fst (concat css))"
        using Cons.prems by (simp only: concat.simps map_append distinct_append)
      from Cons.IH [OF this, unfolded adds_def, rule_format, OF next_one(2) b1(1,2) fresh]
      obtain new where "sharedInfo (bt_process b') = si"
        "sm_OperatorNamespace (status (bt_process b')) = ns" "bt_controllers b' = bt_controllers b1 @ new"
        "prefix (map fst new) (map fst (concat css))" "e = None \<longrightarrow> new = concat css"
        by blast
      then show ?thesis by (intro conjI exI [of _ "cs @ new"]) (simp_all add: b1(3))
    qed
  qed
qed

lemma adds_canary:
  "adds si ns (Add_canary U)
     (if si_AdaptorName si = ''openshift4'' then [(''canaryworkaround-controller'', canary_watches)] else [])"
  unfolding adds_def
proof (intro allI impI, goal_cases)
  case (1 b e b')
  show ?case
  proof (cases "si_AdaptorName si = ''openshift4''")
    case True
    with 1 have "run_state (add_controller U ''canaryworkaround-controller'' CanaryReconciler canary_watches) b = (e, b')"
      by (simp add: Add_canary_def)
    from adds_controller [unfolded adds_def, rule_format, OF this 1(2,3)] 1(4) True show ?thesis by simp
  next
    case False
    with 1 show ?thesis by (auto simp: Add_canary_def)
  qed
qed

lemma adds_configmap:
  "adds si ns (Add_configmap U) [(''configmap-controller'', configmap_watches si ns)]"
  unfolding adds_def
proof (intro allI impI, goal_cases)
  case (1 b e b')
  then have "run_state (add_controller U ''configmap-controller''
      (ConfigMapReconciler (newReconciler_configmap si)) (configmap_watches si ns)) b = (e, b')"
    by (simp add: Add_configmap_def)
  from adds_controller [unfolded adds_def, rule_format, OF this 1(2-4)] show ?case .
qed

lemma adds_node: "adds si ns (Add_node U) [(''node-controller'', node_watches)]"
  unfolding Add_node_def by (rule adds_controller)

text \<open>The manager once the pod controller has registered what it monitors.\<close>

definition monitoring :: "status_manager \<Rightarrow> status_manager" where
  "monitoring sm = sm\<lparr>sm_daemonSets := getNsxNcpDs NsxNamespace,
     sm_deployments := getNsxNcpDeployments NsxNamespace\<rparr>"

lemma run_newReconciler_pod:
  "run_state newReconciler_pod s =
     ((getNsxNcpDs NsxNamespace @ getNsxNcpDeployments NsxNamespace,
       adaptor_for (si_AdaptorName (sharedInfo s))), s\<lparr>status := monitoring (status s)\<rparr>)"
  by (simp add: newReconciler_pod_def Let_def SetDaemonSets_def SetDeployments_def getNsxSystemNsName_def
      mergeAndGetNsxNcpResources_def monitoring_def)

definition pod_reconciler :: "shared_info \<Rightarrow> reconciler" where
  "pod_reconciler si = PodReconciler (getNsxNcpDs NsxNamespace @ getNsxNcpDeployments NsxNamespace)
     (adaptor_for (si_AdaptorName si))"

lemma adds_pod: "adds si ns (Add_pod U) [(''pod-controller'', pod_watches)]"
  unfolding adds_def
proof (intro allI impI, goal_cases)
  case (1 b e b')
  let ?b = "b\<lparr>bt_process := (bt_process b)\<lparr>status := monitoring (status (bt_process b))\<rparr>\<rparr>"
  from 1 have "run_state (add_controller U ''pod-controller'' (pod_reconciler (sharedInfo (bt_process b)))
      pod_watches) ?b = (e, b')"
    by (simp add: Add_pod_def run_newReconciler_pod pod_reconciler_def)
  from adds_controller [unfolded adds_def, rule_format, OF this] 1(2-4) show ?case
    by (simp add: monitoring_def)
qed

lemma AddToManager_controllers:
  assumes "AddToManager U L ns w = Inr (e, b)"
  obtains si w1 where "run_state (New_SharedInfo U L ns) w = (Inr si, w1)"
    "sharedInfo (bt_process b) = si" "sm_OperatorNamespace (status (bt_process b)) = ns"
    "prefix (map fst (bt_controllers b)) (map fst (started_controllers si ns))"
    "e = None \<longrightarrow> bt_controllers b = started_controllers si ns"
    "run_state (for_each (\<lambda>f. f U) AddToManagerFuncs)
       (empty_boot (initial_operator ns si w1)) = (e, b)"
proof -
  from assms obtain si w1 where info: "run_state (New_SharedInfo U L ns) w = (Inr si, w1)"
    and run: "run_state (for_each (\<lambda>f. f U) AddToManagerFuncs)
       (empty_boot (initial_operator ns si w1)) = (e, b)"
    by (auto simp: AddToManager_def split: prod.splits sum.splits)
  let ?css = "[if si_AdaptorName si = ''openshift4''
      then [(''canaryworkaround-controller'', canary_watches)] else [],
    [(''configmap-controller'', configmap_watches si ns)], [(''node-controller'', node_watches)],
    [(''pod-controller'', pod_watches)]]"
  have concat: "concat ?css = started_controllers si ns" by (simp add: started_controllers_def)
  have "list_all2 (\<lambda>f cs. adds si ns (f U) cs) AddToManagerFuncs ?css"
    unfolding AddToManagerFuncs_def
    by (intro list.rel_intros adds_canary adds_configmap adds_node adds_pod)
  from adds_all [OF this] have "adds si ns (for_each (\<lambda>f. f U) AddToManagerFuncs) (started_controllers si ns)"
    unfolding concat by (simp add: started_controllers_def)
  from this [unfolded adds_def, rule_format, OF run] have
    "sharedInfo (bt_process b) = si \<and> sm_OperatorNamespace (status (bt_process b)) = ns
     \<and> prefix (map fst (bt_controllers b)) (map fst (started_controllers si ns))
     \<and> (e = None \<longrightarrow> bt_controllers b = started_controllers si ns)"
    by (auto simp: initial_operator_def New_StatusManager_def)
  with info run that show ?thesis by blast
qed

lemma keeps_process: "keeps (\<lambda>b. I (bt_process b)) m \<Longrightarrow> run_state m b = (e, b')
    \<Longrightarrow> I (bt_process b') = I (bt_process b)"
  by (auto dest: keepsD)

lemma local_state_shared: "local_state s = local_state s' \<Longrightarrow> sharedInfo s = sharedInfo s'"
  by (simp add: local_state_def)

lemma keeps_Add:
  "keeps (\<lambda>b. local_state (bt_process b)) (Add_canary U)"
  "keeps (\<lambda>b. local_state (bt_process b)) (Add_configmap U)"
  "keeps (\<lambda>b. local_state (bt_process b)) (Add_node U)"
  unfolding Add_canary_def Add_configmap_def Add_node_def
  by (intro keeps_rules keeps_add_controller)+

text \<open>
  A complete start leaves the first state of the process, but for the monitored resources, and
  has created each controller with its reconciler.
\<close>

definition started_reconcilers :: "shared_info \<Rightarrow> (string \<times> reconciler) list" where
  "started_reconcilers si =
     (if si_AdaptorName si = ''openshift4'' then [(''canaryworkaround-controller'', CanaryReconciler)] else [])
     @ [(''configmap-controller'', ConfigMapReconciler (newReconciler_configmap si)),
        (''node-controller'', NodeReconciler), (''pod-controller'', pod_reconciler si)]"

lemma Add_reconcilers:
  assumes "run_state (for_each (\<lambda>f. f U) AddToManagerFuncs) b = (None, b')"
  shows "bt_reconcilers b' = bt_reconcilers b @ started_reconcilers (sharedInfo (bt_process b))"
proof -
  from assms obtain b1 b2 b3 where run: "run_state (Add_canary U) b = (None, b1)"
    "run_state (Add_configmap U) b1 = (None, b2)" "run_state (Add_node U) b2 = (None, b3)"
    "run_state (Add_pod U) b3 = (None, b')"
    unfolding AddToManagerFuncs_def by (auto split: prod.splits option.splits)
  then have si: "sharedInfo (bt_process b1) = sharedInfo (bt_process b)"
    "sharedInfo (bt_process b2) = sharedInfo (bt_process b)" "sharedInfo (bt_process b3) = sharedInfo (bt_process b)"
    using keeps_process [OF keeps_Add(1)] keeps_process [OF keeps_Add(2)] keeps_process [OF keeps_Add(3)]
    by (metis local_state_shared)+
  let ?b = "b3\<lparr>bt_process := (bt_process b3)\<lparr>status := monitoring (status (bt_process b3))\<rparr>\<rparr>"
  from run(4) have "run_state (add_controller U ''pod-controller'' (pod_reconciler (sharedInfo (bt_process b3)))
      pod_watches) ?b = (None, b')" by (simp add: Add_pod_def run_newReconciler_pod pod_reconciler_def)
  note pod = add_controller_reconciler [OF this]
  from run(1) have "bt_reconcilers b1 = bt_reconcilers b @
      (if si_AdaptorName (sharedInfo (bt_process b)) = ''openshift4''
       then [(''canaryworkaround-controller'', CanaryReconciler)] else [])"
    by (cases "si_AdaptorName (sharedInfo (bt_process b)) = ''openshift4''")
       (simp_all add: Add_canary_def add_controller_reconciler)
  moreover from run(2) si have "bt_reconcilers b2 = bt_reconcilers b1 @ [(''configmap-controller'',
      ConfigMapReconciler (newReconciler_configmap (sharedInfo (bt_process b))))]"
    by (simp add: Add_configmap_def add_controller_reconciler)
  moreover from run(3) have "bt_reconcilers b3 = bt_reconcilers b2 @ [(''node-controller'', NodeReconciler)]"
    unfolding Add_node_def by (rule add_controller_reconciler)
  ultimately show ?thesis using pod si by (simp add: started_reconcilers_def)
qed

lemma AddToManager_process:
  assumes "AddToManager U L ns w = Inr (None, b)"
  obtains si w1 where "run_state (New_SharedInfo U L ns) w = (Inr si, w1)"
    "local_state (bt_process b) =
       local_state ((initial_operator ns si w1)\<lparr>status := monitoring (New_StatusManager ''nsx-ncp'' ns si)\<rparr>)"
    "bt_reconcilers b = started_reconcilers si"
proof -
  from AddToManager_controllers [OF assms] obtain si w1 where
    info: "run_state (New_SharedInfo U L ns) w = (Inr si, w1)" and
    run: "run_state (for_each (\<lambda>f. f U) AddToManagerFuncs)
       (empty_boot (initial_operator ns si w1)) = (None, b)" by blast
  from run obtain b1 b2 b3 where
    "run_state (Add_canary U) (empty_boot (initial_operator ns si w1)) = (None, b1)"
    "run_state (Add_configmap U) b1 = (None, b2)" "run_state (Add_node U) b2 = (None, b3)"
    and pod: "run_state (Add_pod U) b3 = (None, b)"
    unfolding AddToManagerFuncs_def
    by (auto split: prod.splits option.splits)
  then have b3: "local_state (bt_process b3) = local_state (initial_operator ns si w1)"
    using keeps_process [OF keeps_Add(1)] keeps_process [OF keeps_Add(2)] keeps_process [OF keeps_Add(3)]
    by (metis empty_boot_sel(1))
  let ?b = "b3\<lparr>bt_process := (bt_process b3)\<lparr>status := monitoring (status (bt_process b3))\<rparr>\<rparr>"
  from pod have "run_state (add_controller U ''pod-controller'' (pod_reconciler (sharedInfo (bt_process b3)))
      pod_watches) ?b = (None, b)"
    by (simp add: Add_pod_def run_newReconciler_pod pod_reconciler_def)
  from keeps_process [OF keeps_add_controller this] b3 info Add_reconcilers [OF run] that show ?thesis
    by (simp add: local_state_def initial_operator_def)
qed

text \<open>The controllers and the shared configuration of a complete start.\<close>

lemma start_complete:
  assumes "start_operator U L env w = Inr (None, b)"
  shows "bt_reconcilers b = started_reconcilers (sharedInfo (bt_process b))
    \<and> si_OperatorConfigMap (sharedInfo (bt_process b)) = None
    \<and> si_OperatorNsxSecret (sharedInfo (bt_process b)) = None"
proof -
  from AddToManager_process [OF assms [unfolded start_operator_def]] obtain si w1 where
    info: "run_state (New_SharedInfo U L (main_namespace env)) w = (Inr si, w1)" and
    loc: "local_state (bt_process b) = local_state ((initial_operator (main_namespace env) si w1)
       \<lparr>status := monitoring (New_StatusManager ''nsx-ncp'' (main_namespace env) si)\<rparr>)" and
    rec: "bt_reconcilers b = started_reconcilers si" .
  from local_state_shared [OF loc] have "sharedInfo (bt_process b) = si" by (simp add: initial_operator_def)
  with info rec show ?thesis by (cases rule: New_SharedInfo_cases) auto
qed

text \<open>
  A start only reads: the calls it makes leave the world as it is. Then it begins in the world
  it was given.
\<close>

definition start_reads :: "('w, 'f, 'v) startup_api \<Rightarrow> bool" where
  "start_reads U \<longleftrightarrow> (\<forall>w. (\<forall>p. snd (load_ini_file U p w) = w) \<and> (\<forall>k. snd (read_ncpinstall U k w) = w)
     \<and> snd (new_clientset U w) = w \<and> snd (server_version U w) = w
     \<and> (\<forall>n. snd (new_controller U n w) = w) \<and> (\<forall>n. snd (start_watch U n w) = w))"

lemma keeps_world_api: "(\<And>w. snd (f w) = w) \<Longrightarrow> keeps world (api f)"
  by (auto simp: keeps_def split: prod.splits) (metis snd_conv)

lemma keeps_world_add:
  assumes "start_reads U"
  shows "keeps (\<lambda>b. world (bt_process b)) (add_controller U n r ws)"
proof -
  have calls: "keeps (\<lambda>b. world (bt_process b)) (on_process (api (new_controller U k)))"
    "keeps (\<lambda>b. world (bt_process b)) (on_process (api (start_watch U k)))" for k
    using assms by (intro keeps_on_process keeps_world_api; simp add: start_reads_def)+
  show ?thesis
    unfolding add_controller_def watch_one_def
    by (intro calls keeps_bind keeps_case_option keeps_for_each keeps_modify keeps_ret) simp_all
qed

lemma start_world:
  assumes "start_reads U" and "start_operator U L env w = Inr (e, b)"
  shows "world (bt_process b) = w"
proof -
  from assms(2) obtain si w1 where info: "run_state (New_SharedInfo U L (main_namespace env)) w = (Inr si, w1)"
    and run: "run_state (for_each (\<lambda>f. f U) AddToManagerFuncs)
       (empty_boot (initial_operator (main_namespace env) si w1)) = (e, b)"
    unfolding start_operator_def by (auto simp: AddToManager_def split: prod.splits sum.splits)
  have "keeps (\<lambda>w. w) (New_SharedInfo U L ns)" for ns
    unfolding New_SharedInfo_def getAdaptorName_def isPodSecurityPolicySupport_def Let_def
    using assms(1) by (intro keeps_rules) (auto simp: keeps_def start_reads_def case_prod_beta)
  from keepsD [OF this info] have w1: "w1 = w" .
  have "keeps world newReconciler_pod" by (simp add: keeps_def run_newReconciler_pod)
  then have "keeps (\<lambda>b. world (bt_process b)) (for_each (\<lambda>f. f U) AddToManagerFuncs)"
    unfolding AddToManagerFuncs_def
    by (intro keeps_for_each)
       (auto simp: Add_canary_def Add_configmap_def Add_node_def Add_pod_def
          intro!: keeps_rules keeps_world_add [OF assms(1)])
  from keepsD [OF this run] w1 show ?thesis by (simp add: initial_operator_def)
qed

section \<open>Events that reach a handler\<close>

text \<open>
  The request that names an object. Cluster-scoped objects have no namespace, all others have
  one.
\<close>

definition object_request :: "cluster_object \<Rightarrow> request" where
  "object_request ob = \<lparr>req_namespace = ns_namespace (ob_name ob), req_name = ns_name (ob_name ob)\<rparr>"

definition well_placed :: "cluster_object \<Rightarrow> bool" where
  "well_placed ob \<longleftrightarrow>
     (ns_namespace (ob_name ob) = [] \<longleftrightarrow> ob_kind ob \<in> {Networks, ClusterRoles, Nodes})"

text \<open>
  What the library of controllers does with a watch: an event of its kind that passes the
  filter enqueues the name of the object the event is about, and nothing else is enqueued.
\<close>

locale controller_runtime =
  fixes deliver :: "watch \<Rightarrow> event \<Rightarrow> request \<Rightarrow> bool"
  assumes delivers: "deliver x e req \<longleftrightarrow> w_kind x = ob_kind (event_object e) \<and> w_filter x e
    \<and> req = object_request (event_object e)"
begin

lemma deliver_all: "deliver (all_events k) e req \<longleftrightarrow>
    ob_kind (event_object e) = k \<and> req = object_request (event_object e)"
  by (auto simp: delivers all_events_def)

lemma deliver_namespaced: "deliver (namespaced_events ns k) e req \<longleftrightarrow>
    ob_kind (event_object e) = k \<and> ns_namespace (ob_name (event_object e)) = ns
    \<and> req = object_request (event_object e)"
  by (auto simp: delivers namespaced_events_def byNameSpaceFilter_def)

lemma deliver_configmap:
  "(\<exists>x \<in> set (configmap_watches si ns). deliver x e req) \<longleftrightarrow> req = object_request (event_object e)
    \<and> (ob_kind (event_object e) \<in> {NcpInstalls, ConfigMaps, Secrets}
         \<and> ns_namespace (ob_name (event_object e)) = watched_namespace ns
       \<or> ob_kind (event_object e) = Networks \<and> si_AdaptorName si = ''openshift4''
       \<or> ob_kind (event_object e) = ClusterRoles)"
  by (auto simp: configmap_watches_def Let_def deliver_all deliver_namespaced)

end

definition enqueue_object :: "watch \<Rightarrow> event \<Rightarrow> request \<Rightarrow> bool" where
  "enqueue_object x e req \<longleftrightarrow> w_kind x = ob_kind (event_object e) \<and> w_filter x e
    \<and> req = object_request (event_object e)"

interpretation queue: controller_runtime enqueue_object
  by unfold_locales (simp add: enqueue_object_def)

text \<open>
  The objects the ConfigMap controller acts on. Names decide, not kinds: a secret with the name
  of the ConfigMap counts as well.
\<close>

definition configmap_input :: "bool \<Rightarrow> string \<Rightarrow> cluster_object \<Rightarrow> bool" where
  "configmap_input openshift watched ob \<longleftrightarrow>
     ob_kind ob \<in> {NcpInstalls, ConfigMaps, Secrets} \<and> ns_namespace (ob_name ob) = watched
       \<and> ns_name (ob_name ob) \<in> {ConfigMapName, NcpInstallCRDName, NsxSecret, LbSecret}
   \<or> (ob_kind ob = Networks \<and> openshift \<or> ob_kind ob = ClusterRoles)
       \<and> ns_name (ob_name ob) \<in> {NetworkCRDName, OperatorRoleName}"

lemma watched_not_empty [simp]: "watched_namespace ns \<noteq> []"
  by (simp add: watched_namespace_def OperatorNamespace_def)

lemma accepts_configmap:
  assumes "well_placed ob"
    and "ob_kind ob \<in> {NcpInstalls, ConfigMaps, Secrets} \<and> ns_namespace (ob_name ob) = watched_namespace ns
       \<or> ob_kind ob = Networks \<and> openshift \<or> ob_kind ob = ClusterRoles"
  shows "accepts_request (watched_namespace ns) (object_request ob)
    \<longleftrightarrow> configmap_input openshift (watched_namespace ns) ob"
  using assms by (auto simp: well_placed_def accepts_request_def object_request_def configmap_input_def)

lemma configmap_input_kind:
  "configmap_input openshift watched ob \<Longrightarrow>
     ob_kind ob \<in> {NcpInstalls, ConfigMaps, Secrets} \<and> ns_namespace (ob_name ob) = watched
     \<or> ob_kind ob = Networks \<and> openshift \<or> ob_kind ob = ClusterRoles"
  by (auto simp: configmap_input_def)

lemma ignored_request:
  assumes "\<not> accepts_request (watched_namespace (sm_OperatorNamespace (status s))) req"
  shows "run_state (Reconcile_configmap E L order A req) s = (done_with None, s)"
  using assms by (simp add: Reconcile_configmap_def)

end
