(* ===== verification/Operator_Run.thy ===== *)
theory Operator_Run
  imports Startup_Facts Pod_Facts Node_Facts
begin

text \<open>
  The running process: after a start, the four handlers run one after the other, in any order
  and for any requests, and the outside world changes between them. The relation
  \<open>operator_step\<close> is one such step. What the handlers share is their state in memory; the
  invariants below say which of it no handler can spoil.
\<close>

section \<open>Steps\<close>

text \<open>
  The clients of the process. The ConfigMap and the node controller read INI texts with
  different options of the library.
\<close>

record ('w, 'd, 'o, 'f) clients =
  cl_nsx :: "('w, 'd, 'o) nsx_api"
  cl_pod :: "'w pod_api"
  cl_canary :: "'w canary_api"
  cl_ini :: "'f ini_lib"
  cl_ini_comments :: "'f ini_lib"
  cl_order :: map_order

definition nsx_resources :: "nsname list" where
  "nsx_resources = getNsxNcpDs NsxNamespace @ getNsxNcpDeployments NsxNamespace"

inductive operator_step :: "('w, 'd, 'o, 'f) clients \<Rightarrow> 'w operator \<Rightarrow> 'w operator \<Rightarrow> bool"
  for C :: "('w, 'd, 'o, 'f) clients" where
  outside: "operator_step C s (s\<lparr>world := w\<rparr>)"
| configure: "run_state (Reconcile_configmap (nc (cl_nsx C)) (cl_ini C) (cl_order C)
      (newReconciler_configmap (sharedInfo s)) req) s = (out, s') \<Longrightarrow> operator_step C s s'"
| check_pods: "run_state (Reconcile_pod (cl_pod C) nsx_resources
      (adaptor_for (si_AdaptorName (sharedInfo s))) req) s = (out, s') \<Longrightarrow> operator_step C s s'"
| tag_nodes: "Reconcile_node (cl_nsx C) (cl_ini_comments C) req s = Some (out, s')
    \<Longrightarrow> operator_step C s s'"
| allow_canary: "si_AdaptorName (sharedInfo s) = ''openshift4''
    \<Longrightarrow> run_state (Reconcile_canary (cl_canary C)) (world s) = (out, w)
    \<Longrightarrow> operator_step C s (s\<lparr>world := w\<rparr>)"

section \<open>What no handler changes\<close>

definition core :: "'w operator \<Rightarrow> (string \<times> nsname list \<times> nsname list \<times> string \<times> adaptor \<times> string)
    \<times> (string \<times> node_status) list \<times> condition option \<times> (string \<Rightarrow> unstructured option)" where
  "core s = (identity_of s, cachedNodeSet s, sm_failing (status s) ClusterNode,
     identifyAndGetK8SObjToCreate (sharedInfo s))"

lemma core_simps [simp]:
  "core (s\<lparr>world := w\<rparr>) = core s" "core (s\<lparr>firstBoot := b\<rparr>) = core s"
  "core (s\<lparr>appliedConfigMap := a\<rparr>) = core s"
  "core (s\<lparr>sharedInfo := (sharedInfo s)\<lparr>si_LastNodeAgentStartTime := t\<rparr>\<rparr>) = core s"
  "core (s\<lparr>sharedInfo := (sharedInfo s)\<lparr>si_AddNodeTag := g\<rparr>\<rparr>) = core s"
  "core (s\<lparr>sharedInfo := (sharedInfo s)\<lparr>si_NetworkConfig := n\<rparr>\<rparr>) = core s"
  "l \<noteq> ClusterNode \<Longrightarrow> core (s\<lparr>status := set_failing l c (status s)\<rparr>) = core s"
  by (simp_all add: core_def identity_of_def identifyAndGetK8SObjToCreate_def fun_eq_iff set_failing_def)

lemma core_local: "local_state s' = local_state s \<Longrightarrow> core s' = core s"
  by (simp add: local_state_def core_def identity_of_def)

lemma keeps_core_local: "keeps local_state m \<Longrightarrow> keeps core m"
  by (auto simp: keeps_def intro: core_local)

lemma keeps_core_reports:
  assumes "l \<noteq> ClusterNode"
  shows "keeps core (setDegraded S l r m)" "keeps core (setNotDegraded S l)"
    "keeps core (SetDegraded S l r m)" "keeps core (SetNotDegraded S l)"
  unfolding SetDegraded_def SetNotDegraded_def setDegraded_def setNotDegraded_def
  by (intro keeps_rules keeps_core_local frame; simp add: assms)+

lemma keeps_core_pods:
  "keeps core (setNodeConditionFromPod S k pd)" "keeps core (CheckExistingAgentPods S)"
proof -
  show cond: "keeps core (setNodeConditionFromPod S k pd)" for k pd
    unfolding setNodeConditionFromPod_def node_condition_of_pod_def setNodeNetworkUnavailable_def
      update_and_assert_def updateNodeStatus_def combineNode_def assertNodeStatus_def Let_def
    by (intro keeps_rules; simp)
  show "keeps core (CheckExistingAgentPods S)"
    unfolding CheckExistingAgentPods_def setNodeNetworkUnavailable_def
      update_and_assert_def updateNodeStatus_def combineNode_def assertNodeStatus_def Let_def
    by (intro keeps_rules cond; simp)
qed

lemma keeps_core_overall: "keeps core (SetFromPodsForOverall S)"
proof -
  have loops: "keeps core (fold_state f xs acc)" if "\<And>x a. keeps core (f x a)"
    for f :: "'x \<Rightarrow> 'b \<Rightarrow> ('a operator, 'b) state" and xs acc
    using that by (induction xs arbitrary: acc) (auto intro!: keeps_rules)
  have "keeps core (ds_step S x a)" "keeps core (dep_step S x b)" for x a b
    unfolding ds_step_def dep_step_def Let_def by (intro keeps_rules; simp)+
  then have survey: "keeps core (survey_rollouts S)"
    unfolding survey_rollouts_def
    by (intro keeps_rules loops keeps_core_local [OF keeps_getLastPodState]; simp)
  show ?thesis
    unfolding SetFromPodsForOverall_def
    by (intro keeps_rules survey keeps_core_reports keeps_core_local [OF keeps_setLastPodState]
        keeps_core_local [OF keeps_setConditions]; simp)
qed

lemma keeps_core_exists: "keeps core (CheckIfNCPK8sResourceExists S name)"
  unfolding CheckIfNCPK8sResourceExists_def Let_def
  by (auto split: sum.splits res_kind.splits intro!: keeps_rules)

lemma keeps_core_pod_ops:
  "keeps core (SetNodeConditionFromPod S key pd)" "keeps core (recreateNsxNcpResourceIfDeleted P A name)"
  "keeps core (recreateNodeAgentPodsIfInvalidResolvConf E)"
proof -
  have clb: "keeps core (clb_loop E ps acc)" for ps acc
    by (induction ps arbitrary: acc) (auto intro!: keeps_rules)
  have del: "keeps core (delete_loop E ps b)" for ps b
    by (induction ps arbitrary: b) (auto intro!: keeps_rules)
  have owner: "keeps core (setControllerReference_pod P A obj)" for obj
    unfolding setControllerReference_pod_def Let_def
    by (cases A) (simp_all, (intro keeps_rules keeps_core_reports; simp)+)
  show "keeps core (SetNodeConditionFromPod S key pd)" "keeps core (recreateNsxNcpResourceIfDeleted P A name)"
    "keeps core (recreateNodeAgentPodsIfInvalidResolvConf E)"
    unfolding SetNodeConditionFromPod_def recreateNsxNcpResourceIfDeleted_def
      createK8sObject_def recreateNodeAgentPodsIfInvalidResolvConf_def
      identifyPodsInCLBDueToInvalidResolvConf_def deletePods_def
    by (intro keeps_rules keeps_core_pods keeps_core_exists keeps_core_reports owner clb del; simp)+
qed

section \<open>The ConfigMap controller\<close>

text \<open>
  The cache of nodes is sound with its report when the report is empty or says what the cache
  says; the report is emptied when tagging is turned off, while the cache stays.
\<close>

definition cache_sound :: "'w operator \<Rightarrow> bool" where
  "cache_sound s \<longleftrightarrow> distinct (map fst (cachedNodeSet s))
     \<and> (sm_failing (status s) ClusterNode = None
        \<or> cache_reported (cachedNodeSet s) (sm_failing (status s) ClusterNode))"

definition specs_named :: "'w operator \<Rightarrow> bool" where
  "specs_named s \<longleftrightarrow> (\<forall>name \<in> set workloads.
     \<forall>u. identifyAndGetK8SObjToCreate (sharedInfo s) name = Some u \<longrightarrow> u_name u = name)"

definition shared_sound :: "string \<times> nsname list \<times> nsname list \<times> string \<times> adaptor \<times> string
    \<Rightarrow> 'w operator \<Rightarrow> bool" where
  "shared_sound i s \<longleftrightarrow> identity_of s = i \<and> cache_sound s \<and> specs_named s"

lemma shared_core: "core s' = core s \<Longrightarrow> shared_sound i s \<Longrightarrow> shared_sound i s'"
  by (simp add: shared_sound_def core_def cache_sound_def specs_named_def)

lemma core_preserves: "keeps core m \<Longrightarrow> preserves (shared_sound i) m"
  by (rule preserves_keeps) (auto intro: shared_core)

lemma shared_node_inv:
  assumes "shared_sound i s" and "rest_of s' = rest_of s" and "cache_sound s'"
  shows "shared_sound i s'"
proof -
  from assms(2) have "sharedInfo s' = sharedInfo s"
    and "set_failing ClusterNode None (status s') = set_failing ClusterNode None (status s)"
    by (simp_all add: rest_of_def)
  then have "identity_of s' = identity_of s"
    by (cases "status s"; cases "status s'") (simp add: identity_of_def set_failing_def)
  with assms \<open>sharedInfo s' = sharedInfo s\<close> show ?thesis
    by (simp add: shared_sound_def specs_named_def)
qed

lemma shared_failing:
  assumes "shared_sound i s" and "c = None \<or> cache_reported (cachedNodeSet s) c"
  shows "shared_sound i (s\<lparr>status := set_failing ClusterNode c (status s)\<rparr>)"
  using assms
  by (auto simp: shared_sound_def identity_of_def cache_sound_def specs_named_def set_failing_def)

lemma preserves_update_specs:
  "preserves (shared_sound i) (updateSharedInfoWithNsxNcpResources objs)"
proof (rule preservesI)
  fix s u s'
  assume run: "run_state (updateSharedInfoWithNsxNcpResources objs) s = (u, s')"
    and ok: "shared_sound i (s :: 'a operator)"
  have "\<forall>name \<in> set workloads. \<forall>u.
      identifyAndGetK8SObjToCreate (foldl note_resource (sharedInfo s) objs) name = Some u
        \<longrightarrow> u_name u = name"
    using ok by (auto simp: identify_noted shared_sound_def specs_named_def find_Some_iff
        split: option.splits)
  moreover have "si_AdaptorName (foldl note_resource si objs) = si_AdaptorName si" for si objs
    by (induction objs arbitrary: si) (simp_all add: note_resource_def)
  ultimately show "shared_sound i s'"
    using run ok
    by (auto simp: updateSharedInfoWithNsxNcpResources_def shared_sound_def identity_of_def
        cache_sound_def specs_named_def identifyAndGetK8SObjToCreate_def)
qed

lemma keeps_core_sharing:
  "keeps core (modify (\<lambda>s. s\<lparr>sharedInfo := (sharedInfo s)\<lparr>si_NetworkConfig := n,
     si_OperatorConfigMap := c, si_OperatorNsxSecret := x\<rparr>\<rparr>))"
  by (intro keeps_rules)
     (simp add: core_def identity_of_def identifyAndGetK8SObjToCreate_def fun_eq_iff)

lemma keeps_core_reads:
  "keeps core (get_secret_or_nil E ns n)" "keeps core (get_configmap_or_nil E n)"
  "keeps core (getNetworkConfig A E)"
  unfolding get_secret_or_nil_def get_configmap_or_nil_def
  by (intro keeps_rules; simp)+ (cases A; auto intro: keeps_rules)

lemma keeps_core_fetch:
  "keeps core (fetch_ncpinstall E watched)" "keeps core (fetch_instance E watched)"
  "keeps core (fetch_network E A)" "keeps core (fetch_secret E watched name fill cm)"
  "keeps core (complete_config E L order A cm net)" "keeps core (render_step E L crd net cm ns ls)"
  unfolding fetch_ncpinstall_def fetch_instance_def fetch_network_def fetch_secret_def
    complete_config_def render_step_def
  by (intro keeps_rules keeps_core_reports keeps_core_reads keeps_Render; simp)+

lemma preserves_SetFromNodes_none:
  assumes "node_reports N"
  shows "preserves (shared_sound i) (SetFromNodes (st (nc N)) [])"
proof (rule preservesI)
  fix s u s'
  assume run: "run_state (SetFromNodes (st (nc N)) []) s = (u, s')" and ok: "shared_sound i s"
  have "fst (range_keys (st (nc N)) [] (world s)) = []"
    using node_reports.range_all [OF assms, of "[]" "world s"] by simp
  with SetFromNodes_local [OF run]
  have "local_state s' = local_state (s\<lparr>status := set_failing ClusterNode None (status s)\<rparr>)"
    by auto
  from shared_core [OF core_local [OF this] shared_failing [OF ok]] show "shared_sound i s'" by simp
qed

lemma preserves_sync_tag:
  assumes "node_reports N"
  shows "preserves (shared_sound i) (sync_add_node_tag (nc N) b)"
  unfolding sync_add_node_tag_def
  by (intro preserves_rules preserves_SetFromNodes_none assms) (auto elim!: shared_core [rotated])

lemma keeps_core_comparisons:
  "keeps core (isSecretChanged E ns ls)" "keeps core (isNsxNodeAgentDsChanged E tol)"
  "keeps core (isNcpDeploymentChanged E n sel tol)" "keeps core (isAnyMonitoredNCPResDeleted E)"
proof -
  have "keeps core (any_deleted_loop E names)" for names
    by (induction names) (auto intro!: keeps_rules keeps_core_exists)
  then show "keeps core (isAnyMonitoredNCPResDeleted E)"
    unfolding isAnyMonitoredNCPResDeleted_def .
qed (unfold isSecretChanged_def isNsxNodeAgentDsChanged_def isNcpDeploymentChanged_def,
     (intro keeps_rules keeps_core_reads; simp)+)

lemma keeps_core_finish: "keeps core (finish E L ci b)"
  unfolding finish_def updateNetworkStatus_def Let_def
  by (intro keeps_rules keeps_core_reports; simp)

lemma keeps_core_decide:
  "keeps core (init_applied E L)" "keeps core (decide E L A ci)"
  unfolding init_applied_def decide_def check_unchanged_def Let_def
  by (intro keeps_rules keeps_core_reports keeps_core_reads keeps_core_comparisons keeps_core_finish; simp)+

lemma keeps_core_apply_one: "keeps core (apply_one E A net need obj)"
  unfolding apply_one_def patch_all_def patch_if_def patchObjSpecAnnotations_def Let_def
  by (intro keeps_rules keeps_core_reports; simp)

section \<open>The node controller\<close>

lemma node_inv_sound: "node_inv s \<Longrightarrow> cache_sound s"
  by (simp add: node_inv_def cache_sound_def)

lemma shared_world [simp]: "shared_sound i (s\<lparr>world := w\<rparr>) = shared_sound i s"
  by (simp add: shared_sound_def identity_of_def cache_sound_def specs_named_def)

lemma preserves_shared_api: "preserves (shared_sound i) (api f)"
  by (rule preserves_api) simp

text \<open>A change of the cache that is reported at once.\<close>

lemma preserves_report:
  assumes N: "node_reports (N :: ('w, 'd, 'o) nsx_api)" and f: "\<And>c. distinct (map fst c) \<Longrightarrow> distinct (map fst (f c))"
    and k: "preserves (shared_sound i) k"
  shows "preserves (shared_sound i) (do {
    u \<leftarrow> modify (\<lambda>s. s\<lparr>cachedNodeSet := f (cachedNodeSet s)\<rparr>); v \<leftarrow> report_nodes N; k })"
proof (rule preservesI)
  fix s :: "'w operator" and a s'
  let ?s = "s\<lparr>cachedNodeSet := f (cachedNodeSet s)\<rparr>"
  assume run: "run_state (do {
    u \<leftarrow> modify (\<lambda>s. s\<lparr>cachedNodeSet := f (cachedNodeSet s)\<rparr>); v \<leftarrow> report_nodes N; k }) s = (a, s')"
    and ok: "shared_sound i s"
  obtain u s1 where rep: "run_state (report_nodes N) ?s = (u, s1)" by (metis surj_pair)
  from ok have "distinct (map fst (cachedNodeSet ?s))"
    by (simp add: shared_sound_def cache_sound_def f)
  then have "cache_sound s1" by (rule node_inv_sound [OF yieldsD [OF node_reports.report_nodes_inv [OF N] rep]])
  moreover have "rest_of s1 = rest_of s" using keepsD [OF rest_reports rep] by simp
  ultimately have "shared_sound i s1" using shared_node_inv [OF ok] by blast
  with run rep show "shared_sound i s'" by (auto dest: preservesD [OF k])
qed

lemma preserves_node_failed:
  assumes "node_reports N"
  shows "preserves (shared_sound i) (node_failed N name addrs reason err)"
    "preserves (shared_sound i) (node_error N name addrs why err)"
proof -
  show f: "preserves (shared_sound i) (node_failed N name addrs reason err)" for reason
    unfolding node_failed_def cache_node_def
    by (intro preserves_report preserves_rules assms) (simp add: distinct_update)
  show "preserves (shared_sound i) (node_error N name addrs why err)"
    unfolding node_error_def by (intro preserves_rules f)
qed

lemma preserves_fill_cache: "preserves (shared_sound i) (fill_cache N)"
proof (rule preservesI)
  fix s e s'
  assume run: "run_state (fill_cache N) s = (e, s')" and ok: "shared_sound i s"
  show "shared_sound i s'"
  proof (cases "cachedNodeSet s = [] \<and> (\<exists>nodes. fst (list_nodes (st (nc N)) (world s)) = Inr nodes)")
    case False
    with run ok show ?thesis by (auto simp: fill_cache_def split: prod.splits sum.splits if_splits)
  next
    case True
    then obtain nodes w where list: "list_nodes (st (nc N)) (world s) = (Inr nodes, w)"
      by (metis prod.collapse)
    let ?c = "foldl (\<lambda>c nd. AList.update (fst (unprocessed nd)) (snd (unprocessed nd)) c) [] nodes"
    have s': "s' = s\<lparr>world := w, cachedNodeSet := ?c\<rparr>" using run True list by (simp add: fill_cache_def)
    have "sm_failing (status s) ClusterNode = None"
      using ok True by (auto simp: shared_sound_def cache_sound_def cache_reported_def)
    then have "cache_sound s'" using unprocessed_cache [of "[]" nodes] s' by (simp add: cache_sound_def)
    moreover have "rest_of s' = rest_of s" using s' by simp
    ultimately show ?thesis using shared_node_inv [OF ok] by blast
  qed
qed

lemma preserves_ports:
  assumes "node_reports N"
  shows "preserves (shared_sound i) (tag_port N name addrs C p)"
    "preserves (shared_sound i) (select_ports N name addrs C ports)"
  unfolding tag_port_def select_ports_def Let_def
  by (intro preserves_rules preserves_shared_api preserves_node_failed assms
      core_preserves [OF keeps_core_local [OF node_local.view_filterPorts]])+

section \<open>After a start\<close>

lemma start_shared:
  assumes "start_operator U L env w = Inr (None, b)"
  obtains cfg w1 crd w2 where "load_ini_file U OsReleaseFile w = (Inr cfg, w1)"
    "read_ncpinstall U (nsn (watched_namespace (main_namespace env)) NcpInstallCRDName) w1 = (Inr crd, w2)"
    "si_AddNodeTag (sharedInfo (bt_process b)) = ni_addNodeTag crd"
    "shared_sound (started_identity (os_is_openshift L cfg) (main_namespace env)) (bt_process b)"
    "cachedNodeSet (bt_process b) = []" "sm_failing (status (bt_process b)) = (\<lambda>_. None)"
    "appliedConfigMap (bt_process b) = None" "firstBoot (bt_process b)"
proof -
  from AddToManager_process [OF assms [unfolded start_operator_def]] obtain si w1 where
    info: "run_state (New_SharedInfo U L (main_namespace env)) w = (Inr si, w1)" and
    loc: "local_state (bt_process b) = local_state ((initial_operator (main_namespace env) si w1)
       \<lparr>status := monitoring (New_StatusManager ''nsx-ncp'' (main_namespace env) si)\<rparr>)" .
  from info show thesis
  proof (cases rule: New_SharedInfo_cases)
    case (made cfg w2 crd si')
    obtain w3 where
      "read_ncpinstall U (nsn (watched_namespace (main_namespace env)) NcpInstallCRDName) w2 = (Inr crd, w3)"
      using made(2) by (metis prod.collapse)
    with made loc show thesis
      by (intro that [of cfg w2 crd w3])
         (auto simp: local_state_def initial_operator_def monitoring_def New_StatusManager_def
            shared_sound_def identity_of_def started_identity_def cache_sound_def specs_named_def
            identifyAndGetK8SObjToCreate_def adaptor_for_def)
  qed simp_all
qed

end
