(* ===== verification/Interleaving.thy ===== *)
theory Interleaving
  imports Operator_Run
begin

text \<open>
  The four controllers run at the same time, each with one request at a time, and share the
  memory of the process without a lock of their own. Here a handler is a task: a sequence of
  phases, between which the phases of the other handlers, new requests and changes outside may
  come. A phase is a call of one of the handlers' operations (a read, a completion, one object
  applied, one port tagged, one report). Run alone, a task does what its handler does; no phase
  spoils what the handlers share, whatever comes between the phases of a handler.
\<close>

named_theorems safe_rules
  \<open>introduction rules for \<open>task_safe\<close>\<close>

section \<open>Tasks\<close>

text \<open>A phase that does not return is \<open>None\<close>.\<close>

datatype ('s, 'r) task = Done 'r | Phase "'s \<Rightarrow> (('s, 'r) task \<times> 's) option"

primrec run_task :: "('s, 'r) task \<Rightarrow> 's \<Rightarrow> ('r \<times> 's) option" where
  "run_task (Done r) = (\<lambda>s. Some (r, s))"
| "run_task (Phase f) = (\<lambda>s. case (map_option (map_prod run_task id) \<circ> f) s of
     None \<Rightarrow> None | Some (g, s') \<Rightarrow> g s')"

definition phase :: "('s, 'a) state \<Rightarrow> ('a \<Rightarrow> ('s, 'r) task) \<Rightarrow> ('s, 'r) task" where
  "phase m k = Phase (\<lambda>s. case run_state m s of (a, s') \<Rightarrow> Some (k a, s'))"

definition phase_or ::
  "('s, 'r + 'a) state \<Rightarrow> ('a \<Rightarrow> ('s, 'r) task) \<Rightarrow> ('s, 'r) task" where
  "phase_or m k = phase m (\<lambda>x. case x of Inl r \<Rightarrow> Done r | Inr a \<Rightarrow> k a)"

primrec phases :: "('a \<Rightarrow> ('s, 'r option) state) \<Rightarrow> 'a list \<Rightarrow> ('s, 'r) task \<Rightarrow> ('s, 'r) task" where
  "phases f [] k = k"
| "phases f (x # xs) k = phase (f x) (\<lambda>r. case r of Some r \<Rightarrow> Done r | None \<Rightarrow> phases f xs k)"

lemma run_phase [simp]:
  "run_task (phase m k) s = (case run_state m s of (a, s') \<Rightarrow> run_task (k a) s')"
  by (simp add: phase_def split: prod.splits)

lemma run_phase_or [simp]:
  "run_task (phase_or m k) s =
     (case run_state m s of (Inl r, s') \<Rightarrow> Some (r, s') | (Inr a, s') \<Rightarrow> run_task (k a) s')"
  by (auto simp: phase_or_def split: prod.splits sum.splits)

lemma run_phases:
  "run_task (phases f xs k) s =
     (case run_state (for_each f xs) s of (Some r, s') \<Rightarrow> Some (r, s') | (None, s') \<Rightarrow> run_task k s')"
  by (induction xs arbitrary: s) (auto split: prod.splits option.splits)

text \<open>
  A task is safe when none of its phases, started in any state with the invariant, spoils it.
\<close>

inductive task_safe :: "('s \<Rightarrow> bool) \<Rightarrow> ('s, 'r) task \<Rightarrow> bool" for I where
  safe_Done: "task_safe I (Done r)"
| safe_Phase: "\<forall>s t s'. I s \<longrightarrow> f s = Some (t, s') \<longrightarrow> I s' \<and> task_safe I t \<Longrightarrow> task_safe I (Phase f)"

inductive_cases task_safe_PhaseE: "task_safe I (Phase f)"

declare safe_Done [safe_rules]

lemma safe_phase [safe_rules]:
  "preserves I m \<Longrightarrow> (\<And>a. task_safe I (k a)) \<Longrightarrow> task_safe I (phase m k)"
  unfolding phase_def by (rule safe_Phase) (auto dest: preservesD split: prod.splits)

lemma safe_if [safe_rules]:
  "task_safe I t \<Longrightarrow> task_safe I u \<Longrightarrow> task_safe I (if b then t else u)"
  by simp

lemma safe_case_sum [safe_rules]:
  "(\<And>y. task_safe I (f y)) \<Longrightarrow> (\<And>y. task_safe I (g y)) \<Longrightarrow>
   task_safe I (case x of Inl y \<Rightarrow> f y | Inr y \<Rightarrow> g y)"
  by (cases x) auto

lemma safe_case_option [safe_rules]:
  "task_safe I t \<Longrightarrow> (\<And>y. task_safe I (f y)) \<Longrightarrow> task_safe I (case x of None \<Rightarrow> t | Some y \<Rightarrow> f y)"
  by (cases x) auto

lemma safe_case_prod [safe_rules]:
  "(\<And>a b. task_safe I (f a b)) \<Longrightarrow> task_safe I (case x of (a, b) \<Rightarrow> f a b)"
  by (cases x) auto

lemma safe_phase_or [safe_rules]:
  "preserves I m \<Longrightarrow> (\<And>a. task_safe I (k a)) \<Longrightarrow> task_safe I (phase_or m k)"
  unfolding phase_or_def by (intro safe_rules)

lemma safe_phases [safe_rules]:
  "(\<And>x. preserves I (f x)) \<Longrightarrow> task_safe I k \<Longrightarrow> task_safe I (phases f xs k)"
  by (induction xs) (auto intro!: safe_rules)

section \<open>The handlers as tasks\<close>

definition read_task ::
  "'w cluster_api \<Rightarrow> 'f ini_lib \<Rightarrow> map_order \<Rightarrow> adaptor \<Rightarrow> string
   \<Rightarrow> (cm_inputs \<Rightarrow> ('w operator, outcome) task) \<Rightarrow> ('w operator, outcome) task" where
  "read_task E L order A watched k =
     phase_or (fetch_ncpinstall E watched) (\<lambda>crd.
     phase (sync_add_node_tag E (ni_addNodeTag crd)) (\<lambda>_.
     phase_or (fetch_instance E watched) (\<lambda>cm.
     phase_or (fetch_network E A) (\<lambda>net.
     phase_or (complete_config E L order A cm net) (\<lambda>cm.
     phase_or (fetch_secret E watched NsxSecret (FillNsxAuthCfg L) cm) (\<lambda>(nsxSecret, cm).
     phase_or (fetch_secret E watched LbSecret (FillLbCertCfg L) cm) (\<lambda>(lbSecret, cm).
     phase_or (render_step E L crd net cm nsxSecret lbSecret) k)))))))"

definition apply_task ::
  "'w cluster_api \<Rightarrow> 'f ini_lib \<Rightarrow> adaptor \<Rightarrow> cm_inputs \<Rightarrow> podNeedChange \<times> bool
   \<Rightarrow> ('w operator, outcome) task" where
  "apply_task E L A ci d = (case d of (need, networkConfigChanged) \<Rightarrow>
     phases (apply_one E A (ci_network ci) need) (ci_objs ci)
       (phase (modify (\<lambda>s. s\<lparr>appliedConfigMap := Some (ci_instance ci)\<rparr>)) (\<lambda>_.
        phase (finish E L ci networkConfigChanged) Done)))"

definition configmap_task ::
  "'w cluster_api \<Rightarrow> 'f ini_lib \<Rightarrow> map_order \<Rightarrow> adaptor \<Rightarrow> request \<Rightarrow> ('w operator, outcome) task"
where
  "configmap_task E L order A req =
     phase (gets (\<lambda>s. watched_namespace (sm_OperatorNamespace (status s)))) (\<lambda>watched.
     if \<not> accepts_request watched req then Done (done_with None)
     else read_task E L order A watched (\<lambda>ci.
       phase (updateSharedInfoWithNsxNcpResources (ci_objs ci)) (\<lambda>_.
       phase (modify (\<lambda>s. s\<lparr>sharedInfo := (sharedInfo s)\<lparr>si_NetworkConfig := Some (ci_network ci),
         si_OperatorConfigMap := Some (ci_instance ci),
         si_OperatorNsxSecret := ci_nsxSecret ci\<rparr>\<rparr>)) (\<lambda>_.
       phase_or (init_applied E L) (\<lambda>_.
       phase_or (decide E L A ci) (apply_task E L A ci))))))"

definition pod_task ::
  "'w pod_api \<Rightarrow> nsname list \<Rightarrow> adaptor \<Rightarrow> request \<Rightarrow> ('w operator, outcome) task" where
  "pod_task P nsxNcpResources A req =
     phase (CheckExistingAgentPods (st (pc P))) (\<lambda>r.
     if fst r \<noteq> emptyResult \<or> snd r \<noteq> None then Done r
     else if \<not> isForNcpDeployOrNodeAgentDS nsxNcpResources req then
       (if isForNsxNodeAgentPod req
        then phase (SetNodeConditionFromPod (st (pc P)) (nsn (req_namespace req) (req_name req)) None) Done
        else Done (emptyResult, None))
     else phase (SetFromPodsForOverall (st (pc P))) (\<lambda>_.
       phase (recreateNsxNcpResourceIfDeleted P A (req_name req)) (\<lambda>err.
       case err of
         Some e \<Rightarrow> Done (retry_with e)
       | None \<Rightarrow>
           if req_name req = NsxNodeAgentDsName then
             phase (recreateNodeAgentPodsIfInvalidResolvConf (pc P)) (\<lambda>err.
             case err of
               Some e \<Rightarrow> Done (retry_with e)
             | None \<Rightarrow> Done (requeueAfter DefaultResyncPeriod, None))
           else Done (requeueAfter DefaultResyncPeriod, None))))"

text \<open>
  The cache of nodes belongs to the node controller alone, and a change of it and its report
  count as one phase.
\<close>

definition finish_task ::
  "('w, 'd, 'o) nsx_api \<Rightarrow> string \<Rightarrow> string list \<Rightarrow> NsxClients \<Rightarrow> go_error + string
   \<Rightarrow> ('w operator, outcome) task" where
  "finish_task N name addrs C vm =
     (let failing = (\<lambda>reason err. phase (node_error N name addrs reason err) Done) in
      case vm of
        Inl err \<Rightarrow> failing (''Unable to get NSX External ID for node '' @ name) err
      | Inr externalId \<Rightarrow>
          phase (listAttachmentsByNodeExternalId N C externalId) (\<lambda>r. case r of
            Inl err \<Rightarrow> failing (''Error while achieving attachment ids for node '' @ name) err
          | Inr ids \<Rightarrow>
          phase (listPortsByAttachmentIds N C ids) (\<lambda>r. case r of
            Inl err \<Rightarrow> failing (''Unable to get any Segment Port for node '' @ name) err
          | Inr ports \<Rightarrow>
          phase_or (select_ports N name addrs C ports) (\<lambda>ports.
          phases (tag_port N name addrs C) ports
            (phase (do {
               cache_node name \<lparr>nst_addresses = addrs, nst_success = True, nst_reason = []\<rparr>;
               report_nodes N;
               ret (emptyResult, None)
             }) Done)))))"

definition search_task ::
  "('w, 'd, 'o) nsx_api \<Rightarrow> request \<Rightarrow> node \<Rightarrow> string list \<Rightarrow> NsxClients \<Rightarrow> ('w operator, outcome) task"
where
  "search_task N req nd addrs C = Phase (\<lambda>s.
     case getNodeExternalIdByProviderId N C (req_name req) (n_providerID nd) (world s) of
       None \<Rightarrow> None
     | Some (vm, w) \<Rightarrow> Some (finish_task N (req_name req) addrs C vm, s\<lparr>world := w\<rparr>))"

definition node_task ::
  "('w, 'd, 'o) nsx_api \<Rightarrow> 'f ini_lib \<Rightarrow> request \<Rightarrow> ('w operator, outcome) task" where
  "node_task N L req =
     phase (gets (\<lambda>s. si_AddNodeTag (sharedInfo s))) (\<lambda>addNodeTag.
     if addNodeTag = False then Done (emptyResult, None)
     else phase (fill_cache N) (\<lambda>e. case e of
       Some err \<Rightarrow> Done (emptyResult, Some err)
     | None \<Rightarrow>
     phase (api (get_node (st (nc N)) (req_name req))) (\<lambda>r. case r of
       Inl err \<Rightarrow>
         if is_not_found err then
           phase (do {
             modify (\<lambda>s. s\<lparr>cachedNodeSet := AList.delete (req_name req) (cachedNodeSet s)\<rparr>);
             report_nodes N;
             ret (emptyResult, None)
           }) Done
         else phase (node_error N (req_name req) []
                (''Failed to get the node '' @ req_name req) err) Done
     | Inr nd \<Rightarrow>
     phase (gets cachedNodeSet) (\<lambda>cache.
     if was_processed cache (req_name req) (node_addresses nd) then Done (emptyResult, None)
     else phase (createNsxClients N L) (\<lambda>r. case r of
       Inl err \<Rightarrow> phase (node_error N (req_name req) (node_addresses nd)
                (''Failed to create NSX config for node '' @ req_name req) err) Done
     | Inr C \<Rightarrow> search_task N req nd (node_addresses nd) C)))))"

text \<open>
  The canary handler changes nothing in memory, and it is one phase.
\<close>

definition canary_task :: "'w canary_api \<Rightarrow> ('w operator, outcome) task" where
  "canary_task K = Phase (\<lambda>s. case run_state (Reconcile_canary K) (world s) of
     (out, w) \<Rightarrow> Some (Done out, s\<lparr>world := w\<rparr>))"

section \<open>Run alone, a task is its handler\<close>

lemma run_read_task:
  "run_task (read_task E L order A watched k) s =
     (case run_state (read_inputs E L order A watched) s of
        (Inl r, s') \<Rightarrow> Some (r, s') | (Inr ci, s') \<Rightarrow> run_task (k ci) s')"
  unfolding read_task_def read_inputs_def
  by (auto simp: run_and_then split: prod.splits sum.splits)

lemma run_apply_task:
  "run_task (apply_task E L A ci d) s = Some (run_state (apply_and_finish E L A ci d) s)"
  by (auto simp: apply_task_def apply_and_finish_def apply_objects_def run_phases
      split: prod.splits option.splits)

lemma run_configmap_task:
  "run_task (configmap_task E L order A req) s = Some (run_state (Reconcile_configmap E L order A req) s)"
  unfolding configmap_task_def Reconcile_configmap_def share_inputs_def
  by (auto simp: run_read_task run_apply_task run_or_return split: prod.splits sum.splits)

lemma run_pod_task:
  "run_task (pod_task P rs A req) s = Some (run_state (Reconcile_pod P rs A req) s)"
  by (auto simp: pod_task_def Reconcile_pod_def split: prod.splits option.splits)

lemma run_finish_task:
  "run_task (finish_task N name addrs C vm) s = Some (run_state (finish_node N name addrs C vm) s)"
  by (auto simp: finish_task_def finish_node_def run_phases run_or_return Let_def
      split: prod.splits option.splits sum.splits)

lemma run_node_task: "run_task (node_task N L req) s = Reconcile_node N L req s"
  by (auto simp: node_task_def search_task_def Reconcile_node_def begin_node_def run_finish_task Let_def
      split: prod.splits option.splits sum.splits)

lemma run_canary_task:
  "run_task (canary_task K) s =
     (case run_state (Reconcile_canary K) (world s) of (out, w) \<Rightarrow> Some (out, s\<lparr>world := w\<rparr>))"
  by (simp add: canary_task_def split: prod.splits)

section \<open>No phase spoils the invariant\<close>

lemma safe_core [safe_rules]:
  "keeps core m \<Longrightarrow> (\<And>a. task_safe (shared_sound i) (k a)) \<Longrightarrow> task_safe (shared_sound i) (phase m k)"
  by (rule safe_phase [OF core_preserves])

lemma safe_core_or [safe_rules]:
  "keeps core m \<Longrightarrow> (\<And>a. task_safe (shared_sound i) (k a)) \<Longrightarrow> task_safe (shared_sound i) (phase_or m k)"
  by (rule safe_phase_or [OF core_preserves])

lemma configmap_task_safe:
  assumes "node_reports N"
  shows "task_safe (shared_sound i) (configmap_task (nc N) L order A req)"
proof -
  have applied: "keeps core (modify (\<lambda>s. s\<lparr>appliedConfigMap := c\<rparr>))" for c
    by (intro keeps_rules) simp
  show ?thesis
    unfolding configmap_task_def read_task_def apply_task_def
    by (intro safe_Done safe_if safe_case_prod safe_core safe_core_or keeps_core_fetch keeps_core_sharing
        keeps_core_decide safe_phases core_preserves [OF keeps_core_apply_one] applied keeps_core_finish
        safe_phase preserves_sync_tag preserves_update_specs assms keeps_gets)
qed

lemma pod_task_safe: "task_safe (shared_sound i) (pod_task P rs A req)"
  unfolding pod_task_def
  by (intro safe_Done safe_if safe_case_option safe_core keeps_core_pods keeps_core_overall keeps_core_pod_ops)

lemma node_task_safe:
  assumes "node_reports N"
  shows "task_safe (shared_sound i) (node_task N L req)"
proof -
  have "task_safe (shared_sound i) (finish_task N name addrs C vm)" for name addrs C vm
    unfolding finish_task_def Let_def cache_node_def
    by (intro safe_Done safe_case_sum safe_core safe_core_or keeps_core_local
        safe_phases safe_phase safe_phase_or preserves_ports preserves_report
        node_local.view_attachments node_local.view_listPorts preserves_node_failed preserves_ret assms)
       (simp add: distinct_update)
  then have "task_safe (shared_sound i) (search_task N req nd addrs C)" for nd addrs C
    unfolding search_task_def by (intro safe_Phase) (auto split: option.splits)
  then show ?thesis
    unfolding node_task_def
    by (intro safe_Done safe_if safe_case_sum safe_case_option safe_core safe_phase preserves_fill_cache
        preserves_shared_api preserves_node_failed preserves_gets keeps_core_local
        preserves_report [where f = "AList.delete (req_name req)"] preserves_ret
        node_local.view_createNsxClients assms keeps_gets)
       (simp add: distinct_delete)
qed

lemma canary_task_safe: "task_safe (shared_sound i) (canary_task K)"
  unfolding canary_task_def by (intro safe_Phase) (auto intro: safe_Done split: prod.splits)

section \<open>The system\<close>

text \<open>
  The memory of the process and the task in work of each controller. A controller takes a
  request only when it has no task; the adaptor it was registered with is the one of the
  \<open>SharedInfo\<close>, and the canary controller is there on OpenShift only.
\<close>

datatype controller = ConfigMapController | PodController | NodeController | CanaryController

record 'w system =
  sys_state :: "'w operator"
  sys_tasks :: "controller \<Rightarrow> ('w operator, outcome) task option"

definition new_task ::
  "('w, 'd, 'o, 'f) clients \<Rightarrow> 'w operator \<Rightarrow> request \<Rightarrow> controller \<Rightarrow> ('w operator, outcome) task" where
  "new_task C s req c = (case c of
     ConfigMapController \<Rightarrow> configmap_task (nc (cl_nsx C)) (cl_ini C) (cl_order C)
                      (newReconciler_configmap (sharedInfo s)) req
   | PodController \<Rightarrow> pod_task (cl_pod C) nsx_resources (adaptor_for (si_AdaptorName (sharedInfo s))) req
   | NodeController \<Rightarrow> node_task (cl_nsx C) (cl_ini_comments C) req
   | CanaryController \<Rightarrow> canary_task (cl_canary C))"

inductive system_step :: "('w, 'd, 'o, 'f) clients \<Rightarrow> 'w system \<Rightarrow> 'w system \<Rightarrow> bool"
  for C :: "('w, 'd, 'o, 'f) clients" where
  outside_changes: "system_step C y (y\<lparr>sys_state := (sys_state y)\<lparr>world := w\<rparr>\<rparr>)"
| take_request: "sys_tasks y c = None
    \<Longrightarrow> c = CanaryController \<longrightarrow> si_AdaptorName (sharedInfo (sys_state y)) = ''openshift4''
    \<Longrightarrow> system_step C y (y\<lparr>sys_tasks := (sys_tasks y)(c \<mapsto> new_task C (sys_state y) req c)\<rparr>)"
| run_phase: "sys_tasks y c = Some (Phase f) \<Longrightarrow> f (sys_state y) = Some (t, s)
    \<Longrightarrow> system_step C y \<lparr>sys_state = s, sys_tasks = (sys_tasks y)(c \<mapsto> t)\<rparr>"
| end_request: "sys_tasks y c = Some (Done out)
    \<Longrightarrow> system_step C y (y\<lparr>sys_tasks := (sys_tasks y)(c := None)\<rparr>)"

text \<open>No controller has a request in work.\<close>

definition idle :: "'w operator \<Rightarrow> 'w system" where
  "idle s = \<lparr>sys_state = s, sys_tasks = (\<lambda>_. None)\<rparr>"

lemma idle_simps [simp]: "sys_state (idle s) = s" "sys_tasks (idle s) = (\<lambda>_. None)"
  by (simp_all add: idle_def)

section \<open>Handlers that run alone\<close>

text \<open>A handler that runs to its end without an interruption is a sequence of phases.\<close>

lemma run_alone:
  "run_task t s = Some (out, s') \<Longrightarrow>
   (system_step C)\<^sup>*\<^sup>* \<lparr>sys_state = s, sys_tasks = (\<lambda>_. None)(c \<mapsto> t)\<rparr> (idle s')"
proof (induction t arbitrary: s)
  case (Done r)
  have "system_step C \<lparr>sys_state = s, sys_tasks = (\<lambda>_. None)(c \<mapsto> Done r)\<rparr> (idle s)"
    using end_request [of "\<lparr>sys_state = s, sys_tasks = (\<lambda>_. None)(c \<mapsto> Done r)\<rparr>" c r C]
    by (simp add: idle_def)
  moreover from Done have "r = out" "s = s'" by simp_all
  ultimately show ?case by blast
next
  case (Phase f)
  from Phase.prems obtain t1 s1 where f: "f s = Some (t1, s1)" and rest: "run_task t1 s1 = Some (out, s')"
    by (auto split: option.splits)
  from run_phase [of "\<lparr>sys_state = s, sys_tasks = (\<lambda>_. None)(c \<mapsto> Phase f)\<rparr>" c f t1 s1 C] f
  have "system_step C \<lparr>sys_state = s, sys_tasks = (\<lambda>_. None)(c \<mapsto> Phase f)\<rparr>
          \<lparr>sys_state = s1, sys_tasks = (\<lambda>_. None)(c \<mapsto> t1)\<rparr>" by simp
  moreover have "(system_step C)\<^sup>*\<^sup>* \<lparr>sys_state = s1, sys_tasks = (\<lambda>_. None)(c \<mapsto> t1)\<rparr> (idle s')"
    by (rule Phase.IH [OF rangeI [of f s], of "(t1, s1)"]) (use f rest in \<open>simp_all add: Basic_BNFs.fsts.intros\<close>)
  ultimately show ?case by (rule converse_rtranclp_into_rtranclp)
qed

lemma handle_alone:
  assumes "c = CanaryController \<longrightarrow> si_AdaptorName (sharedInfo s) = ''openshift4''"
    and "run_task (new_task C s req c) s = Some (out, s')"
  shows "(system_step C)\<^sup>*\<^sup>* (idle s) (idle s')"
proof -
  from take_request [of "idle s" c C req] assms(1)
  have "system_step C (idle s) \<lparr>sys_state = s, sys_tasks = (\<lambda>_. None)(c \<mapsto> new_task C s req c)\<rparr>"
    by (simp add: idle_def)
  from this run_alone [OF assms(2)] show ?thesis by (rule converse_rtranclp_into_rtranclp)
qed

lemma operator_step_phases:
  assumes "operator_step C s s'"
  shows "(system_step C)\<^sup>*\<^sup>* (idle s) (idle s')"
  using assms
proof (cases rule: operator_step.cases)
  case (outside w)
  with outside_changes [of C "idle s" w] show ?thesis by (simp add: idle_def r_into_rtranclp)
next
  case (configure req out)
  then show ?thesis by (intro handle_alone [where c = ConfigMapController]) (simp_all add: new_task_def run_configmap_task)
next
  case (check_pods req out)
  then show ?thesis by (intro handle_alone [where c = PodController]) (simp_all add: new_task_def run_pod_task)
next
  case (tag_nodes req out)
  then show ?thesis by (intro handle_alone [where c = NodeController]) (simp_all add: new_task_def run_node_task)
next
  case (allow_canary out w)
  then show ?thesis
    by (intro handle_alone [where c = CanaryController]) (simp_all add: new_task_def run_canary_task)
qed

lemma operator_run_phases:
  "(operator_step C)\<^sup>*\<^sup>* s s' \<Longrightarrow> (system_step C)\<^sup>*\<^sup>* (idle s) (idle s')"
  by (induction rule: rtranclp_induct) (auto intro: operator_step_phases rtranclp_trans)

section \<open>The invariant of the system\<close>

definition system_sound :: "string \<times> nsname list \<times> nsname list \<times> string \<times> adaptor \<times> string
    \<Rightarrow> 'w system \<Rightarrow> bool" where
  "system_sound i y \<longleftrightarrow> shared_sound i (sys_state y)
     \<and> (\<forall>c t. sys_tasks y c = Some t \<longrightarrow> task_safe (shared_sound i) t)"

lemma new_task_safe:
  "node_reports (cl_nsx C) \<Longrightarrow> task_safe (shared_sound i) (new_task C s req c)"
  by (cases c) (simp_all add: new_task_def configmap_task_safe pod_task_safe node_task_safe canary_task_safe)

lemma system_step_sound:
  assumes N: "node_reports (cl_nsx C)" and step: "system_step C y y'" and ok: "system_sound i y"
  shows "system_sound i y'"
  using step
proof (cases rule: system_step.cases)
  case (run_phase c f t s)
  from ok run_phase have "shared_sound i s \<and> task_safe (shared_sound i) t"
    unfolding system_sound_def by (blast elim: task_safe_PhaseE)
  with ok run_phase show ?thesis by (auto simp: system_sound_def)
qed (use ok new_task_safe [OF N] in \<open>auto simp: system_sound_def split: if_splits\<close>)

lemma system_run_sound:
  assumes "node_reports (cl_nsx C)" and "(system_step C)\<^sup>*\<^sup>* (idle s) y" and "shared_sound i s"
  shows "shared_sound i (sys_state y)"
proof -
  from assms(3) have "system_sound i (idle s)" by (simp add: system_sound_def)
  with assms(2) have "system_sound i y"
    by (induction rule: rtranclp_induct) (auto intro: system_step_sound [OF assms(1)])
  then show ?thesis by (simp add: system_sound_def)
qed

text \<open>The same for handlers that run one after the other.\<close>

lemma run_shared:
  assumes "node_reports (cl_nsx C)" and "(operator_step C)\<^sup>*\<^sup>* s s'" and "shared_sound i s"
  shows "shared_sound i s'"
  using system_run_sound [OF assms(1) operator_run_phases [OF assms(2)] assms(3)] by simp

end
