(* ===== verification/Operator_Properties.thy ===== *)
theory Operator_Properties
  imports Interleaving Demo_Mock Mock_Drift
begin

text \<open>
  The properties of the process as a whole: its start, the events that reach the ConfigMap
  controller, what no sequence of handlers can spoil, and what a restart repairs.
\<close>

section \<open>A start on the mock cluster\<close>

definition demo_startup :: "(mock_cluster, mini, int list) startup_api" where
  "demo_startup =
     \<lparr>load_ini_file = (\<lambda>p w. (Inr [([], [(''ID'', ''rhcos'')])], w)),
      read_ncpinstall = (\<lambda>k w. (Inr \<lparr>ni_namespace = ns_namespace k, ni_ncpReplicas = 1,
        ni_addNodeTag = True, ni_nodeSelector = None, ni_ncpTolerations = None,
        ni_agentTolerations = None, ni_conditions = []\<rparr>, w)),
      new_clientset = (\<lambda>w. (None, w)), server_version = (\<lambda>w. (Inr ''v1.33.2'', w)),
      parse_version = (\<lambda>v. Inr (map (fst \<circ> Atoi) (Split (TrimPrefix v ''v'') ''.''))),
      version_less = lexordp (<), new_controller = (\<lambda>n w. (None, w)), start_watch = (\<lambda>n w. (None, w))\<rparr>"

definition demo_boot_in :: "mock_cluster \<Rightarrow> mock_cluster boot" where
  "demo_boot_in w = snd (projr (start_operator demo_startup mini_ini [] w))"

abbreviation demo_boot :: "mock_cluster boot" where
  "demo_boot \<equiv> demo_boot_in (mock_cluster_of [demo_node])"

lemma demo_started: "start_operator demo_startup mini_ini [] w = Inr (None, demo_boot_in w)"
proof -
  have openshift: "os_is_openshift mini_ini [([], [(''ID'', ''rhcos'')])]" by code_simp
  have main: "main_namespace [] = []" by code_simp
  have adds: "fst (run_state (add_controller demo_startup n r ws) b) = None" for n r ws b
  proof -
    have "fst (run_state (for_each (watch_one demo_startup n) ws) b) = None" for b
      by (induction ws arbitrary: b) (simp_all add: run_watch_one demo_startup_def split: prod.splits)
    then show ?thesis by (simp add: add_controller_def demo_startup_def split: prod.splits)
  qed
  have "fst (run_state (for_each (\<lambda>f. f demo_startup) fs) b) = None"
    if "set fs \<subseteq> set AddToManagerFuncs" for fs b
    using that
  proof (induction fs arbitrary: b)
    case (Cons f fs)
    from Cons.prems have "fst (run_state (f demo_startup) b) = None"
      by (auto simp: AddToManagerFuncs_def Add_canary_def Add_configmap_def Add_node_def Add_pod_def adds
          split: prod.splits)
    with Cons show ?case by (auto split: prod.splits)
  qed simp
  then have all: "fst (run_state (for_each (\<lambda>f. f demo_startup) AddToManagerFuncs) b) = None" for b
    by blast
  have "\<exists>si w'. run_state (New_SharedInfo demo_startup mini_ini []) w = (Inr si, w')"
    using openshift
    by (simp add: New_SharedInfo_def getAdaptorName_def isPodSecurityPolicySupport_def demo_startup_def Let_def)
  then obtain si w' where info: "run_state (New_SharedInfo demo_startup mini_ini []) w = (Inr si, w')" by blast
  obtain e b where run: "run_state (for_each (\<lambda>f. f demo_startup) AddToManagerFuncs)
      (empty_boot (initial_operator [] si w')) = (e, b)" by (metis surj_pair)
  with all have "e = None" by (metis fst_conv)
  with info run have "start_operator demo_startup mini_ini [] w = Inr (None, b)"
    by (simp add: start_operator_def AddToManager_def main)
  then show ?thesis by (simp add: demo_boot_in_def)
qed

section \<open>Properties\<close>

text \<open>The monitored resources are those of the namespace that can be looked up.\<close>

lemma monitored_names:
  "k \<in> set (getNsxNcpDs ns) \<longleftrightarrow> ns_namespace k = ns \<and> identifyAndGetInstance (ns_name k) = Inr DaemonSetKind"
  "k \<in> set (getNsxNcpDeployments ns) \<longleftrightarrow>
     ns_namespace k = ns \<and> identifyAndGetInstance (ns_name k) = Inr DeploymentKind"
  by (cases k; auto simp: getNsxNcpDs_def getNsxNcpDeployments_def identifyAndGetInstance_def names)+


text \<open>
  C16. A start. If the operating system and the NcpInstall can be read, the controllers are
  added in their order, the canary controller on OpenShift only; an error leaves a first part
  of them. A complete start leaves each with all its watches and its reconciler. The status
  manager, the ConfigMap reconciler and the pod reconciler have the same adaptor, that of the
  operating system. Monitored are exactly the resources in the namespace of NSX whose name is
  one that an instance can be identified for, and the pod reconciler recreates the same ones.
  The tagging switch is that of the NcpInstall, the cache is empty and no level is failing.
\<close>

theorem operator_startup:
  assumes "start_operator U L env w = Inr (e, b)"
  shows "let ns = main_namespace env; s = bt_process b; si = sharedInfo s; sm = status s in
    (\<exists>cfg w1 crd. load_ini_file U OsReleaseFile w = (Inr cfg, w1)
       \<and> fst (read_ncpinstall U (nsn (watched_namespace ns) NcpInstallCRDName) w1) = Inr crd
       \<and> si_AdaptorName si = (if os_is_openshift L cfg then ''openshift4'' else ''kubernetes'')
       \<and> si_AddNodeTag si = ni_addNodeTag crd)
    \<and> prefix (map fst (bt_controllers b)) (map fst (started_controllers si ns))
    \<and> (e = None \<longrightarrow> bt_controllers b = started_controllers si ns
         \<and> sm_Adaptor sm = (if si_AdaptorName si = ''openshift4'' then AdaptorOc else AdaptorK8s)
         \<and> (\<exists>resources. set resources = set (sm_daemonSets sm) \<union> set (sm_deployments sm)
              \<and> bt_reconcilers b = (if si_AdaptorName si = ''openshift4''
                     then [(''canaryworkaround-controller'', CanaryReconciler)] else [])
                  @ [(''configmap-controller'', ConfigMapReconciler (sm_Adaptor sm)),
                     (''node-controller'', NodeReconciler),
                     (''pod-controller'', PodReconciler resources (sm_Adaptor sm))])
         \<and> (\<forall>k. k \<in> set (sm_daemonSets sm) \<longleftrightarrow> ns_namespace k = NsxNamespace
              \<and> identifyAndGetInstance (ns_name k) = Inr DaemonSetKind)
         \<and> (\<forall>k. k \<in> set (sm_deployments sm) \<longleftrightarrow> ns_namespace k = NsxNamespace
              \<and> identifyAndGetInstance (ns_name k) = Inr DeploymentKind)
         \<and> sm_OperatorNamespace sm = ns \<and> cachedNodeSet s = [] \<and> sm_failing sm = (\<lambda>_. None))"
proof -
  let ?ns = "main_namespace env" and ?s = "bt_process b"
  from AddToManager_controllers [OF assms [unfolded start_operator_def]] obtain si w1 where
    info: "run_state (New_SharedInfo U L ?ns) w = (Inr si, w1)" and si: "sharedInfo ?s = si"
    and first: "prefix (map fst (bt_controllers b)) (map fst (started_controllers si ?ns))"
    and all: "e = None \<longrightarrow> bt_controllers b = started_controllers si ?ns" by blast
  have read: "\<exists>cfg w1 crd. load_ini_file U OsReleaseFile w = (Inr cfg, w1)
       \<and> fst (read_ncpinstall U (nsn (watched_namespace ?ns) NcpInstallCRDName) w1) = Inr crd
       \<and> si_AdaptorName si = (if os_is_openshift L cfg then ''openshift4'' else ''kubernetes'')
       \<and> si_AddNodeTag si = ni_addNodeTag crd"
    using info by (cases rule: New_SharedInfo_cases) auto
  have complete: "sm_Adaptor (status ?s) = adaptor_for (si_AdaptorName si)
      \<and> sm_daemonSets (status ?s) = getNsxNcpDs NsxNamespace
      \<and> sm_deployments (status ?s) = getNsxNcpDeployments NsxNamespace
      \<and> sm_OperatorNamespace (status ?s) = ?ns \<and> cachedNodeSet ?s = []
      \<and> sm_failing (status ?s) = (\<lambda>_. None) \<and> bt_reconcilers b = started_reconcilers si" if "e = None"
    using assms [unfolded that] start_complete [OF assms [unfolded that]]
    by (elim start_shared)
       (auto simp: shared_sound_def identity_of_def started_identity_def adaptor_for_def si)
  show ?thesis
  proof (cases "e = None")
    case True
    let ?resources = "sm_daemonSets (status ?s) @ sm_deployments (status ?s)"
    note whole = complete [OF True]
    have "bt_reconcilers b = (if si_AdaptorName si = ''openshift4''
             then [(''canaryworkaround-controller'', CanaryReconciler)] else [])
          @ [(''configmap-controller'', ConfigMapReconciler (sm_Adaptor (status ?s))),
             (''node-controller'', NodeReconciler),
             (''pod-controller'', PodReconciler ?resources (sm_Adaptor (status ?s)))]"
      using whole by (simp add: started_reconcilers_def pod_reconciler_def newReconciler_configmap_def)
    moreover have "set ?resources = set (sm_daemonSets (status ?s)) \<union> set (sm_deployments (status ?s))" by simp
    ultimately have "\<exists>resources. set resources = set (sm_daemonSets (status ?s)) \<union> set (sm_deployments (status ?s))
        \<and> bt_reconcilers b = (if si_AdaptorName si = ''openshift4''
             then [(''canaryworkaround-controller'', CanaryReconciler)] else [])
          @ [(''configmap-controller'', ConfigMapReconciler (sm_Adaptor (status ?s))),
             (''node-controller'', NodeReconciler),
             (''pod-controller'', PodReconciler resources (sm_Adaptor (status ?s)))]" by blast
    with read first all True whole si show ?thesis
      by (simp add: Let_def monitored_names adaptor_for_def)
  qed (use read first si in \<open>auto simp: Let_def\<close>)
qed

theorem operator_startup_witness:
  "map fst (bt_controllers demo_boot) = [''canaryworkaround-controller'', ''configmap-controller'',
     ''node-controller'', ''pod-controller'']"
proof -
  have "os_is_openshift mini_ini [([], [(''ID'', ''rhcos'')])]" by code_simp
  with operator_startup [OF demo_started] show ?thesis
    by (auto simp: Let_def demo_startup_def started_controllers_def)
qed

text \<open>
  C32. The events that the ConfigMap controller acts on. After a start, an event leads to a
  request that the handler goes on with exactly when its object is an input: by its name one of
  the operator's own objects in the watched namespace, the cluster network (on OpenShift) or a
  cluster role. Every request that any other event leads to is dropped by the handler, which
  then changes nothing.
\<close>

theorem configmap_watched:
  fixes E :: "'e cluster_api"
  assumes runtime: "controller_runtime deliver" and start: "start_operator U L env w = Inr (None, b)"
    and ob: "well_placed (event_object e)"
  shows "let ns = main_namespace env; openshift = (si_AdaptorName (sharedInfo (bt_process b)) = ''openshift4'');
      req = object_request (event_object e)
    in \<exists>ws. map_of (bt_controllers b) ''configmap-controller'' = Some ws
      \<and> (if configmap_input openshift (watched_namespace ns) (event_object e)
         then (\<exists>x \<in> set ws. deliver x e req) \<and> accepts_request (watched_namespace ns) req
         else \<forall>x \<in> set ws. \<forall>r s. deliver x e r \<longrightarrow> sm_OperatorNamespace (status s) = ns \<longrightarrow>
           run_state (Reconcile_configmap E L' order A r) s = (done_with None, s))"
proof -
  let ?ns = "main_namespace env" and ?si = "sharedInfo (bt_process b)"
  let ?ws = "configmap_watches ?si ?ns" and ?req = "object_request (event_object e)"
  from AddToManager_controllers [OF start [unfolded start_operator_def]]
  have "bt_controllers b = started_controllers ?si ?ns" by metis
  then have ws: "map_of (bt_controllers b) ''configmap-controller'' = Some ?ws"
    by (simp add: started_controllers_def)
  note sent = controller_runtime.deliver_configmap [OF runtime, of ?si ?ns e]
  note accepted = accepts_configmap [OF ob, of ?ns "si_AdaptorName ?si = ''openshift4''"]
  show ?thesis
  proof (cases "configmap_input (si_AdaptorName ?si = ''openshift4'') (watched_namespace ?ns) (event_object e)")
    case True
    note kind = configmap_input_kind [OF True]
    from accepted [OF kind] sent [of ?req] kind True ws show ?thesis by (simp add: Let_def)
  next
    case False
    have "\<not> accepts_request (watched_namespace ?ns) r" if "x \<in> set ?ws" "deliver x e r" for x r
    proof -
      from that have "\<exists>x \<in> set ?ws. deliver x e r" by blast
      note both = this [unfolded sent]
      from accepted [OF conjunct2 [OF both]] False conjunct1 [OF both] show ?thesis by simp
    qed
    then have "run_state (Reconcile_configmap E L' order A r) s = (done_with None, s)"
      if "x \<in> set ?ws" "deliver x e r" "sm_OperatorNamespace (status s) = ?ns" for x r and s :: "'e operator"
      using that by (intro ignored_request) simp
    with False ws show ?thesis by (simp add: Let_def)
  qed
qed

theorem configmap_watched_witness:
  "\<exists>ws x. map_of (bt_controllers demo_boot) ''configmap-controller'' = Some ws \<and> x \<in> set ws
     \<and> enqueue_object x (CreateEvent (NamedObject Secrets (nsn ''nsx-system-operator'' ''nsx-secret'')))
         \<lparr>req_namespace = ''nsx-system-operator'', req_name = ''nsx-secret''\<rparr>"
proof -
  let ?ob = "NamedObject Secrets (nsn ''nsx-system-operator'' ''nsx-secret'')"
  have "well_placed (event_object (CreateEvent ?ob))"
    and ns: "watched_namespace (main_namespace []) = ''nsx-system-operator''"
    and "configmap_input o1 ''nsx-system-operator'' ?ob" for o1
    by (simp_all add: well_placed_def configmap_input_def names watched_namespace_def main_namespace_def
        Contains_def)
  with configmap_watched [OF queue.controller_runtime_axioms demo_started] show ?thesis
    by (fastforce simp: Let_def object_request_def)
qed

text \<open>
  C13. What no run of the process can spoil. From a complete start on, the handlers of the four
  controllers run at the same time, their phases in any order, for whatever requests and with
  whatever results, panics included, and whatever changes outside between the phases: the identity of the status manager, its adaptor, its namespace and what it monitors
  stay those of the start; no node is twice in the cache, and the ClusterNode level is clear or
  says exactly what the cache says; and the workloads kept for recreation are kept under their
  own names.
\<close>

theorem operator_run_sound:
  assumes "node_reports (cl_nsx C)" and "start_operator U L env w = Inr (None, b)"
    and "(system_step C)\<^sup>*\<^sup>* (idle (bt_process b)) y"
  shows "let s = sys_state y in
    identity_of s = started_identity (si_AdaptorName (sharedInfo (bt_process b)) = ''openshift4'')
        (main_namespace env)
    \<and> cache_sound s \<and> specs_named s"
proof -
  from assms(2) obtain i where i: "shared_sound (started_identity i (main_namespace env)) (bt_process b)"
    by (rule start_shared)
  then have eq: "(si_AdaptorName (sharedInfo (bt_process b)) = ''openshift4'') = i"
    by (auto simp: shared_sound_def identity_of_def started_identity_def split: if_splits)
  from system_run_sound [OF assms(1,3) i] show ?thesis
    unfolding eq by (simp add: shared_sound_def Let_def)
qed

definition demo_clients :: "(mock_cluster, mock_port, segment_port, mini) clients" where
  "demo_clients = \<lparr>cl_nsx = demo_nsx, cl_pod = mem_pod_api (\<lambda>x. []) (\<lambda>x. []) (\<lambda>x. Inr []) (\<lambda>x. Inl (GoError [])),
     cl_canary = \<lparr>get_netpol = (\<lambda>k w. (Inl (NotFound []), w)), list_all_nodes = (\<lambda>w. (Inr [], w)),
       get_service = (\<lambda>k w. (Inl (NotFound []), w)), delete_netpol = (\<lambda>k w. (None, w)),
       apply_netpol = (\<lambda>p w. (None, w))\<rparr>,
     cl_ini = mini_ini, cl_ini_comments = mini_ini, cl_order = id\<rparr>"

theorem operator_run_sound_witness:
  "\<exists>r s. Reconcile_node demo_nsx mini_ini node_request
       ((bt_process demo_boot)\<lparr>world := mock_cluster_of [demo_node]\<rparr>) = Some (r, s)
     \<and> cache_sound s \<and> specs_named s \<and> sm_Adaptor (status s) = sm_Adaptor (status (bt_process demo_boot))"
proof -
  let ?s = "(bt_process demo_boot)\<lparr>world := mock_cluster_of [demo_node]\<rparr>"
  have "mock_view demo_inventory (world ?s) = Some (visible Map.empty)" using demo_view by simp
  from nsx_server.reconcile_returns [OF mock_server.nsx_server_axioms this] obtain r s where
    run: "Reconcile_node demo_nsx mini_ini node_request ?s = Some (r, s)" by blast
  then have step: "operator_step demo_clients ?s s"
    by (intro operator_step.tag_nodes) (simp add: demo_clients_def)
  have out: "operator_step demo_clients (bt_process demo_boot) ?s" by (rule operator_step.outside)
  have steps: "(operator_step demo_clients)\<^sup>*\<^sup>* (bt_process demo_boot) s"
    using rtranclp.rtrancl_into_rtrancl [of "operator_step demo_clients" "bt_process demo_boot" ?s s]
      r_into_rtranclp [of "operator_step demo_clients" "bt_process demo_boot" ?s] out step by blast
  have N: "node_reports (cl_nsx demo_clients)"
    by (simp add: demo_clients_def mock.node_reports_axioms)
  from operator_run_sound [OF N demo_started operator_run_phases [OF steps]]
    operator_run_sound [OF N demo_started rtranclp.rtrancl_refl] run
  show ?thesis by (auto simp: Let_def identity_of_def started_identity_def)
qed

section \<open>A restart\<close>

text \<open>
  C5. Tags that are lost at NSX. After the tags of a processed node's port are deleted, a running
  controller does nothing at all for the node, whose addresses are the same. Then the process
  is restarted: nothing of its memory is kept, not even the shared configuration, and the start
  only reads. If no call fails, the NcpInstall still asks for tags, and the cluster still has the
  operator's ConfigMap, with a user and no certificate, then one reconciliation of the new
  process gives the port both tags back, and only these.
\<close>

theorem lost_tags_recovered:
  assumes ini: "ini_laws L val secs ok" and on: "si_AddNodeTag (sharedInfo s)"
    and node: "taggable nodes nd (world s)" and req: "req_name req = n_name nd"
    and processed: "was_processed (cachedNodeSet s) (n_name nd) (node_addresses nd)"
    and lost: "delete_tags K (n_name nd) (world s) = (HttpStatus 204, w)"
    and restart: "start_operator U L' env w = Inr (None, b)" "start_reads U"
    and watched: "watched = watched_namespace (main_namespace env)"
    and crd: "fst (read_ncpinstall U (nsn watched NcpInstallCRDName) w) = Inr crd" "ni_addNodeTag crd"
    and cm: "c_configmaps w (nsn watched ConfigMapName) = Some cm" "with_user L cm (cluster_secret w watched) f"
  shows "Reconcile_node (mock_nsx vars docs mar unmar) L req (s\<lparr>world := w\<rparr>)
      = Some ((emptyResult, None), s\<lparr>world := w\<rparr>)
    \<and> (\<exists>s' m p. Reconcile_node (mock_nsx vars docs mar unmar) L req (bt_process b)
          = Some ((emptyResult, None), s')
        \<and> mock_view nodes w = Some m \<and> m (''port-'' @ n_name nd) = Some p \<and> port_Tags p = []
        \<and> mock_view nodes (world s') = Some (m(''port-'' @ n_name nd \<mapsto>
            p\<lparr>port_Tags := [node_tag (n_name nd), cluster_tag (get_or_empty (val f) ''coe'' ''cluster'')]\<rparr>)))"
proof
  have name: "mock_name (n_name nd)" by (rule taggable_name [OF node])
  then have slash: "CHR ''/'' \<notin> set (n_name nd)" by (simp add: mock_name_def)
  from lost obtain q where port: "c_ports (world s) (''port-'' @ n_name nd) = Some q"
    unfolding delete_tags_run [OF slash] by (auto split: option.splits)
  from node obtain m0 where view: "mock_view nodes (world s) = Some m0" by (auto simp: taggable_def)
  have w: "snd (delete_tags K (n_name nd) (world s)) = w" by (simp add: lost)
  have node': "taggable nodes nd w" using taggable_deleted [OF node port name, of K] unfolding w .
  then show "Reconcile_node (mock_nsx vars docs mar unmar) L req (s\<lparr>world := w\<rparr>)
      = Some ((emptyResult, None), s\<lparr>world := w\<rparr>)"
    using on req processed processed_cached [OF processed]
    by (intro processed_ignored) (simp_all add: taggable_def)
  let ?s = "bt_process b"
  have world: "world ?s = w" by (rule start_world [OF restart(2,1)])
  have loaded: "snd (load_ini_file U OsReleaseFile w) = w" using restart(2) by (simp add: start_reads_def)
  have fresh: "si_AddNodeTag (sharedInfo ?s)" "cachedNodeSet ?s = []"
      "watched_namespace (sm_OperatorNamespace (status ?s)) = watched"
    using restart(1) crd loaded unfolding watched
    by (elim start_shared; auto simp: shared_sound_def identity_of_def started_identity_def)+
  with start_complete [OF restart(1)] cm world have "user_config L ?s f"
    by (simp add: user_config_def configmap_in_use_def secret_in_use_def)
  moreover have "taggable nodes nd (world ?s)"
    "\<not> was_processed (cachedNodeSet ?s) (n_name nd) (node_addresses nd)"
    using node' world fresh(2) unprocessed_empty by simp_all
  ultimately obtain s' m p where
    run: "Reconcile_node (mock_nsx vars docs mar unmar) L req ?s = Some ((emptyResult, None), s')"
    and m: "mock_view nodes w = Some m" and p: "m (''port-'' @ n_name nd) = Some p"
    and after: "mock_view nodes (world s') = Some (m(''port-'' @ n_name nd \<mapsto>
       tagged (n_name nd) (no_cluster (read_options L f)) p))"
    using idle_reconcile [OF _ _ req, of L ?s f nodes vars docs mar unmar] world by auto
  have bare: "port_Tags p = []"
    using delete_tags_view [OF view name port, of K] m p unfolding w by auto
  with run m p after show "\<exists>s' m p. Reconcile_node (mock_nsx vars docs mar unmar) L req ?s
          = Some ((emptyResult, None), s')
        \<and> mock_view nodes w = Some m \<and> m (''port-'' @ n_name nd) = Some p \<and> port_Tags p = []
        \<and> mock_view nodes (world s') = Some (m(''port-'' @ n_name nd \<mapsto>
            p\<lparr>port_Tags := [node_tag (n_name nd), cluster_tag (get_or_empty (val f) ''coe'' ''cluster'')]\<rparr>))"
    unfolding tagged_bare [OF bare] ini_laws.read_cluster [OF ini] by blast
qed

definition tagged_world :: mock_cluster where
  "tagged_world = (mock_cluster_of [demo_node])
     \<lparr>c_configmaps := [nsn ''nsx-system-operator'' ConfigMapName \<mapsto> node_cm],
      c_ports := [''port-n1'' \<mapsto> (new_port ''port-n1'')\<lparr>mp_Tags := [node_tag ''n1'', cluster_tag ''c1'']\<rparr>]\<rparr>"

definition tagged_operator :: "mock_cluster operator" where
  "tagged_operator = node_operator\<lparr>world := tagged_world,
     cachedNodeSet := [(''n1'', \<lparr>nst_addresses = node_addresses demo_node, nst_success = True,
       nst_reason = []\<rparr>)]\<rparr>"

theorem lost_tags_recovered_witness:
  "\<exists>w s' m. delete_tags (mem_api (\<lambda>x. Inr []) (\<lambda>x. Inl (GoError []))) ''n1'' tagged_world = (HttpStatus 204, w)
    \<and> Reconcile_node demo_nsx mini_ini node_request (tagged_operator\<lparr>world := w\<rparr>)
        = Some ((emptyResult, None), tagged_operator\<lparr>world := w\<rparr>)
    \<and> Reconcile_node demo_nsx mini_ini node_request (bt_process (demo_boot_in w)) = Some ((emptyResult, None), s')
    \<and> mock_view demo_inventory (world s') = Some m
    \<and> (\<exists>p. m ''port-n1'' = Some p \<and> port_Tags p = [node_tag ''n1'', cluster_tag ''c1''])"
proof -
  let ?K = "mem_api (\<lambda>x. Inr []) (\<lambda>x. Inl (GoError []))"
  obtain w where lost: "delete_tags ?K (n_name demo_node) (world tagged_operator) = (HttpStatus 204, w)"
    and w: "c_configmaps w = [nsn ''nsx-system-operator'' ConfigMapName \<mapsto> node_cm]" "c_secrets w = Map.empty"
    using delete_tags_run [of "''n1''" ?K tagged_world]
    by (simp add: tagged_operator_def tagged_world_def demo_node_def mock_cluster_of_def)
  have view: "mock_view demo_inventory tagged_world = Some (visible (c_ports tagged_world))"
    by (simp add: mock_view_def fabric_def mock_cluster_of_def demo_inventory_def demo_node_def store_ok_def
        mock_name_def delimiters_def tagged_world_def new_port_def)
  have node: "taggable demo_inventory demo_node (world tagged_operator)"
    unfolding taggable_def
    by (simp add: tagged_operator_def view)
       (simp add: tagged_world_def mock_cluster_of_def demo_node_def vspherePrefix_def demo_uuid_def visible_def
      sdk_port_def new_port_def node_tag_def cluster_tag_def)
  have on: "si_AddNodeTag (sharedInfo tagged_operator)"
    by (simp add: tagged_operator_def node_operator_def node_info_def)
  have processed: "was_processed (cachedNodeSet tagged_operator) (n_name demo_node) (node_addresses demo_node)"
    by (simp add: tagged_operator_def was_processed_def demo_node_def)
  have watched: "''nsx-system-operator'' = watched_namespace (main_namespace [])" by code_simp
  let ?crd = "\<lparr>ni_namespace = ''nsx-system-operator'', ni_ncpReplicas = 1, ni_addNodeTag = True, ni_nodeSelector = None,
     ni_ncpTolerations = None, ni_agentTolerations = None, ni_conditions = []\<rparr>"
  have reads: "start_reads demo_startup"
    and crd: "fst (read_ncpinstall demo_startup (nsn ''nsx-system-operator'' NcpInstallCRDName) w) = Inr ?crd"
      "ni_addNodeTag ?crd"
    by (simp_all add: start_reads_def demo_startup_def)
  have user: "with_user mini_ini node_cm (cluster_secret w ''nsx-system-operator'') node_file"
    using node_user by (simp add: cluster_secret_def w)
  from lost_tags_recovered [OF mini.ini_laws_axioms on node demo_run(3) processed lost demo_started reads watched
      crd _ user, where vars = "\<lambda>x. []" and docs = "\<lambda>x. []" and mar = "\<lambda>x. Inr []" and unmar = "\<lambda>x. Inl (GoError [])"]
    lost w(1)
  show ?thesis by (auto simp: node_options(2) demo_node_def tagged_operator_def)
qed

end
