(* ===== verification/Main_Programs.thy ===== *)
theory Main_Programs
  imports Startup Nsx_Mock
begin

text \<open>
  The two main programs, \<open>cmd/manager/main.go\<close> and \<open>cmd/nsx-mock/main.go\<close>, from their first call
  to the loop that serves, and the certificate of the mock. The manager library, the cryptography
  and the listening loops are parameters. A program ends with a status: 1 where the code calls
  \<open>os.Exit(1)\<close> or \<open>log.Fatalf\<close>, 0 when \<open>main\<close> returns.
\<close>

section \<open>The operator\<close>

record manager_options =
  mo_MetricsBindAddress :: string
  mo_LeaderElection :: bool
  mo_LeaderElectionID :: string
  mo_LeaderElectionNamespace :: string

text \<open>
  \<open>get_config\<close> is \<open>GetConfigOrDie\<close>, which ends the process itself when it fails; the manager
  that is started runs the controllers that were added.
\<close>

record 'w manager_api =
  get_config :: "'w \<Rightarrow> bool \<times> 'w"
  manager_New :: "manager_options \<Rightarrow> 'w \<Rightarrow> go_error option \<times> 'w"
  add_to_scheme :: "'w \<Rightarrow> go_error option \<times> 'w"
  manager_Start :: "'w boot \<Rightarrow> go_error option \<times> 'w boot"

definition manager_options_of :: "string \<Rightarrow> string \<Rightarrow> manager_options" where
  "manager_options_of metricsBindAddr namespace =
     \<lparr>mo_MetricsBindAddress = metricsBindAddr, mo_LeaderElection = False,
      mo_LeaderElectionID = ''nsx-ncp-operator-lock'', mo_LeaderElectionNamespace = namespace\<rparr>"

text \<open>Everything after the parsing of the flags; the process that ran, if it came that far.\<close>

definition manager_main ::
  "'w manager_api \<Rightarrow> ('w, 'f, 'v) startup_api \<Rightarrow> 'f ini_lib \<Rightarrow> string \<Rightarrow> string \<Rightarrow> 'w
   \<Rightarrow> int \<times> 'w boot option" where
  "manager_main M U L metricsBindAddr watchNamespace w =
     (let namespace = main_namespace watchNamespace in
      case get_config M w of
        (False, w) \<Rightarrow> (1, None)
      | (True, w) \<Rightarrow>
     (case manager_New M (manager_options_of metricsBindAddr namespace) w of
        (Some err, w) \<Rightarrow> (1, None)
      | (None, w) \<Rightarrow>
     (case add_to_scheme M w of
        (Some err, w) \<Rightarrow> (1, None)
      | (None, w) \<Rightarrow>
     (case AddToManager U L namespace w of
        Inl (err, w) \<Rightarrow> (1, None)
      | Inr (Some err, b) \<Rightarrow> (1, Some b)
      | Inr (None, b) \<Rightarrow>
     (case manager_Start M b of
        (Some err, b) \<Rightarrow> (1, Some b)
      | (None, b) \<Rightarrow> (0, Some b))))))"

text \<open>The controllers only run when the start was complete.\<close>

lemma manager_main_ran:
  assumes "manager_main M U L addr ns w = (0, p)"
  obtains w' b where "start_operator U L ns w' = Inr (None, b)" "manager_Start M b = (None, the p)"
    "p \<noteq> None"
  using assms by (auto simp: manager_main_def start_operator_def Let_def
      split: prod.splits bool.splits option.splits sum.splits)

section \<open>The certificate of the mock\<close>

record certificate =
  ct_SerialNumber :: int
  ct_Organization :: "string list"
  ct_NotBefore :: int
  ct_NotAfter :: int
  ct_KeyUsage :: "string list"
  ct_ExtKeyUsage :: "string list"
  ct_BasicConstraintsValid :: bool
  ct_IPAddresses :: "string list"
  ct_DNSNames :: "string list"

text \<open>
  Keys, encoded certificates and pairs are values of the cryptographic library. \<open>rand_int n\<close> is
  a number from 0 below \<open>n\<close>; \<open>create_certificate template parent key\<close> signs with \<open>key\<close>.
\<close>

record ('w, 'k, 'c, 'p) crypto_api =
  generate_key :: "int \<Rightarrow> 'w \<Rightarrow> (go_error + 'k) \<times> 'w"
  time_now :: "'w \<Rightarrow> int \<times> 'w"
  rand_int :: "int \<Rightarrow> 'w \<Rightarrow> (go_error + int) \<times> 'w"
  create_certificate :: "certificate \<Rightarrow> certificate \<Rightarrow> 'k \<Rightarrow> 'w \<Rightarrow> (go_error + 'c) \<times> 'w"
  pem_certificate :: "'c \<Rightarrow> string"
  pem_private_key :: "'k \<Rightarrow> string"
  x509_key_pair :: "string \<Rightarrow> string \<Rightarrow> go_error + 'p"

definition hour_ns :: int where
  "hour_ns = 3600 * 10 ^ 9"

definition mock_certificate :: "int \<Rightarrow> int \<Rightarrow> certificate" where
  "mock_certificate serialNumber notBefore =
     \<lparr>ct_SerialNumber = serialNumber, ct_Organization = [''VMware Mock NSX Inc.''],
      ct_NotBefore = notBefore, ct_NotAfter = notBefore + wrap64 (365 * 24 * hour_ns),
      ct_KeyUsage = [''KeyEncipherment'', ''DigitalSignature''], ct_ExtKeyUsage = [''ServerAuth''],
      ct_BasicConstraintsValid = True, ct_IPAddresses = [''127.0.0.1'', ''::1''],
      ct_DNSNames = [''localhost'', ''nsx-mock'', ''nsx-mock.nsx-system'',
        ''nsx-mock.nsx-system.svc'', ''nsx-mock.nsx-system.svc.cluster.local'']\<rparr>"

definition generateSelfSignedTLSConfig ::
  "('w, 'k, 'c, 'p) crypto_api \<Rightarrow> ('w, go_error + 'p list) state" where
  "generateSelfSignedTLSConfig K = do {
     r \<leftarrow> State (generate_key K 2048);
     case r of
       Inl err \<Rightarrow> ret (Inl err)
     | Inr priv \<Rightarrow> do {
         notBefore \<leftarrow> State (time_now K);
         r \<leftarrow> State (rand_int K (2 ^ 128));
         case r of
           Inl err \<Rightarrow> ret (Inl err)
         | Inr serialNumber \<Rightarrow> do {
             let template = mock_certificate serialNumber notBefore;
             r \<leftarrow> State (create_certificate K template template priv);
             ret (case r of
                    Inl err \<Rightarrow> Inl err
                  | Inr derBytes \<Rightarrow>
                      (case x509_key_pair K (pem_certificate K derBytes) (pem_private_key K priv) of
                         Inl err \<Rightarrow> Inl err
                       | Inr cert \<Rightarrow> Inr [cert]))
           }
       }
   }"

text \<open>The certificate is self-signed, by the key of the pair, and valid for 365 days from now.\<close>

lemma self_signed:
  assumes "run_state (generateSelfSignedTLSConfig K) w = (Inr certs, w')"
  obtains priv t n der cert w1 where "certs = [cert]"
    "create_certificate K (mock_certificate n t) (mock_certificate n t) priv w1 = (Inr der, w')"
    "x509_key_pair K (pem_certificate K der) (pem_private_key K priv) = Inr cert"
    "ct_NotAfter (mock_certificate n t) = t + 365 * 24 * 3600 * 10 ^ 9"
  using assms
  by (auto simp: generateSelfSignedTLSConfig_def mock_certificate_def hour_ns_def wrap64_def Let_def
      split: prod.splits sum.splits)

section \<open>The mock\<close>

text \<open>
  \<open>in_cluster_config\<close> and \<open>new_for_config\<close> are the Kubernetes client library. \<open>serve_tls\<close> is the
  listening loop: it answers requests with the handler it is given until it fails.
\<close>

record ('w, 'b, 'p) mock_api =
  in_cluster_config :: "'w \<Rightarrow> go_error option \<times> 'w"
  new_for_config :: "'w \<Rightarrow> (go_error + 'w status_api) \<times> 'w"
  serve_tls :: "string \<Rightarrow> 'p list \<Rightarrow> ('b http_request \<Rightarrow> 'w mock_handler) \<Rightarrow> 'w mock_server
    \<Rightarrow> go_error option \<times> 'w mock_server"

text \<open>Without a cluster the mock goes on without a client.\<close>

definition mock_client ::
  "('w, 'b, 'p) mock_api \<Rightarrow> ('w, go_error + 'w status_api option) state" where
  "mock_client A = do {
     e \<leftarrow> State (in_cluster_config A);
     case e of
       Some err \<Rightarrow> ret (Inr None)
     | None \<Rightarrow> do {
         r \<leftarrow> State (new_for_config A);
         ret (case r of Inl err \<Rightarrow> Inl err | Inr client \<Rightarrow> Inr (Some client))
       }
   }"

definition mock_main ::
  "('w, 'b, 'p) mock_api \<Rightarrow> ('w, 'k, 'c, 'p) crypto_api \<Rightarrow> ('b \<Rightarrow> go_error + string)
   \<Rightarrow> ('b \<Rightarrow> go_error + mock_port) \<Rightarrow> 'w \<Rightarrow> int \<times> 'w mock_server option" where
  "mock_main A K body port w =
     (case run_state (mock_client A) w of
        (Inl err, w) \<Rightarrow> (1, None)
      | (Inr client, w) \<Rightarrow>
     (case run_state (generateSelfSignedTLSConfig K) w of
        (Inl err, w) \<Rightarrow> (1, None)
      | (Inr certs, w) \<Rightarrow>
     (case serve_tls A '':8443'' certs
             (mock_mux \<lparr>k8sClient = client, read_body = body, decode_port = port\<rparr>)
             \<lparr>segmentPorts = Map.empty, k8s_world = w\<rparr> of
        (Some err, s) \<Rightarrow> (1, Some s)
      | (None, s) \<Rightarrow> (0, Some s))))"

section \<open>Runs of the mock\<close>

text \<open>The states after some requests.\<close>

inductive mock_served ::
  "('w, 'b) mock_env \<Rightarrow> 'w mock_server \<Rightarrow> 'w mock_server \<Rightarrow> bool" for M where
  served_none: "mock_served M s s"
| served_one: "mock_served M s s1 \<Longrightarrow> run_state (mock_mux M r) s1 = (a, s2) \<Longrightarrow> mock_served M s s2"

text \<open>No request removes a port, whatever its body.\<close>

lemma mux_keeps_ports:
  assumes "run_state (mock_mux M r) s = (a, s')"
  shows "dom (segmentPorts s) \<subseteq> dom (segmentPorts s')"
proof -
  have "preserves (\<lambda>s. pid \<in> dom (segmentPorts s)) (mock_mux M r)" for pid
    unfolding mock_mux_def handleVirtualMachines_def handleVifs_def handleSearchQuery_def
      handleSegmentPorts_def handleGetPortState_def handlePutPort_def handleDebugTaggedPorts_def
      handleDebugDeleteTags_def k8s_call_def Let_def
    by (intro preserves_rules; auto simp: preserves_def split: prod.splits)
  from preservesD [OF this assms] show ?thesis by blast
qed

lemma served_keeps_ports: "mock_served M s s' \<Longrightarrow> dom (segmentPorts s) \<subseteq> dom (segmentPorts s')"
  by (induction rule: mock_served.induct) (simp, blast dest: mux_keeps_ports)

end
