(* ===== verification/Spec2Isabelle.thy ===== *)
theory Spec2Isabelle
  imports Status_Properties Config_Properties ConfigMap_Properties Pod_Properties Canary_Properties
    Node_Properties Operator_Properties Main_Programs
begin

text \<open>
  A model of the NSX container plugin operator (Go), and theorems on it.

  The operator is one process with four controllers. Each controller is a handler
  \<open>Reconcile\<close> that controller-runtime calls with the name of an object that changed. They
  share the status manager, which publishes conditions, and a record of shared information;
  everything else is in the cluster, in NSX or in files. In the model a handler is a
  computation of \<open>State_Monad\<close> on the record \<open>operator\<close> of theory \<open>Objects\<close>: the outside
  world, of an arbitrary type, together with the process's own state. What lies outside the
  repository is a parameter: the records \<open>status_api\<close>, \<open>cluster_api\<close>, \<open>pod_api\<close>,
  \<open>canary_api\<close> and \<open>nsx_api\<close> collect the calls to API servers, files, clock and libraries,
  and every call may change the world, so other clients may act between any two calls. The
  iteration order of a Go map is such a call too. Errors are values (\<open>go_error\<close>); a panic is
  the error \<open>GoPanic\<close>, which unwinds the handler. What the code relies on is stated in
  locales (\<open>status_store\<close>, \<open>healthy_store\<close>, \<open>node_writes\<close> (reads of nodes may be old),
  \<open>node_store\<close> (they are fresh), \<open>pass_clock\<close>, \<open>ini_laws\<close>, \<open>quiet_status\<close>, \<open>quiet_calls\<close>, \<open>apply_log\<close>, \<open>pod_calls\<close>, \<open>delete_log\<close>, \<open>canary_server\<close>, \<open>node_view\<close>,
  \<open>node_reports\<close>, \<open>nsx_server\<close>, \<open>controller_runtime\<close>). A cluster in memory, an INI file as a
  list of sections and the NSX mock provide them, so that the theorems can be run on concrete states.

  Parts, from the bottom up.

  \<^item> \<open>Prelude\<close>: errors, the monad, and three judgements on computations, each with one rule per
    construct: \<open>keeps\<close> (a view of the state is left alone), \<open>preserves\<close> (an invariant is kept)
    and the triples \<open>yields\<close> (a precondition leads to a postcondition on result and state). They
    carry most proofs about handlers. \<open>Go_Strings\<close>, \<open>Go_Encoding\<close>,
    \<open>Go_Net\<close>: what the code uses of \<open>strings\<close>, \<open>strconv\<close>, \<open>sort\<close>, \<open>base64\<close> and \<open>net\<close>.
    \<open>Names\<close>: \<open>pkg/types\<close>.
  \<^item> \<open>Conditions\<close>: \<open>pkg/util/k8s/v1helpers.go\<close> and \<open>CombineConditions\<close>. \<open>Objects\<close>: the objects
    and the process state.
  \<^item> Status manager (\<open>pkg/controller/statusmanager\<close>): \<open>Status_Api\<close>, \<open>Status_Manager\<close>
    (\<open>status_manager.go\<close>, \<open>node_status.go\<close>), \<open>Pod_Status\<close> and \<open>Rollout_Status\<close>
    (\<open>pod_status.go\<close>). Lemmas: \<open>Status_Store\<close> (what \<open>set\<close> publishes, retries included),
    \<open>Status_Levels\<close> (refinement of the map of degraded levels), \<open>Node_Store\<close> (the condition
    of a node and its grace time), \<open>Rollout_Facts\<close> (progress and hung rollouts).
  \<^item> Options (\<open>pkg/controller/configmap/config.go\<close>): \<open>Ini_Lib\<close>, \<open>Config_Options\<close> (defaults
    and validation), \<open>Config_Change\<close> (which workloads a change restarts), \<open>Config_Render\<close>
    (template data). Lemmas: \<open>Config_Facts\<close>, \<open>Config_Validation\<close>, \<open>Config_Change_Facts\<close>,
    \<open>Config_Completion\<close>. \<open>Render_Templates\<close>: \<open>pkg/util/render/render.go\<close>. \<open>Manifests\<close>: the actions
    of the NCP manifest, what a template needs of its data, and the types of what \<open>Render\<close> gives.
  \<^item> ConfigMap controller (\<open>configmap_controller.go\<close>): \<open>Cluster_Api\<close>, \<open>ConfigMap_Controller\<close>
    (its helpers), \<open>ConfigMap_Reconcile\<close> (the handler, cut at its early returns). Lemmas:
    \<open>Quiet_Calls\<close>, \<open>ConfigMap_Facts\<close> (which objects are applied), \<open>ConfigMap_Outcomes\<close> (what an
    outcome without error means, also when an input is missing), \<open>ConfigMap_Decisions\<close> (what a change is).
  \<^item> Pod controller (\<open>pkg/controller/pod\<close>): \<open>Pod_Controller\<close>, lemmas \<open>Pod_Facts\<close>. Canary
    controller (\<open>pkg/controller/canaryworkaround\<close>): \<open>Canary_Workaround\<close>, lemmas
    \<open>Canary_Facts\<close>.
  \<^item> Node controller (\<open>pkg/controller/node\<close>): \<open>Node_Controller\<close>. Its search for a virtual
    machine follows cursors without a bound; it is a \<open>partial_function (option)\<close> and the
    handler is \<open>None\<close> when it does not return. Lemmas: \<open>Node_Facts\<close> (when the search returns;
    the cache and its report), \<open>Node_Ports\<close> (what happens to the ports that NSX stores).
    \<open>Nsx_Mock\<close>: \<open>cmd/nsx-mock/main.go\<close>; \<open>Mock_Cluster\<close> lets the node controller talk to it, and
    \<open>Mock_Run\<close> and \<open>Mock_Drift\<close> follow runs of the controller against it.
  \<^item> The process: \<open>Startup\<close> (\<open>pkg/controller/sharedinfo\<close>, \<open>pkg/controller/controller.go\<close>, the
    \<open>add_*.go\<close> files, the \<open>Add\<close> and \<open>add\<close> functions, the namespace of \<open>cmd/manager/main.go\<close>):
    shared information, the adaptor, the controllers with their reconcilers, their watches and
    event filters. Lemmas: \<open>Startup_Facts\<close> (what a start leaves, also of a world it only reads). \<open>Operator_Run\<close>: the inductive relation \<open>operator_step\<close>, one
    whole handler or one change outside, and which operations keep what the handlers share.
    \<open>Interleaving\<close>: the handlers as sequences of phases, the relation \<open>system_step\<close> that
    interleaves them, and the invariant of its runs. \<open>Main_Programs\<close>: \<open>main\<close> of the operator and
    of the mock, and the mock's certificate.
  \<^item> Providers: \<open>Mem_Api\<close>, \<open>Mem_Cluster\<close>, \<open>Demo_Cluster\<close>, \<open>Mini_Ini\<close>, \<open>Mock_Cluster\<close>; \<open>Demo_Mock\<close>
    holds concrete states for the last two groups of properties.
  \<^item> Properties: \<open>Status_Properties\<close>, \<open>Config_Properties\<close>, \<open>ConfigMap_Properties\<close>,
    \<open>Pod_Properties\<close>, \<open>Canary_Properties\<close>, \<open>Node_Properties\<close>, \<open>Operator_Properties\<close>. Each
    follows a block that names its claim and states it in words, and has a witness on a
    concrete state if it has a hypothesis.

  Bounds. Durations are integers with the saturation and the wrap-around of
  \<open>time.Duration\<close> written out (\<open>time_Sub\<close>, \<open>wrap64\<close>); parsing of integers has the range
  checks of \<open>strconv\<close>. Other integers are only compared, copied and printed. No definition
  uses fuel except \<open>attempts\<close>, the reference meaning of \<open>retry.RetryOnConflict\<close>, which runs
  a closure a bounded number of times, and \<open>ends_within\<close>, which only states that a search ends.

  Runs. In \<open>system_step\<close> each controller has at most one request in work, as controller-runtime
  runs one worker per controller; a handler is a sequence of phases, and between two phases of
  it the phases of the other handlers and changes outside may come. A phase is one operation of
  the handler; inside a phase the world may change at each call, but the memory of the process
  does not. Run alone the phases do what the whole handler does, so every run of
  \<open>operator_step\<close> is one of \<open>system_step\<close>; the other properties speak of whole handlers.

  Not modelled: the library of controllers itself (a watch and the delivery of its events are
  stated as the locale \<open>controller_runtime\<close>); the parsing of flags and logging; the generated
  deep copies, as values are immutable here; the registration of types and the version
  constants; and the end-to-end tests. The loops of the manager and of the mock's server are
  parameters. Mutexes leave no trace, as each exported method is one atomic step.
\<close>

end
